(* ===== verification/Prelude.thy ===== *)
theory Prelude
  imports Main "HOL-Library.Word" "HOL-Library.Char_ord"
begin

text \<open>
  Shared vocabulary of the development: machine integers, the exceptions the C++ code
  throws, the outcome of a computation that may throw, the character classes of
  \<open><cctype>\<close> in the C locale, and the list lemmas the components share.

  \<^item> \<open>exn\<close> is the exception type the adapter sees: every throw of the source is one of
    its constructors, and \<open>what\<close> is the C++ \<open>what()\<close>.
  \<^item> \<open>isspace\<close>, \<open>isdigit\<close>, \<open>isxdigit\<close>, \<open>tolower\<close> and \<open>toupper\<close> are the C library's
    functions on the bytes 0 to 255 in the C locale.
  \<^item> \<open>find_if\<close>-style scans of \<open>std::string\<close> become \<open>takeWhile\<close> and \<open>dropWhile\<close>; the
    lemmas here connect the two views.
\<close>

section \<open>Automation\<close>

named_theorems chars \<open>character classes, unfolded on closed characters\<close>
named_theorems fmt_defs \<open>definitions of the formatting functions\<close>

section \<open>Machine integers\<close>

type_synonym u8 = "8 word"
type_synonym u32 = "32 word"
type_synonym u64 = "64 word"

text \<open>The largest value of a 32-bit signed int (\<open>std::numeric_limits<int>::max()\<close>).\<close>

abbreviation int_max :: int where
  "int_max \<equiv> 2147483647"

abbreviation int_min :: int where
  "int_min \<equiv> - 2147483648"

text \<open>The value of a 64-bit unsigned integer converted to a 32-bit signed int.\<close>

definition wrap_int32 :: "int \<Rightarrow> int" where
  "wrap_int32 i = (i + 2147483648) mod 4294967296 - 2147483648"

lemma wrap_int32_id [simp]: "int_min \<le> i \<Longrightarrow> i \<le> int_max \<Longrightarrow> wrap_int32 i = i"
  by (simp add: wrap_int32_def)

lemma wrap_int32_range: "int_min \<le> wrap_int32 i \<and> wrap_int32 i \<le> int_max"
  using pos_mod_bound [of 4294967296 "i + 2147483648"]
    pos_mod_sign [of 4294967296 "i + 2147483648"]
  unfolding wrap_int32_def by linarith

lemma unat_u8_bound: "unat (a :: u8) < 256"
  using unsigned_less [of a, where ?'a = nat] by simp

lemma unat_u32_bound: "unat (a :: u32) < 4294967296"
  using unsigned_less [of a, where ?'a = nat] by simp

lemma unat_u64_bound: "unat (a :: u64) < 18446744073709551616"
  using unsigned_less [of a, where ?'a = nat] by simp

section \<open>Exceptions\<close>

datatype exn =
    Runtime_Error string
  | Invalid_Argument string
  | Out_Of_Range string
  | Overflow_Error string
  | Json_Error string
  | Dispatcher_Failure string \<comment> \<open>carries the message of the inner exception\<close>
  | Unhandled_Request int string

fun what :: "exn \<Rightarrow> string" where
  "what (Runtime_Error m) = m"
| "what (Invalid_Argument m) = m"
| "what (Out_Of_Range m) = m"
| "what (Overflow_Error m) = m"
| "what (Json_Error m) = m"
| "what (Dispatcher_Failure m) = ''A debugger session operation failed on the dispatcher thread.''"
| "what (Unhandled_Request seq c) = ''No handler implemented for DAP request '' @ c"

section \<open>Characters\<close>

definition isspace :: "char \<Rightarrow> bool" where
  "isspace c = (of_char c \<in> {9, 10, 11, 12, 13, 32 :: nat})"

definition isdigit :: "char \<Rightarrow> bool" where
  "isdigit c = (48 \<le> (of_char c :: nat) \<and> (of_char c :: nat) \<le> 57)"

definition isxdigit :: "char \<Rightarrow> bool" where
  "isxdigit c = (isdigit c
     \<or> (65 \<le> (of_char c :: nat) \<and> (of_char c :: nat) \<le> 70)
     \<or> (97 \<le> (of_char c :: nat) \<and> (of_char c :: nat) \<le> 102))"

definition tolower :: "char \<Rightarrow> char" where
  "tolower c = (if 65 \<le> (of_char c :: nat) \<and> (of_char c :: nat) \<le> 90
     then char_of (of_char c + 32 :: nat) else c)"

definition toupper :: "char \<Rightarrow> char" where
  "toupper c = (if 97 \<le> (of_char c :: nat) \<and> (of_char c :: nat) \<le> 122
     then char_of (of_char c - 32 :: nat) else c)"

lemmas char_class_defs [chars] =
  isspace_def isdigit_def isxdigit_def tolower_def toupper_def

abbreviation CR :: char where "CR \<equiv> CHR 0x0D"
abbreviation LF :: char where "LF \<equiv> CHR 0x0A"
abbreviation TAB :: char where "TAB \<equiv> CHR 0x09"
abbreviation BACKSLASH :: char where "BACKSLASH \<equiv> CHR 0x5C"
abbreviation DQUOTE :: char where "DQUOTE \<equiv> CHR 0x22"

lemma of_char_less_256 [simp]: "(of_char c :: nat) < 256"
  using of_char_mod_256 [of c, where ?'a = nat]
  by (metis mod_less_divisor zero_less_numeral)

lemma isdigit_not_isspace: "isdigit c \<Longrightarrow> \<not> isspace c"
  by (auto simp: isdigit_def isspace_def)

lemma isxdigit_not_isspace: "isxdigit c \<Longrightarrow> \<not> isspace c"
  by (auto simp: isxdigit_def isdigit_def isspace_def)

lemma tolower_idem [simp]: "tolower (tolower c) = tolower c"
  by (simp add: tolower_def)

section \<open>Lists\<close>

text \<open>Remove the longest suffix whose elements satisfy \<open>P\<close> (a backwards \<open>while\<close> loop).\<close>

definition drop_end :: "('a \<Rightarrow> bool) \<Rightarrow> 'a list \<Rightarrow> 'a list" where
  "drop_end P xs = rev (dropWhile P (rev xs))"

lemma drop_end_Nil [simp]: "drop_end P [] = []"
  by (simp add: drop_end_def)

lemma drop_end_snoc [simp]:
  "drop_end P (xs @ [x]) = (if P x then drop_end P xs else xs @ [x])"
  by (simp add: drop_end_def)

lemma drop_end_append_all: "\<forall>y \<in> set ys. P y \<Longrightarrow> drop_end P (xs @ ys) = drop_end P xs"
  by (induction ys rule: rev_induct) (auto simp flip: append_assoc)

lemma drop_end_last: "drop_end P xs \<noteq> [] \<Longrightarrow> \<not> P (last (drop_end P xs))"
  by (induction xs rule: rev_induct) (auto simp: drop_end_def)

lemma drop_end_id: "xs = [] \<or> \<not> P (last xs) \<Longrightarrow> drop_end P xs = xs"
  by (cases xs rule: rev_cases) auto

lemma drop_end_idem [simp]: "drop_end P (drop_end P xs) = drop_end P xs"
  by (rule drop_end_id) (metis drop_end_last)

lemma drop_end_prefix: "\<exists>ys. xs = drop_end P xs @ ys \<and> (\<forall>y \<in> set ys. P y)"
proof (induction xs rule: rev_induct)
  case Nil
  then show ?case by simp
next
  case (snoc x xs)
  then obtain ys where "xs = drop_end P xs @ ys" "\<forall>y \<in> set ys. P y" by blast
  then show ?case by (cases "P x") (auto intro!: exI [of _ "ys @ [x]"])
qed

lemma drop_end_eq_Nil: "drop_end P xs = [] \<longleftrightarrow> (\<forall>x \<in> set xs. P x)"
  by (simp add: drop_end_def)

lemma set_drop_end: "set (drop_end P xs) \<subseteq> set xs"
  unfolding drop_end_def by (auto dest: set_dropWhileD)

lemma dropWhile_Cons_shorter: "dropWhile P xs = y # ys \<Longrightarrow> length ys < length xs"
  by (metis Suc_le_lessD length_Cons length_dropWhile_le)

text \<open>The last \<open>n\<close> elements (\<open>erase\<close> of everything before them).\<close>

definition take_last :: "nat \<Rightarrow> 'a list \<Rightarrow> 'a list" where
  "take_last n xs = drop (length xs - n) xs"

lemma length_take_last [simp]: "length (take_last n xs) = min n (length xs)"
  by (simp add: take_last_def)

text \<open>Keep the first element of every group with the same key, in order.\<close>

fun distinct_by :: "('a \<Rightarrow> 'k) \<Rightarrow> 'k list \<Rightarrow> 'a list \<Rightarrow> 'a list" where
  "distinct_by f seen [] = []"
| "distinct_by f seen (x # xs) =
     (if f x \<in> set seen then distinct_by f seen xs
      else x # distinct_by f (f x # seen) xs)"

lemma distinct_by_keys:
  "distinct (map f (distinct_by f seen xs)) \<and> set (map f (distinct_by f seen xs)) \<inter> set seen = {}"
  by (induction f seen xs rule: distinct_by.induct) auto

lemma set_distinct_by: "set (distinct_by f seen xs) \<subseteq> set xs"
  by (induction f seen xs rule: distinct_by.induct) auto

lemma distinct_by_covers: "f ` set (distinct_by f seen xs) \<union> set seen = f ` set xs \<union> set seen"
  by (induction f seen xs rule: distinct_by.induct) auto

lemma distinct_by_id: "distinct (map f xs) \<Longrightarrow> set (map f xs) \<inter> set seen = {} \<Longrightarrow> distinct_by f seen xs = xs"
  by (induction f seen xs rule: distinct_by.induct) auto

text \<open>Joining strings with a separator, as the loops over an index with \<open>if (index != 0)\<close> do.\<close>

fun join :: "string \<Rightarrow> string list \<Rightarrow> string" where
  "join sep [] = []"
| "join sep [x] = x"
| "join sep (x # y # xs) = x @ sep @ join sep (y # xs)"

end
