(* ===== verification/Base64.thy ===== *)
theory Base64
  imports Prelude
begin

text \<open>
  \<open>util::base64_encode\<close> and \<open>util::try_base64_decode\<close> (src/src/util/base64.h), on 32-bit
  words as in the source: the encoder packs three bytes into one word and cuts it into four
  six-bit indices, the decoder shifts six bits per character into an accumulator that is
  allowed to overflow and emits a byte whenever eight bits are complete.
\<close>

unbundle bit_operations_syntax

section \<open>Encoding\<close>

definition kAlphabet :: string where
  "kAlphabet = ''ABCDEFGHIJKLMNOPQRSTUVWXYZabcdefghijklmnopqrstuvwxyz0123456789+/''"

definition sextet :: "u32 \<Rightarrow> nat \<Rightarrow> char" where
  "sextet chunk k = kAlphabet ! unat (drop_bit k chunk AND 0x3F)"

text \<open>The three-byte chunk; the second and third byte of a short final group are absent.\<close>

definition pack :: "u8 \<Rightarrow> u8 \<Rightarrow> u8 \<Rightarrow> u32" where
  "pack a b c = push_bit 16 (ucast a) OR push_bit 8 (ucast b) OR ucast c"

fun base64_encode :: "u8 list \<Rightarrow> string" where
  "base64_encode (a # b # c # bs) =
     (let chunk = pack a b c
      in [sextet chunk 18, sextet chunk 12, sextet chunk 6, sextet chunk 0] @ base64_encode bs)"
| "base64_encode [a] =
     (let chunk = push_bit 16 (ucast a) in [sextet chunk 18, sextet chunk 12, CHR ''='', CHR ''=''])"
| "base64_encode [a, b] =
     (let chunk = push_bit 16 (ucast a) OR push_bit 8 (ucast b)
      in [sextet chunk 18, sextet chunk 12, sextet chunk 6, CHR ''=''])"
| "base64_encode [] = []"

section \<open>Decoding\<close>

definition value_of :: "char \<Rightarrow> int" where
  "value_of c = (let n = of_char c in
     if 65 \<le> n \<and> n \<le> 90 then n - 65
     else if 97 \<le> n \<and> n \<le> 122 then n - 97 + 26
     else if 48 \<le> n \<and> n \<le> 57 then n - 48 + 52
     else if c = CHR ''+'' then 62
     else if c = CHR ''/'' then 63
     else -1)"

record decode_state =
  accumulator :: u32
  bits :: nat
  group :: nat
  pad :: nat
  out_bytes :: "u8 list"

definition decode_init :: decode_state where
  "decode_init = \<lparr>accumulator = 0, bits = 0, group = 0, pad = 0, out_bytes = []\<rparr>"

text \<open>Appending one data character of value \<open>v\<close>.\<close>

definition push_sextet :: "nat \<Rightarrow> decode_state \<Rightarrow> decode_state" where
  "push_sextet v st =
     (let acc = push_bit 6 (accumulator st) OR of_nat v;
          bs = bits st + 6;
          g = (if group st + 1 = 4 then 0 else group st + 1)
      in if 8 \<le> bs
         then st\<lparr>accumulator := acc, bits := bs - 8, group := g,
                 out_bytes := out_bytes st @ [ucast (drop_bit (bs - 8) acc AND 0xFF)]\<rparr>
         else st\<lparr>accumulator := acc, bits := bs, group := g\<rparr>)"

definition decode_step :: "char \<Rightarrow> decode_state \<Rightarrow> decode_state option" where
  "decode_step c st =
     (if c = CR \<or> c = LF then Some st
      else if c = CHR ''='' then
        (if group st < 2 \<or> 4 \<le> group st + pad st then None else Some (st\<lparr>pad := pad st + 1\<rparr>))
      else if pad st \<noteq> 0 then None
      else if value_of c < 0 then None
      else Some (push_sextet (nat (value_of c)) st))"

fun decode_loop :: "string \<Rightarrow> decode_state \<Rightarrow> decode_state option" where
  "decode_loop [] st = Some st"
| "decode_loop (c # cs) st =
     (case decode_step c st of None \<Rightarrow> None | Some st' \<Rightarrow> decode_loop cs st')"

definition try_base64_decode :: "string \<Rightarrow> u8 list option" where
  "try_base64_decode text =
     (case decode_loop text decode_init of
        None \<Rightarrow> None
      | Some st \<Rightarrow>
          if pad st \<noteq> 0 then (if group st + pad st = 4 then Some (out_bytes st) else None)
          else if group st \<noteq> 1 then Some (out_bytes st) else None)"

section \<open>The alphabet\<close>

lemma length_kAlphabet: "length kAlphabet = 64"
  by (simp add: kAlphabet_def)

lemma kAlphabet_value_all:
  "\<forall>n \<in> set [0..<64]. value_of (kAlphabet ! n) = int n \<and> kAlphabet ! n \<noteq> CR \<and> kAlphabet ! n \<noteq> LF
     \<and> kAlphabet ! n \<noteq> CHR ''=''"
  by code_simp

lemma kAlphabet_value: "n < 64 \<Longrightarrow> value_of (kAlphabet ! n) = int n"
  and kAlphabet_data: "n < 64 \<Longrightarrow> kAlphabet ! n \<noteq> CR \<and> kAlphabet ! n \<noteq> LF \<and> kAlphabet ! n \<noteq> CHR ''=''"
  using kAlphabet_value_all by (simp_all only: set_upt atLeastLessThan_iff) auto

lemma and_3F_bound: "unat (x AND 0x3F :: u32) < 64"
proof -
  have "x AND 0x3F \<le> (0x3F :: u32)" by (rule word_and_le1)
  then show ?thesis by (simp add: word_le_nat_alt)
qed

lemma decode_step_sextet:
  assumes "pad st = 0"
  shows "decode_step (sextet chunk k) st = Some (push_sextet (unat (drop_bit k chunk AND 0x3F)) st)"
  using assms and_3F_bound [of "drop_bit k chunk"]
  by (simp add: decode_step_def sextet_def kAlphabet_value kAlphabet_data)

section \<open>Bit-level facts\<close>

lemma mask6: "(0x3F :: u32) = mask 6" and mask8: "(0xFF :: u32) = mask 8"
  by (simp_all add: mask_eq_exp_minus_1)

lemma first_byte:
  "ucast (drop_bit 4 (push_bit 6 (push_bit 6 acc OR (drop_bit 18 w AND 0x3F)) OR (drop_bit 12 w AND 0x3F)) AND 0xFF)
     = (ucast (drop_bit 16 w) :: u8)" for w acc :: u32
  unfolding mask6 mask8 by (rule bit_word_eqI) (auto simp: bit_simps)

lemma second_byte:
  "ucast (drop_bit 2 (push_bit 6 (push_bit 6 acc OR (drop_bit 12 w AND 0x3F)) OR (drop_bit 6 w AND 0x3F)) AND 0xFF)
     = (ucast (drop_bit 8 w) :: u8)" for w acc :: u32
  unfolding mask6 mask8 by (rule bit_word_eqI) (auto simp: bit_simps)

lemma third_byte:
  "ucast ((push_bit 6 (push_bit 6 acc OR (drop_bit 6 w AND 0x3F)) OR (drop_bit 0 w AND 0x3F)) AND 0xFF)
     = (ucast w :: u8)" for w acc :: u32
  unfolding mask6 mask8 by (rule bit_word_eqI) (auto simp: bit_simps)

lemma unpack:
  "ucast (drop_bit 16 (pack a b c)) = a" "ucast (drop_bit 8 (pack a b c)) = b" "ucast (pack a b c) = c"
  unfolding pack_def by (rule bit_word_eqI; auto simp: bit_simps dest: bit_imp_le_length)+

lemma base64_encode_one:
  "base64_encode [a] = [sextet (pack a 0 0) 18, sextet (pack a 0 0) 12, CHR ''='', CHR ''='']"
  by (simp add: pack_def Let_def)

lemma base64_encode_two:
  "base64_encode [a, b]
     = [sextet (pack a b 0) 18, sextet (pack a b 0) 12, sextet (pack a b 0) 6, CHR ''='']"
  by (simp add: pack_def Let_def)

section \<open>The round trip\<close>

text \<open>The state between two complete quanta: no pending bits, no pending characters.\<close>

definition aligned :: "decode_state \<Rightarrow> u8 list \<Rightarrow> bool" where
  "aligned st bs \<longleftrightarrow> bits st = 0 \<and> group st = 0 \<and> pad st = 0 \<and> out_bytes st = bs"

lemma push_two:
  assumes "aligned st bs"
  shows "\<exists>acc. push_sextet (unat (drop_bit 12 w AND 0x3F)) (push_sextet (unat (drop_bit 18 w AND 0x3F)) st)
    = \<lparr>accumulator = push_bit 6 acc OR (drop_bit 12 w AND 0x3F), bits = 4, group = 2, pad = 0,
        out_bytes = bs @ [ucast (drop_bit 16 w)]\<rparr>"
  using assms first_byte [of "accumulator st" w]
  by (intro exI [of _ "push_bit 6 (accumulator st) OR (drop_bit 18 w AND 0x3F)"])
     (simp add: aligned_def push_sextet_def Let_def)

lemma push_third:
  "\<exists>acc'. push_sextet (unat (drop_bit 6 w AND 0x3F))
      \<lparr>accumulator = push_bit 6 acc OR (drop_bit 12 w AND 0x3F), bits = 4, group = 2, pad = 0, out_bytes = bs\<rparr>
    = \<lparr>accumulator = push_bit 6 acc' OR (drop_bit 6 w AND 0x3F), bits = 2, group = 3, pad = 0,
        out_bytes = bs @ [ucast (drop_bit 8 w)]\<rparr>"
  using second_byte [of acc w]
  by (intro exI [of _ "push_bit 6 acc OR (drop_bit 12 w AND 0x3F)"]) (simp add: push_sextet_def Let_def)

lemma push_fourth:
  "aligned (push_sextet (unat (drop_bit 0 w AND 0x3F))
      \<lparr>accumulator = push_bit 6 acc OR (drop_bit 6 w AND 0x3F), bits = 2, group = 3, pad = 0, out_bytes = bs\<rparr>)
    (bs @ [ucast w])"
  using third_byte [of acc w] by (simp add: aligned_def push_sextet_def Let_def)

lemma pad_push_sextet [simp]: "pad (push_sextet v st) = pad st"
  by (simp add: push_sextet_def Let_def)

lemma decode_quantum:
  assumes "aligned st bs"
  shows "\<exists>st'. decode_loop ([sextet (pack a b c) 18, sextet (pack a b c) 12, sextet (pack a b c) 6,
        sextet (pack a b c) 0] @ cs) st = decode_loop cs st' \<and> aligned st' (bs @ [a, b, c])"
proof -
  let ?w = "pack a b c"
  obtain acc where two: "push_sextet (unat (drop_bit 12 ?w AND 0x3F)) (push_sextet (unat (drop_bit 18 ?w AND 0x3F)) st)
    = \<lparr>accumulator = push_bit 6 acc OR (drop_bit 12 ?w AND 0x3F), bits = 4, group = 2, pad = 0, out_bytes = bs @ [a]\<rparr>"
    using push_two [OF assms, of ?w] by (auto simp: unpack)
  obtain acc' where three: "push_sextet (unat (drop_bit 6 ?w AND 0x3F))
      \<lparr>accumulator = push_bit 6 acc OR (drop_bit 12 ?w AND 0x3F), bits = 4, group = 2, pad = 0, out_bytes = bs @ [a]\<rparr>
    = \<lparr>accumulator = push_bit 6 acc' OR (drop_bit 6 ?w AND 0x3F), bits = 2, group = 3, pad = 0,
        out_bytes = (bs @ [a]) @ [b]\<rparr>"
    using push_third [of ?w acc "bs @ [a]"] by (auto simp: unpack)
  have "pad st = 0" using assms by (simp add: aligned_def)
  then show ?thesis
    using push_fourth [of ?w acc' "(bs @ [a]) @ [b]"]
    by (auto simp: decode_step_sextet two three unpack)
qed

lemma decode_final:
  assumes "decode_loop s decode_init = Some st" and "pad st = 0 \<Longrightarrow> group st \<noteq> 1" and
    "pad st \<noteq> 0 \<Longrightarrow> group st + pad st = 4"
  shows "try_base64_decode s = Some (out_bytes st)"
  using assms by (auto simp: try_base64_decode_def)

lemma decode_tail_one:
  assumes "aligned st bs"
  shows "\<exists>st'. decode_loop (base64_encode [a]) st = Some st' \<and> out_bytes st' = bs @ [a] \<and> group st' = 2 \<and> pad st' = 2"
proof -
  have "pad st = 0" using assms by (simp add: aligned_def)
  moreover obtain acc where "push_sextet (unat (drop_bit 12 (pack a 0 0) AND 0x3F))
      (push_sextet (unat (drop_bit 18 (pack a 0 0) AND 0x3F)) st)
    = \<lparr>accumulator = push_bit 6 acc OR (drop_bit 12 (pack a 0 0) AND 0x3F), bits = 4, group = 2, pad = 0,
        out_bytes = bs @ [a]\<rparr>"
    using push_two [OF assms, of "pack a 0 0"] by (auto simp: unpack)
  ultimately show ?thesis
    by (simp add: base64_encode_one decode_step_sextet del: base64_encode.simps) (simp add: decode_step_def)
qed

lemma decode_tail_two:
  assumes "aligned st bs"
  shows "\<exists>st'. decode_loop (base64_encode [a, b]) st = Some st' \<and> out_bytes st' = bs @ [a, b] \<and> group st' = 3 \<and> pad st' = 1"
proof -
  let ?w = "pack a b 0"
  have "pad st = 0" using assms by (simp add: aligned_def)
  moreover obtain acc where "push_sextet (unat (drop_bit 12 ?w AND 0x3F)) (push_sextet (unat (drop_bit 18 ?w AND 0x3F)) st)
    = \<lparr>accumulator = push_bit 6 acc OR (drop_bit 12 ?w AND 0x3F), bits = 4, group = 2, pad = 0, out_bytes = bs @ [a]\<rparr>"
    using push_two [OF assms, of ?w] by (auto simp: unpack)
  moreover obtain acc' where "push_sextet (unat (drop_bit 6 ?w AND 0x3F))
      \<lparr>accumulator = push_bit 6 acc OR (drop_bit 12 ?w AND 0x3F), bits = 4, group = 2, pad = 0, out_bytes = bs @ [a]\<rparr>
    = \<lparr>accumulator = push_bit 6 acc' OR (drop_bit 6 ?w AND 0x3F), bits = 2, group = 3, pad = 0,
        out_bytes = (bs @ [a]) @ [b]\<rparr>"
    using push_third [of ?w acc "bs @ [a]"] by (auto simp: unpack)
  ultimately show ?thesis
    by (simp add: base64_encode_two decode_step_sextet del: base64_encode.simps) (simp add: decode_step_def)
qed

lemma decode_encode_loop:
  "aligned st bs0 \<Longrightarrow> \<exists>st'. decode_loop (base64_encode bs) st = Some st' \<and> out_bytes st' = bs0 @ bs
     \<and> (pad st' = 0 \<longrightarrow> group st' \<noteq> 1) \<and> (pad st' \<noteq> 0 \<longrightarrow> group st' + pad st' = 4)"
proof (induction bs arbitrary: st bs0 rule: base64_encode.induct)
  case (1 a b c bs)
  obtain st' where q: "decode_loop (base64_encode (a # b # c # bs)) st = decode_loop (base64_encode bs) st'"
      "aligned st' (bs0 @ [a, b, c])"
    using decode_quantum [OF 1(2), of a b c "base64_encode bs"] by (auto simp: Let_def)
  then show ?case using 1(1) [OF refl q(2)] by simp
next
  case (2 a)
  then show ?case using decode_tail_one [OF 2, of a] by auto
next
  case (3 a b)
  then show ?case using decode_tail_two [OF 3, of a b] by auto
next
  case 4
  then show ?case by (auto simp: aligned_def)
qed

section \<open>Which texts are accepted\<close>

definition is_data :: "char \<Rightarrow> bool" where
  "is_data c \<longleftrightarrow> c \<in> set kAlphabet"

text \<open>
  The text without line breaks is a run of alphabet characters followed by padding: without
  padding no quantum may have a single character, with padding the final quantum has two or
  three characters and is filled up to four.
\<close>

definition well_formed64 :: "string \<Rightarrow> bool" where
  "well_formed64 s \<longleftrightarrow>
     (let t = filter (\<lambda>c. c \<noteq> CR \<and> c \<noteq> LF) s;
          d = takeWhile is_data t;
          p = dropWhile is_data t
      in (\<forall>c \<in> set p. c = CHR ''='')
         \<and> (if p = [] then length d mod 4 \<noteq> 1
            else 2 \<le> length d mod 4 \<and> length d mod 4 + length p = 4))"

lemma alphabet_ranges:
  "\<forall>n \<in> set [65..<91]. kAlphabet ! (n - 65) = char_of n"
  "\<forall>n \<in> set [97..<123]. kAlphabet ! (n - 97 + 26) = char_of n"
  "\<forall>n \<in> set [48..<58]. kAlphabet ! (n - 48 + 52) = char_of n"
  "kAlphabet ! 62 = CHR ''+''" "kAlphabet ! 63 = CHR ''/''"
  by code_simp+

lemma value_of_index:
  assumes "0 \<le> value_of c"
  shows "nat (value_of c) < 64 \<and> kAlphabet ! nat (value_of c) = c"
proof -
  define n where "n = (of_char c :: nat)"
  have c: "c = char_of n" and i: "(of_char c :: int) = int n" by (simp_all add: n_def of_nat_of_char)
  consider "65 \<le> n \<and> n < 91" | "97 \<le> n \<and> n < 123" | "48 \<le> n \<and> n < 58"
    | "c = CHR ''+''" | "c = CHR ''/''"
    using assms by (auto simp: value_of_def Let_def i split: if_splits)
  then show ?thesis
  proof cases
    case 1
    then have "value_of c = int (n - 65)" by (simp add: value_of_def i of_nat_diff)
    moreover have "kAlphabet ! (n - 65) = c"
      using bspec [OF alphabet_ranges(1), of n] 1 c by (simp del: upt_rec_numeral)
    ultimately show ?thesis using 1 by (simp only: nat_int) auto
  next
    case 2
    then have "value_of c = int (n - 97 + 26)" by (simp add: value_of_def i of_nat_diff)
    moreover have "kAlphabet ! (n - 97 + 26) = c"
      using bspec [OF alphabet_ranges(2), of n] 2 c by (simp del: upt_rec_numeral)
    ultimately show ?thesis using 2 by (simp only: nat_int) auto
  next
    case 3
    then have "value_of c = int (n - 48 + 52)" by (simp add: value_of_def i of_nat_diff)
    moreover have "kAlphabet ! (n - 48 + 52) = c"
      using bspec [OF alphabet_ranges(3), of n] 3 c by (simp del: upt_rec_numeral)
    ultimately show ?thesis using 3 by (simp only: nat_int) auto
  next
    case 4
    then show ?thesis by (simp add: value_of_def alphabet_ranges)
  next
    case 5
    then show ?thesis by (simp add: value_of_def alphabet_ranges)
  qed
qed

lemma value_of_data: "is_data c \<longleftrightarrow> 0 \<le> value_of c"
proof
  assume "is_data c"
  then show "0 \<le> value_of c"
    using kAlphabet_value by (auto simp: is_data_def in_set_conv_nth length_kAlphabet)
next
  assume "0 \<le> value_of c"
  then show "is_data c"
    using value_of_index [of c] nth_mem [of "nat (value_of c)" kAlphabet]
    by (simp add: is_data_def length_kAlphabet)
qed

lemma data_not_special: "is_data c \<Longrightarrow> c \<noteq> CR \<and> c \<noteq> LF \<and> c \<noteq> CHR ''=''"
  using kAlphabet_data by (auto simp: is_data_def in_set_conv_nth length_kAlphabet)

lemma decode_loop_filter: "decode_loop s st = decode_loop (filter (\<lambda>c. c \<noteq> CR \<and> c \<noteq> LF) s) st"
  by (induction s arbitrary: st) (auto simp: decode_step_def split: option.splits)

lemma decode_step_data: "is_data c \<Longrightarrow> pad st = 0 \<Longrightarrow> decode_step c st = Some (push_sextet (nat (value_of c)) st)"
  using data_not_special [of c] by (auto simp: decode_step_def value_of_data)

lemma decode_step_bad: "\<not> is_data c \<Longrightarrow> c \<noteq> CR \<Longrightarrow> c \<noteq> LF \<Longrightarrow> c \<noteq> CHR ''='' \<Longrightarrow> decode_step c st = None"
  by (auto simp: decode_step_def value_of_data)

text \<open>The state after a run of data characters.\<close>

definition in_sync :: "decode_state \<Rightarrow> nat \<Rightarrow> bool" where
  "in_sync st n \<longleftrightarrow> pad st = 0 \<and> group st = n mod 4 \<and> length (out_bytes st) = 6 * n div 8
     \<and> bits st = 6 * n mod 8"

lemma sextet_arith:
  fixes n :: nat
  shows "8 \<le> 6 * n mod 8 + 6 \<Longrightarrow> 6 * Suc n div 8 = Suc (6 * n div 8) \<and> 6 * Suc n mod 8 = 6 * n mod 8 + 6 - 8"
    and "\<not> 8 \<le> 6 * n mod 8 + 6 \<Longrightarrow> 6 * Suc n div 8 = 6 * n div 8 \<and> 6 * Suc n mod 8 = 6 * n mod 8 + 6"
proof -
  define q r where "q = 6 * n div 8" and "r = 6 * n mod 8"
  have "6 * n = 8 * q + r" unfolding q_def r_def by (rule mult_div_mod_eq [symmetric])
  then have e: "6 * Suc n = 8 * q + (r + 6)" by simp
  have r: "r < 8" by (simp add: r_def)
  show "8 \<le> 6 * n mod 8 + 6 \<Longrightarrow> 6 * Suc n div 8 = Suc (6 * n div 8) \<and> 6 * Suc n mod 8 = 6 * n mod 8 + 6 - 8"
    unfolding e q_def [symmetric] r_def [symmetric] using r by (simp add: le_div_geq le_mod_geq)
  show "\<not> 8 \<le> 6 * n mod 8 + 6 \<Longrightarrow> 6 * Suc n div 8 = 6 * n div 8 \<and> 6 * Suc n mod 8 = 6 * n mod 8 + 6"
    unfolding e q_def [symmetric] r_def [symmetric] by simp
qed

lemma in_sync_push:
  assumes "in_sync st n"
  shows "in_sync (push_sextet v st) (Suc n)"
proof -
  have g: "Suc n mod 4 = (if n mod 4 + 1 = 4 then 0 else n mod 4 + 1)"
    by (simp add: mod_Suc)
  show ?thesis
    using assms sextet_arith [of n] g
    by (cases "8 \<le> 6 * n mod 8 + 6") (simp_all add: in_sync_def push_sextet_def Let_def)
qed

lemma decode_loop_data:
  "\<forall>c \<in> set d. is_data c \<Longrightarrow> in_sync st n \<Longrightarrow>
     \<exists>st'. decode_loop (d @ r) st = decode_loop r st' \<and> in_sync st' (n + length d)"
proof (induction d arbitrary: st n)
  case Nil
  then show ?case by auto
next
  case (Cons c d)
  then have "pad st = 0" by (simp add: in_sync_def)
  then have "decode_loop ((c # d) @ r) st = decode_loop (d @ r) (push_sextet (nat (value_of c)) st)"
    using Cons.prems by (simp add: decode_step_data)
  then show ?case
    using Cons.IH [OF _ in_sync_push [OF Cons.prems(2)], of "nat (value_of c)"] Cons.prems by auto
qed

lemma decode_loop_pad:
  "\<forall>c \<in> set p. c = CHR ''='' \<Longrightarrow> 2 \<le> group st \<Longrightarrow> group st < 4 \<Longrightarrow>
   decode_loop p st =
     (if group st + pad st + length p \<le> 4 \<or> p = [] then Some (st\<lparr>pad := pad st + length p\<rparr>) else None)"
proof (induction p arbitrary: st)
  case Nil
  then show ?case by simp
next
  case (Cons c p)
  then show ?case
    using Cons.IH [of "st\<lparr>pad := pad st + 1\<rparr>"] by (auto simp: decode_step_def)
qed

lemma decode_loop_after_pad:
  assumes "pad st \<noteq> 0" and "\<forall>c \<in> set r. c \<noteq> CR \<and> c \<noteq> LF" and "c \<in> set r" "c \<noteq> CHR ''=''"
  shows "decode_loop r st = None"
  using assms(1-3)
proof (induction r arbitrary: st)
  case Nil
  then show ?case by simp
next
  case (Cons x r)
  show ?case
  proof (cases "x = CHR ''=''")
    case True
    then have "c \<in> set r" using Cons.prems(3) assms(4) by simp
    then have "decode_loop r (st\<lparr>pad := pad st + 1\<rparr>) = None" using Cons by simp
    then show ?thesis using True by (simp add: decode_step_def)
  next
    case False
    then show ?thesis using Cons.prems by (simp add: decode_step_def)
  qed
qed

lemma decode_loop_rest:
  assumes sync: "in_sync st n" and nl: "\<forall>c \<in> set p. c \<noteq> CR \<and> c \<noteq> LF" and
    hd: "p \<noteq> [] \<Longrightarrow> \<not> is_data (hd p)"
  shows "decode_loop p st =
    (if p = [] then Some st
     else if (\<forall>c \<in> set p. c = CHR ''='') \<and> 2 \<le> n mod 4 \<and> n mod 4 + length p \<le> 4
          then Some (st\<lparr>pad := length p\<rparr>) else None)"
proof (cases p)
  case Nil
  then show ?thesis by simp
next
  case (Cons c r)
  have g: "group st = n mod 4" "pad st = 0" using sync by (simp_all add: in_sync_def)
  consider "c \<noteq> CHR ''='' \<or> n mod 4 < 2" | "2 \<le> n mod 4" "\<forall>c \<in> set p. c = CHR ''=''"
    | "2 \<le> n mod 4" "c = CHR ''=''" "\<exists>x \<in> set r. x \<noteq> CHR ''=''"
    using Cons by fastforce
  then show ?thesis
  proof cases
    case 1
    have "\<not> is_data c" "c \<noteq> CR" "c \<noteq> LF" using hd nl Cons by simp_all
    then have "c \<noteq> CHR ''='' \<Longrightarrow> decode_step c st = None" by (simp add: decode_step_bad)
    moreover have "c = CHR ''='' \<Longrightarrow> decode_step c st = None" using 1 g by (simp add: decode_step_def)
    ultimately have "decode_step c st = None" by (cases "c = CHR ''=''")
    then have "decode_loop p st = None" using Cons by simp
    moreover have "\<not> ((\<forall>c \<in> set p. c = CHR ''='') \<and> 2 \<le> n mod 4 \<and> n mod 4 + length p \<le> 4)"
      using 1 Cons by (metis leD list.set_intros(1))
    ultimately show ?thesis using Cons by (simp only: if_not_P list.distinct if_False)
  next
    case 2
    then show ?thesis using decode_loop_pad [of p st] g Cons by simp
  next
    case 3
    then have "decode_loop r (st\<lparr>pad := 1\<rparr>) = None"
      using decode_loop_after_pad [of "st\<lparr>pad := 1\<rparr>" r] nl Cons by auto
    moreover have "decode_step c st = Some (st\<lparr>pad := 1\<rparr>)"
      using 3 g by (simp add: decode_step_def)
    ultimately show ?thesis using Cons 3 by auto
  qed
qed

lemma in_sync_init: "in_sync decode_init 0"
  by (simp add: in_sync_def decode_init_def)

lemma try_base64_decode_cases:
  "\<exists>bs. try_base64_decode s = (if well_formed64 s then Some bs else None)"
proof -
  define t where "t = filter (\<lambda>c. c \<noteq> CR \<and> c \<noteq> LF) s"
  define d where "d = takeWhile is_data t"
  define p where "p = dropWhile is_data t"
  have t: "t = d @ p" and dd: "\<forall>c \<in> set d. is_data c"
    by (auto simp: d_def p_def dest: set_takeWhileD)
  have pn: "\<forall>c \<in> set p. c \<noteq> CR \<and> c \<noteq> LF"
    by (auto simp: p_def t_def dest: set_dropWhileD)
  have hp: "p \<noteq> [] \<Longrightarrow> \<not> is_data (hd p)" unfolding p_def by (rule hd_dropWhile)
  obtain st where st: "decode_loop t decode_init = decode_loop p st" "in_sync st (length d)"
    using decode_loop_data [OF dd in_sync_init, of p] t by auto
  have g: "group st = length d mod 4" "pad st = 0" using st(2) by (simp_all add: in_sync_def)
  have wf: "well_formed64 s = ((\<forall>c \<in> set p. c = CHR ''='')
      \<and> (if p = [] then length d mod 4 \<noteq> 1 else 2 \<le> length d mod 4 \<and> length d mod 4 + length p = 4))"
    unfolding well_formed64_def Let_def t_def [symmetric] d_def [symmetric] p_def [symmetric] ..
  have "decode_loop s decode_init = decode_loop p st"
    using decode_loop_filter [of s decode_init] st(1) by (simp add: t_def)
  then have "try_base64_decode s = (if well_formed64 s then Some (out_bytes st) else None)"
    using decode_loop_rest [OF st(2) pn hp] g
    by (cases "p = []") (simp_all add: try_base64_decode_def wf)
  then show ?thesis by blast
qed

section \<open>Properties\<close>

text \<open>
  C27. Decoding an encoded byte sequence gives it back, for every length and every content:
  the payload of a readMemory response survives a writeMemory request unchanged.
\<close>

theorem base64_round_trip: "try_base64_decode (base64_encode bs) = Some bs"
proof -
  have al: "aligned decode_init []" by (simp add: aligned_def decode_init_def)
  obtain st where st: "decode_loop (base64_encode bs) decode_init = Some st \<and> out_bytes st = [] @ bs
      \<and> (pad st = 0 \<longrightarrow> group st \<noteq> 1) \<and> (pad st \<noteq> 0 \<longrightarrow> group st + pad st = 4)"
    using decode_encode_loop [OF al, of bs] by (elim exE) (rule that)
  then show ?thesis using decode_final [of "base64_encode bs" st] by simp
qed

text \<open>
  C28. The decoder accepts exactly the well-formed texts, padding optional: after removing
  line breaks, alphabet characters followed by padding that completes the final quantum, and
  never a quantum of a single character; every other text is refused.
\<close>

theorem base64_accepts: "try_base64_decode s \<noteq> None \<longleftrightarrow> well_formed64 s"
  using try_base64_decode_cases [of s] by (cases "well_formed64 s") auto

end
