(* ===== verification/Text_Format.thy ===== *)
theory Text_Format
  imports Prelude
begin

text \<open>
  The number formatting and number parsing of the C++ standard library and of \<open>fmt\<close> that
  the adapter uses: decimal (\<open>{}\<close>, \<open>std::to_string\<close>), lower and upper case hexadecimal
  (\<open>{:x}\<close>, \<open>{:X}\<close>, zero-padded \<open>{:08X}\<close>), and \<open>std::stoi\<close>, \<open>std::stoul\<close>, \<open>std::stoll\<close>
  and \<open>std::stoull\<close> with the number of consumed characters.  The target is 64-bit Windows,
  where \<open>long\<close> has 32 bits.

  The main facts are the print/parse round trips, which the components use for addresses,
  data identifiers and content lengths.
\<close>

section \<open>Printing\<close>

definition dig_lower :: "nat \<Rightarrow> char" where
  "dig_lower n = char_of (if n < 10 then 48 + n else 87 + n)"

definition dig_upper :: "nat \<Rightarrow> char" where
  "dig_upper n = char_of (if n < 10 then 48 + n else 55 + n)"

fun nat_digits :: "nat \<Rightarrow> (nat \<Rightarrow> char) \<Rightarrow> nat \<Rightarrow> string" where
  "nat_digits b d n = (if b \<le> 1 \<or> n < b then [d n] else nat_digits b d (n div b) @ [d (n mod b)])"

declare nat_digits.simps [simp del]

definition dec :: "nat \<Rightarrow> string" where
  "dec n = nat_digits 10 dig_lower n"

definition dec_int :: "int \<Rightarrow> string" where
  "dec_int i = (if i < 0 then CHR ''-'' # dec (nat (- i)) else dec (nat i))"

definition hex_lower :: "nat \<Rightarrow> string" where
  "hex_lower n = nat_digits 16 dig_lower n"

definition hex_upper :: "nat \<Rightarrow> string" where
  "hex_upper n = nat_digits 16 dig_upper n"

text \<open>Zero padding to a minimum width (\<open>{:08X}\<close>).\<close>

definition pad_zero :: "nat \<Rightarrow> string \<Rightarrow> string" where
  "pad_zero w s = replicate (w - length s) (CHR ''0'') @ s"

section \<open>Parsing\<close>

definition digit_val :: "char \<Rightarrow> nat" where
  "digit_val c = (let n = of_char c in
     if 48 \<le> n \<and> n \<le> 57 then n - 48
     else if 65 \<le> n \<and> n \<le> 90 then n - 55
     else if 97 \<le> n \<and> n \<le> 122 then n - 87
     else 99)"

definition is_digit_of :: "nat \<Rightarrow> char \<Rightarrow> bool" where
  "is_digit_of b c = (digit_val c < b)"

definition digits_value :: "nat \<Rightarrow> string \<Rightarrow> nat" where
  "digits_value b s = foldl (\<lambda>acc c. acc * b + digit_val c) 0 s"

fun has_hex_prefix :: "string \<Rightarrow> bool" where
  "has_hex_prefix (z # x # d # _) =
     (z = CHR ''0'' \<and> (x = CHR ''x'' \<or> x = CHR ''X'') \<and> is_digit_of 16 d)"
| "has_hex_prefix _ = False"

text \<open>
  The common part of the \<open>strto*\<close> family: leading white space, an optional sign, the
  \<open>0x\<close> prefix when the base is 16, and the longest run of digits.  The result is the sign,
  the magnitude and the number of characters consumed; \<open>None\<close> when there is no digit.
\<close>

fun scan_sign :: "string \<Rightarrow> bool \<times> nat \<times> string" where
  "scan_sign [] = (False, 0, [])"
| "scan_sign (c # r) = (if c = CHR ''-'' then (True, 1, r)
     else if c = CHR ''+'' then (False, 1, r) else (False, 0, c # r))"

definition strto :: "nat \<Rightarrow> string \<Rightarrow> (bool \<times> nat \<times> nat) option" where
  "strto b s =
     (let ws = length (takeWhile isspace s);
          (neg, sg, s2) = scan_sign (dropWhile isspace s);
          pre = (if b = 16 \<and> has_hex_prefix s2 then 2 else 0);
          ds = takeWhile (is_digit_of b) (drop pre s2)
      in if ds = [] then None
         else Some (neg, digits_value b ds, ws + sg + pre + length ds))"

text \<open>\<open>std::stoull(s, &consumed, base)\<close>: a negative number wraps into the unsigned range.\<close>

definition stoull :: "nat \<Rightarrow> string \<Rightarrow> exn + u64 \<times> nat" where
  "stoull b s = (case strto b s of
       None \<Rightarrow> Inl (Invalid_Argument ''invalid stoull argument'')
     | Some (neg, m, k) \<Rightarrow>
         if 2 ^ 64 \<le> m then Inl (Out_Of_Range ''stoull argument out of range'')
         else Inr (if neg then - of_nat m else of_nat m, k))"

text \<open>\<open>std::stoul\<close>: \<open>unsigned long\<close> has 32 bits.\<close>

definition stoul :: "string \<Rightarrow> exn + u32 \<times> nat" where
  "stoul s = (case strto 10 s of
       None \<Rightarrow> Inl (Invalid_Argument ''invalid stoul argument'')
     | Some (neg, m, k) \<Rightarrow>
         if 2 ^ 32 \<le> m then Inl (Out_Of_Range ''stoul argument out of range'')
         else Inr (if neg then - of_nat m else of_nat m, k))"

text \<open>\<open>std::stoll\<close> and \<open>std::stoi\<close>: signed results within range, with their value as an integer.\<close>

definition sto_signed :: "nat \<Rightarrow> string \<Rightarrow> exn + int \<times> nat" where
  "sto_signed w s = (case strto 10 s of
       None \<Rightarrow> Inl (Invalid_Argument ''invalid number argument'')
     | Some (neg, m, k) \<Rightarrow>
         (let v = (if neg then - int m else int m)
          in if v < - (2 ^ (w - 1)) \<or> 2 ^ (w - 1) \<le> v
             then Inl (Out_Of_Range ''number argument out of range'')
             else Inr (v, k)))"

definition stoll :: "string \<Rightarrow> exn + int \<times> nat" where
  "stoll s = sto_signed 64 s"

definition stoi :: "string \<Rightarrow> exn + int \<times> nat" where
  "stoi s = sto_signed 32 s"

section \<open>Round trips\<close>

lemma of_char_dig_lower: "n < 16 \<Longrightarrow> (of_char (dig_lower n) :: nat) = (if n < 10 then 48 + n else 87 + n)"
  by (simp add: dig_lower_def)

lemma of_char_dig_upper: "n < 16 \<Longrightarrow> (of_char (dig_upper n) :: nat) = (if n < 10 then 48 + n else 55 + n)"
  by (simp add: dig_upper_def)

lemma digit_val_dig_lower [simp]: "n < 16 \<Longrightarrow> digit_val (dig_lower n) = n"
  by (auto simp: digit_val_def of_char_dig_lower Let_def)

lemma digit_val_dig_upper [simp]: "n < 16 \<Longrightarrow> digit_val (dig_upper n) = n"
  by (auto simp: digit_val_def of_char_dig_upper Let_def)

lemma digits_value_snoc [simp]: "digits_value b (s @ [c]) = digits_value b s * b + digit_val c"
  by (simp add: digits_value_def)

lemma digits_value_Nil [simp]: "digits_value b [] = 0"
  by (simp add: digits_value_def)

lemma nat_digits_not_Nil [simp]: "nat_digits b d n \<noteq> []"
  by (subst nat_digits.simps) simp

lemma digits_value_nat_digits:
  assumes b: "1 < b" and d: "\<And>k. k < b \<Longrightarrow> digit_val (d k) = k"
  shows "digits_value b (nat_digits b d n) = n"
proof (induction n rule: less_induct)
  case (less n)
  show ?case
  proof (cases "n < b")
    case True
    then show ?thesis by (simp add: nat_digits.simps [of b d n] d digits_value_def)
  next
    case False
    then have "n div b < n" using b by (simp add: div_less_dividend)
    then have "digits_value b (nat_digits b d (n div b)) = n div b" by (rule less)
    then show ?thesis using b False d [of "n mod b"]
      by (simp add: nat_digits.simps [of b d n])
  qed
qed

lemma set_nat_digits:
  assumes b: "1 < b"
  shows "set (nat_digits b d n) \<subseteq> d ` {..<b}"
proof (induction n rule: less_induct)
  case (less n)
  show ?case
  proof (cases "n < b")
    case True
    then show ?thesis by (auto simp: nat_digits.simps [of b d n])
  next
    case False
    then have "n div b < n" using b by (simp add: div_less_dividend)
    then have "set (nat_digits b d (n div b)) \<subseteq> d ` {..<b}" by (rule less)
    then show ?thesis using b False by (auto simp: nat_digits.simps [of b d n])
  qed
qed

lemma is_digit_of_nat_digits:
  assumes "1 < b" and "\<And>k. k < b \<Longrightarrow> digit_val (d k) = k" and "c \<in> set (nat_digits b d n)"
  shows "is_digit_of b c"
  using set_nat_digits [OF assms(1), of d n] assms(2,3) by (auto simp: is_digit_of_def)

lemma digit_of_not_space: "is_digit_of b c \<Longrightarrow> b \<le> 36 \<Longrightarrow> \<not> isspace c"
  by (auto simp: is_digit_of_def digit_val_def isspace_def Let_def split: if_splits)

lemma digit_of_not_sign: "is_digit_of b c \<Longrightarrow> b \<le> 36 \<Longrightarrow> c \<noteq> CHR ''-'' \<and> c \<noteq> CHR ''+''"
  by (auto simp: is_digit_of_def digit_val_def)

lemma digit_of_16_not_x: "is_digit_of 16 c \<Longrightarrow> c \<noteq> CHR ''x'' \<and> c \<noteq> CHR ''X''"
  by (auto simp: is_digit_of_def digit_val_def)

lemma scan_sign_digits: "s \<noteq> [] \<Longrightarrow> is_digit_of b (hd s) \<Longrightarrow> b \<le> 36 \<Longrightarrow> scan_sign s = (False, 0, s)"
  by (cases s) (auto dest: digit_of_not_sign)

lemma no_hex_prefix_digits:
  assumes "\<forall>c \<in> set s. is_digit_of 16 c"
  shows "\<not> has_hex_prefix s"
  using assms by (cases s rule: has_hex_prefix.cases) (auto dest: digit_of_16_not_x)

text \<open>A run of digits is read whole, up to the first character that is not a digit.\<close>

lemma strto_digits:
  assumes ds: "s \<noteq> []" "\<forall>c \<in> set s. is_digit_of b c" and b: "b \<le> 16"
    and rest: "r = [] \<or> \<not> is_digit_of b (hd r)" "b = 16 \<Longrightarrow> \<not> has_hex_prefix (s @ r)"
  shows "strto b (s @ r) = Some (False, digits_value b s, length s)"
proof -
  obtain c s' where s: "s = c # s'" using ds(1) by (cases s) auto
  have c: "is_digit_of b c" using ds(2) s by simp
  have "\<not> isspace c" using digit_of_not_space [OF c] b by simp
  then have ws: "takeWhile isspace (s @ r) = []" "dropWhile isspace (s @ r) = s @ r"
    using s by auto
  have sg: "scan_sign (s @ r) = (False, 0, s @ r)"
    by (rule scan_sign_digits [where b = b]) (use s c b in auto)
  have tw: "takeWhile (is_digit_of b) (s @ r) = s"
    using ds(2) rest(1) by (cases r) (auto simp: takeWhile_append)
  show ?thesis
    using rest(2) ds(1) by (auto simp: strto_def ws sg tw Let_def)
qed

lemma strto_all_digits:
  assumes "s \<noteq> []" "\<forall>c \<in> set s. is_digit_of b c" "b \<le> 16"
  shows "strto b s = Some (False, digits_value b s, length s)"
  using strto_digits [of s b "[]"] assms no_hex_prefix_digits [of s] by auto

lemma dec_digits: "c \<in> set (dec n) \<Longrightarrow> is_digit_of 10 c"
  unfolding dec_def by (rule is_digit_of_nat_digits) auto

lemma hex_lower_digits: "c \<in> set (hex_lower n) \<Longrightarrow> is_digit_of 16 c"
  unfolding hex_lower_def by (rule is_digit_of_nat_digits) auto

lemma hex_upper_digits: "c \<in> set (hex_upper n) \<Longrightarrow> is_digit_of 16 c"
  unfolding hex_upper_def by (rule is_digit_of_nat_digits) auto

lemma dec_not_Nil [simp]: "dec n \<noteq> []" by (simp add: dec_def)
lemma hex_lower_not_Nil [simp]: "hex_lower n \<noteq> []" by (simp add: hex_lower_def)
lemma hex_upper_not_Nil [simp]: "hex_upper n \<noteq> []" by (simp add: hex_upper_def)

lemma digits_value_dec [simp]: "digits_value 10 (dec n) = n"
  unfolding dec_def by (rule digits_value_nat_digits) auto

lemma digits_value_hex_lower [simp]: "digits_value 16 (hex_lower n) = n"
  unfolding hex_lower_def by (rule digits_value_nat_digits) auto

lemma digits_value_hex_upper [simp]: "digits_value 16 (hex_upper n) = n"
  unfolding hex_upper_def by (rule digits_value_nat_digits) auto

lemma strto_dec [simp]: "strto 10 (dec n) = Some (False, n, length (dec n))"
  by (subst strto_all_digits) (auto dest: dec_digits)

lemma strto_hex_lower [simp]: "strto 16 (hex_lower n) = Some (False, n, length (hex_lower n))"
  by (subst strto_all_digits) (auto dest: hex_lower_digits)

lemma strto_hex_upper [simp]: "strto 16 (hex_upper n) = Some (False, n, length (hex_upper n))"
  by (subst strto_all_digits) (auto dest: hex_upper_digits)

lemma stoull_hex_lower [simp]:
  "stoull 16 (hex_lower (unat a)) = Inr (a, length (hex_lower (unat a)))"
  using unat_u64_bound [of a] by (simp add: stoull_def)

lemma stoull_hex_upper [simp]:
  "stoull 16 (hex_upper (unat a)) = Inr (a, length (hex_upper (unat a)))"
  using unat_u64_bound [of a] by (simp add: stoull_def)

lemma stoul_dec [simp]: "stoul (dec (unat a)) = Inr (a, length (dec (unat a)))"
  using unat_u32_bound [of a] by (simp add: stoul_def)

lemma stoll_dec: "n < 2 ^ 63 \<Longrightarrow> stoll (dec n) = Inr (int n, length (dec n))"
  by (simp add: stoll_def sto_signed_def Let_def)

lemma stoi_dec: "n < 2 ^ 31 \<Longrightarrow> stoi (dec n) = Inr (int n, length (dec n))"
  by (simp add: stoi_def sto_signed_def Let_def)

text \<open>Every successful parse consumes at least one and at most all characters.\<close>

lemma strto_consumed: "strto b s = Some (neg, m, k) \<Longrightarrow> 0 < k \<and> k \<le> length s"
proof -
  assume h: "strto b s = Some (neg, m, k)"
  define s1 where "s1 = dropWhile isspace s"
  obtain ng sg s2 where sc: "scan_sign s1 = (ng, sg, s2)" by (metis prod_cases3)
  define pre where "pre = (if b = 16 \<and> has_hex_prefix s2 then 2 else 0 :: nat)"
  define ds where "ds = takeWhile (is_digit_of b) (drop pre s2)"
  have k: "k = length (takeWhile isspace s) + sg + pre + length ds" "ds \<noteq> []"
    using h sc unfolding strto_def s1_def [symmetric] ds_def pre_def by (auto simp: Let_def split: if_splits)
  have "length s = length (takeWhile isspace s) + length s1"
    unfolding s1_def by (metis length_append takeWhile_dropWhile_id)
  moreover have "length s1 = sg + length s2"
    using sc by (cases s1) (auto split: if_splits)
  moreover have "length ds \<le> length s2 - pre"
    unfolding ds_def by (metis length_drop length_takeWhile_le)
  moreover have "pre < length s2"
    using k(2) unfolding ds_def by (cases "pre < length s2") auto
  ultimately show ?thesis using k by (simp add: Suc_leI)
qed

end
