(* ===== verification/String_Utils.thy ===== *)
theory String_Utils
  imports Text_Format
begin

text \<open>
  \<open>util::string_utils\<close> (src/src/util/string_utils.h) and the WinDbg command classifier
  (src/src/util/windbg_command_classifier.cpp): blank tests, trimming, the memory references of
  the protocol and the byte offsets applied to them on 64-bit addresses, and the test that
  keeps execution-control commands out of \<open>evaluate\<close>.
\<close>

section \<open>Blank strings and trimming\<close>

definition blank_char :: "char \<Rightarrow> bool" where
  "blank_char c = (c = CHR '' '' \<or> c = TAB \<or> c = CR \<or> c = LF)"

text \<open>\<open>value.find_first_not_of(" \t\r\n") == npos\<close>.\<close>

definition is_blank :: "string \<Rightarrow> bool" where
  "is_blank value \<longleftrightarrow> list_all blank_char value"

definition is_blank_opt :: "string option \<Rightarrow> bool" where
  "is_blank_opt value = (case value of None \<Rightarrow> True | Some v \<Rightarrow> is_blank v)"

definition trim_end :: "string \<Rightarrow> string" where
  "trim_end value = drop_end isspace value"

definition trim_both :: "string \<Rightarrow> string" where
  "trim_both value = drop_end isspace (dropWhile isspace value)"

section \<open>Memory references\<close>

definition strip_radix :: "string \<Rightarrow> nat \<times> string" where
  "strip_radix value = (case value of
       z # x # r \<Rightarrow> if z = CHR ''0'' \<and> (x = CHR ''x'' \<or> x = CHR ''X'') then (16, r) else (10, value)
     | _ \<Rightarrow> (10, value))"

definition try_parse_memory_reference :: "string \<Rightarrow> u64 option" where
  "try_parse_memory_reference memory_reference =
     (let (base, digits) = strip_radix memory_reference;
          value = filter (\<lambda>c. c \<noteq> CHR ''`'') digits
      in if value = [] \<or> \<not> isxdigit (hd value) then None
         else (case stoull base value of
                 Inl e \<Rightarrow> None
               | Inr (parsed, consumed) \<Rightarrow> if consumed \<noteq> length value then None else Some parsed))"

text \<open>
  \<open>offset\<close> is the 64-bit pattern of the signed offset.  Its negation is computed on 64 bits; for
  the least 64-bit integer, where the C++ negation overflows, this is the value the
  two's-complement machine computes.
\<close>

definition try_apply_byte_offset :: "u64 \<Rightarrow> u64 \<Rightarrow> u64 option" where
  "try_apply_byte_offset address offset =
     (if 0 \<le> sint offset
      then (if address > (- 1) - offset then None else Some (address + offset))
      else (let sub = - offset in if address < sub then None else Some (address - sub)))"

section \<open>The command classifier\<close>

definition execution_control_commands :: "string list" where
  "execution_control_commands =
     [''g'', ''gh'', ''gn'', ''gc'', ''p'', ''pa'', ''pc'', ''ph'', ''t'', ''ta'', ''tc'', ''th'', ''gu'', ''.breakin'']"

definition to_lower_ascii :: "string \<Rightarrow> string" where
  "to_lower_ascii value = map tolower value"

definition trim :: "string \<Rightarrow> string" where
  "trim value = drop_end blank_char (dropWhile blank_char value)"

definition first_token :: "string \<Rightarrow> string" where
  "first_token segment = takeWhile (\<lambda>c. c \<noteq> CHR '' '' \<and> c \<noteq> TAB) segment"

definition is_control_segment :: "string \<Rightarrow> bool" where
  "is_control_segment raw =
     (let segment = trim raw
      in segment \<noteq> [] \<and> to_lower_ascii (first_token segment) \<in> set execution_control_commands)"

function is_execution_control_command :: "string \<Rightarrow> bool" where
  "is_execution_control_command rest =
     (if is_control_segment (takeWhile (\<lambda>c. c \<noteq> CHR '';'') rest) then True
      else (case dropWhile (\<lambda>c. c \<noteq> CHR '';'') rest of
              [] \<Rightarrow> False
            | _ # more \<Rightarrow> is_execution_control_command more))"
  by pat_completeness auto
termination
  by (relation "measure length") (auto dest: dropWhile_Cons_shorter)

declare is_execution_control_command.simps [simp del]

text \<open>The reference decomposition of a command line into its segments.\<close>

fun segments :: "string \<Rightarrow> string list" where
  "segments [] = [[]]"
| "segments (c # s) =
     (if c = CHR '';'' then [] # segments s
      else (case segments s of [] \<Rightarrow> [[c]] | x # xs \<Rightarrow> (c # x) # xs))"

section \<open>Lemmas\<close>

lemma strip_radix_0x [simp]: "strip_radix (CHR ''0'' # CHR ''x'' # r) = (16, r)"
  by (simp add: strip_radix_def)

lemma is_digit_of_16_isxdigit: "is_digit_of 16 c \<longleftrightarrow> isxdigit c"
  by (auto simp: is_digit_of_def digit_val_def isxdigit_def isdigit_def Let_def)

lemma filter_backtick_digits: "\<forall>c \<in> set s. is_digit_of 16 c \<Longrightarrow> filter (\<lambda>c. c \<noteq> CHR ''`'') s = s"
  by (rule filter_True) (auto simp: is_digit_of_def digit_val_def)

lemma parse_reference_hex:
  assumes "s \<noteq> []" "\<forall>c \<in> set s. is_digit_of 16 c" "stoull 16 s = Inr (a, length s)"
  shows "try_parse_memory_reference (''0x'' @ s) = Some a"
  using assms filter_backtick_digits [OF assms(2)] is_digit_of_16_isxdigit
  by (cases s) (auto simp: try_parse_memory_reference_def)

lemma parse_reference_hex_lower: "try_parse_memory_reference (''0x'' @ hex_lower (unat a)) = Some a"
  by (rule parse_reference_hex) (auto dest: hex_lower_digits)

lemma parse_reference_hex_upper: "try_parse_memory_reference (''0x'' @ hex_upper (unat a)) = Some a"
  by (rule parse_reference_hex) (auto dest: hex_upper_digits)

text \<open>A text whose first character is a hexadecimal digit has no blank and no sign to skip.\<close>

lemma strto_unsigned:
  assumes "s \<noteq> []" "isxdigit (hd s)" "b = 16 \<Longrightarrow> \<not> has_hex_prefix s"
  shows "strto b s = (let ds = takeWhile (is_digit_of b) s
    in if ds = [] then None else Some (False, digits_value b ds, length ds))"
proof -
  obtain c r where s: "s = c # r" using assms(1) by (cases s) auto
  then have "\<not> isspace c" "c \<noteq> CHR ''-''" "c \<noteq> CHR ''+''"
    using assms(2) isxdigit_not_isspace [of c] by (auto simp: isxdigit_def isdigit_def)
  then have "takeWhile isspace s = []" "scan_sign (dropWhile isspace s) = (False, 0, s)"
    using s by auto
  then show ?thesis using assms(3) by (auto simp: strto_def Let_def)
qed

lemma takeWhile_all_length: "length (takeWhile P s) = length s \<longleftrightarrow> (\<forall>c \<in> set s. P c)"
  by (induction s) auto

lemma sint_u64_range: "- 9223372036854775808 \<le> sint (w :: u64)" "sint (w :: u64) < 9223372036854775808"
  using sint_greater_eq [of w] sint_less [of w] by simp_all

lemma uint_sint_mod: "uint (w :: u64) = sint w mod 18446744073709551616"
  by (simp add: uint_sint take_bit_eq_mod)

lemma uint_of_sint:
  "uint (w :: u64) = (if 0 \<le> sint w then sint w else sint w + 18446744073709551616)"
proof (cases "0 \<le> sint w")
  case True
  then show ?thesis using uint_sint_mod [of w] sint_u64_range [of w] by simp
next
  case False
  have "sint w mod 18446744073709551616 = (sint w + 18446744073709551616) mod 18446744073709551616" by simp
  also have "\<dots> = sint w + 18446744073709551616" 
    by (rule mod_pos_pos_trivial) (use False sint_u64_range [of w] in linarith)+
  finally show ?thesis using False uint_sint_mod [of w] by simp
qed

lemma uint_u64_range: "0 \<le> uint (w :: u64)" "uint (w :: u64) < 18446744073709551616"
  using uint_range_size [of w] by (simp_all add: word_size)

lemma uint_minus_one_minus: "uint ((- 1) - w :: u64) = 18446744073709551615 - uint w"
proof -
  have "uint ((- 1) - w) = (18446744073709551615 - uint w) mod 18446744073709551616"
    by (simp add: uint_word_ariths)
  also have "\<dots> = 18446744073709551615 - uint w"
    by (rule mod_pos_pos_trivial) (use uint_u64_range [of w] in linarith)+
  finally show ?thesis .
qed

lemma uint_uminus: "w \<noteq> 0 \<Longrightarrow> uint (- w :: u64) = 18446744073709551616 - uint w"
  using uint_u64_range [of w] by (simp add: uint_word_ariths zmod_zminus1_eq_if unsigned_eq_0_iff)

lemma segments_unfold:
  "segments s = takeWhile (\<lambda>c. c \<noteq> CHR '';'') s #
     (case dropWhile (\<lambda>c. c \<noteq> CHR '';'') s of [] \<Rightarrow> [] | _ # more \<Rightarrow> segments more)"
proof (induction s)
  case Nil
  then show ?case by simp
next
  case (Cons c s)
  then show ?case by (cases "c = CHR '';''") simp_all
qed

section \<open>Properties\<close>

text \<open>
  C29. Applying a byte offset is exact integer arithmetic: it succeeds precisely when the true
  sum of the unsigned address and the signed offset lies in the 64-bit address space, and then
  the result is that sum; no wrap-around is ever returned.
\<close>

theorem byte_offset_exact:
  "try_apply_byte_offset address offset =
     (let sum = uint address + sint offset
      in if 0 \<le> sum \<and> sum < 2 ^ 64 then Some (word_of_int sum) else None)"
proof (cases "0 \<le> sint offset")
  case True
  then have o: "uint offset = sint offset" by (simp add: uint_of_sint)
  have "address > (- 1) - offset \<longleftrightarrow> uint address + uint offset \<ge> 18446744073709551616"
    by (simp add: word_less_def uint_minus_one_minus) linarith
  moreover have "address + offset = word_of_int (uint address + uint offset)" by simp
  ultimately show ?thesis
    using True o uint_u64_range [of address] by (simp add: try_apply_byte_offset_def Let_def)
next
  case False
  then have nz: "offset \<noteq> 0" and o: "uint offset = sint offset + 18446744073709551616"
    by (auto simp: uint_of_sint)
  have "address < - offset \<longleftrightarrow> uint address + sint offset < 0"
    using o by (simp add: word_less_def uint_uminus [OF nz]) linarith
  moreover have "address + offset = word_of_int (uint address + sint offset)" by simp
  ultimately show ?thesis
    using False uint_u64_range [of address] by (simp add: try_apply_byte_offset_def Let_def)
qed

text \<open>
  Every address the adapter hands out as a memory reference, in lower or upper case
  hexadecimal, is read back as the same address.
\<close>

theorem memory_reference_round_trip:
  "try_parse_memory_reference (''0x'' @ hex_lower (unat a)) = Some a
   \<and> try_parse_memory_reference (''0x'' @ hex_upper (unat a)) = Some a"
  by (simp add: parse_reference_hex_lower parse_reference_hex_upper del: append.simps)




end
