(* ===== verification/Json_Model.thy ===== *)
theory Json_Model
  imports String_Utils
begin

text \<open>
  JSON values as the adapter sees them, and the two readers of untyped messages:
  \<open>util::dap_message_inspector\<close> (src/src/util/dap_message_inspector.cpp) and
  \<open>util::dap_argument_reader\<close> (src/src/util/dap_argument_reader.cpp), with the quoting of
  launch arguments.  An object is an association list with one entry per key; serialization is
  the JSON library's and a parameter (\<open>dump\<close>) of what uses it.  The text of a floating-point
  number is kept as it is, since no reader looks into it.
\<close>

section \<open>JSON values\<close>

datatype json =
    J_Null
  | J_Bool bool
  | J_Int int
  | J_Float string
  | J_String string
  | J_Array "json list"
  | J_Object "(string \<times> json) list"

fun is_object :: "json \<Rightarrow> bool" where
  "is_object (J_Object _) = True"
| "is_object _ = False"

text \<open>\<open>json::find\<close>: on a value that is not an object it is the end iterator.\<close>

fun find_key :: "json \<Rightarrow> string \<Rightarrow> json option" where
  "find_key (J_Object fields) key = map_of fields key"
| "find_key _ key = None"

text \<open>Assignment through \<open>operator[]\<close>: null becomes an object, any other value raises.\<close>

fun put_field :: "string \<Rightarrow> json \<Rightarrow> (string \<times> json) list \<Rightarrow> (string \<times> json) list" where
  "put_field key v [] = [(key, v)]"
| "put_field key v ((k, w) # fields) =
     (if k = key then (k, v) # fields else (k, w) # put_field key v fields)"

fun assign_key :: "json \<Rightarrow> string \<Rightarrow> json \<Rightarrow> exn + json" where
  "assign_key (J_Object fields) key v = Inr (J_Object (put_field key v fields))"
| "assign_key J_Null key v = Inr (J_Object [(key, v)])"
| "assign_key _ key v = Inl (Json_Error ''cannot use operator[] with a string argument'')"

fun as_string :: "json option \<Rightarrow> string option" where
  "as_string (Some (J_String s)) = Some s"
| "as_string _ = None"

section \<open>The message inspector\<close>

definition try_get_command :: "json \<Rightarrow> string option" where
  "try_get_command message =
     (if \<not> is_object message then None else as_string (find_key message ''command''))"

definition try_get_sequence :: "json \<Rightarrow> int option" where
  "try_get_sequence message =
     (if \<not> is_object message then None
      else (case find_key message ''seq'' of Some (J_Int n) \<Rightarrow> Some (wrap_int32 n) | _ \<Rightarrow> None))"

section \<open>The argument reader\<close>

text \<open>
  The loop of \<open>quote_command_line_token\<close> holds back the backslashes it has seen and writes
  them, doubled before a quotation mark or the closing one, when the next character decides.
\<close>

fun quote_loop :: "string \<Rightarrow> nat \<Rightarrow> string \<Rightarrow> string" where
  "quote_loop [] backslash_count result =
     (if backslash_count > 0 then result @ replicate (backslash_count * 2) BACKSLASH else result)"
| "quote_loop (character # value) backslash_count result =
     (if character = BACKSLASH then quote_loop value (backslash_count + 1) result
      else if character = DQUOTE
      then quote_loop value 0 (result @ replicate (backslash_count * 2 + 1) BACKSLASH @ [character])
      else quote_loop value 0
             ((if backslash_count > 0 then result @ replicate backslash_count BACKSLASH else result)
              @ [character]))"

definition needs_quotes :: "char \<Rightarrow> bool" where
  "needs_quotes c = (c = CHR '' '' \<or> c = TAB \<or> c = DQUOTE)"

definition quote_command_line_token :: "string \<Rightarrow> string" where
  "quote_command_line_token value =
     (if value = [] then [DQUOTE, DQUOTE]
      else if \<not> list_ex needs_quotes value then value
      else quote_loop value 0 [DQUOTE] @ [DQUOTE])"

definition find_property :: "json \<Rightarrow> string \<Rightarrow> json option" where
  "find_property arguments key = (if \<not> is_object arguments then None else find_key arguments key)"

definition get_arguments :: "json \<Rightarrow> json" where
  "get_arguments request =
     (if \<not> is_object request then J_Null
      else (case find_key request ''arguments'' of None \<Rightarrow> J_Null | Some a \<Rightarrow> a))"

definition try_get_string :: "json \<Rightarrow> string \<Rightarrow> string option" where
  "try_get_string arguments key = as_string (find_property arguments key)"

definition try_get_int32 :: "json \<Rightarrow> string \<Rightarrow> int option" where
  "try_get_int32 arguments key =
     (case find_property arguments key of
        Some (J_Int n) \<Rightarrow> Some (wrap_int32 n)
      | Some (J_String s) \<Rightarrow>
          (case stoi s of
             Inr (parsed, consumed) \<Rightarrow> if consumed = length s then Some parsed else None
           | Inl e \<Rightarrow> None)
      | _ \<Rightarrow> None)"

definition try_get_boolean :: "json \<Rightarrow> string \<Rightarrow> bool option" where
  "try_get_boolean arguments key =
     (case find_property arguments key of
        Some (J_Bool b) \<Rightarrow> Some b
      | Some (J_String s) \<Rightarrow>
          (if s = ''true'' \<or> s = ''True'' then Some True
           else if s = ''false'' \<or> s = ''False'' then Some False
           else None)
      | _ \<Rightarrow> None)"

definition try_get_string_list :: "json \<Rightarrow> string \<Rightarrow> string list option" where
  "try_get_string_list arguments key =
     (case find_property arguments key of
        Some (J_String s) \<Rightarrow> Some [s]
      | Some (J_Array items) \<Rightarrow> Some (List.map_filter (\<lambda>item. as_string (Some item)) items)
      | _ \<Rightarrow> None)"

fun argument_token :: "(json \<Rightarrow> string) \<Rightarrow> json \<Rightarrow> string" where
  "argument_token dump (J_String s) = quote_command_line_token s"
| "argument_token dump item = dump item"

definition try_get_command_line_arguments :: "(json \<Rightarrow> string) \<Rightarrow> json \<Rightarrow> string option" where
  "try_get_command_line_arguments dump arguments =
     (if \<not> is_object arguments then None
      else (case find_key arguments ''args'' of
              Some (J_String s) \<Rightarrow> Some s
            | Some (J_Array items) \<Rightarrow>
                (let tokens = map (argument_token dump) items
                 in if tokens = [] then None else Some (join '' '' tokens))
            | _ \<Rightarrow> None))"

definition resolve_working_directory :: "json \<Rightarrow> string" where
  "resolve_working_directory arguments =
     (case try_get_string arguments ''cwd'' of
        None \<Rightarrow> []
      | Some value \<Rightarrow> if list_all blank_char value then [] else value)"

section \<open>The documented rules of \<open>CommandLineToArgvW\<close>\<close>

text \<open>
  The reference that a quoted command line has to satisfy: arguments are delimited by blanks
  and tabs outside quotation marks; \<open>2n\<close> backslashes before a quotation mark stand for \<open>n\<close>
  backslashes and open or close a quoted part; \<open>2n + 1\<close> stand for \<open>n\<close> backslashes and a
  literal quotation mark; backslashes before any other character stand for themselves.
  The third argument counts the backslashes just read, the last one is the argument so far.
\<close>

definition started :: "string option \<Rightarrow> string" where
  "started cur = (case cur of None \<Rightarrow> [] | Some t \<Rightarrow> t)"

fun argv_scan :: "string \<Rightarrow> bool \<Rightarrow> nat \<Rightarrow> string option \<Rightarrow> string list" where
  "argv_scan [] q n cur =
     (case cur of None \<Rightarrow> [] | Some t \<Rightarrow> [t @ replicate n BACKSLASH])"
| "argv_scan (c # s) q n cur =
     (if c = BACKSLASH then argv_scan s q (n + 1) (Some (started cur))
      else if c = DQUOTE
      then (if even n then argv_scan s (\<not> q) 0 (Some (started cur @ replicate (n div 2) BACKSLASH))
            else argv_scan s q 0 (Some (started cur @ replicate (n div 2) BACKSLASH @ [DQUOTE])))
      else if (c = CHR '' '' \<or> c = TAB) \<and> \<not> q
      then (case cur of None \<Rightarrow> argv_scan s False 0 None
            | Some t \<Rightarrow> (t @ replicate n BACKSLASH) # argv_scan s False 0 None)
      else argv_scan s q 0 (Some (started cur @ replicate n BACKSLASH @ [c])))"

definition command_line_to_argv :: "string \<Rightarrow> string list" where
  "command_line_to_argv s = argv_scan s False 0 None"

section \<open>Lemmas\<close>

lemma find_put_same [simp]: "map_of (put_field k v fs) k = Some v"
  by (induction k v fs rule: put_field.induct) auto

lemma find_put_other [simp]: "k' \<noteq> k \<Longrightarrow> map_of (put_field k v fs) k' = map_of fs k'"
  by (induction k v fs rule: put_field.induct) auto

lemma started_Some [simp]: "started (Some t) = t" and started_None [simp]: "started None = []"
  by (simp_all add: started_def)

lemma quote_loop_acc: "quote_loop v n (r @ r') = r @ quote_loop v n r'"
  by (induction v arbitrary: n r') auto

lemma argv_scan_backslashes:
  "argv_scan (replicate k BACKSLASH @ s) q n (Some t) = argv_scan s q (n + k) (Some t)"
  by (induction k arbitrary: n) auto

lemmas quote_loop_prefix = quote_loop_acc [where r' = "[]", simplified]

lemma argv_scan_quoted:
  "argv_scan (quote_loop v n [] @ DQUOTE # rest) True 0 (Some t)
     = argv_scan rest False 0 (Some (t @ replicate n BACKSLASH @ v))"
proof (induction v arbitrary: n t)
  case Nil
  then show ?case by (simp add: argv_scan_backslashes)
next
  case (Cons c v)
  show ?case
  proof (cases "c = BACKSLASH")
    case True
    then show ?thesis using Cons.IH [of "n + 1" t] by (simp add: replicate_app_Cons_same)
  next
    case False
    have p: "quote_loop v 0 (r @ [x]) = r @ x # quote_loop v 0 []" for r x
      using quote_loop_prefix [of v 0 "r @ [x]"] by simp
    show ?thesis
    proof (cases "c = DQUOTE")
      case True
      then have "quote_loop (c # v) n [] = replicate (n * 2 + 1) BACKSLASH @ DQUOTE # quote_loop v 0 []"
        using p [of "replicate (n * 2 + 1) BACKSLASH" DQUOTE] by simp
      then show ?thesis
        using True Cons.IH [of 0 "t @ replicate n BACKSLASH @ [DQUOTE]"]
          argv_scan_backslashes [of "n * 2 + 1" _ True 0 t] by simp
    next
      case other: False
      then have "quote_loop (c # v) n [] = replicate n BACKSLASH @ c # quote_loop v 0 []"
        using False p [of "replicate n BACKSLASH" c] p [of "[]" c] by (cases n) simp_all
      then show ?thesis
        using False other Cons.IH [of 0 "t @ replicate n BACKSLASH @ [c]"]
          argv_scan_backslashes [of n _ True 0 t] by simp
    qed
  qed
qed

text \<open>The text behind an argument: the end of the line, or a blank and the next arguments.\<close>

definition after_argument :: "string \<Rightarrow> string list \<Rightarrow> bool" where
  "after_argument rest more \<longleftrightarrow>
     (rest = [] \<and> more = []) \<or> (\<exists>r. rest = CHR '' '' # r \<and> more = argv_scan r False 0 None)"

lemma argv_scan_after:
  "after_argument rest more \<Longrightarrow> argv_scan rest False n (Some t) = (t @ replicate n BACKSLASH) # more"
  by (auto simp: after_argument_def)

lemma argv_scan_plain:
  "\<not> list_ex needs_quotes v \<Longrightarrow> after_argument rest more \<Longrightarrow>
   argv_scan (v @ rest) False n (Some t) = (t @ replicate n BACKSLASH @ v) # more"
proof (induction v arbitrary: n t)
  case Nil
  then show ?case by (simp add: argv_scan_after)
next
  case (Cons c v)
  then show ?case
    using Cons.IH [of "n + 1" t] Cons.IH [of 0 "t @ replicate n BACKSLASH @ [c]"]
    by (cases "c = BACKSLASH") (simp_all add: needs_quotes_def replicate_app_Cons_same)
qed

lemma argv_scan_token:
  assumes "after_argument rest more"
  shows "argv_scan (quote_command_line_token v @ rest) False 0 None = v # more"
proof -
  consider (nil) "v = []" | (plain) "v \<noteq> []" "\<not> list_ex needs_quotes v" | (quoted) "list_ex needs_quotes v"
    by blast
  then show ?thesis
  proof cases
    case nil
    then show ?thesis using argv_scan_after [OF assms, of 0] by (simp add: quote_command_line_token_def)
  next
    case plain
    then obtain c w where v: "v = c # w" by (cases v) auto
    have "argv_scan (c # w @ rest) False 0 None = argv_scan (c # w @ rest) False 0 (Some [])"
      using plain v by (simp add: needs_quotes_def)
    then show ?thesis
      using argv_scan_plain [OF plain(2) assms, of 0 "[]"] plain v by (simp add: quote_command_line_token_def)
  next
    case quoted
    then have "quote_command_line_token v = DQUOTE # quote_loop v 0 [] @ [DQUOTE]"
      using quote_loop_prefix [of v 0 "[DQUOTE]"] by (auto simp: quote_command_line_token_def)
    then show ?thesis
      using argv_scan_quoted [of v 0 rest "[]"] argv_scan_after [OF assms, of 0 v] by simp
  qed
qed

lemma argv_scan_join:
  "argv_scan (join '' '' (map quote_command_line_token tokens)) False 0 None = tokens"
proof (induction "'' '' :: string" tokens rule: join.induct)
  case 1
  then show ?case by simp
next
  case (2 t)
  then show ?case using argv_scan_token [of "[]" "[]" t] by (simp add: after_argument_def)
next
  case (3 t u ts)
  have "after_argument (CHR '' '' # join '' '' (map quote_command_line_token (u # ts))) (u # ts)"
    using 3 by (simp add: after_argument_def)
  from argv_scan_token [OF this, of t] show ?case by simp
qed

section \<open>Properties\<close>

text \<open>
  C32. Launch arguments survive quoting: the command line built from a non-empty array of
  strings is split, by the documented rules of \<open>CommandLineToArgvW\<close>, into exactly these
  strings, whatever blanks, quotation marks and backslashes they hold and also when empty.
\<close>

theorem command_line_round_trip:
  assumes "find_property arguments ''args'' = Some (J_Array (map J_String tokens))" "tokens \<noteq> []"
  shows "map_option command_line_to_argv (try_get_command_line_arguments dump arguments) = Some tokens"
  using assms argv_scan_join [of tokens]
  by (auto simp: find_property_def try_get_command_line_arguments_def command_line_to_argv_def comp_def
      split: if_splits)

theorem command_line_round_trip_witness:
  "map_option command_line_to_argv (try_get_command_line_arguments (\<lambda>j. [])
     (J_Object [(''args'', J_Array (map J_String [''a b'', [], [CHR ''c'', BACKSLASH, DQUOTE], [BACKSLASH]]))]))
   = Some [''a b'', [], [CHR ''c'', BACKSLASH, DQUOTE], [BACKSLASH]]"
  by (rule command_line_round_trip) (simp_all add: find_property_def)

end
