(* ===== verification/Protocol_Types.thy ===== *)
theory Protocol_Types
  imports Json_Model
begin

text \<open>
  The types of src/src/protocol/protocol.h that both the requests and the handlers use.
\<close>

text \<open>A source as a client names it; it is sent back with the breakpoints in it.\<close>

datatype source_hint = Normal_Source | Emphasize_Source | Deemphasize_Source

datatype checksum_algorithm = MD5_Checksum | SHA1_Checksum | SHA256_Checksum | Timestamp_Checksum

datatype requested_source =
  Source (rs_name: "string option") (rs_path: "string option") (rs_source_reference: "int option")
    (rs_presentation_hint: "source_hint option") (rs_origin: "string option")
    (rs_sources: "requested_source list option") (rs_adapter_data: json)
    (rs_checksums: "(checksum_algorithm \<times> string) list option")

text \<open>A breakpoint that a client asks for in a source.\<close>

record source_breakpoint =
  rb_line :: int
  rb_column :: "int option"
  rb_condition :: "string option"
  rb_hit_condition :: "string option"
  rb_log_message :: "string option"
  rb_mode :: "string option"

text \<open>Names that requests carry.\<close>

datatype data_access = Read_Access | Write_Access | Read_Write_Access

datatype stepping_granularity = Statement_Granularity | Line_Granularity | Instruction_Granularity

datatype evaluate_context = Watch_Context | Repl_Context | Hover_Context | Clipboard_Context | Variables_Context

end
