(* ===== verification/Protocol.thy ===== *)
theory Protocol
  imports Protocol_Types
begin

text \<open>
  The conversion of JSON messages to requests (the \<open>from_json\<close> functions of
  src/src/protocol/protocol.h), as far as requests are concerned.  Every conversion reads its
  fields in order; a field that is absent or null keeps its default, and a field of another
  JSON type raises the error of the JSON library; a
  conversion that fails yields the error's message.  What a conversion yields is what the
  request's handler reads; other fields are only checked.  The truncation of a
  floating-point number to an integer is the parameter \<open>tr\<close>.
\<close>

section \<open>Values\<close>

definition r_bind :: "string + 'a \<Rightarrow> ('a \<Rightarrow> string + 'b) \<Rightarrow> string + 'b" where
  "r_bind r f = (case r of Inl e \<Rightarrow> Inl e | Inr v \<Rightarrow> f v)"

fun type_name :: "json \<Rightarrow> string" where
  "type_name J_Null = ''null''"
| "type_name (J_Bool b) = ''boolean''"
| "type_name (J_Int n) = ''number''"
| "type_name (J_Float f) = ''number''"
| "type_name (J_String s) = ''string''"
| "type_name (J_Array xs) = ''array''"
| "type_name (J_Object kvs) = ''object''"

definition type_error :: "string \<Rightarrow> json \<Rightarrow> string" where
  "type_error expected j =
     ''[json.exception.type_error.302] type must be '' @ expected @ '', but is '' @ type_name j"

definition wrap_int64 :: "int \<Rightarrow> int" where
  "wrap_int64 i = (i + 9223372036854775808) mod 18446744073709551616 - 9223372036854775808"

fun get_string :: "json \<Rightarrow> string + string" where
  "get_string (J_String s) = Inr s"
| "get_string j = Inl (type_error ''string'' j)"

fun get_bool :: "json \<Rightarrow> string + bool" where
  "get_bool (J_Bool b) = Inr b"
| "get_bool j = Inl (type_error ''boolean'' j)"

fun get_int :: "(string \<Rightarrow> int) \<Rightarrow> json \<Rightarrow> string + int" where
  "get_int tr (J_Int n) = Inr (wrap_int32 n)"
| "get_int tr (J_Float f) = Inr (tr f)"
| "get_int tr (J_Bool b) = Inr (if b then 1 else 0)"
| "get_int tr j = Inl (type_error ''number'' j)"

fun get_int64 :: "(string \<Rightarrow> int) \<Rightarrow> json \<Rightarrow> string + int" where
  "get_int64 tr (J_Int n) = Inr (wrap_int64 n)"
| "get_int64 tr (J_Float f) = Inr (tr f)"
| "get_int64 tr j = Inl (type_error ''number'' j)"

fun read_all_of :: "('a \<Rightarrow> string + 'b) \<Rightarrow> 'a list \<Rightarrow> string + 'b list" where
  "read_all_of f [] = Inr []"
| "read_all_of f (x # xs) = r_bind (f x) (\<lambda>y. r_bind (read_all_of f xs) (\<lambda>ys. Inr (y # ys)))"

fun get_vector :: "(json \<Rightarrow> string + 'a) \<Rightarrow> json \<Rightarrow> string + 'a list" where
  "get_vector f (J_Array xs) = read_all_of f xs"
| "get_vector f j = Inl (type_error ''array'' j)"

definition get_enum :: "string \<Rightarrow> (string \<times> 'a) list \<Rightarrow> json \<Rightarrow> string + 'a" where
  "get_enum name table j =
     r_bind (get_string j) (\<lambda>s.
       case map_of table s of
         Some v \<Rightarrow> Inr v
       | None \<Rightarrow> Inl (''[json.exception.other_error.501] unknown '' @ name @ '' value: '' @ s))"

text \<open>The values of an enumeration that no handler looks at.\<close>

definition enum_names :: "string list \<Rightarrow> (string \<times> unit) list" where
  "enum_names names = map (\<lambda>n. (n, ())) names"

section \<open>Fields\<close>

definition field :: "json \<Rightarrow> string \<Rightarrow> (json \<Rightarrow> string + 'a) \<Rightarrow> string + 'a option" where
  "field j key f =
     (case find_key j key of
        None \<Rightarrow> Inr None
      | Some v \<Rightarrow> if v = J_Null then Inr None else r_bind (f v) (\<lambda>x. Inr (Some x)))"

definition field_or :: "json \<Rightarrow> string \<Rightarrow> (json \<Rightarrow> string + 'a) \<Rightarrow> 'a \<Rightarrow> string + 'a" where
  "field_or j key f d = r_bind (field j key f) (\<lambda>v. Inr (case v of None \<Rightarrow> d | Some x \<Rightarrow> x))"

definition only_check :: "('b \<Rightarrow> string + 'a) \<Rightarrow> 'b \<Rightarrow> string + unit" where
  "only_check f j = r_bind (f j) (\<lambda>v. Inr ())"

fun check_fields :: "json \<Rightarrow> (string \<times> (json \<Rightarrow> string + unit)) list \<Rightarrow> string + unit" where
  "check_fields j [] = Inr ()"
| "check_fields j ((key, f) # rest) = r_bind (field j key f) (\<lambda>v. check_fields j rest)"

definition strings :: "string list \<Rightarrow> (string \<times> (json \<Rightarrow> string + unit)) list" where
  "strings keys = map (\<lambda>k. (k, only_check get_string)) keys"

definition booleans :: "string list \<Rightarrow> (string \<times> (json \<Rightarrow> string + unit)) list" where
  "booleans keys = map (\<lambda>k. (k, only_check get_bool)) keys"

definition integers :: "(string \<Rightarrow> int) \<Rightarrow> string list \<Rightarrow> (string \<times> (json \<Rightarrow> string + unit)) list" where
  "integers tr keys = map (\<lambda>k. (k, only_check (get_int tr))) keys"

definition long_integers :: "(string \<Rightarrow> int) \<Rightarrow> string list \<Rightarrow> (string \<times> (json \<Rightarrow> string + unit)) list" where
  "long_integers tr keys = map (\<lambda>k. (k, only_check (get_int64 tr))) keys"

lemma r_bind_cong [fundef_cong]: "r = r' \<Longrightarrow> (\<And>v. r' = Inr v \<Longrightarrow> f v = g v) \<Longrightarrow> r_bind r f = r_bind r' g"
  by (simp add: r_bind_def split: sum.split)

lemma field_cong [fundef_cong]:
  "j = j' \<Longrightarrow> key = key' \<Longrightarrow> (\<And>v. find_key j' key' = Some v \<Longrightarrow> f v = g v) \<Longrightarrow> field j key f = field j' key' g"
  by (simp add: field_def split: option.split)

lemma read_all_of_cong [fundef_cong]:
  "xs = ys \<Longrightarrow> (\<And>x. x \<in> set ys \<Longrightarrow> f x = g x) \<Longrightarrow> read_all_of f xs = read_all_of g ys"
  by (induction ys arbitrary: xs) (auto simp: r_bind_def split: sum.split)

lemma get_vector_cong [fundef_cong]:
  "j = j' \<Longrightarrow> (\<And>xs x. j' = J_Array xs \<Longrightarrow> x \<in> set xs \<Longrightarrow> f x = g x) \<Longrightarrow> get_vector f j = get_vector g j'"
  by (cases j') (auto intro: read_all_of_cong)

text \<open>A value inside another one is smaller.\<close>

lemma find_key_size: "find_key j key = Some v \<Longrightarrow> size v < size j"
proof (cases j)
  case (J_Object kvs)
  assume "find_key j key = Some v"
  then have "(key, v) \<in> set kvs" using J_Object by (auto dest: map_of_SomeD)
  then have "size v < size_list (size_prod (\<lambda>c. 0) size) kvs"
    by (induction kvs) auto
  then show ?thesis using J_Object by simp
qed simp_all

lemma array_size: "x \<in> set xs \<Longrightarrow> size x < size (J_Array xs)"
  by (induction xs) auto

section \<open>Nested types\<close>

definition checksum_algorithms :: "(string \<times> checksum_algorithm) list" where
  "checksum_algorithms =
     [(''MD5'', MD5_Checksum), (''SHA1'', SHA1_Checksum), (''SHA256'', SHA256_Checksum),
      (''timestamp'', Timestamp_Checksum)]"

definition checksum_algorithm_from_json :: "json \<Rightarrow> string + checksum_algorithm" where
  "checksum_algorithm_from_json = get_enum ''ChecksumAlgorithm'' checksum_algorithms"

definition checksum_from_json :: "json \<Rightarrow> string + checksum_algorithm \<times> string" where
  "checksum_from_json j =
     r_bind (field_or j ''algorithm'' checksum_algorithm_from_json MD5_Checksum) (\<lambda>algorithm.
       r_bind (field_or j ''checksum'' get_string []) (\<lambda>checksum. Inr (algorithm, checksum)))"

definition source_hints :: "(string \<times> source_hint) list" where
  "source_hints =
     [(''normal'', Normal_Source), (''emphasize'', Emphasize_Source), (''deemphasize'', Deemphasize_Source)]"

definition source_hint_from_json :: "json \<Rightarrow> string + source_hint" where
  "source_hint_from_json = get_enum ''SourcePresentationHint'' source_hints"

function source_from_json :: "(string \<Rightarrow> int) \<Rightarrow> json \<Rightarrow> string + requested_source" where
  "source_from_json tr j =
     r_bind (field j ''name'' get_string) (\<lambda>n.
       r_bind (field j ''path'' get_string) (\<lambda>p.
         r_bind (field j ''sourceReference'' (get_int tr)) (\<lambda>r.
           r_bind (field j ''presentationHint'' source_hint_from_json) (\<lambda>h.
             r_bind (field j ''origin'' get_string) (\<lambda>origin.
               r_bind (field j ''sources'' (get_vector (source_from_json tr))) (\<lambda>sources.
                 r_bind (field j ''checksums'' (get_vector checksum_from_json)) (\<lambda>checksums.
                   Inr (Source n p r h origin sources
                          (case find_key j ''adapterData'' of None \<Rightarrow> J_Null | Some d \<Rightarrow> d) checksums))))))))"
  by pat_completeness auto
termination
  by (relation "measure (\<lambda>(tr, j). size j)") (auto dest!: find_key_size dest: array_size)

declare source_from_json.simps [simp del]

definition source_breakpoint_from_json :: "(string \<Rightarrow> int) \<Rightarrow> json \<Rightarrow> string + source_breakpoint" where
  "source_breakpoint_from_json tr j =
     r_bind (field_or j ''line'' (get_int64 tr) 0) (\<lambda>line.
       r_bind (field j ''column'' (get_int64 tr)) (\<lambda>column.
         r_bind (field j ''condition'' get_string) (\<lambda>condition.
           r_bind (field j ''hitCondition'' get_string) (\<lambda>hit_condition.
             r_bind (field j ''logMessage'' get_string) (\<lambda>log_message.
               r_bind (field j ''mode'' get_string) (\<lambda>mode.
                 Inr \<lparr>rb_line = line, rb_column = column, rb_condition = condition,
                      rb_hit_condition = hit_condition, rb_log_message = log_message, rb_mode = mode\<rparr>))))))"

definition function_breakpoint_from_json :: "json \<Rightarrow> string + string" where
  "function_breakpoint_from_json j =
     r_bind (field_or j ''name'' get_string []) (\<lambda>name.
       r_bind (check_fields j (strings [''condition'', ''hitCondition''])) (\<lambda>u. Inr name))"

definition data_breakpoint_from_json :: "json \<Rightarrow> string + string \<times> data_access option" where
  "data_breakpoint_from_json j =
     r_bind (field_or j ''dataId'' get_string []) (\<lambda>data_id.
       r_bind (field j ''accessType''
                 (get_enum ''DataBreakpointAccessType''
                    [(''read'', Read_Access), (''write'', Write_Access), (''readWrite'', Read_Write_Access)])) (\<lambda>access.
         r_bind (check_fields j (strings [''condition'', ''hitCondition''])) (\<lambda>u. Inr (data_id, access))))"

definition instruction_breakpoint_from_json :: "(string \<Rightarrow> int) \<Rightarrow> json \<Rightarrow> string + string \<times> int option" where
  "instruction_breakpoint_from_json tr j =
     r_bind (field_or j ''instructionReference'' get_string []) (\<lambda>reference.
       r_bind (field j ''offset'' (get_int64 tr)) (\<lambda>offset.
         r_bind (check_fields j (strings [''condition'', ''hitCondition'', ''mode''])) (\<lambda>u. Inr (reference, offset))))"

definition exception_filter_options_from_json :: "json \<Rightarrow> string + unit" where
  "exception_filter_options_from_json j = check_fields j (strings [''filterId'', ''condition'', ''mode''])"

definition exception_path_segment_from_json :: "json \<Rightarrow> string + unit" where
  "exception_path_segment_from_json j =
     check_fields j (booleans [''negate''] @ [(''names'', only_check (get_vector get_string))])"

definition exception_options_from_json :: "json \<Rightarrow> string + unit" where
  "exception_options_from_json j =
     check_fields j
       [(''path'', only_check (get_vector exception_path_segment_from_json)),
        (''breakMode'', get_enum ''ExceptionBreakMode''
                          (enum_names [''never'', ''always'', ''unhandled'', ''userUnhandled'']))]"

definition value_format_from_json :: "json \<Rightarrow> string + unit" where
  "value_format_from_json j = check_fields j (booleans [''hex''])"

definition stack_frame_format_from_json :: "json \<Rightarrow> string + unit" where
  "stack_frame_format_from_json j =
     check_fields j (booleans [''hex'', ''parameters'', ''parameterTypes'', ''parameterNames'', ''parameterValues'',
                               ''line'', ''module'', ''includeAll''])"

definition stepping_granularity_from_json :: "json \<Rightarrow> string + stepping_granularity" where
  "stepping_granularity_from_json =
     get_enum ''SteppingGranularity''
       [(''statement'', Statement_Granularity), (''line'', Line_Granularity), (''instruction'', Instruction_Granularity)]"

end
