(* ===== verification/Actions.thy ===== *)
theory Actions
  imports Prelude
begin

text \<open>
  Actions on a state that return a value or raise an exception, as C++ member functions do:
  composition, \<open>try\<close>/\<open>catch\<close>, loops over vectors, and the rules that carry invariants through
  them.  An exception keeps the state reached when it was raised.
\<close>

type_synonym ('s, 'a) act = "'s \<Rightarrow> (exn + 'a) \<times> 's"

definition ret :: "'a \<Rightarrow> ('s, 'a) act" where
  "ret v s = (Inr v, s)"

definition raise :: "exn \<Rightarrow> ('s, 'a) act" where
  "raise e s = (Inl e, s)"

definition act_bind :: "('s, 'a) act \<Rightarrow> ('a \<Rightarrow> ('s, 'b) act) \<Rightarrow> ('s, 'b) act" where
  "act_bind m f s = (case m s of (Inl e, s') \<Rightarrow> (Inl e, s') | (Inr v, s') \<Rightarrow> f v s')"

definition act_then :: "('s, 'a) act \<Rightarrow> ('s, 'b) act \<Rightarrow> ('s, 'b) act" where
  "act_then m n = act_bind m (\<lambda>_. n)"

definition act_catch :: "('s, 'a) act \<Rightarrow> (exn \<Rightarrow> ('s, 'a) act) \<Rightarrow> ('s, 'a) act" where
  "act_catch m h s = (case m s of (Inl e, s') \<Rightarrow> h e s' | (Inr v, s') \<Rightarrow> (Inr v, s'))"

definition get_state :: "('s \<Rightarrow> 'a) \<Rightarrow> ('s, 'a) act" where
  "get_state f s = (Inr (f s), s)"

definition update_state :: "('s \<Rightarrow> 's) \<Rightarrow> ('s, unit) act" where
  "update_state f s = (Inr (), f s)"

text \<open>Run a check that yields the exception to raise, if any.\<close>

definition act_check :: "exn option \<Rightarrow> ('s, unit) act" where
  "act_check c = (case c of None \<Rightarrow> ret () | Some e \<Rightarrow> raise e)"

fun act_iter :: "('a \<Rightarrow> ('s, unit) act) \<Rightarrow> 'a list \<Rightarrow> ('s, unit) act" where
  "act_iter f [] = ret ()"
| "act_iter f (x # xs) = act_then (f x) (act_iter f xs)"

fun act_map :: "('a \<Rightarrow> ('s, 'b) act) \<Rightarrow> 'a list \<Rightarrow> ('s, 'b list) act" where
  "act_map f [] = ret []"
| "act_map f (x # xs) = act_bind (f x) (\<lambda>y. act_bind (act_map f xs) (\<lambda>ys. ret (y # ys)))"

lemmas act_defs = ret_def raise_def act_bind_def act_then_def act_catch_def get_state_def update_state_def act_check_def

section \<open>Invariants\<close>

text \<open>The action keeps the relation to its start state on every path, exceptions included.\<close>

definition keeps :: "('s \<Rightarrow> bool) \<Rightarrow> ('s, 'a) act \<Rightarrow> bool" where
  "keeps P m \<longleftrightarrow> (\<forall>s. P s \<longrightarrow> P (snd (m s)))"

named_theorems keeps_rules \<open>rules that carry an invariant through the composition of actions\<close>

lemma keepsD: "keeps P m \<Longrightarrow> P s \<Longrightarrow> P (snd (m s))"
  by (simp add: keeps_def)

lemma keeps_ret [keeps_rules]: "keeps P (ret v)"
  by (simp add: keeps_def ret_def)

lemma keeps_raise [keeps_rules]: "keeps P (raise e)"
  by (simp add: keeps_def raise_def)

lemma keeps_get [keeps_rules]: "keeps P (get_state f)"
  by (simp add: keeps_def get_state_def)

lemma keeps_update [keeps_rules]: "(\<And>s. P s \<Longrightarrow> P (f s)) \<Longrightarrow> keeps P (update_state f)"
  by (simp add: keeps_def update_state_def)

lemma keeps_bind [keeps_rules]: "keeps P m \<Longrightarrow> (\<And>v. keeps P (f v)) \<Longrightarrow> keeps P (act_bind m f)"
  by (fastforce simp: keeps_def act_bind_def split: prod.splits sum.splits)

lemma keeps_then [keeps_rules]: "keeps P m \<Longrightarrow> keeps P n \<Longrightarrow> keeps P (act_then m n)"
  by (simp add: act_then_def keeps_bind)

lemma keeps_catch [keeps_rules]: "keeps P m \<Longrightarrow> (\<And>e. keeps P (h e)) \<Longrightarrow> keeps P (act_catch m h)"
  by (fastforce simp: keeps_def act_catch_def split: prod.splits sum.splits)

lemma keeps_check [keeps_rules]: "keeps P (act_check c)"
  by (auto simp: act_check_def keeps_ret keeps_raise split: option.split)

lemma keeps_if [keeps_rules]: "(b \<Longrightarrow> keeps P m) \<Longrightarrow> (\<not> b \<Longrightarrow> keeps P n) \<Longrightarrow> keeps P (if b then m else n)"
  by simp

lemma keeps_iter [keeps_rules]: "(\<And>x. x \<in> set xs \<Longrightarrow> keeps P (f x)) \<Longrightarrow> keeps P (act_iter f xs)"
  by (induction xs) (simp_all add: keeps_ret keeps_then)

lemma keeps_map [keeps_rules]: "(\<And>x. x \<in> set xs \<Longrightarrow> keeps P (f x)) \<Longrightarrow> keeps P (act_map f xs)"
  by (induction xs) (auto intro!: keeps_rules)

section \<open>Results\<close>

lemma act_bind_ok:
  "act_bind m f s = (Inr y, s'') \<longleftrightarrow> (\<exists>v s'. m s = (Inr v, s') \<and> f v s' = (Inr y, s''))"
  by (auto simp: act_bind_def split: prod.splits sum.splits)

lemma act_then_ok:
  "act_then m n s = (Inr y, s'') \<longleftrightarrow> (\<exists>v s'. m s = (Inr v, s') \<and> n s' = (Inr y, s''))"
  by (simp add: act_then_def act_bind_ok)

lemma act_check_ok: "act_check c s = (Inr v, s') \<longleftrightarrow> c = None \<and> s' = s"
  by (auto simp: act_check_def ret_def raise_def split: option.split)

lemma ret_ok: "ret v s = (Inr w, s') \<longleftrightarrow> w = v \<and> s' = s"
  by (auto simp: ret_def)

lemma get_ok: "get_state f s = (Inr w, s') \<longleftrightarrow> w = f s \<and> s' = s"
  by (auto simp: get_state_def)

lemma update_ok: "update_state f s = (Inr w, s') \<longleftrightarrow> s' = f s"
  by (auto simp: update_state_def)

lemma act_map_length: "act_map f xs s = (Inr ys, s') \<Longrightarrow> length ys = length xs"
  by (induction xs arbitrary: s ys) (auto simp: act_bind_ok ret_ok)

lemmas act_oks = act_bind_ok act_then_ok act_check_ok ret_ok get_ok update_ok

end
