(* ===== verification/Waiting.thy ===== *)
theory Waiting
  imports Actions
begin

text \<open>
  Actions of a thread that may have to wait for another one: as the actions of \<open>Actions\<close>, with
  the outcome \<open>None\<close> for a thread that waits forever.  Two judgements carry the proofs about the
  service layer: \<open>ensures\<close>, a Hoare triple with one postcondition for the normal result and
  one for an exception, and \<open>returns\<close>, which says that the action does not wait forever.
\<close>

type_synonym ('s, 'a) wact = "'s \<Rightarrow> ((exn + 'a) \<times> 's) option"

definition now :: "('s, 'a) act \<Rightarrow> ('s, 'a) wact" where
  "now m s = Some (m s)"

definition w_bind :: "('s, 'a) wact \<Rightarrow> ('a \<Rightarrow> ('s, 'b) wact) \<Rightarrow> ('s, 'b) wact" where
  "w_bind m f s =
     (case m s of None \<Rightarrow> None | Some (Inl e, s') \<Rightarrow> Some (Inl e, s') | Some (Inr v, s') \<Rightarrow> f v s')"

definition w_then :: "('s, 'a) wact \<Rightarrow> ('s, 'b) wact \<Rightarrow> ('s, 'b) wact" where
  "w_then m n = w_bind m (\<lambda>_. n)"

definition w_catch :: "('s, 'a) wact \<Rightarrow> (exn \<Rightarrow> ('s, 'a) wact) \<Rightarrow> ('s, 'a) wact" where
  "w_catch m h s =
     (case m s of None \<Rightarrow> None | Some (Inl e, s') \<Rightarrow> h e s' | Some (Inr v, s') \<Rightarrow> Some (Inr v, s'))"

abbreviation w_ret :: "'a \<Rightarrow> ('s, 'a) wact" where
  "w_ret v \<equiv> now (ret v)"

abbreviation w_raise :: "exn \<Rightarrow> ('s, 'a) wact" where
  "w_raise e \<equiv> now (raise e)"

abbreviation w_get :: "('s \<Rightarrow> 'a) \<Rightarrow> ('s, 'a) wact" where
  "w_get f \<equiv> now (get_state f)"

abbreviation w_set :: "('s \<Rightarrow> 's) \<Rightarrow> ('s, unit) wact" where
  "w_set f \<equiv> now (update_state f)"

lemmas wact_defs = now_def w_bind_def w_then_def w_catch_def ret_def raise_def get_state_def update_state_def

section \<open>Triples\<close>

definition ensures ::
    "('s \<Rightarrow> bool) \<Rightarrow> ('s, 'a) wact \<Rightarrow> ('a \<Rightarrow> 's \<Rightarrow> bool) \<Rightarrow> ('s \<Rightarrow> bool) \<Rightarrow> bool" where
  "ensures P m Q R \<longleftrightarrow>
     (\<forall>s r s'. P s \<longrightarrow> m s = Some (r, s') \<longrightarrow> (case r of Inr v \<Rightarrow> Q v s' | Inl e \<Rightarrow> R s'))"

named_theorems triples \<open>rules that carry triples through the composition of actions\<close>

lemma ensuresI:
  "(\<And>s e s'. P s \<Longrightarrow> m s = Some (Inl e, s') \<Longrightarrow> R s') \<Longrightarrow>
   (\<And>s v s'. P s \<Longrightarrow> m s = Some (Inr v, s') \<Longrightarrow> Q v s') \<Longrightarrow> ensures P m Q R"
  by (auto simp: ensures_def split: sum.split)

lemma ensuresD:
  "ensures P m Q R \<Longrightarrow> P s \<Longrightarrow> m s = Some (r, s') \<Longrightarrow> (case r of Inr v \<Rightarrow> Q v s' | Inl e \<Rightarrow> R s')"
  by (simp add: ensures_def)

lemma ensures_weaken:
  "ensures P' m Q' R' \<Longrightarrow> (\<And>s. P s \<Longrightarrow> P' s) \<Longrightarrow> (\<And>v s. Q' v s \<Longrightarrow> Q v s) \<Longrightarrow> (\<And>s. R' s \<Longrightarrow> R s)
   \<Longrightarrow> ensures P m Q R"
  unfolding ensures_def by (fastforce split: sum.splits)

lemma ensures_pre: "ensures P' m Q R \<Longrightarrow> (\<And>s. P s \<Longrightarrow> P' s) \<Longrightarrow> ensures P m Q R"
  by (erule ensures_weaken) simp_all

lemma ensures_bind:
  assumes m: "ensures P m Q R" and f: "\<And>v. ensures (Q v) (f v) Q' R"
  shows "ensures P (w_bind m f) Q' R"
  unfolding ensures_def
proof (intro allI impI)
  fix s r s'
  assume p: "P s" and r: "w_bind m f s = Some (r, s')"
  then obtain q t where q: "m s = Some (q, t)" by (auto simp: w_bind_def split: option.splits)
  show "case r of Inr v \<Rightarrow> Q' v s' | Inl e \<Rightarrow> R s'"
    using ensuresD [OF m p q] ensuresD [OF f, of _ t r s'] q r by (cases q) (auto simp: w_bind_def)
qed

lemma ensures_then: "ensures P m (\<lambda>_. Q) R \<Longrightarrow> ensures Q n Q' R \<Longrightarrow> ensures P (w_then m n) Q' R"
  by (simp add: w_then_def ensures_bind)

lemma ensures_catch:
  assumes m: "ensures P m Q R'" and h: "\<And>e. ensures R' (h e) Q R"
  shows "ensures P (w_catch m h) Q R"
  unfolding ensures_def
proof (intro allI impI)
  fix s r s'
  assume p: "P s" and r: "w_catch m h s = Some (r, s')"
  then obtain q t where q: "m s = Some (q, t)" by (auto simp: w_catch_def split: option.splits)
  show "case r of Inr v \<Rightarrow> Q v s' | Inl e \<Rightarrow> R s'"
    using ensuresD [OF m p q] ensuresD [OF h, of t _ r s'] q r by (cases q) (auto simp: w_catch_def)
qed

lemma ensures_if: "(b \<Longrightarrow> ensures P m Q R) \<Longrightarrow> (\<not> b \<Longrightarrow> ensures P n Q R) \<Longrightarrow> ensures P (if b then m else n) Q R"
  by simp

lemma ensures_ret: "(\<And>s. P s \<Longrightarrow> Q v s) \<Longrightarrow> ensures P (w_ret v) Q R"
  by (simp add: ensures_def now_def ret_def)

lemma ensures_raise: "(\<And>s. P s \<Longrightarrow> R s) \<Longrightarrow> ensures P (w_raise e) Q R"
  by (simp add: ensures_def now_def raise_def)

lemma ensures_get: "(\<And>s. P s \<Longrightarrow> Q (f s) s) \<Longrightarrow> ensures P (w_get f) Q R"
  by (simp add: ensures_def now_def get_state_def)

lemma ensures_set: "(\<And>s. P s \<Longrightarrow> Q () (f s)) \<Longrightarrow> ensures P (w_set f) Q R"
  by (simp add: ensures_def now_def update_state_def)

lemma ensures_false: "ensures (\<lambda>_. False) m Q R"
  by (simp add: ensures_def)

section \<open>Invariants\<close>

abbreviation maintains :: "('s \<Rightarrow> bool) \<Rightarrow> ('s, 'a) wact \<Rightarrow> bool" where
  "maintains P m \<equiv> ensures P m (\<lambda>_. P) P"

lemma maintainsD: "maintains P m \<Longrightarrow> P s \<Longrightarrow> m s = Some (r, s') \<Longrightarrow> P s'"
  by (drule ensuresD, assumption, assumption) (simp split: sum.splits)

lemma maintainsI: "(\<And>s r s'. P s \<Longrightarrow> m s = Some (r, s') \<Longrightarrow> P s') \<Longrightarrow> maintains P m"
  by (rule ensuresI) blast+

lemma maintains_now [triples]: "keeps P m \<Longrightarrow> maintains P (now m)"
  by (rule maintainsI) (auto simp: now_def dest: keepsD)

lemma maintains_bind [triples]: "maintains P m \<Longrightarrow> (\<And>v. maintains P (f v)) \<Longrightarrow> maintains P (w_bind m f)"
  by (rule ensures_bind)

lemma maintains_then [triples]: "maintains P m \<Longrightarrow> maintains P n \<Longrightarrow> maintains P (w_then m n)"
  by (rule ensures_then)

lemma maintains_catch [triples]: "maintains P m \<Longrightarrow> (\<And>e. maintains P (h e)) \<Longrightarrow> maintains P (w_catch m h)"
  by (rule ensures_catch)

lemma maintains_if [triples]: "(b \<Longrightarrow> maintains P m) \<Longrightarrow> (\<not> b \<Longrightarrow> maintains P n) \<Longrightarrow> maintains P (if b then m else n)"
  by simp

section \<open>Actions that return\<close>

definition returns :: "('s \<Rightarrow> bool) \<Rightarrow> ('s, 'a) wact \<Rightarrow> bool" where
  "returns P m \<longleftrightarrow> (\<forall>s. P s \<longrightarrow> m s \<noteq> None)"

lemma returnsD: "returns P m \<Longrightarrow> P s \<Longrightarrow> \<exists>r s'. m s = Some (r, s')"
  by (auto simp: returns_def)

lemma returns_now: "returns P (now m)"
  by (simp add: returns_def now_def)

lemma returns_pre: "returns P' m \<Longrightarrow> (\<And>s. P s \<Longrightarrow> P' s) \<Longrightarrow> returns P m"
  by (simp add: returns_def)

lemma returns_bind:
  "returns P m \<Longrightarrow> ensures P m Q (\<lambda>_. True) \<Longrightarrow> (\<And>v. returns (Q v) (f v)) \<Longrightarrow> returns P (w_bind m f)"
  unfolding returns_def w_bind_def ensures_def by (fastforce split: option.splits prod.splits sum.splits)

lemma returns_then:
  "returns P m \<Longrightarrow> ensures P m (\<lambda>_. Q) (\<lambda>_. True) \<Longrightarrow> returns Q n \<Longrightarrow> returns P (w_then m n)"
  by (simp add: w_then_def returns_bind)

lemma returns_catch:
  "returns P m \<Longrightarrow> ensures P m (\<lambda>_ _. True) R \<Longrightarrow> (\<And>e. returns R (h e)) \<Longrightarrow> returns P (w_catch m h)"
  unfolding returns_def w_catch_def ensures_def by (fastforce split: option.splits prod.splits sum.splits)

lemma returns_if: "(b \<Longrightarrow> returns P m) \<Longrightarrow> (\<not> b \<Longrightarrow> returns P n) \<Longrightarrow> returns P (if b then m else n)"
  by simp

end
