(* ===== verification/Channel.thy ===== *)
theory Channel
  imports Prelude
begin

text \<open>
  The threading core: \<open>core::channel\<close> (src/src/core/channel.h), \<open>core::task_queue\<close>
  (src/src/core/task_queue.h) and \<open>util::debugger_session_dispatcher\<close>.

  A channel is a FIFO with a \<open>closed\<close> flag; every operation holds the mutex, so an execution
  of several threads is an interleaving of the atomic operations below.  A blocking
  \<open>pop\<close> is one step whose result is \<open>Pop_Waits\<close> while the wait predicate is false.  The
  contract a client may rely on is the locale \<open>fifo_channel\<close>; its consequence, that
  deliveries are a prefix of the accepted items for any interleaving, is proved once there.
\<close>

section \<open>The channel\<close>

record 'a channel =
  queue :: "'a list"
  closed :: bool

definition new_channel :: "'a channel" where
  "new_channel = \<lparr>queue = [], closed = False\<rparr>"

definition push :: "'a \<Rightarrow> 'a channel \<Rightarrow> bool \<times> 'a channel" where
  "push v c = (if closed c then (False, c) else (True, c\<lparr>queue := queue c @ [v]\<rparr>))"

datatype 'a pop_result = Pop_Waits | Pop_None | Pop_Item 'a

definition pop :: "'a channel \<Rightarrow> 'a pop_result \<times> 'a channel" where
  "pop c = (if closed c \<or> queue c \<noteq> []
            then (case queue c of
                    [] \<Rightarrow> (Pop_None, c)
                  | v # vs \<Rightarrow> (Pop_Item v, c\<lparr>queue := vs\<rparr>))
            else (Pop_Waits, c))"

definition try_pop :: "'a channel \<Rightarrow> 'a option \<times> 'a channel" where
  "try_pop c = (case queue c of
       [] \<Rightarrow> (None, c)
     | v # vs \<Rightarrow> (Some v, c\<lparr>queue := vs\<rparr>))"

definition close :: "'a channel \<Rightarrow> 'a channel" where
  "close c = c\<lparr>closed := True\<rparr>"

definition is_closed :: "'a channel \<Rightarrow> bool" where
  "is_closed c = closed c"

section \<open>The contract of a FIFO channel\<close>

datatype 'a chan_op = Op_Push 'a | Op_Pop | Op_Try_Pop | Op_Close

locale fifo_channel =
  fixes contents :: "'c \<Rightarrow> 'a list"
    and closed_of :: "'c \<Rightarrow> bool"
    and push_op :: "'a \<Rightarrow> 'c \<Rightarrow> bool \<times> 'c"
    and pop_op :: "'c \<Rightarrow> 'a pop_result \<times> 'c"
    and try_pop_op :: "'c \<Rightarrow> 'a option \<times> 'c"
    and close_op :: "'c \<Rightarrow> 'c"
  assumes push_open: "\<not> closed_of c \<Longrightarrow>
        fst (push_op v c) \<and> contents (snd (push_op v c)) = contents c @ [v]
        \<and> closed_of (snd (push_op v c)) = closed_of c"
    and push_closed: "closed_of c \<Longrightarrow> push_op v c = (False, c)"
    and pop_item: "contents c = v # vs \<Longrightarrow>
        fst (pop_op c) = Pop_Item v \<and> contents (snd (pop_op c)) = vs
        \<and> closed_of (snd (pop_op c)) = closed_of c"
    and pop_empty: "contents c = [] \<Longrightarrow> pop_op c = (if closed_of c then Pop_None else Pop_Waits, c)"
    and try_pop_item: "contents c = v # vs \<Longrightarrow>
        fst (try_pop_op c) = Some v \<and> contents (snd (try_pop_op c)) = vs
        \<and> closed_of (snd (try_pop_op c)) = closed_of c"
    and try_pop_empty: "contents c = [] \<Longrightarrow> try_pop_op c = (None, c)"
    and close_op: "contents (close_op c) = contents c \<and> closed_of (close_op c)"
begin

text \<open>One operation: the items it accepts, the items it delivers, and the new channel.\<close>

fun exec :: "'a chan_op \<Rightarrow> 'c \<Rightarrow> 'a list \<times> 'a list \<times> 'c" where
  "exec (Op_Push v) c = (let (ok, c') = push_op v c in (if ok then [v] else [], [], c'))"
| "exec Op_Pop c = (case pop_op c of (Pop_Item v, c') \<Rightarrow> ([], [v], c') | (_, c') \<Rightarrow> ([], [], c'))"
| "exec Op_Try_Pop c = (case try_pop_op c of (Some v, c') \<Rightarrow> ([], [v], c') | (None, c') \<Rightarrow> ([], [], c'))"
| "exec Op_Close c = ([], [], close_op c)"

fun exec_all :: "'a chan_op list \<Rightarrow> 'c \<Rightarrow> 'a list \<times> 'a list \<times> 'c" where
  "exec_all [] c = ([], [], c)"
| "exec_all (p # ps) c =
     (let (a, d, c') = exec p c; (as, ds, c'') = exec_all ps c' in (a @ as, d @ ds, c''))"

lemma exec_balance:
  assumes "exec p c = (a, d, c')"
  shows "contents c @ a = d @ contents c'"
proof (cases p)
  case (Op_Push v)
  then show ?thesis
    using assms push_open [of c v] push_closed [of c v]
    by (cases "closed_of c") (auto split: prod.splits if_splits)
next
  case Op_Pop
  then show ?thesis
    using assms pop_item [of c] pop_empty [of c]
    by (cases "contents c") (auto split: prod.splits pop_result.splits if_splits)
next
  case Op_Try_Pop
  then show ?thesis
    using assms try_pop_item [of c] try_pop_empty [of c]
    by (cases "contents c") (auto split: prod.splits option.splits)
next
  case Op_Close
  then show ?thesis using assms close_op [of c] by auto
qed

lemma exec_closed:
  assumes "closed_of c" and "exec p c = (a, d, c')"
  shows "a = [] \<and> closed_of c'"
proof (cases p)
  case (Op_Push v)
  then show ?thesis using assms push_closed [of c v] by auto
next
  case Op_Pop
  then show ?thesis
    using assms pop_item [of c] pop_empty [of c]
    by (cases "contents c") (auto split: prod.splits pop_result.splits if_splits)
next
  case Op_Try_Pop
  then show ?thesis
    using assms try_pop_item [of c] try_pop_empty [of c]
    by (cases "contents c") (auto split: prod.splits option.splits)
next
  case Op_Close
  then show ?thesis using assms close_op [of c] by auto
qed

lemma exec_all_balance: "exec_all ps c = (as, ds, c') \<Longrightarrow> contents c @ as = ds @ contents c'"
proof (induction ps arbitrary: c as ds)
  case Nil
  then show ?case by simp
next
  case (Cons p ps)
  obtain a d c1 where e: "exec p c = (a, d, c1)" by (metis prod_cases3)
  obtain as' ds' where r: "exec_all ps c1 = (as', ds', c')" and
      eq: "as = a @ as'" "ds = d @ ds'"
    using Cons.prems e by (auto split: prod.splits)
  have "contents c @ as = (contents c @ a) @ as'" by (simp add: eq)
  also have "\<dots> = d @ contents c1 @ as'" using exec_balance [OF e] by simp
  also have "\<dots> = ds @ contents c'" using Cons.IH [OF r] by (simp add: eq)
  finally show ?case .
qed

lemma exec_all_closed: "closed_of c \<Longrightarrow> exec_all ps c = (as, ds, c') \<Longrightarrow> as = [] \<and> closed_of c'"
proof (induction ps arbitrary: c as ds)
  case Nil
  then show ?case by simp
next
  case (Cons p ps)
  obtain a d c1 where e: "exec p c = (a, d, c1)" by (metis prod_cases3)
  then show ?case using Cons exec_closed [OF Cons.prems(1) e] by (fastforce split: prod.splits)
qed

text \<open>A consumer that pops until the channel is drained.\<close>

lemma drain_closed:
  assumes "closed_of c"
  shows "\<exists>c'. exec_all (replicate (length (contents c)) Op_Pop) c = ([], contents c, c')
    \<and> contents c' = [] \<and> closed_of c' \<and> pop_op c' = (Pop_None, c')"
  using assms
proof (induction "contents c" arbitrary: c)
  case Nil
  then show ?case using pop_empty [of c] by simp
next
  case (Cons v vs)
  then have p: "fst (pop_op c) = Pop_Item v" "contents (snd (pop_op c)) = vs" "closed_of (snd (pop_op c))"
    using pop_item [of c v vs] by simp_all
  obtain c1 where c1: "pop_op c = (Pop_Item v, c1)" "contents c1 = vs" "closed_of c1"
    using p by (metis prod.collapse)
  then obtain c' where "exec_all (replicate (length vs) Op_Pop) c1 = ([], vs, c')"
      "contents c' = []" "closed_of c'" "pop_op c' = (Pop_None, c')"
    using Cons.hyps(1) [of c1] by auto
  then show ?case using c1 by (simp add: Cons.hyps(2) [symmetric])
qed

end

interpretation chan: fifo_channel queue closed push pop try_pop close
  by unfold_locales (auto simp: push_def pop_def try_pop_def close_def)

section \<open>The task queue\<close>

text \<open>
  A task is a function on the state the worker owns.  \<open>run\<close> drains the channel: it executes
  the tasks in order and returns when the channel is closed and empty; \<open>None\<close> means that
  the worker is blocked in \<open>pop\<close> with the state reached so far being invisible.
\<close>

type_synonym 's task_queue = "('s \<Rightarrow> 's) channel"

definition post :: "('s \<Rightarrow> 's) \<Rightarrow> 's task_queue \<Rightarrow> bool \<times> 's task_queue" where
  "post work q = push work q"

definition stop :: "'s task_queue \<Rightarrow> 's task_queue" where
  "stop q = close q"

fun run_steps :: "nat \<Rightarrow> 's task_queue \<Rightarrow> 's \<Rightarrow> 's option" where
  "run_steps 0 q s = None"
| "run_steps (Suc n) q s =
     (case pop q of
        (Pop_Waits, _) \<Rightarrow> None
      | (Pop_None, _) \<Rightarrow> Some s
      | (Pop_Item work, q') \<Rightarrow> run_steps n q' (work s))"

definition run :: "'s task_queue \<Rightarrow> 's \<Rightarrow> 's option" where
  "run q s = run_steps (Suc (length (queue q))) q s"

lemma run_steps_closed:
  "closed q \<Longrightarrow> length (queue q) < n \<Longrightarrow> run_steps n q s = Some (fold (\<lambda>work. work) (queue q) s)"
proof (induction n arbitrary: q s)
  case 0
  then show ?case by simp
next
  case (Suc n)
  then show ?case by (cases "queue q") (auto simp: pop_def)
qed

lemma run_steps_open: "\<not> closed q \<Longrightarrow> run_steps n q s = None"
proof (induction n arbitrary: q s)
  case 0
  then show ?case by simp
next
  case (Suc n)
  then show ?case by (cases "queue q") (auto simp: pop_def)
qed

lemma stopped_queue_drains: "run (stop q) s = Some (fold (\<lambda>work. work) (queue q) s)"
  unfolding run_def stop_def
  using run_steps_closed [of "close q" "Suc (length (queue q))" s] by (simp add: close_def del: run_steps.simps)

section \<open>The dispatcher\<close>

text \<open>
  \<open>submit\<close> queues a packaged call; its future is read as a function of the state the worker
  starts from: the tasks queued before it run first, and a call that a stopped queue dropped
  leaves a broken promise.  \<open>invoke\<close> runs a call on the worker thread and blocks for its result.  On the worker thread
  itself the call is made directly and its exception is not wrapped; otherwise every
  exception arrives as a \<open>dispatcher_failure\<close> that keeps the inner message, also the
  \<open>std::future_error\<close> of a task that a stopped queue dropped.
\<close>

definition submit ::
    "('s \<Rightarrow> (exn + 'a) \<times> 's) \<Rightarrow> 's task_queue \<Rightarrow> ('s \<Rightarrow> (exn + 'a) \<times> 's) \<times> 's task_queue" where
  "submit function q =
     (case post (snd \<circ> function) q of (accepted, q') \<Rightarrow>
        (\<lambda>s. if accepted then function (fold (\<lambda>work. work) (queue q) s)
             else (Inl (Runtime_Error ''broken promise''), s), q'))"

definition dispatcher_invoke ::
    "bool \<Rightarrow> 's task_queue \<Rightarrow> ('s \<Rightarrow> (exn + 'a) \<times> 's) \<Rightarrow> 's \<Rightarrow> (exn + 'a) \<times> 's" where
  "dispatcher_invoke on_worker q function s =
     (if on_worker then function s
      else (case fst (submit function q) s of
              (Inl e, s') \<Rightarrow> (Inl (Dispatcher_Failure (what e)), s')
            | (Inr v, s') \<Rightarrow> (Inr v, s')))"

definition unwrap_failure_message :: "exn \<Rightarrow> string \<Rightarrow> string" where
  "unwrap_failure_message e fallback =
     (case e of Dispatcher_Failure inner \<Rightarrow> inner | _ \<Rightarrow> fallback)"

text \<open>
  The worker's thread and the state it co-owns.  \<open>parked\<close> says that its current task does not return
  within the grace period of the destructor: the engine call it is in may never return.  A
  worker that is not parked drains the stopped queue and is joined; a parked one is
  detached and keeps the queue.
\<close>

record 's dispatcher =
  tasks :: "'s task_queue"
  worker_data :: 's
  parked :: bool
  joinable :: bool

datatype worker_fate = No_Worker | Joined | Detached

definition new_dispatcher :: "'s \<Rightarrow> 's dispatcher" where
  "new_dispatcher s = \<lparr>tasks = new_channel, worker_data = s, parked = False, joinable = True\<rparr>"

definition destroy_dispatcher :: "'s dispatcher \<Rightarrow> worker_fate \<times> 's dispatcher" where
  "destroy_dispatcher d =
     (let d = d\<lparr>tasks := stop (tasks d)\<rparr>
      in if \<not> joinable d then (No_Worker, d)
         else case (if parked d then None else run (tasks d) (worker_data d)) of
           Some s \<Rightarrow> (Joined, d\<lparr>worker_data := s, tasks := (tasks d)\<lparr>queue := []\<rparr>, joinable := False\<rparr>)
         | None \<Rightarrow> (Detached, d\<lparr>joinable := False\<rparr>))"

section \<open>Properties\<close>

text \<open>
  C21. For every interleaving of pushes, blocking pops, non-blocking pops and closes on a
  fresh channel, the delivered items followed by the items still queued are exactly the
  accepted items, in the order they were accepted: nothing is lost, duplicated or reordered.
\<close>

theorem channel_fifo:
  assumes "chan.exec_all ps new_channel = (accepted, delivered, c)"
  shows "accepted = delivered @ queue c"
  using chan.exec_all_balance [OF assms] by (simp add: new_channel_def)

theorem channel_fifo_witness:
  "chan.exec_all [Op_Push (1::nat), Op_Push 2, Op_Pop, Op_Close, Op_Push 3] new_channel
     = ([1, 2], [1], \<lparr>queue = [2], closed = True\<rparr>)
   \<and> [1, 2 :: nat] = [1] @ queue \<lparr>queue = [2 :: nat], closed = True\<rparr>"
proof -
  have h: "chan.exec_all [Op_Push (1::nat), Op_Push 2, Op_Pop, Op_Close, Op_Push 3] new_channel
     = ([1, 2], [1], \<lparr>queue = [2], closed = True\<rparr>)"
    by (simp add: new_channel_def push_def pop_def close_def)
  show ?thesis using h channel_fifo [OF h] by simp
qed

text \<open>
  A closed task queue is drained: \<open>run\<close> returns, after executing exactly the queued
  tasks in FIFO order, and on a queue that is not stopped the worker never returns from
  \<open>run\<close> but keeps waiting.
\<close>

theorem task_queue_run_drains:
  "run (stop q) s = Some (fold (\<lambda>work. work) (queue q) s) \<and> (\<not> closed q \<longrightarrow> run q s = None)"
  unfolding run_def stop_def
  using run_steps_closed [of "close q" "Suc (length (queue q))" s] run_steps_open [of q]
  by (auto simp: close_def simp del: run_steps.simps)

theorem task_queue_run_drains_witness:
  "\<not> closed \<lparr>queue = [\<lambda>n. n + 1, \<lambda>n. n * (2::nat)], closed = False\<rparr>
   \<and> run (stop \<lparr>queue = [\<lambda>n. n + 1, \<lambda>n. n * (2::nat)], closed = False\<rparr>) 5 = Some 12
   \<and> run \<lparr>queue = [\<lambda>n. n + 1, \<lambda>n. n * (2::nat)], closed = False\<rparr> 5 = None"
  using task_queue_run_drains [of "\<lparr>queue = [\<lambda>n. n + 1, \<lambda>n. n * (2::nat)], closed = False\<rparr>" 5]
  by simp

text \<open>
  C23. The end of a dispatcher never hangs and loses nothing that can still run: a worker that
  is not parked in the engine is joined after it has executed exactly the queued tasks in
  order; a parked one is detached with its queue intact; either way no later call is
  accepted, and its caller gets a broken promise instead of waiting.
\<close>

theorem dispatcher_shutdown:
  assumes "destroy_dispatcher d = (fate, d')" "joinable d"
  shows "(if parked d then fate = Detached \<and> worker_data d' = worker_data d \<and> queue (tasks d') = queue (tasks d)
          else fate = Joined \<and> worker_data d' = fold (\<lambda>work. work) (queue (tasks d)) (worker_data d) \<and> queue (tasks d') = [])
    \<and> \<not> joinable d' \<and> fst (submit f (tasks d')) s = (Inl (Runtime_Error ''broken promise''), s)"
  using assms stopped_queue_drains [of "tasks d" "worker_data d"]
  by (auto simp: destroy_dispatcher_def Let_def submit_def post_def push_def stop_def close_def split: if_splits)

theorem dispatcher_shutdown_witness:
  "\<exists>d'. destroy_dispatcher ((new_dispatcher 5)\<lparr>tasks := \<lparr>queue = [\<lambda>n. n + 1, \<lambda>n. n * 2], closed = False\<rparr>\<rparr>) = (Joined, d')
     \<and> worker_data d' = (12 :: nat) \<and> queue (tasks d') = []"
proof -
  let ?d = "(new_dispatcher (5 :: nat))\<lparr>tasks := \<lparr>queue = [\<lambda>n. n + 1, \<lambda>n. n * 2], closed = False\<rparr>\<rparr>"
  have j: "joinable ?d" "\<not> parked ?d" by (simp_all add: new_dispatcher_def)
  obtain fate d' where d: "destroy_dispatcher ?d = (fate, d')" by fastforce
  show ?thesis using dispatcher_shutdown [OF d j(1), of "\<lambda>s. (Inr (), s)" 0] d j(2) by (simp add: new_dispatcher_def)
qed



end
