(* ===== verification/Debugger_Text.thy ===== *)
theory Debugger_Text
  imports String_Utils
begin

text \<open>
  The text and value helpers of the debugger layer
  (src/src/debugger/debugger_session_internal.h) and the data types of
  src/src/debugger/debugger_types.h that they and the other theories share: error codes of the
  engine, command lines, value and register formatting, the columns of a disassembly line,
  breakpoint ids in event descriptions and displacements in symbol names.
\<close>

unbundle bit_operations_syntax

section \<open>Data types\<close>

record source_location =
  sl_path :: string
  sl_line :: int

record disassembled_instruction_info =
  di_address :: u64
  di_instruction :: string
  di_bytes :: "string option"
  di_symbol :: "string option"
  di_source :: "source_location option"
  di_is_invalid :: bool

record named_value_info =
  nv_name :: string
  nv_value :: string

record stack_frame_info =
  sf_frame_number :: u32
  sf_instruction_offset :: u64
  sf_name :: "string option"
  sf_source :: "source_location option"

record source_breakpoint_spec =
  spec_line :: int
  spec_condition :: "string option"

record source_breakpoint_result =
  result_id :: "int option"
  result_line :: int
  result_verified :: bool
  result_message :: "string option"

record breakpoint_state =
  bp_id :: int
  bp_resolved :: bool
  bp_offset :: u64

record data_breakpoint_spec =
  data_address :: u64
  data_size :: u32
  data_break_on_read :: bool

record last_exception_info =
  exc_code :: u32
  exc_address :: u64
  exc_first_chance :: bool

text \<open>The engine's \<open>HRESULT\<close>: negative as a signed 32-bit integer is a failure.\<close>

type_synonym hresult = u32

definition hr_failed :: "hresult \<Rightarrow> bool" where
  "hr_failed hr \<longleftrightarrow> sint hr < 0"

definition check_hr :: "hresult \<Rightarrow> string \<Rightarrow> exn option" where
  "check_hr hr m =
     (if hr_failed hr then Some (Runtime_Error (m @ ''. HRESULT=0x'' @ pad_zero 8 (hex_upper (unat hr)))) else None)"

section \<open>Command lines and blank checks\<close>

definition build_command_line :: "string \<Rightarrow> string option \<Rightarrow> string" where
  "build_command_line executable_path arguments =
     (let quoted = (if CHR '' '' \<in> set executable_path then [DQUOTE] @ executable_path @ [DQUOTE]
                    else executable_path)
      in case arguments of
           None \<Rightarrow> quoted
         | Some a \<Rightarrow> if a = [] then quoted else quoted @ '' '' @ a)"

definition throw_if_null_or_whitespace :: "string \<Rightarrow> string \<Rightarrow> exn option" where
  "throw_if_null_or_whitespace value name =
     (if value = [] \<or> list_all isspace value
      then Some (Invalid_Argument (name @ '' must not be null or whitespace.'')) else None)"

definition to_upper_invariant :: "string \<Rightarrow> string" where
  "to_upper_invariant value = map toupper value"

section \<open>Values\<close>

text \<open>\<open>buffer\<close> is the engine's buffer, \<open>used\<close> the number of characters it reports.\<close>

definition buffer_to_trimmed_string :: "string \<Rightarrow> nat \<Rightarrow> string" where
  "buffer_to_trimmed_string buffer used =
     (if used = 0 then []
      else (let len = min used (length buffer);
                len = (if len > 0 \<and> buffer ! (len - 1) = CHR 0x00 then len - 1 else len)
            in if len = 0 then [] else trim_both (take len buffer)))"

definition normalize_value_text :: "string \<Rightarrow> string" where
  "normalize_value_text value =
     (case value of
        z # n # c # rest \<Rightarrow>
          if z \<noteq> CHR ''0'' \<or> (n \<noteq> CHR ''n'' \<and> n \<noteq> CHR ''N'') then value
          else (let digits = (if c = CHR ''+'' \<or> c = CHR ''-'' then rest else c # rest)
                in if digits = [] \<or> \<not> list_all isdigit digits then value else c # rest)
      | _ \<Rightarrow> value)"

definition format_hex_bytes :: "u8 list \<Rightarrow> string" where
  "format_hex_bytes bytes =
     concat (map (\<lambda>b. [dig_lower (unat (drop_bit 4 b)), dig_lower (unat (b AND 0x0F))]) bytes)"

datatype debug_value = Value_Int8 u8 | Value_Int16 "16 word" | Value_Int32 u32 | Value_Int64 u64 | Value_Other u64

fun format_register_value :: "debug_value \<Rightarrow> string" where
  "format_register_value (Value_Int8 v) = pad_zero 2 (hex_lower (unat v))"
| "format_register_value (Value_Int16 v) = pad_zero 4 (hex_lower (unat v))"
| "format_register_value (Value_Int32 v) = pad_zero 8 (hex_lower (unat v))"
| "format_register_value (Value_Int64 v) = pad_zero 16 (hex_lower (unat v))"
| "format_register_value (Value_Other v) = pad_zero 16 (hex_lower (unat v))"

section \<open>Disassembly lines\<close>

definition blank_or_tab :: "char \<Rightarrow> bool" where
  "blank_or_tab c = (c = CHR '' '' \<or> c = TAB)"

definition skip_spaces :: "string \<Rightarrow> string" where
  "skip_spaces s = dropWhile blank_or_tab s"

definition skip_token :: "string \<Rightarrow> string" where
  "skip_token s = dropWhile (\<lambda>c. \<not> blank_or_tab c) s"

definition extract_instruction_text :: "string \<Rightarrow> string" where
  "extract_instruction_text line =
     (let s = drop_end (\<lambda>c. c = LF \<or> c = CR \<or> blank_or_tab c) line;
          s = rev (takeWhile (\<lambda>c. c \<noteq> LF) (rev s));
          rest = skip_spaces (skip_token (skip_spaces (skip_token (skip_spaces s))))
      in drop_end blank_or_tab rest)"

section \<open>Breakpoint ids and displacements\<close>

text \<open>\<open>std::string::find\<close> and \<open>rfind\<close>: the first and the last index of a match.\<close>

definition starts_with :: "string \<Rightarrow> string \<Rightarrow> bool" where
  "starts_with p s = (take (length p) s = p)"

fun find_sub :: "string \<Rightarrow> string \<Rightarrow> nat option" where
  "find_sub p [] = (if p = [] then Some 0 else None)"
| "find_sub p (c # s) = (if starts_with p (c # s) then Some 0 else map_option Suc (find_sub p s))"

fun rfind_sub :: "string \<Rightarrow> string \<Rightarrow> nat option" where
  "rfind_sub p [] = (if p = [] then Some 0 else None)"
| "rfind_sub p (c # s) =
     (case rfind_sub p s of
        Some i \<Rightarrow> Some (Suc i)
      | None \<Rightarrow> if starts_with p (c # s) then Some 0 else None)"

definition try_parse_breakpoint_id_after_token :: "string \<Rightarrow> string \<Rightarrow> u32 option" where
  "try_parse_breakpoint_id_after_token description token =
     (case find_sub (to_upper_invariant token) (to_upper_invariant description) of
        None \<Rightarrow> None
      | Some token_index \<Rightarrow>
          (let digits = takeWhile isdigit (dropWhile isspace (drop (token_index + length token) description))
           in if digits = [] then None
              else (case stoul digits of Inr (parsed, _) \<Rightarrow> Some parsed | Inl e \<Rightarrow> None)))"

definition try_parse_breakpoint_id :: "string \<Rightarrow> u32 option" where
  "try_parse_breakpoint_id description =
     (if trim_both description = [] then None
      else (case try_parse_breakpoint_id_after_token description ''breakpoint'' of
              Some i \<Rightarrow> Some i
            | None \<Rightarrow> try_parse_breakpoint_id_after_token description ''bp''))"

definition try_get_inline_symbol_displacement :: "string \<Rightarrow> u64 option" where
  "try_get_inline_symbol_displacement name =
     (case rfind_sub ''+0X'' (to_upper_invariant name) of
        None \<Rightarrow> None
      | Some sep \<Rightarrow>
          (let digits = drop (sep + 3) name
           in if digits = [] then None
              else (case stoull 16 digits of
                      Inr (value, consumed) \<Rightarrow> if consumed \<noteq> length digits then None else Some value
                    | Inl e \<Rightarrow> None)))"

section \<open>Lemmas\<close>

lemma rfind_no_plus: "CHR ''+'' \<notin> set s \<Longrightarrow> rfind_sub (CHR ''+'' # p) s = None"
  by (induction s) (auto simp: starts_with_def)

lemma rfind_last:
  assumes "CHR ''+'' \<notin> set b"
  shows "rfind_sub ''+0X'' (a @ ''+0X'' @ b) = Some (length a)"
proof (induction a)
  case Nil
  have "CHR ''+'' \<notin> set (''0X'' @ b)" using assms by simp
  from rfind_no_plus [OF this, of "''0X''"] show ?case by (simp add: starts_with_def)
next
  case (Cons c a)
  then show ?case by simp
qed

lemma toupper_plus: "toupper c = CHR ''+'' \<longleftrightarrow> c = CHR ''+''"
proof (cases "toupper c = c")
  case False
  then have c: "97 \<le> (of_char c :: nat)" "(of_char c :: nat) \<le> 122" "toupper c = char_of (of_char c - (32 :: nat))"
    by (auto simp: toupper_def split: if_splits)
  then have "(of_char (toupper c) :: nat) = of_char c - 32" by simp
  moreover have "(of_char (CHR ''+'') :: nat) = 43" by simp
  ultimately have "toupper c \<noteq> CHR ''+''" proof -
    assume a: "(of_char (toupper c) :: nat) = of_char c - 32" "(of_char (CHR ''+'') :: nat) = 43"
    show "toupper c \<noteq> CHR ''+''"
    proof
      assume "toupper c = CHR ''+''"
      then have "(of_char c :: nat) - 32 = 43" using a by metis
      then show False using c(1) by linarith
    qed
  qed
  moreover have "c \<noteq> CHR ''+''" using c(1) by auto
  ultimately show ?thesis by simp
qed simp

lemma toupper_digits: "toupper (CHR ''+'') = CHR ''+''" "toupper (CHR ''0'') = CHR ''0''" "toupper (CHR ''x'') = CHR ''X''"
  by code_simp+

lemma digit_of_not_plus: "is_digit_of 16 c \<Longrightarrow> c \<noteq> CHR ''+''"
  using digit_of_not_sign [of 16 c] by simp

lemma isdigit_dec: "c \<in> set (dec n) \<Longrightarrow> isdigit c"
  using dec_digits [of c n] by (auto simp: is_digit_of_def digit_val_def isdigit_def Let_def split: if_splits)

text \<open>Reading a text of hexadecimal digit pairs back.\<close>

fun hex_pairs :: "string \<Rightarrow> u8 list" where
  "hex_pairs (a # b # s) = of_nat (16 * digit_val a + digit_val b) # hex_pairs s"
| "hex_pairs _ = []"

lemma nibbles: "(of_nat (16 * unat (drop_bit 4 b) + unat (b AND 0x0F)) :: u8) = b" (is "?l = b")
proof -
  have d: "unat (drop_bit 4 b) = unat b div 16" by (simp add: drop_bit_eq_div unat_div_distrib)
  have "b AND 0x0F = take_bit 4 b" by (simp add: take_bit_eq_mask mask_eq_exp_minus_1)
  then have "unat (b AND 0x0F) = unat b mod 16" by (simp add: take_bit_eq_mod unat_mod_distrib)
  then show ?thesis using d by simp
qed

lemmas nibbles_word = nibbles [simplified]

lemma nibble_bounds: "unat (drop_bit 4 (b::u8)) < 16" "unat (b AND 0x0F) < 16"
proof -
  show "unat (drop_bit 4 (b::u8)) < 16"
    using unat_u8_bound [of b] by (simp add: drop_bit_eq_div unat_div_distrib)
  have "b AND 0x0F = take_bit 4 b" by (simp add: take_bit_eq_mask mask_eq_exp_minus_1)
  then show "unat (b AND 0x0F) < 16" by (simp add: take_bit_eq_mod unat_mod_distrib)
qed

lemma normalize_plain: "\<not> (s \<noteq> [] \<and> tl s \<noteq> [] \<and> hd (tl s) \<in> {CHR ''n'', CHR ''N''}) \<Longrightarrow> normalize_value_text s = s"
  by (auto simp: normalize_value_text_def split: list.splits)

lemma normalize_cases:
  "normalize_value_text s = s \<or> (\<exists>z n. s = z # n # normalize_value_text s
     \<and> (list_all isdigit (normalize_value_text s) \<or> list_all isdigit (tl (normalize_value_text s))))"
  by (auto simp: normalize_value_text_def Let_def split: list.splits if_splits)

lemma isdigit_not_n: "isdigit c \<Longrightarrow> c \<noteq> CHR ''n'' \<and> c \<noteq> CHR ''N''"
  by (auto simp: isdigit_def)

lemma normalize_idem: "normalize_value_text (normalize_value_text s) = normalize_value_text s"
proof -
  let ?t = "normalize_value_text s"
  have "list_all isdigit ?t \<or> list_all isdigit (tl ?t) \<Longrightarrow> normalize_value_text ?t = ?t"
    by (rule normalize_plain) (cases ?t; cases "tl ?t"; auto dest: isdigit_not_n)
  then show ?thesis using normalize_cases [of s] by metis
qed

lemma normalize_signed: "normalize_value_text (''0n'' @ dec_int i) = dec_int i"
proof -
  have all: "list_all isdigit (dec n)" for n using isdigit_dec by (auto simp: list_all_iff)
  obtain c r where d: "dec (nat i) = c # r" by (cases "dec (nat i)") auto
  have "isdigit c" using all [of "nat i"] d by simp
  then have "c \<noteq> CHR ''+'' \<and> c \<noteq> CHR ''-''" by (auto simp: isdigit_def)
  then show ?thesis
    using all [of "nat i"] all [of "nat (- i)"] d
    by (cases "i < 0") (simp_all add: normalize_value_text_def dec_int_def)
qed

section \<open>Properties\<close>

text \<open>
  The displacement printed at the end of a symbol name is read back exactly, for every
  name before it, also one with displacements of its own.
\<close>

theorem displacement_round_trip:
  "try_get_inline_symbol_displacement (name @ ''+0x'' @ hex_lower (unat d)) = Some d"
proof -
  let ?h = "hex_lower (unat d)"
  have "CHR ''+'' \<notin> set (to_upper_invariant ?h)"
  proof
    assume "CHR ''+'' \<in> set (to_upper_invariant ?h)"
    then obtain c where c: "c \<in> set ?h" "toupper c = CHR ''+''" by (metis (no_types) imageE list.set_map to_upper_invariant_def)
    then show False using toupper_plus [of c] digit_of_not_plus [OF hex_lower_digits [OF c(1)]] by simp
  qed
  from rfind_last [OF this, of "to_upper_invariant name"]
  have "rfind_sub ''+0X'' (to_upper_invariant (name @ ''+0x'' @ ?h)) = Some (length name)"
    by (simp add: to_upper_invariant_def toupper_digits)
  then show ?thesis
    using stoull_hex_lower [of d] by (simp add: try_get_inline_symbol_displacement_def)
qed

text \<open>
  Decimal values lose exactly the \<open>0n\<close> prefix, with any sign, and normalizing a text again
  changes nothing.
\<close>

theorem normalize_value_text_decimal:
  "normalize_value_text (''0n'' @ dec_int i) = dec_int i
    \<and> normalize_value_text (normalize_value_text s) = normalize_value_text s"
  using normalize_signed [of i] normalize_idem [of s] by simp

text \<open>
  The text of raw instruction bytes has two lower-case hexadecimal digits per byte and
  determines the bytes.
\<close>

theorem format_hex_bytes_round_trip:
  "hex_pairs (format_hex_bytes bytes) = bytes \<and> length (format_hex_bytes bytes) = 2 * length bytes"
  by (induction bytes) (simp_all add: format_hex_bytes_def nibbles_word nibble_bounds)

end
