(* ===== verification/Disassembly.thy ===== *)
theory Disassembly
  imports Debugger_Text
begin

text \<open>
  Disassembly, symbol names and memory of a stopped target
  (src/src/debugger/debugger_session_memory.cpp and the frame-name part of
  src/src/debugger/debugger_session_inspection.cpp).  The engine's queries on the stopped
  target are the parameter \<open>target_view\<close>; counts and offsets are C++ \<open>int\<close>s, written as
  integers: their negation and sum are computed exactly, the source has undefined behaviour
  where they leave the 32-bit range.
\<close>

section \<open>The engine's view of a stopped target\<close>

text \<open>Each query gives \<open>None\<close> when the engine call fails; a string comes with the size reported.\<close>

record target_view =
  tv_name_by_offset :: "u64 \<Rightarrow> (string \<times> nat \<times> u64) option"
  tv_line_by_offset :: "u64 \<Rightarrow> (nat \<times> string \<times> nat) option"
  tv_disassemble :: "u64 \<Rightarrow> (string \<times> u64) option"
  tv_read_virtual :: "u64 \<Rightarrow> nat \<Rightarrow> u8 list option"

text \<open>The characters of an engine buffer without the terminating NUL.\<close>

definition engine_text :: "string \<Rightarrow> nat \<Rightarrow> string" where
  "engine_text buffer used =
     (let len = min used (length buffer)
      in take (if len > 0 \<and> buffer ! (len - 1) = CHR 0x00 then len - 1 else len) buffer)"

definition try_get_frame_name :: "target_view \<Rightarrow> u64 \<Rightarrow> string option" where
  "try_get_frame_name tv offset =
     (case tv_name_by_offset tv offset of
        None \<Rightarrow> None
      | Some (buffer, name_size, displacement) \<Rightarrow>
          if name_size = 0 then None
          else (let name = trim_both (engine_text buffer name_size)
                in if name = [] then None
                   else Some (if displacement = 0 then name
                              else name @ ''+0x'' @ hex_upper (unat displacement))))"

definition try_get_symbol_start :: "target_view \<Rightarrow> u64 \<Rightarrow> u64 option" where
  "try_get_symbol_start tv offset =
     (case tv_name_by_offset tv offset of
        None \<Rightarrow> None
      | Some (buffer, name_size, displacement) \<Rightarrow>
          if name_size = 0 then None
          else (let name = trim_both (engine_text buffer name_size)
                in if name = [] then None
                   else (let effective =
                             (if displacement = 0
                              then (case try_get_inline_symbol_displacement name of None \<Rightarrow> 0 | Some d \<Rightarrow> d)
                              else displacement)
                         in if effective > offset then None else Some (offset - effective))))"

definition try_get_frame_source :: "target_view \<Rightarrow> u64 \<Rightarrow> source_location option" where
  "try_get_frame_source tv offset =
     (case tv_line_by_offset tv offset of
        None \<Rightarrow> None
      | Some (line, buffer, file_size) \<Rightarrow>
          if line = 0 \<or> file_size = 0 then None
          else (let p = engine_text buffer file_size
                in if p = [] \<or> trim_both p = [] then None
                   else Some \<lparr>sl_path = p, sl_line = wrap_int32 (int line)\<rparr>))"

section \<open>Disassembly\<close>

definition disassemble_one :: "target_view \<Rightarrow> bool \<Rightarrow> u64 \<Rightarrow> (disassembled_instruction_info \<times> u64) option" where
  "disassemble_one tv resolve_symbols address =
     (case tv_disassemble tv address of
        None \<Rightarrow> None
      | Some (line, next) \<Rightarrow>
          if next \<le> address then None
          else (let len = unat (next - address);
                    bytes = (if len > 0 \<and> len \<le> 16
                             then (case tv_read_virtual tv address len of
                                     Some bs \<Rightarrow> if length bs > 0 then Some (format_hex_bytes bs) else None
                                   | None \<Rightarrow> None)
                             else None)
                in Some (\<lparr>di_address = address, di_instruction = extract_instruction_text line, di_bytes = bytes,
                          di_symbol = (if resolve_symbols then try_get_frame_name tv address else None),
                          di_source = None, di_is_invalid = False\<rparr>, next)))"

fun range_loop :: "target_view \<Rightarrow> bool \<Rightarrow> nat \<Rightarrow> u64 \<Rightarrow> disassembled_instruction_info list" where
  "range_loop tv rs 0 address = []"
| "range_loop tv rs (Suc n) address =
     (case disassemble_one tv rs address of
        None \<Rightarrow> []
      | Some (info, next) \<Rightarrow> info # range_loop tv rs n next)"

definition disassemble_range :: "target_view \<Rightarrow> bool \<Rightarrow> u64 \<Rightarrow> int \<Rightarrow> disassembled_instruction_info list" where
  "disassemble_range tv rs start_address count =
     (if count \<le> 0 then [] else range_loop tv rs (nat count) start_address)"

lemma disassemble_one_next: "disassemble_one tv rs a = Some (i, next) \<Longrightarrow> a < next \<and> di_address i = a"
  by (auto simp: disassemble_one_def Let_def split: option.splits if_splits)

text \<open>
  The inner loop of the backward scan: decode from \<open>address\<close> up to \<open>end_address\<close>; \<open>Some\<close> when an
  instruction ends exactly there.
\<close>

function decode_up_to ::
    "target_view \<Rightarrow> bool \<Rightarrow> u64 \<Rightarrow> u64 \<Rightarrow> disassembled_instruction_info list \<Rightarrow> disassembled_instruction_info list option" where
  "decode_up_to tv rs end_address address decoded =
     (if address < end_address
      then (case disassemble_one tv rs address of
              None \<Rightarrow> None
            | Some (info, next) \<Rightarrow>
                if next = end_address then Some (decoded @ [info])
                else if next \<le> address \<or> next > end_address then None
                else decode_up_to tv rs end_address next (decoded @ [info]))
      else None)"
  by pat_completeness auto
termination
  by (relation "measure (\<lambda>(tv, rs, e, a, d). unat e - unat a)")
    (auto simp: word_less_nat_alt word_le_nat_alt dest!: disassemble_one_next)

declare decode_up_to.simps [simp del]

text \<open>The scan over the start addresses, \<open>n\<close> of which are left before \<open>end_address\<close>.\<close>

fun probe_loop :: "target_view \<Rightarrow> bool \<Rightarrow> u64 \<Rightarrow> nat \<Rightarrow> disassembled_instruction_info list option" where
  "probe_loop tv rs end_address 0 = None"
| "probe_loop tv rs end_address (Suc n) =
     (case decode_up_to tv rs end_address (end_address - of_nat (Suc n)) [] of
        Some decoded \<Rightarrow> Some decoded
      | None \<Rightarrow> probe_loop tv rs end_address n)"

definition kMaxInstructionBytes :: nat where
  "kMaxInstructionBytes = 15"

definition disassemble_backward :: "target_view \<Rightarrow> bool \<Rightarrow> u64 \<Rightarrow> int \<Rightarrow> disassembled_instruction_info list" where
  "disassemble_backward tv rs end_address count =
     (if count \<le> 0 \<or> end_address = 0 then []
      else (let window = min (unat end_address) (kMaxInstructionBytes * (nat count + 1) + kMaxInstructionBytes)
            in case probe_loop tv rs end_address window of
                 None \<Rightarrow> []
               | Some decoded \<Rightarrow> take_last (nat count) decoded))"

definition invalid_instruction :: "u64 \<Rightarrow> disassembled_instruction_info" where
  "invalid_instruction address =
     \<lparr>di_address = address, di_instruction = ''<invalid instruction>'', di_bytes = None, di_symbol = None,
      di_source = None, di_is_invalid = True\<rparr>"

definition create_invalid_leading_instructions :: "u64 \<Rightarrow> nat \<Rightarrow> disassembled_instruction_info list" where
  "create_invalid_leading_instructions memory_address count =
     (let start_address = (if memory_address \<ge> of_nat count then memory_address - of_nat count else 0)
      in map (\<lambda>index. invalid_instruction (start_address + of_nat index)) [0..<count])"

definition previous_instructions ::
    "target_view \<Rightarrow> bool \<Rightarrow> u64 \<Rightarrow> nat \<Rightarrow> nat \<Rightarrow> disassembled_instruction_info list" where
  "previous_instructions tv rs memory_address previous_count instruction_count =
     (case try_get_symbol_start tv memory_address of
        Some symbol_start \<Rightarrow>
          if symbol_start \<le> memory_address
          then (let requested = min (of_int int_max) ((memory_address - symbol_start) + of_nat instruction_count)
                in take_last previous_count
                     (filter (\<lambda>i. di_address i < memory_address)
                       (disassemble_range tv rs symbol_start (uint requested))))
          else disassemble_backward tv rs memory_address (int previous_count)
      | None \<Rightarrow> disassemble_backward tv rs memory_address (int previous_count))"

definition gather_instructions ::
    "target_view \<Rightarrow> bool \<Rightarrow> u64 \<Rightarrow> int \<Rightarrow> nat \<Rightarrow> disassembled_instruction_info list" where
  "gather_instructions tv rs memory_address instruction_offset count =
     (if instruction_offset < 0
      then (let previous_count = min (nat (- instruction_offset)) count;
                previous = previous_instructions tv rs memory_address previous_count count;
                missing = previous_count - length previous;
                first_available = (if previous \<noteq> [] then di_address (hd previous) else memory_address);
                instructions = create_invalid_leading_instructions first_available missing @ previous;
                remaining = int count - int (length instructions)
            in instructions @ (if remaining > 0 then disassemble_range tv rs memory_address remaining else []))
      else (let forward = disassemble_range tv rs memory_address (instruction_offset + int count)
            in if instruction_offset > 0 \<and> int (length forward) > instruction_offset
               then drop (nat instruction_offset) forward
               else if instruction_offset > 0 then [] else forward))"

definition disassemble ::
    "target_view \<Rightarrow> bool \<Rightarrow> u64 \<Rightarrow> int \<Rightarrow> int \<Rightarrow> bool \<Rightarrow> exn + disassembled_instruction_info list" where
  "disassemble tv disposed memory_address instruction_offset instruction_count resolve_symbols =
     (if disposed then Inl (Runtime_Error ''debugger_session has been disposed.'')
      else if instruction_count < 0 then Inl (Out_Of_Range ''instructionCount'')
      else if instruction_count = 0 then Inr []
      else (let count = nat instruction_count;
                instructions = take count (distinct_by di_address []
                  (gather_instructions tv resolve_symbols memory_address instruction_offset count));
                next_address = (if instructions \<noteq> [] then di_address (last instructions) + 1 else memory_address)
            in Inr (instructions @ map (\<lambda>i. invalid_instruction (next_address + of_nat i))
                                       [0..<count - length instructions])))"

section \<open>Memory\<close>

definition read_memory :: "target_view \<Rightarrow> bool \<Rightarrow> u64 \<Rightarrow> u32 \<Rightarrow> exn + u8 list" where
  "read_memory tv disposed address count =
     (if disposed then Inl (Runtime_Error ''debugger_session has been disposed.'')
      else if count = 0 then Inr []
      else (case tv_read_virtual tv address (unat count) of None \<Rightarrow> Inr [] | Some bytes \<Rightarrow> Inr bytes))"

section \<open>Decoding chains\<close>

text \<open>The instructions decoded one after the other from one address to another.\<close>

inductive decodes :: "target_view \<Rightarrow> bool \<Rightarrow> u64 \<Rightarrow> disassembled_instruction_info list \<Rightarrow> u64 \<Rightarrow> bool" for tv rs where
  decodes_none: "decodes tv rs a [] a"
| decodes_one: "disassemble_one tv rs a = Some (i, next) \<Longrightarrow> decodes tv rs next is e \<Longrightarrow> decodes tv rs a (i # is) e"

inductive_simps decodes_Nil [simp]: "decodes tv rs a [] e"
inductive_simps decodes_Cons: "decodes tv rs a (i # is) e"

abbreviation ascending :: "disassembled_instruction_info list \<Rightarrow> bool" where
  "ascending is \<equiv> sorted_wrt (<) (map di_address is)"

lemma decodes_append: "decodes tv rs a (is @ js) e \<longleftrightarrow> (\<exists>m. decodes tv rs a is m \<and> decodes tv rs m js e)"
  by (induction "is" arbitrary: a) (auto simp: decodes_Cons)

lemma decodes_ascending:
  "decodes tv rs a is e \<Longrightarrow> ascending is \<and> (\<forall>i \<in> set is. a \<le> di_address i \<and> di_address i < e) \<and> a \<le> e"
  by (induction rule: decodes.induct) (auto dest!: disassemble_one_next)

lemma range_loop_decodes:
  "\<exists>e. decodes tv rs a (range_loop tv rs n a) e \<and> length (range_loop tv rs n a) \<le> n
     \<and> (length (range_loop tv rs n a) < n \<longrightarrow> disassemble_one tv rs e = None)"
proof (induction n arbitrary: a)
  case 0
  then show ?case by auto
next
  case (Suc n)
  show ?case
  proof (cases "disassemble_one tv rs a")
    case None
    then show ?thesis by auto
  next
    case (Some p)
    then obtain i b where p: "disassemble_one tv rs a = Some (i, b)" by (cases p) auto
    obtain e where "decodes tv rs b (range_loop tv rs n b) e" "length (range_loop tv rs n b) \<le> n"
        "length (range_loop tv rs n b) < n \<longrightarrow> disassemble_one tv rs e = None"
      using Suc.IH [of b] by blast
    then show ?thesis using p by (intro exI [of _ e]) (auto intro: decodes_one)
  qed
qed

lemma decode_up_to_decodes:
  "decode_up_to tv rs e a d = Some is \<Longrightarrow> decodes tv rs p d a \<Longrightarrow> decodes tv rs p is e"
proof (induction tv rs e a d rule: decode_up_to.induct)
  case (1 tv rs e a d)
  from "1.prems"(1) obtain i b where i: "a < e" "disassemble_one tv rs a = Some (i, b)"
    by (auto simp: decode_up_to.simps [of tv rs e a d] split: if_splits option.splits)
  have d: "decodes tv rs p (d @ [i]) b"
    using "1.prems"(2) i(2) by (auto simp: decodes_append decodes_Cons)
  show ?case
  proof (cases "b = e")
    case True
    then show ?thesis using i d "1.prems"(1) by (simp add: decode_up_to.simps [of tv rs e a d])
  next
    case False
    then have "\<not> (b \<le> a \<or> b > e)" "decode_up_to tv rs e b (d @ [i]) = Some is"
      using i "1.prems"(1) by (auto simp: decode_up_to.simps [of tv rs e a d] split: if_splits)
    then show ?thesis using "1.IH" [OF i refl] False d by blast
  qed
qed

lemma probe_loop_decodes:
  assumes "probe_loop tv rs e n = Some is" "n \<le> unat e"
  shows "\<exists>a. decodes tv rs a is e \<and> unat e - n \<le> unat a"
  using assms
proof (induction n)
  case 0
  then show ?case by simp
next
  case (Suc n)
  let ?a = "e - of_nat (Suc n)"
  have a: "unat ?a = unat e - Suc n"
    using Suc.prems(2) unat_u64_bound [of e]
    by (subst unat_sub) (auto simp: word_le_nat_alt unat_of_nat simp del: of_nat_Suc)
  show ?case
  proof (cases "decode_up_to tv rs e ?a []")
    case None
    then show ?thesis using Suc by (fastforce simp del: of_nat_Suc)
  next
    case (Some js)
    then have "decodes tv rs ?a js e" by (rule decode_up_to_decodes) simp
    then show ?thesis using Some Suc.prems a by (intro exI [of _ ?a]) (simp del: of_nat_Suc)
  qed
qed

lemma decodes_suffix: "decodes tv rs a is e \<Longrightarrow> \<exists>b. decodes tv rs b (take_last n is) e"
proof -
  assume "decodes tv rs a is e"
  then have "decodes tv rs a (take (length is - n) is @ drop (length is - n) is) e" by (simp only: append_take_drop_id)
  then show ?thesis unfolding decodes_append take_last_def by blast
qed

lemma set_take_last: "set (take_last n xs) \<subseteq> set xs"
  by (simp add: take_last_def set_drop_subset)

lemma in_take_last: "x \<in> set (take_last n xs) \<Longrightarrow> x \<in> set xs"
  by (rule subsetD [OF set_take_last])

lemma ascending_take_last: "ascending is \<Longrightarrow> ascending (take_last n is)"
  by (metis drop_map sorted_wrt_drop take_last_def)

lemma backward_bounds:
  assumes "i \<in> set (disassemble_backward tv rs e (int k))"
  shows "di_address i < e \<and> unat e - (15 * k + 30) \<le> unat (di_address i)"
proof -
  let ?w = "min (unat e) (kMaxInstructionBytes * (k + 1) + kMaxInstructionBytes)"
  obtain ds where ds: "probe_loop tv rs e ?w = Some ds" "i \<in> set ds"
    using assms
    by (cases "probe_loop tv rs e ?w") (auto simp: disassemble_backward_def Let_def split: if_splits dest: in_take_last)
  obtain a where "decodes tv rs a ds e" "unat e - ?w \<le> unat a" using probe_loop_decodes [OF ds(1)] by auto
  then show ?thesis
    using decodes_ascending [of tv rs a ds e] ds(2) by (auto simp: word_le_nat_alt kMaxInstructionBytes_def)
qed

lemma backward_ascending: "ascending (disassemble_backward tv rs e n)"
proof -
  have "ascending ds" if "probe_loop tv rs e w = Some ds" "w \<le> unat e" for w ds
    using probe_loop_decodes [OF that] decodes_ascending by blast
  then show ?thesis
    by (auto simp: disassemble_backward_def Let_def intro!: ascending_take_last split: option.splits)
qed

lemma backward_length: "length (disassemble_backward tv rs e (int k)) \<le> k"
  by (auto simp: disassemble_backward_def Let_def split: option.splits)

lemma range_ascending:
  "ascending (disassemble_range tv rs a n) \<and> (\<forall>i \<in> set (disassemble_range tv rs a n). a \<le> di_address i)"
proof -
  obtain e where "decodes tv rs a (range_loop tv rs (nat n) a) e" using range_loop_decodes [of tv rs a "nat n"] by blast
  from decodes_ascending [OF this] show ?thesis by (simp add: disassemble_range_def)
qed

lemma previous_ascending:
  "ascending (previous_instructions tv rs m k c) \<and> length (previous_instructions tv rs m k c) \<le> k
   \<and> (\<forall>i \<in> set (previous_instructions tv rs m k c). di_address i < m)"
proof (cases "\<exists>s. try_get_symbol_start tv m = Some s \<and> s \<le> m")
  case True
  then obtain s where s: "try_get_symbol_start tv m = Some s" "s \<le> m" by blast
  have "ascending (filter P (disassemble_range tv rs s n))" for P n
    using range_ascending [of tv rs s n] by (simp add: sorted_wrt_filter sorted_wrt_map)
  then show ?thesis
    using s ascending_take_last set_take_last
    by (fastforce simp: previous_instructions_def Let_def)
next
  case False
  then have "previous_instructions tv rs m k c = disassemble_backward tv rs m (int k)"
    by (auto simp: previous_instructions_def split: option.splits)
  then show ?thesis
    using backward_ascending [of tv rs m "int k"] backward_length [of tv rs m k] backward_bounds [of _ tv rs m k]
    by auto
qed

text \<open>Every previous instruction is above the placeholders that may have to precede it.\<close>

lemma previous_high:
  assumes "16 * k + 30 \<le> unat m" "\<And>s. try_get_symbol_start tv m = Some s \<Longrightarrow> k \<le> unat s"
    and "i \<in> set (previous_instructions tv rs m k c)"
  shows "k \<le> unat (di_address i)"
proof (cases "\<exists>s. try_get_symbol_start tv m = Some s \<and> s \<le> m")
  case True
  then obtain s where s: "try_get_symbol_start tv m = Some s" "s \<le> m" by blast
  then have "\<exists>n. i \<in> set (disassemble_range tv rs s n)"
    using assms(3) set_take_last by (fastforce simp: previous_instructions_def Let_def)
  then have "s \<le> di_address i" using range_ascending by blast
  then show ?thesis using assms(2) [OF s(1)] by (simp add: word_le_nat_alt)
next
  case False
  then have "i \<in> set (disassemble_backward tv rs m (int k))"
    using assms(3) by (auto simp: previous_instructions_def split: option.splits)
  then show ?thesis using backward_bounds [of i tv rs m k] assms(1) by linarith
qed

lemma leading_ascending:
  assumes "n \<le> unat m"
  shows "ascending (create_invalid_leading_instructions m n)
    \<and> length (create_invalid_leading_instructions m n) = n
    \<and> (\<forall>i \<in> set (create_invalid_leading_instructions m n). di_address i < m)"
proof -
  have n: "unat (of_nat n :: u64) = n" using assms unat_u64_bound [of m] by (simp add: unat_of_nat)
  then have le: "(of_nat n :: u64) \<le> m" using assms by (simp add: word_le_nat_alt)
  let ?a = "\<lambda>i. m - of_nat n + (of_nat i :: u64)"
  have a: "unat (?a i) = unat m - n + i" if "i < n" for i
  proof -
    have "unat (m - of_nat n) = unat m - n" using le n by (simp add: unat_sub)
    moreover have "unat (of_nat i :: u64) = i" using that assms unat_u64_bound [of m] by (simp add: unat_of_nat)
    ultimately show ?thesis using that assms unat_u64_bound [of m] by (subst unat_add_lem [THEN iffD1]) auto
  qed
  have "sorted_wrt (<) (map ?a [0..<n])"
    by (auto simp: sorted_wrt_iff_nth_less word_less_nat_alt a)
  moreover have "i < n \<Longrightarrow> ?a i < m" for i using a [of i] assms by (simp add: word_less_nat_alt)
  ultimately show ?thesis
    using le by (auto simp: create_invalid_leading_instructions_def invalid_instruction_def comp_def)
qed

lemma ascending_distinct: "ascending is \<Longrightarrow> distinct (map di_address is)"
  by (simp add: strict_sorted_iff)

lemma ascending_append:
  "ascending is \<Longrightarrow> ascending js \<Longrightarrow> \<forall>i \<in> set is. di_address i < m \<Longrightarrow> \<forall>j \<in> set js. m \<le> di_address j \<Longrightarrow>
   ascending (is @ js)"
  by (auto simp: sorted_wrt_append intro: order_less_le_trans)

lemma disassemble_prefix:
  assumes "\<not> disposed" "0 < instruction_count"
    and xs_def: "xs = take (nat instruction_count) (distinct_by di_address []
      (gather_instructions tv rs m instruction_offset (nat instruction_count)))"
  shows "\<exists>pad. disassemble tv disposed m instruction_offset instruction_count rs = Inr (xs @ pad)
    \<and> length (xs @ pad) = nat instruction_count \<and> list_all di_is_invalid pad"
proof -
  let ?next = "if xs \<noteq> [] then di_address (last xs) + 1 else m"
  let ?pad = "map (\<lambda>i. invalid_instruction (?next + of_nat i)) [0..<nat instruction_count - length xs]"
  have "disassemble tv disposed m instruction_offset instruction_count rs = Inr (xs @ ?pad)"
    using assms(1,2) unfolding disassemble_def Let_def xs_def by (simp only: if_False) simp
  moreover have "length xs \<le> nat instruction_count" unfolding xs_def by simp
  moreover have "list_all di_is_invalid ?pad" by (simp add: list_all_iff invalid_instruction_def)
  ultimately show ?thesis by (intro exI [of _ ?pad]) simp
qed

section \<open>Properties\<close>


text \<open>A target whose memory is all one-byte instructions without symbols, for the witnesses.\<close>

definition nop_view :: target_view where
  "nop_view = \<lparr>tv_name_by_offset = \<lambda>a. None, tv_line_by_offset = \<lambda>a. None,
     tv_disassemble = \<lambda>a. Some (''00001000 90 nop'', a + 1), tv_read_virtual = \<lambda>a n. Some (replicate n 0x90)\<rparr>"


text \<open>
  C19. Negative offsets keep the anchor: when the address asked for can be decoded and
  instructions before it were asked for, the instruction at that address stands exactly
  behind the requested number of previous instructions, found by symbol, by the backward
  scan or padded with placeholders.  (The bounds exclude addresses so close to zero that the
  placeholders have no room.)
\<close>

theorem disassemble_anchor:
  assumes "disassemble_one tv rs m = Some (i, next)" "0 < k" "k < count" "\<not> disposed"
    and "16 * k + 30 \<le> unat m" "\<forall>s. try_get_symbol_start tv m = Some s \<longrightarrow> k \<le> unat s"
  shows "\<exists>is. disassemble tv disposed m (- int k) (int count) rs = Inr is \<and> k < length is \<and> is ! k = i"
proof -
  let ?prev = "previous_instructions tv rs m k count"
  let ?first = "if ?prev \<noteq> [] then di_address (hd ?prev) else m"
  let ?lead = "create_invalid_leading_instructions ?first (k - length ?prev)"
  let ?fwd = "disassemble_range tv rs m (int count - int k)"
  note prev = previous_ascending [of tv rs m k count]
  have "k \<le> unat ?first"
    using previous_high [of k m tv "hd ?prev" rs count] assms(5,6) by auto
  then have lead: "ascending ?lead" "length ?lead = k - length ?prev" "\<forall>i \<in> set ?lead. di_address i < ?first"
    using leading_ascending [of "k - length ?prev" ?first] by auto
  have before: "?first \<le> di_address j" if "j \<in> set ?prev" for j
    using that prev by (cases ?prev) auto
  have len: "length (?lead @ ?prev) = k" using lead(2) prev by simp
  have below: "\<forall>j \<in> set (?lead @ ?prev). di_address j < m"
  proof -
    have "?first \<le> m" using prev by (auto simp: less_imp_le)
    then show ?thesis using lead(3) prev by fastforce
  qed
  have fwd: "?fwd = i # range_loop tv rs (count - Suc k) next" "ascending ?fwd" "\<forall>j \<in> set ?fwd. m \<le> di_address j"
  proof -
    have "nat (int count - int k) = Suc (count - Suc k)" using assms(3) by simp
    then show "?fwd = i # range_loop tv rs (count - Suc k) next"
      using assms(1,3) by (simp add: disassemble_range_def)
  qed (use range_ascending [of tv rs m] in blast)+
  have "ascending (?lead @ ?prev @ ?fwd)"
    unfolding append_assoc [symmetric]
  proof (rule ascending_append)
    show "ascending (?lead @ ?prev)" by (rule ascending_append [OF _ _ lead(3)]) (use lead prev before in auto)
  qed (use fwd below in auto)
  then have d: "distinct_by di_address [] (?lead @ ?prev @ ?fwd) = ?lead @ ?prev @ ?fwd"
    by (intro distinct_by_id ascending_distinct) (simp_all del: map_append)
  have g: "gather_instructions tv rs m (- int k) count = ?lead @ ?prev @ ?fwd"
    using assms(2,3) len by (simp add: gather_instructions_def Let_def)
  have nth: "take count ((?lead @ ?prev) @ ?fwd) ! k = i" "k < length (take count ((?lead @ ?prev) @ ?fwd))"
    using len fwd(1) assms(3) by (simp_all add: nth_append del: append_assoc)
  obtain pad where "disassemble tv disposed m (- int k) (int count) rs = Inr (take count (?lead @ ?prev @ ?fwd) @ pad)"
    using disassemble_prefix [OF _ _ refl, of disposed "int count" tv m "- int k" rs] assms(3,4) unfolding nat_int g d by auto
  then show ?thesis using nth by (intro exI [of _ "take count (?lead @ ?prev @ ?fwd) @ pad"]) (simp only: append_assoc nth_append if_True simp_thms length_append trans_less_add1)
qed

theorem disassemble_anchor_witness:
  "\<exists>is i next. disassemble_one nop_view False 0x1000 = Some (i, next) \<and> di_address i = 0x1000
     \<and> disassemble nop_view False 0x1000 (-2) 3 False = Inr is \<and> 2 < length is \<and> is ! 2 = i"
proof -
  obtain i where i: "disassemble_one nop_view False 0x1000 = Some (i, 0x1001)" "di_address i = 0x1000"
    by (simp add: disassemble_one_def nop_view_def)
  have "try_get_symbol_start nop_view 0x1000 = None" by (simp add: try_get_symbol_start_def nop_view_def)
  then show ?thesis using disassemble_anchor [OF i(1), of 2 3 False] i by auto
qed

text \<open>
  C37. The backward scan never invents a boundary: the instructions it returns are decoded one
  after the other, the last one ends exactly at the address asked for, and there are
  at most as many as asked for.
\<close>

theorem disassemble_backward_aligned:
  "length (disassemble_backward tv rs e (int k)) \<le> k
   \<and> (\<exists>a. decodes tv rs a (disassemble_backward tv rs e (int k)) e)"
proof -
  have "\<exists>a. decodes tv rs a (take_last n ds) e" if "probe_loop tv rs e w = Some ds" "w \<le> unat e" for w ds n
    using probe_loop_decodes [OF that] decodes_suffix by blast
  moreover have "\<exists>a. decodes tv rs a [] e" by auto
  ultimately have "\<exists>a. decodes tv rs a (disassemble_backward tv rs e (int k)) e"
    by (auto simp: disassemble_backward_def Let_def split: option.splits)
  then show ?thesis using backward_length by blast
qed

end
