(* ===== verification/Debugger_Session.thy ===== *)
theory Debugger_Session
  imports Actions Disassembly
begin

text \<open>
  \<open>debugger::debugger_session\<close> as a state machine over the debug engine: the members it keeps
  (src/src/debugger/debugger_session.h), output capture, command execution, detach and terminate
  (debugger_session_command.cpp), the execution commands (debugger_session_execution.cpp), threads
  (debugger_session_threads.cpp), symbol paths and modules (debugger_session_symbols.cpp) and the
  bookkeeping of the engine's event callbacks (debugger_session.cpp).  The engine is a
  parameter: one function per call the session makes, on an engine state of any type.
\<close>

section \<open>The engine and the session\<close>

text \<open>A command returns its error code and the texts it sends to the output callback.\<close>

record 'e engine =
  eng_execute :: "string \<Rightarrow> 'e \<Rightarrow> hresult \<times> string list \<times> 'e"
  eng_breakpoints :: "'e \<Rightarrow> (u32 \<times> u32 \<times> u64) option list option"
  eng_detach_processes :: "'e \<Rightarrow> hresult \<times> 'e"
  eng_end_session :: "'e \<Rightarrow> 'e"
  eng_set_interrupt :: "'e \<Rightarrow> hresult \<times> 'e"
  eng_threads :: "'e \<Rightarrow> hresult \<times> hresult \<times> u32 list"
  eng_current_thread :: "'e \<Rightarrow> hresult \<times> nat"
  eng_thread_by_system_id :: "u32 \<Rightarrow> 'e \<Rightarrow> hresult \<times> nat"
  eng_set_current_thread :: "nat \<Rightarrow> 'e \<Rightarrow> hresult \<times> 'e"
  eng_set_symbol_path :: "string \<Rightarrow> 'e \<Rightarrow> hresult \<times> 'e"
  eng_reload :: "string \<Rightarrow> 'e \<Rightarrow> hresult \<times> 'e"
  eng_write_virtual :: "u64 \<Rightarrow> u8 list \<Rightarrow> 'e \<Rightarrow> hresult \<times> u32 \<times> 'e"

text \<open>
  \<open>forwarded\<close> are the texts passed on to \<open>on_output_received\<close>, in order; \<open>has_dbghelp\<close> says that the
  engine's own dbghelp library could be loaded.
\<close>

record 'e session =
  sess_disposed :: bool
  terminate_on_dispose :: bool
  is_kernel :: bool
  output_capture :: "string option"
  suppress_forwarding :: bool
  source_breakpoint_ids :: "string \<Rightarrow> int list option"
  function_breakpoint_ids :: "int list"
  instruction_breakpoint_ids :: "int list"
  data_breakpoint_ids :: "int list"
  last_exception :: "last_exception_info option"
  cpp_first_chance_break :: bool
  process_server_handle :: u64
  has_dbghelp :: bool
  forwarded :: "string list"
  eng :: 'e

definition new_session :: "'e \<Rightarrow> 'e session" where
  "new_session e = \<lparr>sess_disposed = False, terminate_on_dispose = True, is_kernel = False, output_capture = None,
     suppress_forwarding = False, source_breakpoint_ids = (\<lambda>p. None), function_breakpoint_ids = [],
     instruction_breakpoint_ids = [], data_breakpoint_ids = [], last_exception = None,
     cpp_first_chance_break = False, process_server_handle = 0, has_dbghelp = False, forwarded = [], eng = e\<rparr>"

definition throw_if_disposed :: "('e session, unit) act" where
  "throw_if_disposed s =
     (if sess_disposed s then (Inl (Runtime_Error ''debugger_session has been disposed.''), s) else (Inr (), s))"

text \<open>A call of the engine that changes its state and is checked.\<close>

definition engine_call :: "('e \<Rightarrow> hresult \<times> 'e) \<Rightarrow> string \<Rightarrow> ('e session, unit) act" where
  "engine_call f m s =
     (case f (eng s) of (hr, e') \<Rightarrow> act_check (check_hr hr m) (s\<lparr>eng := e'\<rparr>))"

section \<open>Output capture and commands\<close>

definition handle_output_received :: "string \<Rightarrow> 'e session \<Rightarrow> 'e session" where
  "handle_output_received t s =
     (let captured = (case output_capture s of None \<Rightarrow> s | Some c \<Rightarrow> s\<lparr>output_capture := Some (c @ t)\<rparr>);
          should_forward = (output_capture s = None \<or> \<not> suppress_forwarding s)
      in if should_forward then captured\<lparr>forwarded := forwarded captured @ [t]\<rparr> else captured)"

text \<open>The output callback drops empty texts.\<close>

definition output_callback :: "string \<Rightarrow> 'e session \<Rightarrow> 'e session" where
  "output_callback t s = (if t = [] then s else handle_output_received t s)"

definition execute_debugger_command :: "'e engine \<Rightarrow> string \<Rightarrow> string \<Rightarrow> ('e session, unit) act" where
  "execute_debugger_command E command m =
     act_then throw_if_disposed
       (\<lambda>s. case eng_execute E command (eng s) of (hr, texts, e') \<Rightarrow>
          act_check (check_hr hr m) (fold output_callback texts (s\<lparr>eng := e'\<rparr>)))"

definition begin_output_capture :: "bool \<Rightarrow> ('e session, unit) act" where
  "begin_output_capture suppress s =
     (if output_capture s \<noteq> None then (Inl (Runtime_Error ''A debugger output capture is already in progress.''), s)
      else (Inr (), s\<lparr>output_capture := Some [], suppress_forwarding := suppress\<rparr>))"

definition end_output_capture :: "('e session, string) act" where
  "end_output_capture s =
     (Inr (case output_capture s of None \<Rightarrow> [] | Some c \<Rightarrow> trim_end c),
      s\<lparr>output_capture := None, suppress_forwarding := False\<rparr>)"

definition discard_output_capture :: "('e session, unit) act" where
  "discard_output_capture s = (Inr (), s\<lparr>output_capture := None, suppress_forwarding := False\<rparr>)"

definition quoted :: "string \<Rightarrow> string" where
  "quoted t = [CHR 0x27] @ t @ [CHR 0x27]"

definition execute_command_with_output :: "'e engine \<Rightarrow> string \<Rightarrow> bool \<Rightarrow> ('e session, string) act" where
  "execute_command_with_output E command suppress =
     act_then throw_if_disposed
       (act_then (act_check (throw_if_null_or_whitespace command ''command''))
          (act_then (begin_output_capture suppress)
             (act_catch
                (act_then (execute_debugger_command E command
                             (''Could not execute debugger command '' @ quoted command))
                          end_output_capture)
                (\<lambda>e. act_then discard_output_capture (raise e)))))"

section \<open>Detach and terminate\<close>

definition clear_all_breakpoints :: "'e engine \<Rightarrow> ('e session, unit) act" where
  "clear_all_breakpoints E =
     act_then throw_if_disposed (act_then (execute_command_with_output E ''bc *'' True) (ret ()))"

definition detach_all_processes :: "'e engine \<Rightarrow> ('e session, unit) act" where
  "detach_all_processes E =
     act_then throw_if_disposed
       (act_then
          (act_catch
             (act_then (clear_all_breakpoints E)
                (act_bind (get_state is_kernel) (\<lambda>k.
                   if \<not> k
                   then act_then (execute_command_with_output E
                          ''~*e r dr7=0; r dr0=0; r dr1=0; r dr2=0; r dr3=0; r dr6=0'' True) (ret ())
                   else ret ())))
             (\<lambda>e. ret ()))
          (act_then (update_state (\<lambda>s. s\<lparr>terminate_on_dispose := False\<rparr>))
             (act_catch (engine_call (eng_detach_processes E) ''Could not detach processes'')
                (\<lambda>e. act_then (update_state (\<lambda>s. s\<lparr>terminate_on_dispose := True\<rparr>)) (raise e)))))"

definition detach_current_process :: "'e engine \<Rightarrow> ('e session, unit) act" where
  "detach_current_process E = act_then throw_if_disposed (detach_all_processes E)"

definition terminate_current_process :: "'e engine \<Rightarrow> ('e session, unit) act" where
  "terminate_current_process E =
     act_then throw_if_disposed
       (update_state (\<lambda>s. s\<lparr>eng := eng_end_session E (eng s), terminate_on_dispose := False\<rparr>))"

section \<open>Execution\<close>

definition resume_with :: "'e engine \<Rightarrow> string \<Rightarrow> string \<Rightarrow> ('e session, unit) act" where
  "resume_with E command m =
     act_then (update_state (\<lambda>s. s\<lparr>last_exception := None\<rparr>)) (execute_debugger_command E command m)"

definition continue_execution :: "'e engine \<Rightarrow> ('e session, unit) act" where
  "continue_execution E = resume_with E ''g'' ''Could not continue execution''"

definition step_into :: "'e engine \<Rightarrow> ('e session, unit) act" where
  "step_into E = resume_with E ''t'' ''Could not step into''"

definition step_over :: "'e engine \<Rightarrow> ('e session, unit) act" where
  "step_over E = resume_with E ''p'' ''Could not step over''"

definition step_out :: "'e engine \<Rightarrow> ('e session, unit) act" where
  "step_out E = resume_with E ''gu'' ''Could not step out''"

definition enable_instruction_stepping :: "'e engine \<Rightarrow> ('e session, unit) act" where
  "enable_instruction_stepping E =
     act_then throw_if_disposed (execute_debugger_command E ''l-t'' ''Could not enable instruction stepping'')"

definition interrupt :: "'e engine \<Rightarrow> ('e session, unit) act" where
  "interrupt E = act_then throw_if_disposed (engine_call (eng_set_interrupt E) ''Could not interrupt target'')"

section \<open>Threads\<close>

text \<open>
  \<open>eng_threads\<close> gives the error codes of \<open>GetNumberThreads\<close> and of \<open>GetThreadIdsByIndex\<close>, which
  is called for a positive count only, and the system ids.
\<close>

definition read_thread_ids :: "'e engine \<Rightarrow> ('e session, u32 list) act" where
  "read_thread_ids E s =
     (case eng_threads E (eng s) of (hr_count, hr_ids, ids) \<Rightarrow>
        act_then (act_check (check_hr hr_count ''Could not enumerate threads''))
          (act_then (if ids \<noteq> [] then act_check (check_hr hr_ids ''Could not read thread ids'') else ret ())
             (ret ids)) s)"

definition get_thread_ids :: "'e engine \<Rightarrow> ('e session, u32 list) act" where
  "get_thread_ids E = act_then throw_if_disposed (read_thread_ids E)"

definition get_current_thread_id :: "'e engine \<Rightarrow> ('e session, u32) act" where
  "get_current_thread_id E =
     act_then throw_if_disposed
       (act_bind (get_state (\<lambda>s. eng_current_thread E (eng s))) (\<lambda>(hr, engine_thread_id).
          act_then (act_check (check_hr hr ''Could not read current thread id''))
            (act_bind (read_thread_ids E) (\<lambda>ids.
               if engine_thread_id \<ge> length ids
               then raise (Runtime_Error (''Current engine thread id '' @ dec engine_thread_id @ '' is out of range.''))
               else ret (ids ! engine_thread_id)))))"

definition set_current_thread_user :: "'e engine \<Rightarrow> u32 \<Rightarrow> ('e session, unit) act" where
  "set_current_thread_user E system_thread_id =
     act_bind (get_state (\<lambda>s. eng_thread_by_system_id E system_thread_id (eng s))) (\<lambda>(hr, engine_thread_id).
       act_then (act_check (check_hr hr ''Could not resolve engine thread id''))
         (engine_call (eng_set_current_thread E engine_thread_id) ''Could not select thread''))"

fun index_of :: "'a \<Rightarrow> 'a list \<Rightarrow> nat option" where
  "index_of x [] = None"
| "index_of x (y # ys) = (if y = x then Some 0 else map_option Suc (index_of x ys))"

definition set_current_thread_kernel :: "'e engine \<Rightarrow> u32 \<Rightarrow> ('e session, unit) act" where
  "set_current_thread_kernel E system_thread_id =
     act_bind (read_thread_ids E) (\<lambda>ids.
       case index_of system_thread_id ids of
         None \<Rightarrow> raise (Runtime_Error (''Thread id '' @ dec (unat system_thread_id)
                          @ '' is not a current kernel processor context.''))
       | Some index \<Rightarrow> engine_call (eng_set_current_thread E index) ''Could not select thread'')"

definition set_current_thread :: "'e engine \<Rightarrow> u32 \<Rightarrow> ('e session, unit) act" where
  "set_current_thread E system_thread_id =
     act_then throw_if_disposed
       (act_bind (get_state is_kernel) (\<lambda>k.
          if k then set_current_thread_kernel E system_thread_id else set_current_thread_user E system_thread_id))"

section \<open>Symbol and source paths, memory\<close>

definition set_symbol_path :: "'e engine \<Rightarrow> string list \<Rightarrow> ('e session, unit) act" where
  "set_symbol_path E paths =
     act_then throw_if_disposed (engine_call (eng_set_symbol_path E (join '';'' paths)) ''Could not set symbol path'')"

definition set_source_path :: "'e engine \<Rightarrow> string list \<Rightarrow> ('e session, unit) act" where
  "set_source_path E paths =
     act_then throw_if_disposed
       (execute_debugger_command E (''.srcpath '' @ join '';'' paths) ''Could not set source path'')"

definition enable_source_line_stepping :: "'e engine \<Rightarrow> ('e session, unit) act" where
  "enable_source_line_stepping E =
     act_then throw_if_disposed (execute_debugger_command E ''l+t'' ''Could not enable source-based stepping'')"

definition enable_source_line_support :: "'e engine \<Rightarrow> ('e session, unit) act" where
  "enable_source_line_support E =
     act_then throw_if_disposed
       (act_then (execute_debugger_command E ''.lines -e'' ''Could not enable source line support'')
          (enable_source_line_stepping E))"

definition reload_symbols :: "'e engine \<Rightarrow> string option \<Rightarrow> ('e session, unit) act" where
  "reload_symbols E module_name =
     act_then throw_if_disposed
       (engine_call (eng_reload E (case module_name of None \<Rightarrow> [] | Some m \<Rightarrow> m)) ''Could not reload symbols'')"

definition write_memory :: "'e engine \<Rightarrow> u64 \<Rightarrow> u8 list \<Rightarrow> ('e session, u32) act" where
  "write_memory E address bytes =
     act_then throw_if_disposed
       (if bytes = [] then ret 0
        else (\<lambda>s. case eng_write_virtual E address bytes (eng s) of (hr, written, e') \<Rightarrow>
               act_then (act_check (check_hr hr (''Could not write '' @ dec (length bytes) @ '' bytes at 0x''
                                                   @ hex_upper (unat address))))
                 (ret written) (s\<lparr>eng := e'\<rparr>)))"

section \<open>Event callbacks\<close>

text \<open>
  The engine's exception event: whether it stops, and what the session remembers.  The result
  is the exception code passed to \<open>on_exception_hit\<close>, if the event stops.
\<close>

definition exception_callback :: "u32 \<Rightarrow> u64 \<Rightarrow> bool \<Rightarrow> 'e session \<Rightarrow> int option \<times> 'e session" where
  "exception_callback code address first_chance s =
     (if first_chance \<and> code = 0xE06D7363 \<and> \<not> cpp_first_chance_break s then (None, s)
      else (Some (sint code),
            s\<lparr>last_exception := Some \<lparr>exc_code = code, exc_address = address, exc_first_chance = first_chance\<rparr>\<rparr>))"

section \<open>Lemmas\<close>

lemma fold_output_captured:
  "output_capture s = Some c \<Longrightarrow> fold output_callback texts s =
     s\<lparr>output_capture := Some (c @ concat texts),
       forwarded := forwarded s @ (if suppress_forwarding s then [] else filter (\<lambda>t. t \<noteq> []) texts)\<rparr>"
proof (induction texts arbitrary: s c)
  case Nil
  then show ?case by simp
next
  case (Cons t texts)
  have "output_callback t s = s\<lparr>output_capture := Some (c @ t),
      forwarded := forwarded s @ (if suppress_forwarding s \<or> t = [] then [] else [t])\<rparr>"
    using Cons.prems by (auto simp: output_callback_def handle_output_received_def Let_def)
  with Cons.IH [of "output_callback t s" "c @ t"] show ?case by simp
qed

text \<open>Members that a command never touches.\<close>

lemma fold_output_frame [simp]:
  "source_breakpoint_ids (fold output_callback texts s) = source_breakpoint_ids s"
  "function_breakpoint_ids (fold output_callback texts s) = function_breakpoint_ids s"
  "instruction_breakpoint_ids (fold output_callback texts s) = instruction_breakpoint_ids s"
  "data_breakpoint_ids (fold output_callback texts s) = data_breakpoint_ids s"
  "last_exception (fold output_callback texts s) = last_exception s"
  "cpp_first_chance_break (fold output_callback texts s) = cpp_first_chance_break s"
  "terminate_on_dispose (fold output_callback texts s) = terminate_on_dispose s"
  "is_kernel (fold output_callback texts s) = is_kernel s"
  by (induction texts arbitrary: s)
    (simp_all add: output_callback_def handle_output_received_def Let_def split: option.split)

text \<open>What a captured command does, on every path.\<close>

definition command_effect :: "'e engine \<Rightarrow> string \<Rightarrow> bool \<Rightarrow> ('e session, string) act" where
  "command_effect E command suppress s =
     (case eng_execute E command (eng s) of (hr, texts, e') \<Rightarrow>
        (case check_hr hr (''Could not execute debugger command '' @ quoted command) of
           None \<Rightarrow> Inr (trim_end (concat texts)) | Some e \<Rightarrow> Inl e,
         s\<lparr>eng := e', forwarded := forwarded s @ (if suppress then [] else filter (\<lambda>t. t \<noteq> []) texts)\<rparr>))"

definition idle :: "'e session \<Rightarrow> bool" where
  "idle s \<longleftrightarrow> \<not> sess_disposed s \<and> output_capture s = None \<and> \<not> suppress_forwarding s"

lemma command_effect_idle: "idle s \<Longrightarrow> idle (snd (command_effect E c q s))"
  by (simp add: command_effect_def idle_def split: prod.split)

lemma execute_command_idle:
  assumes "idle s" "throw_if_null_or_whitespace c ''command'' = None"
  shows "execute_command_with_output E c q s = command_effect E c q s"
proof -
  obtain hr texts e' where x: "eng_execute E c (eng s) = (hr, texts, e')" by (cases "eng_execute E c (eng s)")
  let ?b = "s\<lparr>output_capture := Some [], suppress_forwarding := q\<rparr>"
  have b: "begin_output_capture q s = (Inr (), ?b)" using assms(1) by (simp add: idle_def begin_output_capture_def)
  have f: "fold output_callback texts (?b\<lparr>eng := e'\<rparr>) = ?b\<lparr>eng := e', output_capture := Some (concat texts),
      forwarded := forwarded s @ (if q then [] else filter (\<lambda>t. t \<noteq> []) texts)\<rparr>"
    by (subst fold_output_captured [of _ "[]"]) auto
  have same: "s\<lparr>output_capture := None, suppress_forwarding := False\<rparr> = s"
    using assms(1) by (auto simp: idle_def)
  show ?thesis
    using assms x b f same
    by (cases "check_hr hr (''Could not execute debugger command '' @ quoted c)")
      (simp_all add: execute_command_with_output_def execute_debugger_command_def command_effect_def idle_def
        throw_if_disposed_def end_output_capture_def discard_output_capture_def act_defs)
qed

lemma throw_if_disposed_idle: "idle s \<Longrightarrow> throw_if_disposed s = (Inr (), s)"
  by (simp add: idle_def throw_if_disposed_def)

lemma idle_update [simp]:
  "idle (s\<lparr>terminate_on_dispose := b\<rparr>) = idle s" "idle (s\<lparr>eng := e\<rparr>) = idle s"
  "idle (s\<lparr>cpp_first_chance_break := b\<rparr>) = idle s" "idle (s\<lparr>source_breakpoint_ids := m\<rparr>) = idle s"
  "idle (s\<lparr>function_breakpoint_ids := ids\<rparr>) = idle s" "idle (s\<lparr>instruction_breakpoint_ids := ids\<rparr>) = idle s"
  "idle (s\<lparr>data_breakpoint_ids := ids\<rparr>) = idle s" "idle (s\<lparr>last_exception := x\<rparr>) = idle s"
  by (simp_all add: idle_def)

lemma execute_command_blank:
  "idle s \<Longrightarrow> throw_if_null_or_whitespace c ''command'' = Some e \<Longrightarrow> execute_command_with_output E c q s = (Inl e, s)"
  by (simp add: execute_command_with_output_def throw_if_disposed_idle act_defs)

lemma execute_command_keeps_idle [keeps_rules]: "keeps idle (execute_command_with_output E c q)"
  unfolding keeps_def
proof (intro allI impI)
  fix s :: "'a session"
  assume s: "idle s"
  show "idle (snd (execute_command_with_output E c q s))"
    by (cases "throw_if_null_or_whitespace c ''command''")
      (use s execute_command_idle [OF s] command_effect_idle [OF s] execute_command_blank [OF s] in auto)
qed

lemma throw_if_disposed_keeps [keeps_rules]: "keeps P throw_if_disposed"
  by (simp add: keeps_def throw_if_disposed_def)

lemma engine_call_keeps_idle [keeps_rules]: "keeps idle (engine_call f m)"
  by (auto simp: keeps_def engine_call_def act_defs split: prod.splits option.splits)

section \<open>Properties\<close>

text \<open>
  C38. Output capture is exact and never left open: a command run on an idle session returns
  the concatenated output without trailing white space or raises the engine's error; on
  both paths the session is idle again with the engine state the command left, and the
  client has seen the output in order, or none of it when the command asked for silence.
\<close>

theorem command_capture_exact:
  assumes "idle s" "throw_if_null_or_whitespace command ''command'' = None"
    and "eng_execute E command (eng s) = (hr, texts, e')"
  shows "\<exists>r s'. execute_command_with_output E command suppress s = (r, s') \<and> idle s' \<and> eng s' = e'
    \<and> (if hr_failed hr then \<exists>m. r = Inl (Runtime_Error m) else r = Inr (trim_end (concat texts)))
    \<and> forwarded s' = forwarded s @ (if suppress then [] else filter (\<lambda>t. t \<noteq> []) texts)"
  using execute_command_idle [OF assms(1,2), of E suppress] command_effect_idle [OF assms(1), of E command suppress]
    assms(3)
  by (auto simp: command_effect_def check_hr_def)

text \<open>An engine that knows one command, for the witnesses.\<close>

definition echo_engine :: "nat engine" where
  "echo_engine = \<lparr>eng_execute = \<lambda>c n. if c = ''bad'' then (0x80004005, [''oops''], n) else (0, [c, [], [LF]], n + 1),
     eng_breakpoints = \<lambda>n. Some [], eng_detach_processes = \<lambda>n. (0, n), eng_end_session = \<lambda>n. n,
     eng_set_interrupt = \<lambda>n. (0, n), eng_threads = \<lambda>n. (0, 0, [7]), eng_current_thread = \<lambda>n. (0, 0),
     eng_thread_by_system_id = \<lambda>t n. (0, 0), eng_set_current_thread = \<lambda>t n. (0, n),
     eng_set_symbol_path = \<lambda>p n. (0, n), eng_reload = \<lambda>m n. (0, n), eng_write_virtual = \<lambda>a bs n. (0, 0, n)\<rparr>"

theorem command_capture_exact_witness:
  "\<exists>r s'. execute_command_with_output echo_engine ''k'' False (new_session 0) = (r, s') \<and> idle s' \<and> eng s' = 1
    \<and> r = Inr ''k'' \<and> forwarded s' = [''k'', [LF]]"
proof -
  have "trim_end (''k'' @ [LF]) = ''k''" by (simp add: trim_end_def drop_end_def isspace_def)
  then show ?thesis
    using command_capture_exact [of "new_session 0" "''k''" echo_engine 0 "[''k'', [], [LF]]" 1 False]
    by (simp add: new_session_def idle_def echo_engine_def hr_failed_def throw_if_null_or_whitespace_def isspace_def)
qed

text \<open>
  Detaching decides what disposal does to the debuggee: after a successful detach the session
  no longer terminates it, and after a failed one, which raises, it still does, whatever
  happened to the best-effort removal of breakpoints before.
\<close>

theorem detach_decides_disposal:
  assumes "idle s" "detach_all_processes E s = (r, s')"
  shows "(terminate_on_dispose s' \<longleftrightarrow> (\<exists>e. r = Inl e)) \<and> idle s'"
proof -
  let ?clear = "act_catch (act_then (clear_all_breakpoints E) (act_bind (get_state is_kernel) (\<lambda>k.
        if \<not> k then act_then (execute_command_with_output E
              ''~*e r dr7=0; r dr0=0; r dr1=0; r dr2=0; r dr3=0; r dr6=0'' True) (ret ()) else ret ())))
      (\<lambda>e. ret ())"
  have k: "keeps idle ?clear" by (intro keeps_rules) (auto simp: clear_all_breakpoints_def intro!: keeps_rules)
  have "\<exists>s1. ?clear s = (Inr (), s1)"
    by (simp add: act_catch_def ret_def split: prod.split sum.split)
  then obtain s1 where s1: "?clear s = (Inr (), s1)" by blast
  have i: "idle s1" using keepsD [OF k assms(1)] s1 by simp
  obtain hr e' where x: "eng_detach_processes E (eng s1) = (hr, e')" by (cases "eng_detach_processes E (eng s1)")
  have "detach_all_processes E s = (case check_hr hr ''Could not detach processes'' of
      None \<Rightarrow> (Inr (), s1\<lparr>terminate_on_dispose := False, eng := e'\<rparr>)
    | Some e \<Rightarrow> (Inl e, s1\<lparr>eng := e', terminate_on_dispose := True\<rparr>))"
    unfolding detach_all_processes_def
    using throw_if_disposed_idle [OF assms(1)] s1 x
    by (simp add: act_then_def [of throw_if_disposed] act_then_def [of ?clear] act_bind_def del: act_catch_def)
       (simp add: engine_call_def act_defs split: option.split)
  then show ?thesis using assms(2) i by (auto split: option.splits)
qed

theorem detach_decides_disposal_witness:
  "\<exists>r s'. detach_all_processes echo_engine (new_session 0) = (r, s')
    \<and> (terminate_on_dispose s' \<longleftrightarrow> (\<exists>e. r = Inl e)) \<and> idle s'"
proof -
  have i: "idle (new_session 0)" by (simp add: idle_def new_session_def)
  obtain r s' where d: "detach_all_processes echo_engine (new_session 0) = (r, s')"
    by (cases "detach_all_processes echo_engine (new_session 0)")
  show ?thesis using detach_decides_disposal [OF i d] d by blast
qed

end
