(* ===== verification/Breakpoints.thy ===== *)
theory Breakpoints
  imports Debugger_Session
begin

text \<open>
  Breakpoint management of the session (src/src/debugger/debugger_session_breakpoints.cpp): source
  breakpoints per file, function, instruction and data breakpoints as replace-all sets, the
  ids the session tracks for each of them, and the C++ exception filter.  New ids are learnt
  by comparing the engine's ids before and after a command.
\<close>

unbundle bit_operations_syntax

section \<open>The engine's breakpoints\<close>

definition kDebugBreakpointDeferred :: u32 where
  "kDebugBreakpointDeferred = 0x00000002"

definition breakpoint_states :: "'e engine \<Rightarrow> 'e \<Rightarrow> breakpoint_state list" where
  "breakpoint_states E e =
     (case eng_breakpoints E e of
        None \<Rightarrow> []
      | Some entries \<Rightarrow>
          List.map_filter (map_option (\<lambda>(i, flags, offset).
            \<lparr>bp_id = sint i, bp_resolved = (flags AND kDebugBreakpointDeferred = 0), bp_offset = offset\<rparr>)) entries)"

definition get_breakpoint_states :: "'e engine \<Rightarrow> ('e session, breakpoint_state list) act" where
  "get_breakpoint_states E = act_then throw_if_disposed (get_state (\<lambda>s. breakpoint_states E (eng s)))"

definition get_configured_breakpoint_ids :: "'e engine \<Rightarrow> ('e session, int list) act" where
  "get_configured_breakpoint_ids E =
     act_bind (get_breakpoint_states E) (\<lambda>states. ret (sort (map bp_id states)))"

text \<open>The ids that a command added: those after it that were not there before.\<close>

definition new_ids :: "int list \<Rightarrow> int list \<Rightarrow> int list" where
  "new_ids before_ids after_ids = filter (\<lambda>i. i \<notin> set before_ids) after_ids"

definition clear_command :: "int \<Rightarrow> string" where
  "clear_command i = ''bc '' @ dec_int i"

definition clear_ids :: "'e engine \<Rightarrow> int list \<Rightarrow> ('e session, unit) act" where
  "clear_ids E ids =
     act_iter (\<lambda>i. act_then (execute_command_with_output E (clear_command i) True) (ret ())) ids"

section \<open>Source breakpoints\<close>

definition spec_key :: "source_breakpoint_spec \<Rightarrow> string" where
  "spec_key s = dec_int (spec_line s) @ [CHR 0x1F] @ (case spec_condition s of Some c \<Rightarrow> c | None \<Rightarrow> [CHR 0x1E])"

definition clear_source_breakpoints :: "'e engine \<Rightarrow> string \<Rightarrow> ('e session, unit) act" where
  "clear_source_breakpoints E normalized_path =
     (let key = to_upper_invariant normalized_path
      in act_bind (get_state (\<lambda>s. source_breakpoint_ids s key)) (\<lambda>found.
           case found of
             None \<Rightarrow> ret ()
           | Some ids \<Rightarrow>
               act_then (update_state (\<lambda>s. s\<lparr>source_breakpoint_ids := (source_breakpoint_ids s)(key := None)\<rparr>))
                 (clear_ids E ids)))"

fun escape_condition :: "string \<Rightarrow> string" where
  "escape_condition [] = []"
| "escape_condition (c # s) =
     (if c = BACKSLASH then [BACKSLASH, BACKSLASH] else if c = DQUOTE then [BACKSLASH, DQUOTE] else [c])
     @ escape_condition s"

definition create_source_breakpoint_command :: "string \<Rightarrow> source_breakpoint_spec \<Rightarrow> string" where
  "create_source_breakpoint_command normalized_path b =
     (let location = [CHR ''`''] @ normalized_path @ '':'' @ dec_int (spec_line b) @ [CHR ''`'']
      in case spec_condition b of
           None \<Rightarrow> ''bu '' @ location
         | Some c \<Rightarrow> if trim_both c = [] then ''bu '' @ location
                      else ''bu /w '' @ [DQUOTE] @ escape_condition c @ [DQUOTE] @ '' '' @ location)"

definition distinct_specs :: "source_breakpoint_spec list \<Rightarrow> source_breakpoint_spec list" where
  "distinct_specs bs = distinct_by spec_key [] (filter (\<lambda>b. spec_line b > 0) bs)"

definition source_result :: "string \<Rightarrow> source_breakpoint_spec \<Rightarrow> int list \<Rightarrow> source_breakpoint_result" where
  "source_result normalized_path b ids =
     (case ids of
        [i] \<Rightarrow> \<lparr>result_id = Some i, result_line = spec_line b, result_verified = True, result_message = None\<rparr>
      | _ \<Rightarrow> \<lparr>result_id = None, result_line = spec_line b, result_verified = False,
              result_message = Some (''Unable to resolve breakpoint at ''
                @ quoted (normalized_path @ '':'' @ dec_int (spec_line b)) @ ''.'')\<rparr>)"

definition configure_source_breakpoint ::
    "'e engine \<Rightarrow> string \<Rightarrow> source_breakpoint_spec \<Rightarrow> ('e session, string \<times> source_breakpoint_result) act" where
  "configure_source_breakpoint E normalized_path b =
     act_bind (get_configured_breakpoint_ids E) (\<lambda>before_ids.
       act_then (execute_command_with_output E (create_source_breakpoint_command normalized_path b) True)
         (act_bind (get_configured_breakpoint_ids E) (\<lambda>after_ids.
            ret (spec_key b, source_result normalized_path b (new_ids before_ids after_ids)))))"

definition line_result :: "(string \<times> source_breakpoint_result) list \<Rightarrow> source_breakpoint_spec \<Rightarrow> source_breakpoint_result" where
  "line_result configured b =
     (if spec_line b \<le> 0
      then \<lparr>result_id = None, result_line = spec_line b, result_verified = False,
            result_message = Some ''Breakpoint lines must be greater than zero.''\<rparr>
      else (case map_of configured (spec_key b) of
              Some r \<Rightarrow> r
            | None \<Rightarrow> \<lparr>result_id = None, result_line = 0, result_verified = False, result_message = None\<rparr>))"

definition result_ids :: "source_breakpoint_result list \<Rightarrow> int list" where
  "result_ids rs = List.map_filter result_id rs"

text \<open>\<open>full_path\<close> is \<open>get_full_path\<close>, which asks the file system.\<close>

definition set_source_breakpoints ::
    "'e engine \<Rightarrow> (string \<Rightarrow> string) \<Rightarrow> string \<Rightarrow> source_breakpoint_spec list
     \<Rightarrow> ('e session, source_breakpoint_result list) act" where
  "set_source_breakpoints E full_path file_path breakpoints =
     act_then throw_if_disposed
       (act_then (act_check (throw_if_null_or_whitespace file_path ''filePath''))
          (let normalized_path = full_path file_path
           in act_then (execute_command_with_output E ''.lines -e'' True)
                (act_then (clear_source_breakpoints E normalized_path)
                   (if breakpoints = [] then ret []
                    else act_bind (act_map (configure_source_breakpoint E normalized_path) (distinct_specs breakpoints))
                           (\<lambda>configured.
                              act_then (update_state (\<lambda>s. s\<lparr>source_breakpoint_ids := (source_breakpoint_ids s)
                                          (to_upper_invariant normalized_path := Some (result_ids (map snd configured)))\<rparr>))
                                (ret (map (line_result configured) breakpoints)))))))"

definition set_source_breakpoint_lines ::
    "'e engine \<Rightarrow> (string \<Rightarrow> string) \<Rightarrow> string \<Rightarrow> int list \<Rightarrow> ('e session, source_breakpoint_result list) act" where
  "set_source_breakpoint_lines E full_path file_path lines =
     set_source_breakpoints E full_path file_path (map (\<lambda>l. \<lparr>spec_line = l, spec_condition = None\<rparr>) lines)"

definition set_breakpoint :: "'e engine \<Rightarrow> (string \<Rightarrow> string) \<Rightarrow> string \<Rightarrow> int \<Rightarrow> ('e session, u32) act" where
  "set_breakpoint E full_path file_path line =
     act_then throw_if_disposed
       (act_then (act_check (throw_if_null_or_whitespace file_path ''filePath''))
          (if line \<le> 0 then raise (Out_Of_Range ''line'')
           else act_bind (set_source_breakpoint_lines E full_path file_path [line]) (\<lambda>results.
                  case results of
                    [r] \<Rightarrow> (case result_id r of
                              Some i \<Rightarrow> ret (of_int i)
                            | None \<Rightarrow> raise (Runtime_Error (''Could not set breakpoint at ''
                                              @ quoted (file_path @ '':'' @ dec_int line) @ ''.'')))
                  | _ \<Rightarrow> raise (Runtime_Error (''Could not set breakpoint at ''
                                  @ quoted (file_path @ '':'' @ dec_int line) @ ''.'')))))"

section \<open>Function, instruction and data breakpoints\<close>

datatype breakpoint_kind = Function_Breakpoints | Instruction_Breakpoints | Data_Breakpoints

fun tracked_ids :: "breakpoint_kind \<Rightarrow> 'e session \<Rightarrow> int list" where
  "tracked_ids Function_Breakpoints s = function_breakpoint_ids s"
| "tracked_ids Instruction_Breakpoints s = instruction_breakpoint_ids s"
| "tracked_ids Data_Breakpoints s = data_breakpoint_ids s"

fun put_tracked_ids :: "breakpoint_kind \<Rightarrow> int list \<Rightarrow> 'e session \<Rightarrow> 'e session" where
  "put_tracked_ids Function_Breakpoints ids s = s\<lparr>function_breakpoint_ids := ids\<rparr>"
| "put_tracked_ids Instruction_Breakpoints ids s = s\<lparr>instruction_breakpoint_ids := ids\<rparr>"
| "put_tracked_ids Data_Breakpoints ids s = s\<lparr>data_breakpoint_ids := ids\<rparr>"

definition configure_command_breakpoint ::
    "'e engine \<Rightarrow> breakpoint_kind \<Rightarrow> string \<times> string \<Rightarrow> ('e session, source_breakpoint_result) act" where
  "configure_command_breakpoint E kind cl =
     (case cl of (command, label) \<Rightarrow>
        act_bind (get_configured_breakpoint_ids E) (\<lambda>before_ids.
          act_then
            (act_catch (act_then (execute_command_with_output E command True) (ret ())) (\<lambda>e. ret ()))
            (act_bind (get_configured_breakpoint_ids E) (\<lambda>after_ids.
               case new_ids before_ids after_ids of
                 [i] \<Rightarrow> act_then (update_state (\<lambda>s. put_tracked_ids kind (tracked_ids kind s @ [i]) s))
                          (ret \<lparr>result_id = Some i, result_line = 0, result_verified = True, result_message = None\<rparr>)
               | _ \<Rightarrow> ret \<lparr>result_id = None, result_line = 0, result_verified = False,
                          result_message = Some (''Unable to set breakpoint at '' @ quoted label @ ''.'')\<rparr>))))"

definition set_command_breakpoints ::
    "'e engine \<Rightarrow> breakpoint_kind \<Rightarrow> (string \<times> string) list \<Rightarrow> ('e session, source_breakpoint_result list) act" where
  "set_command_breakpoints E kind commands =
     act_then throw_if_disposed
       (act_bind (get_state (tracked_ids kind)) (\<lambda>ids.
          act_then (clear_ids E ids)
            (act_then (update_state (put_tracked_ids kind []))
               (act_map (configure_command_breakpoint E kind) commands))))"

definition set_function_breakpoints :: "'e engine \<Rightarrow> string list \<Rightarrow> ('e session, source_breakpoint_result list) act" where
  "set_function_breakpoints E names =
     set_command_breakpoints E Function_Breakpoints (map (\<lambda>n. (''bu '' @ n, n)) names)"

definition hex_address :: "u64 \<Rightarrow> string" where
  "hex_address a = ''0x'' @ hex_lower (unat a)"

definition set_instruction_breakpoints :: "'e engine \<Rightarrow> u64 list \<Rightarrow> ('e session, source_breakpoint_result list) act" where
  "set_instruction_breakpoints E addresses =
     set_command_breakpoints E Instruction_Breakpoints (map (\<lambda>a. (''bp '' @ hex_address a, hex_address a)) addresses)"

definition data_breakpoint_command :: "data_breakpoint_spec \<Rightarrow> string \<times> string" where
  "data_breakpoint_command b =
     (''ba '' @ (if data_break_on_read b then ''r'' else ''w'') @ dec (unat (data_size b)) @ '' '' @ hex_address (data_address b),
      hex_address (data_address b) @ '' ('' @ dec (unat (data_size b)) @ '' bytes)'')"

definition set_data_breakpoints ::
    "'e engine \<Rightarrow> data_breakpoint_spec list \<Rightarrow> ('e session, source_breakpoint_result list) act" where
  "set_data_breakpoints E breakpoints =
     set_command_breakpoints E Data_Breakpoints (map data_breakpoint_command breakpoints)"

definition set_cpp_first_chance_break :: "'e engine \<Rightarrow> bool \<Rightarrow> ('e session, unit) act" where
  "set_cpp_first_chance_break E enabled =
     act_then throw_if_disposed
       (act_then (execute_command_with_output E (if enabled then ''sxe e06d7363'' else ''sxd e06d7363'') True)
          (update_state (\<lambda>s. s\<lparr>cpp_first_chance_break := enabled\<rparr>)))"

section \<open>Ownership of engine breakpoints\<close>

text \<open>The ids the engine has, the state a command leaves, and the documented effects of the commands.\<close>

definition ids_of :: "'e engine \<Rightarrow> 'e \<Rightarrow> int set" where
  "ids_of E e = set (map bp_id (breakpoint_states E e))"

definition after :: "'e engine \<Rightarrow> string \<Rightarrow> 'e \<Rightarrow> 'e" where
  "after E c e = snd (snd (eng_execute E c e))"

definition clears_by_id :: "'e engine \<Rightarrow> bool" where
  "clears_by_id E \<longleftrightarrow> (\<forall>i e. ids_of E (after E (clear_command i) e) = ids_of E e - {i})"

definition only_adds :: "'e engine \<Rightarrow> string \<Rightarrow> bool" where
  "only_adds E c \<longleftrightarrow> (\<forall>e. ids_of E e \<subseteq> ids_of E (after E c e))"

datatype owner = Of_Kind breakpoint_kind | Of_File string

fun own :: "'e session \<Rightarrow> owner \<Rightarrow> int list" where
  "own s (Of_Kind k) = tracked_ids k s"
| "own s (Of_File p) = (case source_breakpoint_ids s p of None \<Rightarrow> [] | Some ids \<Rightarrow> ids)"

declare own.simps [simp del]

lemmas own_simps = own.simps

text \<open>Every tracked id belongs to a breakpoint of the engine, and to one owner.\<close>

definition owned :: "'e engine \<Rightarrow> 'e session \<Rightarrow> bool" where
  "owned E s \<longleftrightarrow> (\<forall>w. set (own s w) \<subseteq> ids_of E (eng s))
     \<and> (\<forall>w w'. w \<noteq> w' \<longrightarrow> set (own s w) \<inter> set (own s w') = {})"

section \<open>Lemmas\<close>

lemma throw_if_disposed_ok: "throw_if_disposed s = (Inr v, s') \<longleftrightarrow> \<not> sess_disposed s \<and> s' = s"
  by (auto simp: throw_if_disposed_def)

lemma configured_ids_ok:
  "get_configured_breakpoint_ids E s = (Inr ids, s') \<Longrightarrow> s' = s \<and> set ids = ids_of E (eng s)"
  by (auto simp: get_configured_breakpoint_ids_def get_breakpoint_states_def act_oks throw_if_disposed_ok ids_of_def)

lemma new_ids_single: "new_ids b a = [i] \<Longrightarrow> i \<in> set a \<and> i \<notin> set b"
  unfolding new_ids_def by (metis (mono_tags, lifting) filter_eq_ConsD in_set_conv_decomp filter_is_subset list.set_intros(1) mem_Collect_eq set_filter)

lemma clear_command_not_blank: "throw_if_null_or_whitespace (clear_command i) ''command'' = None"
  by (simp add: throw_if_null_or_whitespace_def clear_command_def isspace_def)

lemma own_engine_update [simp]: "own (s\<lparr>eng := e, forwarded := f\<rparr>) w = own s w"
proof (cases w)
  case (Of_Kind k)
  then show ?thesis by (cases k) (simp_all add: own_simps)
qed (simp add: own_simps)

lemma command_effect_state:
  "snd (command_effect E c q s) = s\<lparr>eng := after E c (eng s),
     forwarded := forwarded s @ (if q then [] else filter (\<lambda>t. t \<noteq> []) (fst (snd (eng_execute E c (eng s)))))\<rparr>"
  by (simp add: command_effect_def after_def split: prod.split)

text \<open>A command touches the engine only.\<close>

lemma execute_command_frame:
  assumes "idle s" "execute_command_with_output E c q s = (r, s')"
  shows "idle s'" "own s' = own s" "eng s' = after E c (eng s) \<or> eng s' = eng s"
    "throw_if_null_or_whitespace c ''command'' = None \<Longrightarrow> eng s' = after E c (eng s)"
proof -
  have "(s' = s \<and> throw_if_null_or_whitespace c ''command'' \<noteq> None)
    \<or> (\<exists>f. s' = s\<lparr>eng := after E c (eng s), forwarded := f\<rparr>)"
  proof (cases "throw_if_null_or_whitespace c ''command''")
    case None
    then have "s' = snd (command_effect E c q s)"
      using execute_command_idle [OF assms(1), of c E q] assms(2) by (metis snd_conv)
    then show ?thesis unfolding command_effect_state by blast
  next
    case (Some e)
    then show ?thesis using execute_command_blank [OF assms(1), of c] assms(2) by simp
  qed
  then show "idle s'" "own s' = own s" "eng s' = after E c (eng s) \<or> eng s' = eng s"
    "throw_if_null_or_whitespace c ''command'' = None \<Longrightarrow> eng s' = after E c (eng s)"
    using assms(1) by (auto simp: idle_def fun_eq_iff)
qed

text \<open>Clearing a list of ids removes exactly these from the engine.\<close>

lemma clear_ids_ok:
  assumes "clears_by_id E" "idle s" "clear_ids E ids s = (Inr v, s')"
  shows "idle s' \<and> own s' = own s \<and> ids_of E (eng s') = ids_of E (eng s) - set ids"
  using assms(2,3)
proof (induction ids arbitrary: s v)
  case Nil
  then show ?case by (simp add: clear_ids_def ret_ok)
next
  case (Cons i ids)
  then obtain r s1 where s1: "execute_command_with_output E (clear_command i) True s = (r, s1)"
      "clear_ids E ids s1 = (Inr v, s')"
    by (auto simp: clear_ids_def act_oks)
  note f = execute_command_frame [OF Cons.prems(1) s1(1)]
  have "ids_of E (eng s1) = ids_of E (eng s) - {i}"
    using f(4) [OF clear_command_not_blank] assms(1) by (simp add: clears_by_id_def)
  then show ?case using Cons.IH [OF f(1) s1(2)] f(2) by auto
qed

lemma own_put_tracked:
  "own (put_tracked_ids k ids s) = (own s)(Of_Kind k := ids)"
proof
  fix w
  show "own (put_tracked_ids k ids s) w = ((own s)(Of_Kind k := ids)) w"
  proof (cases w)
    case (Of_Kind k')
    then show ?thesis by (cases k; cases k') (simp_all add: own_simps)
  next
    case (Of_File p)
    then show ?thesis by (cases k) (simp_all add: own_simps)
  qed
qed

lemma eng_put_tracked [simp]: "eng (put_tracked_ids k ids s) = eng s" "idle (put_tracked_ids k ids s) = idle s"
  by (cases k; simp add: idle_def)+

lemma only_adds_execute:
  assumes "idle s" "execute_command_with_output E c q s = (r, s')" "only_adds E c"
  shows "ids_of E (eng s) \<subseteq> ids_of E (eng s')"
  using execute_command_frame(3) [OF assms(1,2)] assms(3) unfolding only_adds_def by (elim disjE) simp_all

lemma owned_add:
  assumes "owned E s" "own s' = (own s)(w := ids)" "eng s' = eng s" "set ids \<subseteq> ids_of E (eng s)"
    and "\<And>i v. i \<in> set ids \<Longrightarrow> v \<noteq> w \<Longrightarrow> i \<notin> set (own s v)"
  shows "owned E s'"
  using assms unfolding owned_def by (auto simp: disjoint_iff)

text \<open>One breakpoint of a replace-all set.\<close>

lemma configure_command_ok:
  assumes "idle s" "owned E s" "only_adds E c" "configure_command_breakpoint E k (c, l) s = (Inr r, s')"
  shows "idle s' \<and> owned E s' \<and> ids_of E (eng s) \<subseteq> ids_of E (eng s')
    \<and> own s' = (own s)(Of_Kind k := own s (Of_Kind k) @ (case result_id r of None \<Rightarrow> [] | Some i \<Rightarrow> [i]))
    \<and> (result_verified r \<longleftrightarrow> result_id r \<noteq> None)"
proof -
  let ?result = "\<lambda>b a. case new_ids b a of
      [i] \<Rightarrow> act_then (update_state (\<lambda>s. put_tracked_ids k (tracked_ids k s @ [i]) s))
               (ret \<lparr>result_id = Some i, result_line = 0, result_verified = True, result_message = None\<rparr>)
    | _ \<Rightarrow> ret \<lparr>result_id = None, result_line = 0, result_verified = False,
               result_message = Some (''Unable to set breakpoint at '' @ quoted l @ ''.'')\<rparr>"
  obtain b s0 s1 a s2 where 1: "get_configured_breakpoint_ids E s = (Inr b, s0)"
      "act_catch (act_then (execute_command_with_output E c True) (ret ())) (\<lambda>e. ret ()) s0 = (Inr (), s1)"
      "get_configured_breakpoint_ids E s1 = (Inr a, s2)" "?result b a s2 = (Inr r, s')"
    using assms(4) unfolding configure_command_breakpoint_def prod.case act_bind_ok act_then_ok by auto
  have b: "get_configured_breakpoint_ids E s = (Inr b, s)"
    and e: "act_catch (act_then (execute_command_with_output E c True) (ret ())) (\<lambda>e. ret ()) s = (Inr (), s1)"
    and a: "get_configured_breakpoint_ids E s1 = (Inr a, s1)" and rest: "?result b a s1 = (Inr r, s')"
    using 1 configured_ids_ok [OF 1(1)] configured_ids_ok [OF 1(3)] by simp_all
  obtain x where x: "execute_command_with_output E c True s = (x, s1)"
    using e by (auto simp: act_catch_def act_then_def act_bind_def ret_def split: prod.splits sum.splits)
  have f: "idle s1" "own s1 = own s" "ids_of E (eng s) \<subseteq> ids_of E (eng s1)"
    using execute_command_frame [OF assms(1) x] only_adds_execute [OF assms(1) x assms(3)] by auto
  have sets: "set b = ids_of E (eng s)" "set a = ids_of E (eng s1)"
    using configured_ids_ok [OF b] configured_ids_ok [OF a] by auto
  have o1: "owned E s1" using assms(2) f(2,3) unfolding owned_def by fastforce
  show ?thesis
  proof (cases "\<exists>i. new_ids b a = [i]")
    case True
    then obtain i where i: "new_ids b a = [i]" by blast
    have s': "s' = put_tracked_ids k (tracked_ids k s1 @ [i]) s1" "result_id r = Some i" "result_verified r"
      using rest i by (auto simp: act_oks)
    have own': "own s' = (own s)(Of_Kind k := own s (Of_Kind k) @ [i])"
    proof -
      have "tracked_ids k s1 = own s (Of_Kind k)" using fun_cong [OF f(2), of "Of_Kind k"] by (simp add: own_simps)
      then show ?thesis unfolding s'(1) own_put_tracked f(2) by simp
    qed
    have fresh: "i \<in> ids_of E (eng s1)" "\<And>w. i \<notin> set (own s w)"
      using new_ids_single [OF i] sets assms(2) unfolding owned_def by auto
    have "owned E s'"
    proof (rule owned_add [OF o1])
      show "own s' = (own s1)(Of_Kind k := own s (Of_Kind k) @ [i])" using own' f(2) by simp
      show "set (own s (Of_Kind k) @ [i]) \<subseteq> ids_of E (eng s1)"
        using o1 fresh(1) f(2) unfolding owned_def by auto
      fix j v
      assume j: "j \<in> set (own s (Of_Kind k) @ [i])" "v \<noteq> Of_Kind k"
      have "set (own s v) \<inter> set (own s (Of_Kind k)) = {}" using assms(2) j(2) unfolding owned_def by blast
      then show "j \<notin> set (own s1 v)" using j(1) fresh(2) [of v] f(2) by auto
    qed (simp add: s'(1))
    then show ?thesis using f s' own' by simp
  next
    case False
    then have "s' = s1" "result_id r = None" "\<not> result_verified r"
      using rest by (auto simp: ret_ok split: list.splits)
    then show ?thesis using f o1 by simp
  qed
qed

lemma configure_commands_ok:
  assumes "idle s" "owned E s" "\<forall>(c, l) \<in> set commands. only_adds E c"
    and "act_map (configure_command_breakpoint E k) commands s = (Inr rs, s')"
  shows "idle s' \<and> owned E s' \<and> ids_of E (eng s) \<subseteq> ids_of E (eng s')
    \<and> own s' = (own s)(Of_Kind k := own s (Of_Kind k) @ result_ids rs)
    \<and> (\<forall>r \<in> set rs. result_verified r \<longleftrightarrow> result_id r \<noteq> None)"
  using assms
proof (induction commands arbitrary: s rs)
  case Nil
  then show ?case by (auto simp: ret_ok result_ids_def map_filter_simps)
next
  case (Cons cl commands)
  obtain c l where cl: "cl = (c, l)" by (cases cl)
  obtain r s1 rs' where s1: "configure_command_breakpoint E k (c, l) s = (Inr r, s1)"
      "act_map (configure_command_breakpoint E k) commands s1 = (Inr rs', s')" "rs = r # rs'"
    using Cons.prems(4) cl by (auto simp: act_oks)
  have one: "idle s1 \<and> owned E s1 \<and> ids_of E (eng s) \<subseteq> ids_of E (eng s1)
    \<and> own s1 = (own s)(Of_Kind k := own s (Of_Kind k) @ (case result_id r of None \<Rightarrow> [] | Some i \<Rightarrow> [i]))
    \<and> (result_verified r \<longleftrightarrow> result_id r \<noteq> None)"
    using configure_command_ok [OF Cons.prems(1,2) _ s1(1)] Cons.prems(3) cl by auto
  then show ?case
    using Cons.IH [OF _ _ _ s1(2)] Cons.prems(3) s1(3)
    by (cases "result_id r") (auto simp: result_ids_def map_filter_simps)
qed

lemma owned_drop:
  assumes "owned E s" "own s' = (own s)(w := [])" "ids_of E (eng s') = ids_of E (eng s) - set (own s w)"
  shows "owned E s'"
  using assms unfolding owned_def by (auto simp: disjoint_iff) 

lemma own_put_file:
  "own (s\<lparr>source_breakpoint_ids := (source_breakpoint_ids s)(p := Some ids)\<rparr>) = (own s)(Of_File p := ids)"
  "own (s\<lparr>source_breakpoint_ids := (source_breakpoint_ids s)(p := None)\<rparr>) = (own s)(Of_File p := [])"
proof -
  have "own (s\<lparr>source_breakpoint_ids := m\<rparr>) w = (case w of Of_File q \<Rightarrow> (case m q of None \<Rightarrow> [] | Some ids \<Rightarrow> ids) | _ \<Rightarrow> own s w)"
    for m w
  proof (cases w)
    case (Of_Kind k)
    then show ?thesis by (cases k) (simp_all add: own_simps)
  qed (simp add: own_simps)
  then show "own (s\<lparr>source_breakpoint_ids := (source_breakpoint_ids s)(p := Some ids)\<rparr>) = (own s)(Of_File p := ids)"
    "own (s\<lparr>source_breakpoint_ids := (source_breakpoint_ids s)(p := None)\<rparr>) = (own s)(Of_File p := [])"
    by (auto simp: fun_eq_iff own_simps split: owner.split)
qed

lemma clear_source_ok:
  assumes "clears_by_id E" "idle s" "clear_source_breakpoints E p s = (Inr v, s')"
  shows "idle s' \<and> own s' = (own s)(Of_File (to_upper_invariant p) := [])
    \<and> ids_of E (eng s') = ids_of E (eng s) - set (own s (Of_File (to_upper_invariant p)))"
proof (cases "source_breakpoint_ids s (to_upper_invariant p)")
  case None
  then have "s' = s" using assms(3) by (auto simp: clear_source_breakpoints_def Let_def act_oks)
  then show ?thesis using None assms(2) by (auto simp: fun_eq_iff own_simps)
next
  case (Some ids)
  let ?s = "s\<lparr>source_breakpoint_ids := (source_breakpoint_ids s)(to_upper_invariant p := None)\<rparr>"
  have "clear_ids E ids ?s = (Inr v, s')"
    using assms(3) Some by (auto simp: clear_source_breakpoints_def Let_def act_oks)
  from clear_ids_ok [OF assms(1) _ this] show ?thesis
    using assms(2) Some own_put_file(2) [of s "to_upper_invariant p"] by (simp add: own_simps)
qed

text \<open>Source breakpoints: one engine command per distinct specification.\<close>

lemma configure_source_ok:
  assumes "idle s" "only_adds E (create_source_breakpoint_command p b)"
    and "configure_source_breakpoint E p b s = (Inr (key, r), s')"
  shows "idle s' \<and> own s' = own s \<and> ids_of E (eng s) \<subseteq> ids_of E (eng s') \<and> key = spec_key b \<and> result_line r = spec_line b
    \<and> (\<forall>i. result_id r = Some i \<longrightarrow> i \<in> ids_of E (eng s') \<and> i \<notin> ids_of E (eng s))"
proof -
  obtain bf s0 x s1 af s2 where 1: "get_configured_breakpoint_ids E s = (Inr bf, s0)"
      "execute_command_with_output E (create_source_breakpoint_command p b) True s0 = (Inr x, s1)"
      "get_configured_breakpoint_ids E s1 = (Inr af, s2)"
      "key = spec_key b" "r = source_result p b (new_ids bf af)" "s' = s2"
    using assms(3) unfolding configure_source_breakpoint_def by (auto simp: act_oks)
  have eq: "s0 = s" "s2 = s1" "set bf = ids_of E (eng s)" "set af = ids_of E (eng s1)"
    using configured_ids_ok [OF 1(1)] configured_ids_ok [OF 1(3)] by auto
  have f: "idle s1" "own s1 = own s" "ids_of E (eng s) \<subseteq> ids_of E (eng s1)"
    using execute_command_frame [OF assms(1) 1(2) [unfolded eq]] only_adds_execute [OF assms(1) 1(2) [unfolded eq] assms(2)]
    by auto
  have "result_id r = Some i \<Longrightarrow> new_ids bf af = [i]" for i
    unfolding 1(5) source_result_def by (auto split: list.splits)
  moreover have "result_line r = spec_line b" unfolding 1(5) source_result_def by (simp split: list.split)
  ultimately show ?thesis using f 1(4,6) eq new_ids_single by blast
qed

lemma configure_sources_ok:
  assumes "idle s" "\<forall>b \<in> set bs. only_adds E (create_source_breakpoint_command p b)"
    and "act_map (configure_source_breakpoint E p) bs s = (Inr rs, s')"
  shows "idle s' \<and> own s' = own s \<and> ids_of E (eng s) \<subseteq> ids_of E (eng s')
    \<and> map fst rs = map spec_key bs \<and> map (\<lambda>x. result_line (snd x)) rs = map spec_line bs
    \<and> set (result_ids (map snd rs)) \<subseteq> ids_of E (eng s') - ids_of E (eng s)"
  using assms
proof (induction bs arbitrary: s rs)
  case Nil
  then show ?case by (auto simp: ret_ok result_ids_def map_filter_simps)
next
  case (Cons b bs)
  obtain key r s1 rs' where s1: "configure_source_breakpoint E p b s = (Inr (key, r), s1)"
      "act_map (configure_source_breakpoint E p) bs s1 = (Inr rs', s')" "rs = (key, r) # rs'"
    using Cons.prems(3) by (auto simp: act_oks)
  have one: "idle s1 \<and> own s1 = own s \<and> ids_of E (eng s) \<subseteq> ids_of E (eng s1) \<and> key = spec_key b \<and> result_line r = spec_line b
    \<and> (\<forall>i. result_id r = Some i \<longrightarrow> i \<in> ids_of E (eng s1) \<and> i \<notin> ids_of E (eng s))"
    using configure_source_ok [OF Cons.prems(1) _ s1(1)] Cons.prems(2) by auto
  have more: "idle s' \<and> own s' = own s1 \<and> ids_of E (eng s1) \<subseteq> ids_of E (eng s')
    \<and> map fst rs' = map spec_key bs \<and> map (\<lambda>x. result_line (snd x)) rs' = map spec_line bs
    \<and> set (result_ids (map snd rs')) \<subseteq> ids_of E (eng s') - ids_of E (eng s1)"
    using Cons.IH [OF _ _ s1(2)] Cons.prems(2) one by auto
  show ?case
    using one more s1(3) by (cases "result_id r") (auto simp: result_ids_def map_filter_simps)
qed

lemma dec_chars: "c \<in> set (dec_int i) \<Longrightarrow> c \<noteq> CHR 0x1F"
  using isdigit_dec [of c] by (auto simp: dec_int_def isdigit_def split: if_splits)

lemma dec_inj: "dec m = dec n \<Longrightarrow> m = n"
  using digits_value_dec by metis

lemma dec_no_minus: "dec m \<noteq> CHR ''-'' # r"
  using isdigit_dec [of "CHR ''-''" m] by (auto simp: isdigit_def)

lemma dec_int_inj:
  assumes "dec_int i = dec_int j"
  shows "i = j"
proof (cases "i < 0"; cases "j < 0")
  assume "i < 0" "j < 0"
  then show ?thesis using assms dec_inj [of "nat (- i)" "nat (- j)"] by (simp add: dec_int_def)
next
  assume "\<not> i < 0" "\<not> j < 0"
  then show ?thesis using assms dec_inj [of "nat i" "nat j"] by (simp add: dec_int_def)
qed (use assms dec_no_minus [of "nat i"] dec_no_minus [of "nat j"] in \<open>simp_all add: dec_int_def dec_no_minus [symmetric]\<close>)

lemma spec_key_line: "spec_key a = spec_key b \<Longrightarrow> spec_line a = spec_line b"
proof -
  have t: "takeWhile (\<lambda>c. c \<noteq> CHR 0x1F) (spec_key x) = dec_int (spec_line x)" for x
    unfolding spec_key_def using dec_chars [of _ "spec_line x"] by (subst takeWhile_append2) auto
  assume "spec_key a = spec_key b"
  then show ?thesis using t [of a] t [of b] dec_int_inj by metis
qed

lemma distinct_specs_facts:
  "distinct (map spec_key (distinct_specs bs))" "set (distinct_specs bs) \<subseteq> {b \<in> set bs. spec_line b > 0}"
  "b \<in> set bs \<Longrightarrow> spec_line b > 0 \<Longrightarrow> spec_key b \<in> spec_key ` set (distinct_specs bs)"
proof -
  show "distinct (map spec_key (distinct_specs bs))"
    unfolding distinct_specs_def using distinct_by_keys by blast
  show "set (distinct_specs bs) \<subseteq> {b \<in> set bs. spec_line b > 0}"
    unfolding distinct_specs_def using set_distinct_by [of spec_key "[]" "filter (\<lambda>b. spec_line b > 0) bs"] by auto
  show "b \<in> set bs \<Longrightarrow> spec_line b > 0 \<Longrightarrow> spec_key b \<in> spec_key ` set (distinct_specs bs)"
    unfolding distinct_specs_def
    using distinct_by_covers [of spec_key "[]" "filter (\<lambda>b. spec_line b > 0) bs"] by auto
qed

lemma result_ids_mem: "i \<in> set (result_ids rs) \<longleftrightarrow> (\<exists>r \<in> set rs. result_id r = Some i)"
  by (force simp: result_ids_def List.map_filter_def image_iff)

text \<open>The projection of the configured results to the requests.\<close>

lemma line_results:
  assumes "map fst rs = map spec_key (distinct_specs bs)" "map (\<lambda>x. result_line (snd x)) rs = map spec_line (distinct_specs bs)"
  shows "map result_line (map (line_result rs) bs) = map spec_line bs"
    and "set (result_ids (map (line_result rs) bs)) = set (result_ids (map snd rs))"
proof -
  let ?ds = "distinct_specs bs"
  have len: "length rs = length ?ds" using assms(1) by (metis length_map)
  have nth: "fst (rs ! j) = spec_key (?ds ! j) \<and> result_line (snd (rs ! j)) = spec_line (?ds ! j)" if "j < length ?ds" for j
    using arg_cong [OF assms(1), of "\<lambda>l. l ! j"] arg_cong [OF assms(2), of "\<lambda>l. l ! j"] that len by simp
  have dist: "distinct (map fst rs)" using assms(1) distinct_specs_facts(1) by simp
  have lookup: "\<exists>j < length ?ds. map_of rs (spec_key b) = Some (snd (rs ! j)) \<and> spec_key (?ds ! j) = spec_key b"
    if bpos: "b \<in> set bs" "spec_line b > 0" for b
  proof -
    obtain j where j: "j < length ?ds" "spec_key (?ds ! j) = spec_key b"
      using distinct_specs_facts(3) [OF bpos] by (auto simp: in_set_conv_nth image_iff)
    then have "map_of rs (spec_key b) = Some (snd (rs ! j))"
      using nth [OF j(1)] len dist by (intro map_of_is_SomeI) (auto simp: in_set_conv_nth prod_eq_iff)
    then show ?thesis using j by blast
  qed
  have line: "result_line (line_result rs b) = spec_line b" if member: "b \<in> set bs" for b
  proof (cases "spec_line b > 0")
    case True
    then obtain j where "j < length ?ds" "map_of rs (spec_key b) = Some (snd (rs ! j))" "spec_key (?ds ! j) = spec_key b"
      using lookup [OF member] by blast
    then show ?thesis using True nth [of j] spec_key_line [of "?ds ! j" b] by (simp add: line_result_def)
  qed (simp add: line_result_def)
  then show "map result_line (map (line_result rs) bs) = map spec_line bs" by simp
  have "i \<in> set (result_ids (map snd rs))" if i: "b \<in> set bs" "result_id (line_result rs b) = Some i" for b i
  proof -
    have "spec_line b > 0" using i(2) by (auto simp: line_result_def split: if_splits)
    then obtain j where "j < length rs" "line_result rs b = snd (rs ! j)"
      using lookup [OF i(1)] len by (auto simp: line_result_def)
    then show ?thesis using i(2) by (auto simp: result_ids_mem intro!: bexI [of _ "rs ! j"])
  qed
  moreover have "i \<in> set (result_ids (map (line_result rs) bs))" if i: "x \<in> set rs" "result_id (snd x) = Some i" for x i
  proof -
    obtain j where j: "j < length ?ds" "x = rs ! j" using i(1) len by (metis in_set_conv_nth)
    have b: "?ds ! j \<in> set bs" "spec_line (?ds ! j) > 0" using distinct_specs_facts(2) [of bs] j(1) nth_mem by blast+
    have "(spec_key (?ds ! j), snd x) = x" using nth [OF j(1)] j(2) by (simp add: prod_eq_iff)
    then have "map_of rs (spec_key (?ds ! j)) = Some (snd x)" using i(1) dist by (intro map_of_is_SomeI) simp_all
    then have "result_id (line_result rs (?ds ! j)) = Some i" using b(2) i(2) by (simp add: line_result_def)
    then show ?thesis using b(1) by (auto simp: result_ids_mem)
  qed
  ultimately show "set (result_ids (map (line_result rs) bs)) = set (result_ids (map snd rs))"
    by (auto simp: result_ids_mem)
qed

section \<open>Properties\<close>


text \<open>
  C15. Setting the breakpoints of a file gives one result per requested breakpoint, in order and
  with its line; duplicates share a result and lines that are not positive are
  refused.  The ids of the results are exactly what the session tracks for the file from
  then on, the breakpoints of other files and kinds stay in the engine, and no engine id has two owners.
\<close>

theorem source_breakpoints_replace:
  assumes "idle s" "owned E s" "clears_by_id E" "only_adds E ''.lines -e''"
    and "\<forall>b \<in> set bs. only_adds E (create_source_breakpoint_command (full_path file_path) b)"
    and "set_source_breakpoints E full_path file_path bs s = (Inr rs, s')"
    and w_def: "w = Of_File (to_upper_invariant (full_path file_path))"
  shows "map result_line rs = map spec_line bs
    \<and> (\<forall>i < length bs. spec_line (bs ! i) \<le> 0 \<longrightarrow> \<not> result_verified (rs ! i))
    \<and> idle s' \<and> owned E s' \<and> set (own s' w) = set (result_ids rs) \<and> (\<forall>v. v \<noteq> w \<longrightarrow> own s' v = own s v)
    \<and> ids_of E (eng s) - set (own s w) \<subseteq> ids_of E (eng s')"
proof -
  obtain s1 x s2 where 1: "execute_command_with_output E ''.lines -e'' True s = (Inr x, s1)"
      "clear_source_breakpoints E (full_path file_path) s1 = (Inr (), s2)"
      "(if bs = [] then ret [] else act_bind (act_map (configure_source_breakpoint E (full_path file_path)) (distinct_specs bs))
          (\<lambda>configured. act_then (update_state (\<lambda>s. s\<lparr>source_breakpoint_ids := (source_breakpoint_ids s)
              (to_upper_invariant (full_path file_path) := Some (result_ids (map snd configured)))\<rparr>))
            (ret (map (line_result configured) bs)))) s2 = (Inr rs, s')"
    using assms(6) unfolding set_source_breakpoints_def Let_def
    by (auto simp: act_then_ok act_check_ok throw_if_disposed_ok)
  have f1: "idle s1" "own s1 = own s" "ids_of E (eng s) \<subseteq> ids_of E (eng s1)"
    using execute_command_frame [OF assms(1) 1(1)] only_adds_execute [OF assms(1) 1(1) assms(4)] by auto
  have f2: "idle s2" "own s2 = (own s)(w := [])" "ids_of E (eng s2) = ids_of E (eng s1) - set (own s w)"
    using clear_source_ok [OF assms(3) f1(1) 1(2)] f1(2) unfolding w_def by auto
  have o1: "owned E s1" using assms(2) f1(2,3) unfolding owned_def by fastforce
  have o2: "owned E s2" by (rule owned_drop [OF o1]) (use f2 f1(2) in auto)
  show ?thesis
  proof (cases "bs = []")
    case True
    then have "rs = []" "s' = s2" using 1(3) by (auto simp: ret_ok)
    then show ?thesis using True f1 f2 o2 by (auto simp: result_ids_def map_filter_simps)
  next
    case False
    then obtain c s3 where c: "act_map (configure_source_breakpoint E (full_path file_path)) (distinct_specs bs) s2 = (Inr c, s3)"
        "rs = map (line_result c) bs"
        "s' = s3\<lparr>source_breakpoint_ids := (source_breakpoint_ids s3)
              (to_upper_invariant (full_path file_path) := Some (result_ids (map snd c)))\<rparr>"
      using 1(3) by (auto simp: act_oks)
    have f3: "idle s3" "own s3 = own s2" "ids_of E (eng s2) \<subseteq> ids_of E (eng s3)"
        "map fst c = map spec_key (distinct_specs bs)" "map (\<lambda>x. result_line (snd x)) c = map spec_line (distinct_specs bs)"
        "set (result_ids (map snd c)) \<subseteq> ids_of E (eng s3) - ids_of E (eng s2)"
      using configure_sources_ok [OF f2(1) _ c(1)] assms(5) distinct_specs_facts(2) [of bs] by blast+
    have own': "own s' = (own s3)(w := result_ids (map snd c))"
      unfolding c(3) w_def by (rule own_put_file)
    have o3: "owned E s3" using o2 f3(2,3) unfolding owned_def by fastforce
    have "owned E s'"
    proof (rule owned_add [OF o3 own'])
      show "i \<notin> set (own s3 v)" if "i \<in> set (result_ids (map snd c))" for i v
      proof -
        have "i \<notin> ids_of E (eng s2)" using that f3(6) by blast
        moreover have "set (own s3 v) \<subseteq> ids_of E (eng s2)" using o2 f3(2) by (simp add: owned_def)
        ultimately show ?thesis by blast
      qed
    qed (use f3(6) c(3) in auto)
    moreover have "\<not> result_verified (line_result c b)" if "spec_line b \<le> 0" for b
      using that by (simp add: line_result_def)
    moreover have "map result_line rs = map spec_line bs" "set (result_ids (map snd c)) = set (result_ids rs)"
      using line_results [OF f3(4,5)] c(2) by simp_all
    moreover have "idle s'" "eng s' = eng s3" using f3(1) c(3) by simp_all
    moreover have "ids_of E (eng s) - set (own s w) \<subseteq> ids_of E (eng s3)" using f1(3) f2(3) f3(3) by blast
    moreover have "own s' v = own s v" if "v \<noteq> w" for v using that own' f3(2) f2(2) by simp
    ultimately show ?thesis using own' c(2) by simp
  qed
qed

text \<open>An engine that numbers its breakpoints from 1 on and knows \<open>bu\<close> and \<open>bc\<close>, for the witnesses.\<close>

definition bp_engine :: "(u32 list \<times> u32) engine" where
  "bp_engine = \<lparr>eng_execute = \<lambda>c (ids, n).
       if starts_with ''bu '' c then (0, [], (ids @ [n], n + 1))
       else (0, [], (filter (\<lambda>i. c \<noteq> clear_command (sint i)) ids, n)),
     eng_breakpoints = \<lambda>(ids, n). Some (map (\<lambda>i. Some (i, 0, 0)) ids), eng_detach_processes = \<lambda>e. (0, e),
     eng_end_session = \<lambda>e. e, eng_set_interrupt = \<lambda>e. (0, e), eng_threads = \<lambda>e. (0, 0, [7]),
     eng_current_thread = \<lambda>e. (0, 0), eng_thread_by_system_id = \<lambda>t e. (0, 0), eng_set_current_thread = \<lambda>t e. (0, e),
     eng_set_symbol_path = \<lambda>p e. (0, e), eng_reload = \<lambda>m e. (0, e), eng_write_virtual = \<lambda>a bs e. (0, 0, e)\<rparr>"

lemma bp_engine_ids: "ids_of bp_engine (ids, n) = sint ` set ids"
  by (auto simp: ids_of_def breakpoint_states_def bp_engine_def List.map_filter_def comp_def)

lemma clear_command_inj: "clear_command i = clear_command j \<longleftrightarrow> i = j"
  using dec_int_inj by (auto simp: clear_command_def)

lemma bp_engine_documented:
  "clears_by_id bp_engine" "only_adds bp_engine (''bu '' @ l)" "only_adds bp_engine ''.lines -e''"
proof -
  have "ids_of bp_engine (after bp_engine (clear_command i) (ids, n)) = ids_of bp_engine (ids, n) - {i}" for i ids n
  proof -
    have "after bp_engine (clear_command i) (ids, n) = (filter (\<lambda>j. i \<noteq> sint j) ids, n)"
      by (simp add: after_def bp_engine_def clear_command_inj) (simp add: clear_command_def starts_with_def)
    then show ?thesis by (auto simp: bp_engine_ids)
  qed
  then show "clears_by_id bp_engine" by (simp add: clears_by_id_def)
  have "after bp_engine (''bu '' @ l) (ids, n) = (ids @ [n], n + 1)" for ids n
    by (simp add: after_def bp_engine_def starts_with_def)
  then show "only_adds bp_engine (''bu '' @ l)" by (auto simp: only_adds_def bp_engine_ids)
  have "after bp_engine ''.lines -e'' (ids, n) = (ids, n)" for ids n
    by (simp add: after_def bp_engine_def starts_with_def clear_command_def)
  then show "only_adds bp_engine ''.lines -e''" by (auto simp: only_adds_def)
qed

lemma new_session_owned: "owned E (new_session e)"
proof -
  have "own (new_session e) w = []" for w
  proof (cases w)
    case (Of_Kind k)
    then show ?thesis by (cases k) (simp_all add: new_session_def own_simps)
  qed (simp add: new_session_def own_simps)
  then show ?thesis by (simp add: owned_def)
qed

lemma command_breakpoints_run:
  "fst (set_command_breakpoints bp_engine Function_Breakpoints [(''bu main'', ''main'')] (new_session ([], 1)))
     = Inr [\<lparr>result_id = Some 1, result_line = 0, result_verified = True, result_message = None\<rparr>]"
  by code_simp


lemma source_breakpoints_run:
  "fst (set_source_breakpoints bp_engine (\<lambda>p. p) ''a.c''
       [\<lparr>spec_line = 3, spec_condition = None\<rparr>, \<lparr>spec_line = 0, spec_condition = None\<rparr>, \<lparr>spec_line = 3, spec_condition = None\<rparr>]
       (new_session ([], 1)))
   = Inr [\<lparr>result_id = Some 1, result_line = 3, result_verified = True, result_message = None\<rparr>,
          \<lparr>result_id = None, result_line = 0, result_verified = False,
            result_message = Some ''Breakpoint lines must be greater than zero.''\<rparr>,
          \<lparr>result_id = Some 1, result_line = 3, result_verified = True, result_message = None\<rparr>]"
  by code_simp

theorem source_breakpoints_replace_witness:
  "\<exists>rs s'. set_source_breakpoints bp_engine (\<lambda>p. p) ''a.c''
       [\<lparr>spec_line = 3, spec_condition = None\<rparr>, \<lparr>spec_line = 0, spec_condition = None\<rparr>, \<lparr>spec_line = 3, spec_condition = None\<rparr>]
       (new_session ([], 1)) = (Inr rs, s')
    \<and> map result_line rs = [3, 0, 3] \<and> owned bp_engine s' \<and> set (own s' (Of_File (to_upper_invariant ''a.c''))) = {1}"
proof -
  let ?bs = "[\<lparr>spec_line = 3, spec_condition = None\<rparr>, \<lparr>spec_line = 0, spec_condition = None\<rparr>, \<lparr>spec_line = 3, spec_condition = None\<rparr>]"
  let ?s = "new_session ([], 1) :: (u32 list \<times> u32) session"
  obtain rs s' where x: "set_source_breakpoints bp_engine (\<lambda>p. p) ''a.c'' ?bs ?s = (Inr rs, s')" "set (result_ids rs) = {1}"
    using source_breakpoints_run by (cases "set_source_breakpoints bp_engine (\<lambda>p. p) ''a.c'' ?bs ?s")
      (auto simp: result_ids_def map_filter_simps)
  have i: "idle ?s" by (simp add: idle_def new_session_def)
  have "\<forall>b \<in> set ?bs. only_adds bp_engine (create_source_breakpoint_command ''a.c'' b)"
    using bp_engine_documented(2) by (simp add: create_source_breakpoint_command_def)
  from source_breakpoints_replace [OF i new_session_owned bp_engine_documented(1,3) this x(1) refl] x show ?thesis
    by auto
qed

end

