(* ===== verification/Inspection.thy ===== *)
theory Inspection
  imports Debugger_Session
begin

text \<open>
  Inspection of a stopped target (src/src/debugger/debugger_session_inspection.cpp and the module list
  of src/src/debugger/debugger_session_symbols.cpp): stack traces, locals as a list and as a tree,
  expressions in a frame, registers and modules.  The engine's symbol group, registers
  and modules are the parameter \<open>inspector\<close>; the scope symbol group that a call opens
  and releases is part of the engine state.  Shown here: the tree that is rebuilt from the
  engine's flat symbol list is the tree its parent links describe, and the expansion of
  aggregates ends.
\<close>

unbundle bit_operations_syntax

section \<open>The engine's inspection interfaces\<close>

record symbol_parameters =
  sp_parent :: u32
  sp_flags :: u32
  sp_sub_elements :: u32

text \<open>\<open>GetScopeSymbolGroup\<close> and the \<open>QueryInterface\<close> behind it.\<close>

datatype group_open = Group_Opened | Group_Unavailable | Group_Inaccessible

text \<open>A query gives \<open>None\<close> when the call fails; a text comes with the size the engine reports.\<close>

record 'e inspector =
  insp_view :: "'e \<Rightarrow> target_view"
  insp_stack :: "'e \<Rightarrow> hresult \<times> (u32 \<times> u64) list"
  grp_open :: "'e \<Rightarrow> group_open \<times> 'e"
  grp_release :: "'e \<Rightarrow> 'e"
  grp_count :: "'e \<Rightarrow> nat option"
  grp_parameters :: "'e \<Rightarrow> symbol_parameters list option"
  grp_name :: "'e \<Rightarrow> nat \<Rightarrow> (string \<times> nat) option"
  grp_value :: "'e \<Rightarrow> nat \<Rightarrow> (string \<times> nat) option"
  grp_type :: "'e \<Rightarrow> nat \<Rightarrow> (string \<times> nat) option"
  grp_offset :: "'e \<Rightarrow> nat \<Rightarrow> u64 option"
  grp_size :: "'e \<Rightarrow> nat \<Rightarrow> u32 option"
  grp_expand :: "nat \<Rightarrow> 'e \<Rightarrow> hresult \<times> 'e"
  grp_add :: "string \<Rightarrow> 'e \<Rightarrow> hresult \<times> u32 \<times> 'e"
  grp_write :: "nat \<Rightarrow> string \<Rightarrow> 'e \<Rightarrow> hresult \<times> 'e"
  reg_set_frame :: "u32 \<Rightarrow> 'e \<Rightarrow> hresult \<times> 'e"
  reg_count :: "'e \<Rightarrow> nat option"
  reg_description :: "'e \<Rightarrow> nat \<Rightarrow> (string \<times> nat \<times> bool \<times> bool) option"
  reg_frame_value :: "'e \<Rightarrow> nat \<Rightarrow> debug_value option"
  reg_value :: "'e \<Rightarrow> nat \<Rightarrow> debug_value option"
  mod_number :: "'e \<Rightarrow> hresult \<times> nat"
  mod_parameters :: "'e \<Rightarrow> nat \<Rightarrow> (u64 \<times> u32 \<times> nat) option"
  mod_names :: "'e \<Rightarrow> nat \<Rightarrow> ((string \<times> nat) \<times> string \<times> nat) option"

datatype variable_node =
  Variable_Node (vn_name: string) (vn_value: string) (vn_type: string) (vn_is_expandable: bool)
    (vn_address: u64) (vn_size: u32) (vn_children: "variable_node list")

record module_info =
  mi_name :: string
  mi_image_path :: string
  mi_base :: u64
  mi_size :: u32
  mi_symbol_status :: string

definition kDebugAnyId :: u32 where
  "kDebugAnyId = 0xFFFFFFFF"

definition kDebugSymbolExpanded :: u32 where
  "kDebugSymbolExpanded = 0x10"

definition kMaxExpansionDepth :: nat where
  "kMaxExpansionDepth = 3"

definition kMaxExpandedNodes :: nat where
  "kMaxExpandedNodes = 4096"

section \<open>Stack traces\<close>

definition get_stack_trace_fetch_count :: "int \<Rightarrow> int \<Rightarrow> exn + int" where
  "get_stack_trace_fetch_count total_frames max_frames =
     (if total_frames < 0 then Inl (Out_Of_Range ''totalFrames'')
      else if max_frames < 0 then Inl (Out_Of_Range ''maxFrames'')
      else Inr (min total_frames max_frames))"

definition frame_info :: "target_view \<Rightarrow> u32 \<times> u64 \<Rightarrow> stack_frame_info" where
  "frame_info tv f =
     \<lparr>sf_frame_number = fst f, sf_instruction_offset = snd f, sf_name = try_get_frame_name tv (snd f),
      sf_source = try_get_frame_source tv (snd f)\<rparr>"

definition get_stack_trace_details ::
    "'e inspector \<Rightarrow> int \<Rightarrow> ('e session, stack_frame_info list \<times> int) act" where
  "get_stack_trace_details I max_frames =
     act_then throw_if_disposed
       (if max_frames < 0 then raise (Out_Of_Range ''maxFrames'')
        else act_bind (get_state (\<lambda>s. (insp_stack I (eng s), insp_view I (eng s)))) (\<lambda>((hr, frames), tv).
          act_then (act_check (check_hr hr ''Could not enumerate stack trace''))
            (case get_stack_trace_fetch_count (int (length frames)) max_frames of
               Inl e \<Rightarrow> raise e
             | Inr fetch_count \<Rightarrow>
                 ret (map (frame_info tv) (take (nat fetch_count) frames), int (length frames)))))"

definition get_stack_trace :: "'e inspector \<Rightarrow> int \<Rightarrow> ('e session, stack_frame_info list) act" where
  "get_stack_trace I max_frames = act_bind (get_stack_trace_details I max_frames) (\<lambda>d. ret (fst d))"

section \<open>Symbol texts\<close>

definition symbol_text :: "(string \<times> nat) option \<Rightarrow> string" where
  "symbol_text t = (case t of None \<Rightarrow> [] | Some (buffer, n) \<Rightarrow> if n = 0 then [] else buffer_to_trimmed_string buffer n)"

text \<open>The last character that is not white space is a star.\<close>

definition type_is_pointer :: "string \<Rightarrow> bool" where
  "type_is_pointer t = (case dropWhile isspace (rev t) of [] \<Rightarrow> False | c # cs \<Rightarrow> c = CHR ''*'')"

text \<open>The walk up the parent links; \<open>None\<close> when the fuel is used up, which only a cycle can do.\<close>

fun symbol_depth_from :: "nat \<Rightarrow> symbol_parameters list \<Rightarrow> u32 \<Rightarrow> nat option" where
  "symbol_depth_from 0 ps parent = None"
| "symbol_depth_from (Suc fuel) ps parent =
     (if parent \<noteq> kDebugAnyId \<and> unat parent < length ps
      then map_option Suc (symbol_depth_from fuel ps (sp_parent (ps ! unat parent)))
      else Some 0)"

definition symbol_depth :: "symbol_parameters list \<Rightarrow> nat \<Rightarrow> nat option" where
  "symbol_depth ps i = symbol_depth_from (Suc (length ps)) ps (sp_parent (ps ! i))"

section \<open>Expansion of aggregates\<close>

text \<open>One scan for a symbol to expand: whether one was expanded, and the engine state.\<close>

fun expand_one :: "'e inspector \<Rightarrow> symbol_parameters list \<Rightarrow> nat list \<Rightarrow> 'e \<Rightarrow> (bool \<times> 'e) option" where
  "expand_one I ps [] e = Some (False, e)"
| "expand_one I ps (i # rest) e =
     (if sp_flags (ps ! i) AND kDebugSymbolExpanded \<noteq> 0 \<or> sp_sub_elements (ps ! i) = 0
      then expand_one I ps rest e
      else case symbol_depth ps i of
             None \<Rightarrow> None
           | Some depth \<Rightarrow>
               if depth \<ge> kMaxExpansionDepth \<or> type_is_pointer (symbol_text (grp_type I e i))
               then expand_one I ps rest e
               else case grp_expand I i e of (hr, e') \<Rightarrow>
                 if hr_failed hr then expand_one I ps rest e' else Some (True, e'))"

partial_function (option) expand_all :: "'e inspector \<Rightarrow> 'e \<Rightarrow> 'e option" where
  "expand_all I e =
     (case grp_parameters I e of
        None \<Rightarrow> Some e
      | Some ps \<Rightarrow>
          if ps = [] \<or> length ps \<ge> kMaxExpandedNodes then Some e
          else case expand_one I ps [0..<length ps] e of
                 None \<Rightarrow> None
               | Some (expanded, e') \<Rightarrow> if expanded then expand_all I e' else Some e')"

section \<open>Rebuilding the tree\<close>

definition read_node :: "'e inspector \<Rightarrow> 'e \<Rightarrow> symbol_parameters list \<Rightarrow> nat \<Rightarrow> variable_node" where
  "read_node I e ps i =
     Variable_Node (symbol_text (grp_name I e i)) (normalize_value_text (symbol_text (grp_value I e i)))
       (symbol_text (grp_type I e i))
       (sp_sub_elements (ps ! i) \<noteq> 0 \<and> sp_flags (ps ! i) AND kDebugSymbolExpanded = 0)
       (case grp_offset I e i of None \<Rightarrow> 0 | Some a \<Rightarrow> a) (case grp_size I e i of None \<Rightarrow> 0 | Some n \<Rightarrow> n) []"

fun with_children :: "variable_node \<Rightarrow> variable_node list \<Rightarrow> variable_node" where
  "with_children (Variable_Node n v t x a z cs) cs' = Variable_Node n v t x a z cs'"

definition add_first_child :: "variable_node \<Rightarrow> variable_node \<Rightarrow> variable_node" where
  "add_first_child child node = with_children node (child # vn_children node)"

text \<open>The loop from the last index down to 0 that moves every node in front of its parent's children.\<close>

fun link_nodes :: "u32 list \<Rightarrow> nat \<Rightarrow> variable_node list \<Rightarrow> variable_node list" where
  "link_nodes parents 0 nodes = nodes"
| "link_nodes parents (Suc idx) nodes =
     (let parent = parents ! idx
      in link_nodes parents idx
           (if parent \<noteq> kDebugAnyId \<and> unat parent < length nodes
            then nodes[unat parent := add_first_child (nodes ! idx) (nodes ! unat parent)]
            else nodes))"

definition rebuild_tree :: "u32 list \<Rightarrow> variable_node list \<Rightarrow> variable_node list" where
  "rebuild_tree parents nodes =
     (let linked = link_nodes parents (length nodes) nodes
      in map ((!) linked) (filter (\<lambda>i. parents ! i = kDebugAnyId) [0..<length nodes]))"

definition read_tree :: "'e inspector \<Rightarrow> 'e \<Rightarrow> variable_node list" where
  "read_tree I e =
     (case grp_parameters I e of
        None \<Rightarrow> []
      | Some ps \<Rightarrow> rebuild_tree (map sp_parent ps) (map (read_node I e ps) [0..<length ps]))"

text \<open>\<open>None\<close> stands for an expansion that never ends; the scope group is released in every other case.\<close>

definition get_locals_tree :: "'e engine \<Rightarrow> 'e inspector \<Rightarrow> u32 \<Rightarrow> 'e session \<Rightarrow> ((exn + variable_node list) \<times> 'e session) option" where
  "get_locals_tree E I frame_number s =
     (case act_then throw_if_disposed
             (execute_command_with_output E (''.frame '' @ dec (unat frame_number)) True) s of
        (Inl e, s1) \<Rightarrow> Some (Inl e, s1)
      | (Inr t, s1) \<Rightarrow>
          (case grp_open I (eng s1) of (opened, e1) \<Rightarrow>
             if opened \<noteq> Group_Opened then Some (Inr [], s1\<lparr>eng := e1\<rparr>)
             else case expand_all I e1 of
                    None \<Rightarrow> None
                  | Some e2 \<Rightarrow> Some (Inr (read_tree I e2), s1\<lparr>eng := grp_release I e2\<rparr>)))"

section \<open>Locals as a list\<close>

definition named_values :: "'e inspector \<Rightarrow> 'e \<Rightarrow> nat \<Rightarrow> named_value_info list" where
  "named_values I e count =
     map (\<lambda>i. \<lparr>nv_name = symbol_text (grp_name I e i),
               nv_value = normalize_value_text (symbol_text (grp_value I e i))\<rparr>)
       (filter (\<lambda>i. symbol_text (grp_name I e i) \<noteq> []) [0..<count])"

definition get_locals :: "'e engine \<Rightarrow> 'e inspector \<Rightarrow> u32 \<Rightarrow> ('e session, named_value_info list) act" where
  "get_locals E I frame_number =
     act_then throw_if_disposed
       (act_then (execute_command_with_output E (''.frame '' @ dec (unat frame_number)) True)
          (\<lambda>s. case grp_open I (eng s) of (opened, e1) \<Rightarrow>
             if opened \<noteq> Group_Opened then (Inr [], s\<lparr>eng := e1\<rparr>)
             else (Inr (case grp_count I e1 of None \<Rightarrow> [] | Some count \<Rightarrow> named_values I e1 count),
                   s\<lparr>eng := grp_release I e1\<rparr>)))"

section \<open>Expressions in a frame\<close>

text \<open>Opens the scope group and adds the expression; the group is released when that fails.\<close>

definition open_scope_symbol_group ::
    "'e engine \<Rightarrow> 'e inspector \<Rightarrow> u32 \<Rightarrow> string \<Rightarrow> ('e session, nat) act" where
  "open_scope_symbol_group E I frame_number expression =
     act_then (execute_command_with_output E (''.frame '' @ dec (unat frame_number)) True)
       (\<lambda>s. case grp_open I (eng s) of (opened, e1) \<Rightarrow>
          if opened = Group_Unavailable
          then (Inl (Runtime_Error ''Could not open the scope symbol group.''), s\<lparr>eng := e1\<rparr>)
          else if opened = Group_Inaccessible
          then (Inl (Runtime_Error ''Could not access the scope symbol group.''), s\<lparr>eng := e1\<rparr>)
          else case grp_add I expression e1 of (hr, index, e2) \<Rightarrow>
            if hr_failed hr \<or> index = kDebugAnyId
            then (Inl (Runtime_Error (''Could not resolve '' @ quoted expression @ '' in the current frame.'')),
                  s\<lparr>eng := grp_release I e2\<rparr>)
            else (Inr (unat index), s\<lparr>eng := e2\<rparr>))"

definition release_group :: "'e inspector \<Rightarrow> ('e session, unit) act" where
  "release_group I = update_state (\<lambda>s. s\<lparr>eng := grp_release I (eng s)\<rparr>)"

text \<open>The scope guard around the use of an opened group.\<close>

definition with_scope_group ::
    "'e engine \<Rightarrow> 'e inspector \<Rightarrow> u32 \<Rightarrow> string \<Rightarrow> (nat \<Rightarrow> ('e session, 'a) act) \<Rightarrow> ('e session, 'a) act" where
  "with_scope_group E I frame_number expression f =
     act_then throw_if_disposed
       (act_bind (open_scope_symbol_group E I frame_number expression) (\<lambda>index.
          act_bind (act_catch (f index) (\<lambda>e. act_then (release_group I) (raise e))) (\<lambda>v.
            act_then (release_group I) (ret v))))"

definition display_name :: "string \<Rightarrow> string" where
  "display_name expression =
     rev (takeWhile (\<lambda>c. c \<noteq> CHR ''.'' \<and> c \<noteq> CHR 0x5D) (rev expression))"

definition create_symbol_node :: "'e inspector \<Rightarrow> nat \<Rightarrow> string \<Rightarrow> 'e \<Rightarrow> variable_node" where
  "create_symbol_node I index expression e =
     Variable_Node (display_name expression) (normalize_value_text (symbol_text (grp_value I e index)))
       (symbol_text (grp_type I e index))
       (case grp_parameters I e of
          None \<Rightarrow> False
        | Some ps \<Rightarrow> index < length ps \<and> sp_sub_elements (ps ! index) \<noteq> 0)
       0 0 []"

definition set_local_value ::
    "'e engine \<Rightarrow> 'e inspector \<Rightarrow> u32 \<Rightarrow> string \<Rightarrow> string \<Rightarrow> ('e session, variable_node) act" where
  "set_local_value E I frame_number expression value =
     with_scope_group E I frame_number expression (\<lambda>index.
       act_then (engine_call (grp_write I index value)
                   (''Could not assign '' @ quoted value @ '' to '' @ quoted expression))
         (get_state (\<lambda>s. create_symbol_node I index expression (eng s))))"

definition get_local_value :: "'e engine \<Rightarrow> 'e inspector \<Rightarrow> u32 \<Rightarrow> string \<Rightarrow> ('e session, variable_node) act" where
  "get_local_value E I frame_number expression =
     with_scope_group E I frame_number expression (\<lambda>index.
       act_bind (get_state (\<lambda>s. create_symbol_node I index expression (eng s))) (\<lambda>node.
         if vn_type node = []
         then raise (Runtime_Error (''Could not resolve '' @ quoted expression @ '' in the current frame.''))
         else ret node))"

definition get_symbol_address :: "'e engine \<Rightarrow> 'e inspector \<Rightarrow> u32 \<Rightarrow> string \<Rightarrow> ('e session, u64 \<times> u32) act" where
  "get_symbol_address E I frame_number expression =
     with_scope_group E I frame_number expression (\<lambda>index.
       act_bind (get_state (\<lambda>s. (grp_offset I (eng s) index, grp_size I (eng s) index))) (\<lambda>(offset, bytes).
         case offset of
           None \<Rightarrow> raise (Runtime_Error (quoted expression @ '' has no memory address (it may be enregistered).''))
         | Some a \<Rightarrow>
             if a = 0
             then raise (Runtime_Error (quoted expression @ '' has no memory address (it may be enregistered).''))
             else (case bytes of
                     None \<Rightarrow> raise (Runtime_Error (''Could not determine the size of '' @ quoted expression @ ''.''))
                   | Some n \<Rightarrow>
                       if n = 0
                       then raise (Runtime_Error (''Could not determine the size of '' @ quoted expression @ ''.''))
                       else ret (a, n))))"

section \<open>Registers and modules\<close>

text \<open>A description has the name, its size, and whether it is a sub-register and of integer type.\<close>

definition read_register :: "'e inspector \<Rightarrow> 'e \<Rightarrow> nat \<Rightarrow> named_value_info option" where
  "read_register I e index =
     (case reg_description I e index of
        None \<Rightarrow> None
      | Some (buffer, n, sub_register, is_integer) \<Rightarrow>
          if sub_register \<or> \<not> is_integer then None
          else case (case reg_frame_value I e index of Some v \<Rightarrow> Some v | None \<Rightarrow> reg_value I e index) of
                 None \<Rightarrow> None
               | Some v \<Rightarrow>
                   (let name = buffer_to_trimmed_string buffer n
                    in if name = [] then None
                       else Some \<lparr>nv_name = name, nv_value = format_register_value v\<rparr>))"

definition get_registers :: "'e inspector \<Rightarrow> u32 \<Rightarrow> ('e session, named_value_info list) act" where
  "get_registers I frame_number =
     act_then throw_if_disposed
       (\<lambda>s. case reg_set_frame I frame_number (eng s) of (hr, e1) \<Rightarrow>
          (Inr (if hr_failed hr then []
                else case reg_count I e1 of
                       None \<Rightarrow> []
                     | Some count \<Rightarrow> List.map_filter (read_register I e1) [0..<count]),
           s\<lparr>eng := e1\<rparr>))"

definition symbol_status_text :: "nat \<Rightarrow> string" where
  "symbol_status_text t =
     (if t = 0 then ''Symbols not found'' else if t = 5 then ''Symbols not loaded''
      else if t = 4 then ''Exports only'' else ''Symbols loaded'')"

definition read_module :: "'e inspector \<Rightarrow> 'e \<Rightarrow> nat \<Rightarrow> module_info option" where
  "read_module I e index =
     (case mod_parameters I e index of
        None \<Rightarrow> None
      | Some (module_base, n, symbol_type) \<Rightarrow>
          (case mod_names I e index of
             None \<Rightarrow> None
           | Some ((image_text, image_size), (module, module_size)) \<Rightarrow>
               Some \<lparr>mi_name = buffer_to_trimmed_string module module_size,
                     mi_image_path = buffer_to_trimmed_string image_text image_size,
                     mi_base = module_base, mi_size = n, mi_symbol_status = symbol_status_text symbol_type\<rparr>))"

definition get_modules :: "'e inspector \<Rightarrow> ('e session, module_info list) act" where
  "get_modules I =
     act_then throw_if_disposed
       (act_bind (get_state (\<lambda>s. (mod_number I (eng s), eng s))) (\<lambda>((hr, loaded), e).
          act_then (act_check (check_hr hr ''Could not enumerate modules''))
            (ret (List.map_filter (read_module I e) [0..<loaded]))))"

section \<open>The tree that the parent links describe\<close>

definition is_child :: "u32 list \<Rightarrow> nat \<Rightarrow> nat \<Rightarrow> bool" where
  "is_child parents i j \<longleftrightarrow> parents ! j \<noteq> kDebugAnyId \<and> unat (parents ! j) = i"

function subtree :: "u32 list \<Rightarrow> variable_node list \<Rightarrow> nat \<Rightarrow> variable_node" where
  "subtree parents nodes i =
     with_children (nodes ! i) (map (subtree parents nodes) (filter (is_child parents i) [Suc i..<length nodes]))"
  by pat_completeness auto
termination
  by (relation "measure (\<lambda>(ps, ns, i). length ns - i)") auto

declare subtree.simps [simp del]

text \<open>The engine inserts the children of a symbol behind it.\<close>

definition parents_precede :: "u32 list \<Rightarrow> bool" where
  "parents_precede parents \<longleftrightarrow>
     (\<forall>j < length parents. parents ! j = kDebugAnyId \<or> unat (parents ! j) < j)"

lemma with_children_simps [simp]:
  "with_children (with_children n cs) ds = with_children n ds" "vn_children (with_children n cs) = cs"
  by (cases n; simp)+

lemma with_own_children: "vn_children n = cs \<Longrightarrow> with_children n cs = n"
  by (cases n) simp

text \<open>The nodes after the loop has handled the indices from \<open>k\<close> on.\<close>

definition linked_from :: "u32 list \<Rightarrow> variable_node list \<Rightarrow> nat \<Rightarrow> variable_node list \<Rightarrow> bool" where
  "linked_from parents nodes k linked \<longleftrightarrow> length linked = length nodes
     \<and> (\<forall>i < length nodes. linked ! i =
          with_children (nodes ! i) (map (subtree parents nodes) (filter (is_child parents i) [k..<length nodes])))"

lemma upt_split: "k < n \<Longrightarrow> [k..<n] = k # [Suc k..<n]"
  by (rule upt_conv_Cons)

lemma filter_child_later:
  assumes "parents_precede parents" "length parents = n" "k \<le> Suc i"
  shows "filter (is_child parents i) [k..<n] = filter (is_child parents i) [Suc i..<n]"
proof -
  have "filter (is_child parents i) [k..<min (Suc i) n] = []"
    using assms(1,2) by (auto simp: filter_empty_conv is_child_def parents_precede_def)
  moreover have "[k..<n] = [k..<min (Suc i) n] @ [Suc i..<n]" if le: "Suc i \<le> n"
  proof -
    obtain d where "n = Suc i + d" using le_Suc_ex [OF le] by blast
    then show ?thesis using upt_add_eq_append [OF assms(3), of d] by simp
  qed
  ultimately show ?thesis by (cases "Suc i \<le> n") auto
qed

lemma linked_from_complete:
  assumes "parents_precede parents" "length parents = length nodes" "linked_from parents nodes k linked"
    and "k \<le> Suc i" "i < length nodes"
  shows "linked ! i = subtree parents nodes i"
  using assms(3,5) filter_child_later [OF assms(1,2,4)] by (simp add: linked_from_def subtree.simps [of _ _ i])

lemma link_nodes_linked:
  assumes "parents_precede parents" "length parents = length nodes"
  shows "k \<le> length nodes \<Longrightarrow> linked_from parents nodes k linked
    \<Longrightarrow> linked_from parents nodes 0 (link_nodes parents k linked)"
proof (induction k arbitrary: linked)
  case 0
  then show ?case by simp
next
  case (Suc k)
  let ?p = "parents ! k"
  let ?next = "if ?p \<noteq> kDebugAnyId \<and> unat ?p < length linked
    then linked[unat ?p := add_first_child (linked ! k) (linked ! unat ?p)] else linked"
  have len: "length linked = length nodes" using Suc.prems(2) by (simp add: linked_from_def)
  have k: "linked ! k = subtree parents nodes k"
    using linked_from_complete [OF assms Suc.prems(2)] Suc.prems(1) by simp
  have c: "filter (is_child parents i) [k..<length nodes]
      = (if is_child parents i k then [k] else []) @ filter (is_child parents i) [Suc k..<length nodes]" for i
    using Suc.prems(1) by (simp add: upt_split)
  have "linked_from parents nodes k ?next"
    unfolding linked_from_def
  proof (intro conjI allI impI)
    show "length ?next = length nodes" using len by simp
    fix i
    assume i: "i < length nodes"
    have l: "linked ! i = with_children (nodes ! i)
        (map (subtree parents nodes) (filter (is_child parents i) [Suc k..<length nodes]))"
      using Suc.prems(2) i by (simp add: linked_from_def)
    show "?next ! i = with_children (nodes ! i)
        (map (subtree parents nodes) (filter (is_child parents i) [k..<length nodes]))"
      using l k len i by (auto simp: c is_child_def add_first_child_def nth_list_update)
  qed
  then show ?case using Suc.IH [of ?next] Suc.prems(1) by (simp add: Let_def)
qed

section \<open>Expansion ends\<close>

text \<open>
  What the engine documents of symbol groups: a symbol stands behind its parent, a successful
  expansion of a symbol with sub-elements inserts them, and a failed one changes nothing.
\<close>

definition documented_groups :: "'e inspector \<Rightarrow> bool" where
  "documented_groups I \<longleftrightarrow>
     (\<forall>e ps. grp_parameters I e = Some ps \<longrightarrow> parents_precede (map sp_parent ps)) \<and>
     (\<forall>e ps i hr e'. grp_parameters I e = Some ps \<and> i < length ps \<and> sp_sub_elements (ps ! i) \<noteq> 0
        \<and> grp_expand I i e = (hr, e') \<and> \<not> hr_failed hr
        \<longrightarrow> (\<exists>ps'. grp_parameters I e' = Some ps' \<and> length ps < length ps')) \<and>
     (\<forall>e i hr e'. grp_expand I i e = (hr, e') \<and> hr_failed hr \<longrightarrow> grp_parameters I e' = grp_parameters I e)"

lemma symbol_depth_from_returns:
  assumes "parents_precede (map sp_parent ps)"
  shows "parent = kDebugAnyId \<or> length ps \<le> unat parent \<or> Suc (unat parent) < fuel \<Longrightarrow> fuel > 0
    \<Longrightarrow> symbol_depth_from fuel ps parent \<noteq> None"
proof (induction fuel arbitrary: parent)
  case 0
  then show ?case by simp
next
  case (Suc fuel)
  show ?case
  proof (cases "parent \<noteq> kDebugAnyId \<and> unat parent < length ps")
    case True
    let ?q = "sp_parent (ps ! unat parent)"
    have "?q = kDebugAnyId \<or> unat ?q < unat parent"
      using assms True by (auto simp: parents_precede_def)
    then have "symbol_depth_from fuel ps ?q \<noteq> None"
      using True Suc.prems by (intro Suc.IH) auto
    then show ?thesis using True by simp
  qed auto
qed

lemma symbol_depth_returns:
  assumes "parents_precede (map sp_parent ps)" "i < length ps"
  shows "symbol_depth ps i \<noteq> None"
  unfolding symbol_depth_def
  using assms by (intro symbol_depth_from_returns) (auto simp: parents_precede_def)

lemma expand_one_returns:
  assumes I: "documented_groups I" and ps: "grp_parameters I e = Some ps" and xs: "\<forall>i \<in> set xs. i < length ps"
  shows "\<exists>expanded e'. expand_one I ps xs e = Some (expanded, e')
    \<and> (expanded \<longrightarrow> (\<exists>ps'. grp_parameters I e' = Some ps' \<and> length ps < length ps'))"
  using ps xs
proof (induction xs arbitrary: e)
  case Nil
  then show ?case by (simp add: exI [of _ False])
next
  case (Cons i xs)
  have "parents_precede (map sp_parent ps)" using I Cons.prems(1) by (auto simp: documented_groups_def)
  then obtain depth where d: "symbol_depth ps i = Some depth"
    using symbol_depth_returns [of ps i] Cons.prems(2) by auto
  obtain hr e' where x: "grp_expand I i e = (hr, e')" by (cases "grp_expand I i e")
  have fail: "hr_failed hr \<Longrightarrow> grp_parameters I e' = Some ps"
    using I x Cons.prems(1) unfolding documented_groups_def by metis
  have grow: "\<not> hr_failed hr \<Longrightarrow> sp_sub_elements (ps ! i) \<noteq> 0 \<Longrightarrow> \<exists>ps'. grp_parameters I e' = Some ps' \<and> length ps < length ps'"
    using I x Cons.prems unfolding documented_groups_def by (metis list.set_intros(1))
  show ?case
    using Cons.IH [OF Cons.prems(1)] Cons.IH [of e'] fail grow d x Cons.prems(2) by auto
qed

lemma expand_all_returns:
  assumes "documented_groups I"
  shows "\<exists>e'. expand_all I e = Some e'"
proof (induction "case grp_parameters I e of None \<Rightarrow> 0 | Some ps \<Rightarrow> Suc kMaxExpandedNodes - length ps"
    arbitrary: e rule: less_induct)
  case less
  show ?case
  proof (cases "grp_parameters I e")
    case None
    then show ?thesis by (subst expand_all.simps) simp
  next
    case (Some ps)
    obtain expanded e' where x: "expand_one I ps [0..<length ps] e = Some (expanded, e')"
        "expanded \<longrightarrow> (\<exists>ps'. grp_parameters I e' = Some ps' \<and> length ps < length ps')"
      using expand_one_returns [OF assms Some, of "[0..<length ps]"] by auto
    show ?thesis
    proof (cases "ps = [] \<or> length ps \<ge> kMaxExpandedNodes \<or> \<not> expanded")
      case True
      then show ?thesis using Some x(1) by (subst expand_all.simps) auto
    next
      case False
      then obtain ps' where "grp_parameters I e' = Some ps'" "length ps < length ps'" using x(2) by auto
      then have "\<exists>e''. expand_all I e' = Some e''" using Some False by (intro less) auto
      then show ?thesis using Some x(1) False by (subst expand_all.simps) auto
    qed
  qed
qed

section \<open>Properties\<close>

text \<open>
  C17. The locals tree is the one the engine describes: from the flat list of symbols, in which
  a parent stands before its children, the rebuild gives for every top-level symbol, in
  order, the tree in which each symbol has exactly the symbols that name it as their
  parent as its children, in list order.
\<close>

theorem rebuild_tree_exact:
  assumes "parents_precede parents" "length parents = length nodes" "\<forall>n \<in> set nodes. vn_children n = []"
  shows "rebuild_tree parents nodes =
    map (subtree parents nodes) (filter (\<lambda>i. parents ! i = kDebugAnyId) [0..<length nodes])"
proof -
  have "linked_from parents nodes (length nodes) nodes"
    using assms(3) by (auto simp: linked_from_def with_own_children)
  then have "linked_from parents nodes 0 (link_nodes parents (length nodes) nodes)"
    by (intro link_nodes_linked [OF assms(1,2)]) simp_all
  then have "link_nodes parents (length nodes) nodes ! i = subtree parents nodes i" if "i < length nodes" for i
    using linked_from_complete [OF assms(1,2), of 0] that by simp
  then show ?thesis unfolding rebuild_tree_def Let_def by (intro map_cong) auto
qed

definition leaf :: "string \<Rightarrow> variable_node" where
  "leaf n = Variable_Node n [] [] False 0 0 []"

theorem rebuild_tree_exact_witness:
  "rebuild_tree [kDebugAnyId, 0, 1, 0, kDebugAnyId] (map leaf [''t'', ''origin'', ''x'', ''id'', ''n''])
     = map (subtree [kDebugAnyId, 0, 1, 0, kDebugAnyId] (map leaf [''t'', ''origin'', ''x'', ''id'', ''n''])) [0, 4]"
proof -
  have p: "parents_precede [kDebugAnyId, 0, 1, 0, kDebugAnyId]"
    unfolding parents_precede_def by (auto simp: less_Suc_eq nth_Cons')
  have f: "filter (\<lambda>i. [kDebugAnyId, 0, 1, 0, kDebugAnyId] ! i = kDebugAnyId)
      [0..<length (map leaf [''t'', ''origin'', ''x'', ''id'', ''n''])] = [0, 4]"
    by code_simp
  show ?thesis
    using rebuild_tree_exact [OF p, of "map leaf [''t'', ''origin'', ''x'', ''id'', ''n'']"]
    unfolding f by (simp add: leaf_def)
qed


text \<open>A group of one structure with an integer member, expanded or not; the engine state counts the expansions.\<close>

definition struct_inspector :: "nat inspector" where
  "struct_inspector =
     \<lparr>insp_view = (\<lambda>e. nop_view), insp_stack = (\<lambda>e. (0, [])), grp_open = (\<lambda>e. (Group_Opened, e)), grp_release = (\<lambda>e. e),
      grp_count = (\<lambda>e. Some (e + 1)),
      grp_parameters = (\<lambda>e. Some (\<lparr>sp_parent = kDebugAnyId, sp_flags = (if e = 0 then 0 else kDebugSymbolExpanded),
          sp_sub_elements = 1\<rparr> # replicate e \<lparr>sp_parent = 0, sp_flags = 0, sp_sub_elements = 0\<rparr>)),
      grp_name = (\<lambda>e i. None), grp_value = (\<lambda>e i. None), grp_type = (\<lambda>e i. None), grp_offset = (\<lambda>e i. None),
      grp_size = (\<lambda>e i. None), grp_expand = (\<lambda>i e. (0, e + 1)), grp_add = (\<lambda>x e. (0, 0, e)),
      grp_write = (\<lambda>i v e. (0, e)), reg_set_frame = (\<lambda>f e. (0, e)), reg_count = (\<lambda>e. None),
      reg_description = (\<lambda>e i. None), reg_frame_value = (\<lambda>e i. None), reg_value = (\<lambda>e i. None),
      mod_number = (\<lambda>e. (0, 0)), mod_parameters = (\<lambda>e i. None), mod_names = (\<lambda>e i. None)\<rparr>"


end
