(* ===== verification/Dap_Factory.thy ===== *)
theory Dap_Factory
  imports Debugger_Text
begin

text \<open>
  \<open>util::debugger_session_dap_factory\<close> (src/src/util/debugger_session_dap_factory.cpp): the mapping
  of debugger state to protocol payloads.  The main fact is about the hash that makes the ids
  of stack frames: it is positive, and no two frames of a thread share an id.
\<close>

unbundle bit_operations_syntax

section \<open>Payloads\<close>

record dap_thread =
  dt_id :: int
  dt_name :: string

record dap_source =
  ds_name :: string
  ds_path :: string

record dap_stack_frame =
  df_id :: int
  df_name :: string
  df_source :: "dap_source option"
  df_line :: int
  df_column :: int
  df_instruction_pointer_reference :: string

record dap_instruction =
  dx_address :: string
  dx_bytes :: "string option"
  dx_instruction :: string
  dx_symbol :: "string option"
  dx_location :: "dap_source option"
  dx_line :: "int option"
  dx_column :: "int option"
  dx_invalid :: bool

datatype stop_reason =
    Stop_Step | Stop_Breakpoint | Stop_Exception | Stop_Pause | Stop_Entry

datatype thread_reason = Thread_Started | Thread_Exited

datatype start_method = Start_Launch | Start_Attach

datatype output_category = Console | Important

datatype dap_event =
    Process_Event string "int option" start_method
  | Stopped_Event stop_reason "string option" "int option" "int list option"
  | Continued_Event int bool
  | Output_Event string output_category
  | Exited_Event int
  | Thread_Event thread_reason int
  | Initialized_Event
  | Terminated_Event

section \<open>Conversions\<close>

text \<open>The final component of a Windows path: behind the last separator and behind a drive.\<close>

definition is_alpha :: "char \<Rightarrow> bool" where
  "is_alpha c = (let n = (of_char c :: nat) in 65 \<le> n \<and> n \<le> 90 \<or> 97 \<le> n \<and> n \<le> 122)"

definition without_drive :: "string \<Rightarrow> string" where
  "without_drive p = (case p of d # c # r \<Rightarrow> if is_alpha d \<and> c = CHR '':'' then r else p | _ \<Rightarrow> p)"

definition file_name :: "string \<Rightarrow> string" where
  "file_name p = rev (takeWhile (\<lambda>c. c \<noteq> CHR ''/'' \<and> c \<noteq> BACKSLASH) (rev (without_drive p)))"

definition checked_to_int :: "u32 \<Rightarrow> exn + int" where
  "checked_to_int value =
     (if uint value > int_max then Inl (Overflow_Error ''Value was either too large or too small for an Int32.'')
      else Inr (uint value))"

fun create_threads :: "u32 list \<Rightarrow> int option \<Rightarrow> exn + dap_thread list" where
  "create_threads [] current = Inr []"
| "create_threads (t # ts) current =
     (case checked_to_int t of
        Inl e \<Rightarrow> Inl e
      | Inr i \<Rightarrow>
          (case create_threads ts current of
             Inl e \<Rightarrow> Inl e
           | Inr rest \<Rightarrow>
               Inr (\<lparr>dt_id = i, dt_name = ''Thread '' @ dec (unat t)
                       @ (if current = Some i then '' (current)'' else [])\<rparr> # rest)))"

definition create_process_event :: "string \<Rightarrow> int option \<Rightarrow> start_method \<Rightarrow> dap_event" where
  "create_process_event name process_id start = Process_Event name process_id start"

definition create_stopped_event ::
    "stop_reason \<Rightarrow> string option \<Rightarrow> int option \<Rightarrow> int list option \<Rightarrow> dap_event" where
  "create_stopped_event reason description thread_id hit_breakpoint_ids =
     Stopped_Event reason description thread_id hit_breakpoint_ids"

definition create_continued_event :: "int \<Rightarrow> bool \<Rightarrow> dap_event" where
  "create_continued_event thread_id all_threads_continued = Continued_Event thread_id all_threads_continued"

definition create_output_event :: "string \<Rightarrow> output_category \<Rightarrow> dap_event" where
  "create_output_event output category = Output_Event output category"

definition create_exited_event :: "int \<Rightarrow> dap_event" where
  "create_exited_event exit_code = Exited_Event exit_code"

definition create_thread_event :: "thread_reason \<Rightarrow> int \<Rightarrow> dap_event" where
  "create_thread_event reason thread_id = Thread_Event reason thread_id"

definition create_source :: "source_location option \<Rightarrow> dap_source option" where
  "create_source source = map_option (\<lambda>s. \<lparr>ds_name = file_name (sl_path s), ds_path = sl_path s\<rparr>) source"

definition format_address :: "u64 \<Rightarrow> string" where
  "format_address address = ''0x'' @ hex_upper (unat address)"

section \<open>Frame ids\<close>

definition fnv_prime :: u32 where
  "fnv_prime = 16777619"

definition mix_byte :: "u32 \<Rightarrow> u32 \<Rightarrow> u32" where
  "mix_byte hash byte = (hash XOR byte) * fnv_prime"

definition byte_of :: "u32 \<Rightarrow> nat \<Rightarrow> u32" where
  "byte_of value byte = drop_bit (byte * 8) value AND 0xFF"

definition mix :: "u32 \<Rightarrow> u32 \<Rightarrow> u32" where
  "mix hash value = foldl (\<lambda>h byte. mix_byte h (byte_of value byte)) hash [0, 1, 2, 3]"

definition frame_hash :: "int \<Rightarrow> u32 \<Rightarrow> u32" where
  "frame_hash thread_id frame_number = mix (mix 2166136261 (of_int thread_id)) frame_number"

definition create_frame_id :: "int \<Rightarrow> u32 \<Rightarrow> int" where
  "create_frame_id thread_id frame_number =
     (let i = uint (frame_hash thread_id frame_number AND of_int int_max) in if i = 0 then 1 else i)"

definition create_stack_frame :: "int \<Rightarrow> stack_frame_info \<Rightarrow> dap_stack_frame" where
  "create_stack_frame thread_id f =
     (let name = (case sf_name f of None \<Rightarrow> [] | Some n \<Rightarrow> n)
      in \<lparr>df_id = create_frame_id thread_id (sf_frame_number f),
          df_name = (if is_blank name then format_address (sf_instruction_offset f) else name),
          df_source = create_source (sf_source f),
          df_line = (case sf_source f of None \<Rightarrow> 0 | Some s \<Rightarrow> sl_line s),
          df_column = (case sf_source f of None \<Rightarrow> 0 | Some s \<Rightarrow> 1),
          df_instruction_pointer_reference = format_address (sf_instruction_offset f)\<rparr>)"

definition create_disassembled_instruction :: "disassembled_instruction_info \<Rightarrow> dap_instruction" where
  "create_disassembled_instruction i =
     \<lparr>dx_address = format_address (di_address i), dx_bytes = di_bytes i, dx_instruction = di_instruction i,
      dx_symbol = di_symbol i, dx_location = create_source (di_source i),
      dx_line = map_option sl_line (di_source i), dx_column = map_option (\<lambda>s. 1) (di_source i),
      dx_invalid = di_is_invalid i\<rparr>"

section \<open>Lemmas\<close>

text \<open>Mixing in a byte changes the low eight bits, in a reversible way.\<close>

lemma byte_of_bound: "uint (byte_of v n) < 256"
proof -
  have "byte_of v n = take_bit 8 (drop_bit (n * 8) v)"
    by (simp add: byte_of_def take_bit_eq_mask mask_eq_exp_minus_1)
  then show ?thesis by (simp add: take_bit_eq_mod uint_mod_distrib)
qed

lemma xor_byte_high:
  assumes "uint b < 256"
  shows "uint (h XOR b) div 256 = uint (h :: u32) div 256"
proof -
  have "uint (drop_bit 8 b) = 0" using assms by (simp add: drop_bit_eq_div uint_div_distrib)
  then have "drop_bit 8 b = 0" by (simp only: uint_0_iff)
  then have "drop_bit 8 (h XOR b) = drop_bit 8 h" by (simp add: drop_bit_xor)
  then have "uint (drop_bit 8 (h XOR b)) = uint (drop_bit 8 h)" by simp
  then show ?thesis by (simp add: drop_bit_eq_div uint_div_distrib)
qed

lemma xor_byte_near:
  assumes "uint b < 256" "uint c < 256"
  shows "\<bar>uint (h XOR b) - uint ((h :: u32) XOR c)\<bar> < 256"
  using xor_byte_high [OF assms(1), of h] xor_byte_high [OF assms(2), of h] by presburger

lemma xor_byte_self:
  assumes "uint b < 256"
  shows "\<bar>uint (h XOR b) - uint (h :: u32)\<bar> < 256"
  using xor_byte_high [OF assms, of h] by presburger

text \<open>The arithmetic of the prime \<open>2 ^ 24 + 403\<close> modulo \<open>2 ^ 31\<close>.\<close>

lemma small_multiple:
  fixes a m q :: int
  assumes "a = m * q" "\<bar>a\<bar> < m"
  shows "q = 0"
proof (rule ccontr)
  assume "q \<noteq> 0"
  then have "1 \<le> \<bar>q\<bar>" by simp
  moreover have m: "0 < m" using assms(2) by linarith
  ultimately have "m * 1 \<le> m * \<bar>q\<bar>" by (intro mult_left_mono) simp_all
  then show False using assms m by (simp add: abs_mult)
qed

lemma prime_separates:
  fixes d e k :: int
  assumes "d * 16777619 + e = 2147483648 * k" "\<bar>d\<bar> < 256" "\<bar>e\<bar> < 512"
  shows "d = 0"
proof -
  have "403 * d + e = 16777216 * (128 * k - d)" using assms(1) by simp
  moreover have "\<bar>403 * d + e\<bar> < 16777216" using assms(2,3) by linarith
  ultimately have k: "128 * k - d = 0" by (rule small_multiple)
  then have "e = - (51584 * k)" using assms(1) by simp
  then have "k = 0" using assms(3) by linarith
  then show ?thesis using k by simp
qed

lemma prime_never_one:
  fixes d e k :: int
  assumes "d * 16777619 + e = 2147483648 * k + 298172003" "\<bar>d\<bar> < 256" "\<bar>e\<bar> < 512"
  shows False
proof -
  define q where "q = 128 * k + 17 - d"
  have a: "403 * d + e - 12959331 = 16777216 * q" using assms(1) by (simp add: q_def)
  have "- 13100000 < 403 * d + e - 12959331" "403 * d + e - 12959331 < - 12800000" using assms(2,3) by linarith+
  then have "- 13100000 < 16777216 * q" "16777216 * q < 0" unfolding a by simp_all
  then have "- 1 < q" "q < 0" by simp_all
  then show False by simp
qed

lemma cube_cancel:
  fixes x y :: int
  assumes "(x * 16777619 ^ 3) mod 2147483648 = (y * 16777619 ^ 3) mod 2147483648"
  shows "x mod 2147483648 = y mod 2147483648"
proof -
  have "2147483648 dvd (x * 16777619 ^ 3 - y * 16777619 ^ 3)" using assms by (simp add: mod_eq_dvd_iff)
  then obtain t where "(x - y) * 16777619 ^ 3 = 2147483648 * t" by (auto simp: left_diff_distrib)
  then have "x - y = 2147483648 * (t * 298172003 - 655734420025449534537 * (x - y))" by simp
  then have "2147483648 dvd x - y" by (rule dvdI)
  then show ?thesis by (simp add: mod_eq_dvd_iff)
qed

text \<open>A frame number below \<open>2 ^ 16\<close> has two bytes, and the hash is determined by a value close to
  the product that the first byte gives.\<close>

definition second_stage :: "u32 \<Rightarrow> u32 \<Rightarrow> u32" where
  "second_stage h v = (mix_byte h (byte_of v 0)) XOR byte_of v 1"

lemma small_bytes:
  assumes "uint v < 65536"
  shows "byte_of v 2 = 0" "byte_of v 3 = 0" "uint v = uint (byte_of v 1) * 256 + uint (byte_of v 0)"
proof -
  have b: "uint (byte_of v n) = uint v div 2 ^ (n * 8) mod 256" for n
  proof -
    have "byte_of v n = take_bit 8 (drop_bit (n * 8) v)"
      by (simp add: byte_of_def take_bit_eq_mask mask_eq_exp_minus_1)
    moreover have "uint (drop_bit m v) = uint v div 2 ^ m" for m
    proof -
      have "take_bit LENGTH(32) (uint v) = uint v"
        using unsigned_less [of v, where ?'a = int] by (intro take_bit_int_eq_self) simp_all
      then have "uint (drop_bit m v) = drop_bit m (uint v)" by (simp only: unsigned_drop_bit_eq)
      then show ?thesis by (simp only: drop_bit_eq_div)
    qed
    ultimately show ?thesis by (simp only: unsigned_take_bit_eq) (simp add: take_bit_eq_mod)
  qed
  have "uint (byte_of v 2) = 0" "uint (byte_of v 3) = 0" using assms by (simp_all add: b)
  then show "byte_of v 2 = 0" "byte_of v 3 = 0" by (simp_all only: uint_0_iff)
  have "uint v = uint v div 256 * 256 + uint v mod 256" by simp
  moreover have "uint v div 256 mod 256 = uint v div 256" using assms by (intro mod_pos_pos_trivial) (auto simp: pos_imp_zdiv_nonneg_iff)
  ultimately show "uint v = uint (byte_of v 1) * 256 + uint (byte_of v 0)" by (simp add: b)
qed

lemma uint_times_mod31: "uint (x * y :: u32) mod 2147483648 = (uint x * uint y) mod 2147483648"
proof -
  have "uint (x * y) = (uint x * uint y) mod 4294967296" by (simp add: uint_word_ariths)
  then show ?thesis by (simp add: mod_mod_cancel)
qed

lemma mix_small:
  assumes "uint v < 65536"
  shows "uint (mix h v) mod 2147483648 = (uint (second_stage h v) * 16777619 ^ 3) mod 2147483648"
proof -
  have p: "uint fnv_prime = 16777619" by (simp add: fnv_prime_def)
  have "mix h v = second_stage h v * fnv_prime * fnv_prime * fnv_prime"
    using small_bytes(1,2) [OF assms] by (simp add: mix_def second_stage_def mix_byte_def)
  moreover have "uint (x * fnv_prime) mod 2147483648 = (uint x mod 2147483648 * 16777619) mod 2147483648" for x
    unfolding uint_times_mod31 p by (rule mod_mult_left_eq [symmetric])
  moreover have "((u mod m * q) mod m * q) mod m * q mod m = (u * q ^ 3) mod m" for u m q :: int
    by (simp add: mod_mult_left_eq mod_mult_right_eq power3_eq_cube mult.assoc [symmetric] mod_simps)
  ultimately show ?thesis by simp
qed

lemma second_stage_distance:
  fixes h v w :: u32
  defines "d \<equiv> uint (h XOR byte_of v 0) - uint (h XOR byte_of w 0)"
  shows "\<exists>e k. uint (second_stage h v) - uint (second_stage h w) = d * 16777619 + e + 2147483648 * k
    \<and> \<bar>d\<bar> < 256 \<and> \<bar>e\<bar> < 512"
proof -
  let ?y = "\<lambda>x. uint (mix_byte h (byte_of x 0))"
  have s: "\<bar>uint (second_stage h x) - ?y x\<bar> < 256" for x
    unfolding second_stage_def by (rule xor_byte_self [OF byte_of_bound])
  have y: "\<exists>k. ?y x = uint (h XOR byte_of x 0) * 16777619 - 2147483648 * k" for x
  proof -
    have "?y x = (uint (h XOR byte_of x 0) * 16777619) mod 4294967296"
      by (simp add: mix_byte_def fnv_prime_def uint_word_ariths)
    then show ?thesis
      by (intro exI [of _ "2 * (uint (h XOR byte_of x 0) * 16777619 div 4294967296)"]) (simp add: minus_mult_div_eq_mod [symmetric])
  qed
  obtain k1 k2 where "?y v = uint (h XOR byte_of v 0) * 16777619 - 2147483648 * k1"
      "?y w = uint (h XOR byte_of w 0) * 16777619 - 2147483648 * k2"
    using y by metis
  then show ?thesis
    using s [of v] s [of w] xor_byte_near [OF byte_of_bound byte_of_bound, of h v 0 w 0] unfolding d_def
    by (intro exI [of _ "(uint (second_stage h v) - ?y v) - (uint (second_stage h w) - ?y w)"] exI [of _ "k2 - k1"])
      (simp add: algebra_simps)
qed

lemma xor_cancel:
  assumes "h XOR a = h XOR (b :: u32)"
  shows "a = b"
proof -
  have "h XOR (h XOR a) = h XOR (h XOR b)" using assms by simp
  then show ?thesis by (simp flip: xor.assoc)
qed

lemma second_stage_zero_distance:
  assumes "uint (h XOR byte_of v 0) = uint (h XOR byte_of w 0)"
    and "uint (second_stage h v) mod 2147483648 = uint (second_stage h w) mod 2147483648"
  shows "byte_of v 0 = byte_of w 0 \<and> byte_of v 1 = byte_of w 1"
proof -
  have "h XOR byte_of v 0 = h XOR byte_of w 0" using assms(1) by (rule word_uint_eqI)
  then have b0: "byte_of v 0 = byte_of w 0" by (rule xor_cancel)
  let ?y = "mix_byte h (byte_of v 0)"
  have z: "second_stage h v = ?y XOR byte_of v 1" "second_stage h w = ?y XOR byte_of w 1"
    using b0 by (simp_all add: second_stage_def)
  obtain k where "uint (second_stage h v) - uint (second_stage h w) = 2147483648 * k"
    using assms(2) by (metis mod_eq_dvd_iff dvdE)
  moreover have "\<bar>uint (second_stage h v) - uint (second_stage h w)\<bar> < 2147483648"
    using xor_byte_near [OF byte_of_bound byte_of_bound, of ?y v 1 w 1] unfolding z by simp
  ultimately have "k = 0" by (rule small_multiple)
  then have "?y XOR byte_of v 1 = ?y XOR byte_of w 1"
    using \<open>uint (second_stage h v) - uint (second_stage h w) = 2147483648 * k\<close> z by (intro word_uint_eqI) simp
  then have "byte_of v 1 = byte_of w 1" by (rule xor_cancel)
  then show ?thesis using b0 by simp
qed

lemma frame_id_masked: "uint (x AND of_int int_max :: u32) = uint x mod 2147483648"
proof -
  have "x AND of_int int_max = take_bit 31 x" by (simp add: take_bit_eq_mask mask_eq_exp_minus_1)
  then show ?thesis by (simp only: unsigned_take_bit_eq) (simp add: take_bit_eq_mod)
qed

lemma mix_separates:
  assumes "uint v < 65536" "uint w < 65536" "uint (mix h v) mod 2147483648 = uint (mix h w) mod 2147483648"
  shows "v = w"
proof -
  have z: "uint (second_stage h v) mod 2147483648 = uint (second_stage h w) mod 2147483648"
    using assms(3) unfolding mix_small [OF assms(1)] mix_small [OF assms(2)] by (rule cube_cancel)
  then obtain j where j: "uint (second_stage h v) - uint (second_stage h w) = 2147483648 * j"
    by (metis mod_eq_dvd_iff dvdE)
  obtain e k where e: "uint (second_stage h v) - uint (second_stage h w)
      = (uint (h XOR byte_of v 0) - uint (h XOR byte_of w 0)) * 16777619 + e + 2147483648 * k"
      "\<bar>uint (h XOR byte_of v 0) - uint (h XOR byte_of w 0)\<bar> < 256" "\<bar>e\<bar> < 512"
    using second_stage_distance [of h v w] by blast
  have "(uint (h XOR byte_of v 0) - uint (h XOR byte_of w 0)) * 16777619 + e = 2147483648 * (j - k)"
    using j e(1) by (simp add: right_diff_distrib)
  then have "uint (h XOR byte_of v 0) - uint (h XOR byte_of w 0) = 0" by (rule prime_separates [OF _ e(2,3)])
  then have "byte_of v 0 = byte_of w 0 \<and> byte_of v 1 = byte_of w 1"
    by (intro second_stage_zero_distance [OF _ z]) simp
  then have "uint v = uint w" using small_bytes(3) [OF assms(1)] small_bytes(3) [OF assms(2)] by simp
  then show ?thesis by (rule word_uint_eqI)
qed

text \<open>The ids 0, replaced by 1, and 1 itself do not both occur in a thread.\<close>

lemma mix_not_zero_and_one:
  assumes "uint v < 65536" "uint w < 65536"
    and "uint (mix h v) mod 2147483648 = 0" "uint (mix h w) mod 2147483648 = 1"
  shows False
proof -
  have "(0 * 16777619 ^ 3 :: int) mod 2147483648 = 0" "(298172003 * 16777619 ^ 3 :: int) mod 2147483648 = 1" by simp_all
  then have "(uint (second_stage h v) * 16777619 ^ 3) mod 2147483648 = (0 * 16777619 ^ 3) mod 2147483648"
      "(uint (second_stage h w) * 16777619 ^ 3) mod 2147483648 = (298172003 * 16777619 ^ 3) mod 2147483648"
    by (simp_all only: mix_small [OF assms(1), symmetric] mix_small [OF assms(2), symmetric] assms(3,4))
  then have "uint (second_stage h v) mod 2147483648 = 0 mod 2147483648"
      "uint (second_stage h w) mod 2147483648 = 298172003 mod 2147483648"
    by (blast intro: cube_cancel)+
  then have "2147483648 dvd uint (second_stage h v) - 0" "2147483648 dvd uint (second_stage h w) - 298172003"
    by (simp_all only: mod_eq_dvd_iff)
  then obtain i j where ij: "uint (second_stage h v) = 2147483648 * i" "uint (second_stage h w) - 298172003 = 2147483648 * j"
    by (elim dvdE) simp
  obtain e k where e: "uint (second_stage h w) - uint (second_stage h v)
      = (uint (h XOR byte_of w 0) - uint (h XOR byte_of v 0)) * 16777619 + e + 2147483648 * k"
      "\<bar>uint (h XOR byte_of w 0) - uint (h XOR byte_of v 0)\<bar> < 256" "\<bar>e\<bar> < 512"
    using second_stage_distance [of h w v] by blast
  have "(uint (h XOR byte_of w 0) - uint (h XOR byte_of v 0)) * 16777619 + e = 2147483648 * (j - i - k) + 298172003"
    using ij e(1) by (simp add: right_diff_distrib)
  then show False by (rule prime_never_one [OF _ e(2,3)])
qed

section \<open>Properties\<close>

text \<open>
  C39. Frame ids are usable as handles: they are positive 32-bit integers, and two frames of one
  thread with frame numbers below 65536 (the session reads at most 1024 frames) never
  share an id.
\<close>

theorem frame_id_injective:
  "0 < create_frame_id t f \<and> create_frame_id t f \<le> int_max
   \<and> (uint f < 65536 \<and> uint g < 65536 \<longrightarrow> (create_frame_id t f = create_frame_id t g \<longleftrightarrow> f = g))"
proof -
  let ?h = "mix 2166136261 (of_int t)"
  let ?m = "\<lambda>f. uint (mix ?h f) mod 2147483648"
  have i: "create_frame_id t f = (if ?m f = 0 then 1 else ?m f)" for f
    unfolding create_frame_id_def frame_hash_def Let_def frame_id_masked by simp
  have "0 \<le> ?m f" "?m f < 2147483648" by simp_all
  moreover have "f = g" if "create_frame_id t f = create_frame_id t g" "uint f < 65536" "uint g < 65536"
    using that mix_separates [of f g ?h] mix_not_zero_and_one [of f g ?h] mix_not_zero_and_one [of g f ?h]
    unfolding i by (auto split: if_splits)
  ultimately show ?thesis unfolding i by auto
qed

theorem frame_id_injective_witness:
  "0 < create_frame_id 4711 3 \<and> create_frame_id 4711 3 \<noteq> create_frame_id 4711 1023"
  using frame_id_injective [of 4711 3 1023] by simp

text \<open>
  Thread lists keep the engine's order and ids: the request fails exactly when some system id
  does not fit a 32-bit signed integer, and otherwise the entry of every thread carries its
  id and names it, marking the current one.
\<close>

theorem create_threads_exact:
  "create_threads ts current =
     (if \<exists>t \<in> set ts. uint t > int_max
      then Inl (Overflow_Error ''Value was either too large or too small for an Int32.'')
      else Inr (map (\<lambda>t. \<lparr>dt_id = uint t, dt_name = ''Thread '' @ dec (unat t)
                       @ (if current = Some (uint t) then '' (current)'' else [])\<rparr>) ts))"
  by (induction ts) (auto simp: checked_to_int_def)

end
