(* ===== verification/Targets.thy ===== *)
theory Targets
  imports Debugger_Session Dap_Factory
begin

text \<open>
  Creation of a debugger session and its connection to a target: the constructor
  (src/src/debugger/debugger_session.cpp) and src/src/debugger/debugger_session_targets.cpp.  Loading
  libraries, the file system and the engine's calls that open a target are the parameter
  \<open>connector\<close>.  The operations that end in \<open>wait_for_event\<close> are given up to that call: while it
  waits, the engine calls back into the server, which is where the wait is modelled.
\<close>

section \<open>Paths\<close>

text \<open>
  The path functions the code uses, on paths with an optional drive letter (no UNC paths):
  the directory of a path and the path of an entry in a directory.
\<close>

definition is_separator :: "char \<Rightarrow> bool" where
  "is_separator c \<longleftrightarrow> c = CHR 0x5C \<or> c = CHR ''/''"

definition drive_length :: "string \<Rightarrow> nat" where
  "drive_length p = (if length p \<ge> 2 \<and> is_alpha (hd p) \<and> p ! 1 = CHR '':'' then 2 else 0)"

definition root_length :: "string \<Rightarrow> nat" where
  "root_length p = drive_length p + length (takeWhile is_separator (drop (drive_length p) p))"

definition parent_path :: "string \<Rightarrow> string" where
  "parent_path p =
     take (root_length p) p
       @ rev (dropWhile is_separator (dropWhile (\<lambda>c. \<not> is_separator c) (rev (drop (root_length p) p))))"

definition join_path :: "string \<Rightarrow> string \<Rightarrow> string" where
  "join_path directory entry =
     (if directory = [] \<or> is_separator (last directory) \<or> drive_length directory = length directory
      then directory @ entry else directory @ [CHR 0x5C] @ entry)"

section \<open>The parameter\<close>

text \<open>
  \<open>load_library\<close> says whether a library can be loaded, \<open>has_debug_create\<close> whether the engine exports its
  entry point; \<open>create_client\<close> gives the engine's client, \<open>query_interfaces\<close> the outcome of the
  interface queries, \<open>set_callbacks\<close> those of the two registrations.  \<open>polls\<close> is how often the
  clock is found short of a deadline that is the given number of milliseconds ahead, with
  the pause between two polls; \<open>poll_pause\<close> is what the engine does meanwhile.
\<close>

record 'e connector =
  path_exists :: "string \<Rightarrow> bool"
  is_directory :: "string \<Rightarrow> bool"
  current_path :: string
  executable_directory :: string
  env_var :: "string \<Rightarrow> string option"
  architecture_directory :: string
  sdk_architecture :: string
  load_library :: "string \<Rightarrow> bool"
  has_debug_create :: bool
  create_client :: "hresult \<times> 'e"
  query_interfaces :: hresult
  set_callbacks :: "hresult \<times> hresult"
  con_connect_server :: "string \<Rightarrow> 'e \<Rightarrow> hresult \<times> u64 \<times> 'e"
  con_create_process :: "u64 \<Rightarrow> string \<Rightarrow> string option \<Rightarrow> 'e \<Rightarrow> hresult \<times> 'e"
  con_initial_break :: "'e \<Rightarrow> hresult \<times> 'e"
  con_attach :: "u64 \<Rightarrow> u32 \<Rightarrow> 'e \<Rightarrow> hresult \<times> 'e"
  con_attach_kernel :: "string \<Rightarrow> 'e \<Rightarrow> hresult \<times> 'e"
  con_open_dump :: "string \<Rightarrow> 'e \<Rightarrow> hresult \<times> 'e"
  con_find_process :: "u64 \<Rightarrow> string \<Rightarrow> 'e \<Rightarrow> hresult \<times> u32"
  local_processes :: "(u32 \<times> string) list"
  con_process_count :: "u64 \<Rightarrow> 'e \<Rightarrow> hresult \<times> nat"
  con_process_ids :: "u64 \<Rightarrow> 'e \<Rightarrow> hresult \<times> u32 list"
  con_process_path :: "u64 \<Rightarrow> u32 \<Rightarrow> 'e \<Rightarrow> string option"
  polls :: "int \<Rightarrow> nat"
  poll_pause :: "'e \<Rightarrow> 'e"

section \<open>The session object\<close>

definition get_dbgeng_directory :: "'e connector \<Rightarrow> string \<Rightarrow> exn + string" where
  "get_dbgeng_directory C engine_path =
     (if is_directory C engine_path then Inr engine_path
      else if parent_path engine_path \<noteq> [] then Inr (parent_path engine_path)
      else Inl (Invalid_Argument ''The debugger engine path must resolve to a directory.''))"

definition load_engine_dbghelp :: "'e connector \<Rightarrow> string \<Rightarrow> bool" where
  "load_engine_dbghelp C directory =
     (let source = join_path directory ''dbghelp.dll'' in path_exists C source \<and> load_library C source)"

definition open_session :: "'e connector \<Rightarrow> string \<Rightarrow> exn + 'e session" where
  "open_session C engine_path =
     (case throw_if_null_or_whitespace engine_path ''enginePath'' of
        Some e \<Rightarrow> Inl e
      | None \<Rightarrow>
          (case get_dbgeng_directory C engine_path of
             Inl e \<Rightarrow> Inl e
           | Inr directory \<Rightarrow>
               if \<not> load_library C (join_path directory ''dbgeng.dll'') \<and> \<not> load_library C ''dbgeng.dll''
               then Inl (Runtime_Error (''Could not load dbgeng.dll from '' @ quoted directory @ ''.''))
               else if \<not> has_debug_create C
               then Inl (Runtime_Error ''Could not resolve DebugCreate in dbgeng.dll.'')
               else (case create_client C of (hr, e) \<Rightarrow>
                 (case List.map_filter id
                         [check_hr hr ''Could not create the debug engine client'',
                          check_hr (query_interfaces C) ''Could not query the debug engine interfaces'',
                          check_hr (fst (set_callbacks C)) ''Could not register event callbacks'',
                          check_hr (snd (set_callbacks C)) ''Could not register output callbacks''] of
                    x # xs \<Rightarrow> Inl x
                  | [] \<Rightarrow> Inr ((new_session e)\<lparr>has_dbghelp := load_engine_dbghelp C directory\<rparr>)))))"

section \<open>Process servers\<close>

definition connect_process_server :: "'e connector \<Rightarrow> string \<Rightarrow> ('e session, unit) act" where
  "connect_process_server C connection_string =
     act_then throw_if_disposed
       (act_then (act_check (throw_if_null_or_whitespace connection_string ''connectionString''))
          (act_bind (get_state has_dbghelp) (\<lambda>usable.
             if \<not> usable
             then raise (Runtime_Error
               (''This debug engine cannot be used for remote (dbgsrv) debugging: its dbghelp.dll could not be loaded, ''
                @ ''which the engine needs for process-server connections. The Store version of WinDbg does not allow it. ''
                @ ''Install the Debugging Tools for Windows and point '' @ quoted ''dbgengPath''
                @ '' at that dbgeng.dll (or omit it).''))
             else (\<lambda>s. case con_connect_server C connection_string (eng s) of (hr, server, e') \<Rightarrow>
                    act_then
                      (act_check (check_hr hr (''Could not connect to the process server '' @ quoted connection_string)))
                      (update_state (\<lambda>s. s\<lparr>process_server_handle := server\<rparr>)) (s\<lparr>eng := e'\<rparr>)))))"

definition process_name :: "string option \<Rightarrow> string" where
  "process_name path =
     (case path of None \<Rightarrow> [] | Some p \<Rightarrow> file_name p)"

definition list_processes :: "'e connector \<Rightarrow> ('e session, (u32 \<times> string) list) act" where
  "list_processes C =
     act_then throw_if_disposed
       (act_bind (get_state (\<lambda>s. (process_server_handle s, eng s))) (\<lambda>(server, e).
          if server = 0 then ret (local_processes C)
          else case con_process_count C server e of (hr, count) \<Rightarrow>
            if hr_failed hr \<or> count = 0 then ret []
            else case con_process_ids C server e of (hr_ids, ids) \<Rightarrow>
              act_then (act_check (check_hr hr_ids ''Could not enumerate running processes''))
                (ret (map (\<lambda>i. (i, process_name (con_process_path C server i e))) ids))))"

definition try_find_process_id_by_executable_name ::
    "'e connector \<Rightarrow> string \<Rightarrow> ('e session, u32 option) act" where
  "try_find_process_id_by_executable_name C executable_name =
     act_then throw_if_disposed
       (get_state (\<lambda>s. case con_find_process C (process_server_handle s) executable_name (eng s) of (hr, i) \<Rightarrow>
          if hr_failed hr \<or> i = 0 then None else Some i))"

section \<open>Targets, up to the wait for the first event\<close>

definition launch_process :: "'e connector \<Rightarrow> string \<Rightarrow> string option \<Rightarrow> string \<Rightarrow> ('e session, unit) act" where
  "launch_process C executable_path arguments working_directory =
     act_then throw_if_disposed
       (act_then (act_check (throw_if_null_or_whitespace executable_path ''executablePath''))
          (let directory =
             (if trim_both working_directory \<noteq> [] then working_directory
              else if parent_path executable_path \<noteq> [] then parent_path executable_path else current_path C)
           in engine_call (con_create_process C 0 (build_command_line executable_path arguments) (Some directory))
                ''Could not launch target''))"

definition launch_remote_process ::
    "'e connector \<Rightarrow> string \<Rightarrow> string \<Rightarrow> string option \<Rightarrow> string \<Rightarrow> ('e session, unit) act" where
  "launch_remote_process C connection_string executable_path arguments working_directory =
     act_then throw_if_disposed
       (act_then (act_check (throw_if_null_or_whitespace executable_path ''executablePath''))
          (act_then (connect_process_server C connection_string)
             (act_bind (get_state process_server_handle) (\<lambda>server.
                engine_call
                  (con_create_process C server (build_command_line executable_path arguments)
                     (if trim_both working_directory \<noteq> [] then Some working_directory else None))
                  (''Could not launch target on the process server '' @ quoted connection_string)))))"

definition attach_process :: "'e connector \<Rightarrow> int \<Rightarrow> ('e session, unit) act" where
  "attach_process C process_id =
     act_then throw_if_disposed
       (act_then (engine_call (con_initial_break C) ''Could not enable initial break'')
          (act_bind (get_state process_server_handle) (\<lambda>server.
             engine_call (con_attach C server (of_int process_id)) ''Could not attach to target process'')))"

definition attach_remote_process :: "'e connector \<Rightarrow> string \<Rightarrow> int \<Rightarrow> ('e session, unit) act" where
  "attach_remote_process C connection_string process_id =
     act_then (connect_process_server C connection_string) (attach_process C process_id)"

definition attach_kernel_target :: "'e connector \<Rightarrow> string \<Rightarrow> ('e session, unit) act" where
  "attach_kernel_target C connection_string =
     act_then throw_if_disposed
       (act_then (act_check (throw_if_null_or_whitespace connection_string ''connectionString''))
          (act_then (engine_call (con_initial_break C) ''Could not enable initial break'')
             (act_then
                (engine_call (con_attach_kernel C connection_string)
                   (''Could not attach to the kernel target '' @ quoted connection_string))
                (update_state (\<lambda>s. s\<lparr>terminate_on_dispose := False, is_kernel := True\<rparr>)))))"

definition open_dump :: "'e connector \<Rightarrow> string \<Rightarrow> ('e session, unit) act" where
  "open_dump C dump_file_path =
     act_then throw_if_disposed
       (act_then (act_check (throw_if_null_or_whitespace dump_file_path ''dumpFilePath''))
          (engine_call (con_open_dump C dump_file_path) ''Could not open dump file''))"

text \<open>A connector on which everything succeeds, for the witnesses.\<close>

definition script_connector :: "nat connector" where
  "script_connector =
     \<lparr>path_exists = (\<lambda>p. True), is_directory = (\<lambda>p. False), current_path = ''C:'', executable_directory = [],
      env_var = (\<lambda>n. None), architecture_directory = ''amd64'', sdk_architecture = ''x64'',
      load_library = (\<lambda>p. True), has_debug_create = True, create_client = (0, 0), query_interfaces = 0,
      set_callbacks = (0, 0), con_connect_server = (\<lambda>c n. (0, 1, n)), con_create_process = (\<lambda>h c d n. (0, n)),
      con_initial_break = (\<lambda>n. (0, n)), con_attach = (\<lambda>h p n. (0, n)), con_attach_kernel = (\<lambda>c n. (0, n)),
      con_open_dump = (\<lambda>p n. (0, n)), con_find_process = (\<lambda>h p n. (0, 7)), local_processes = [],
      con_process_count = (\<lambda>h n. (0, 0)), con_process_ids = (\<lambda>h n. (0, [])), con_process_path = (\<lambda>h i n. None),
      polls = (\<lambda>t. nat t div 200), poll_pause = (\<lambda>n. n)\<rparr>"

end
