(* ===== verification/Server_State.thy ===== *)
theory Server_State
  imports Waiting Channel Breakpoints Inspection Targets Protocol_Types
begin

text \<open>
  The state of \<open>service::dap_server\<close> (src/src/service/dap_server.h), its outbound messages and the
  part of dap_server.cpp and dap_server_session_events.cpp that the request handlers share: the
  bookkeeping of stops and suspended state, the callbacks of the debug engine, the
  dispatcher as the handlers use it, the wait loop, and disposal of a session.

  Three threads touch this state.  The request thread runs one handler at a time; the
  dispatcher's worker runs the tasks of \<open>invoke\<close>; the wait loop has the worker sit in
  \<open>wait_for_event\<close> while the target runs, where the engine calls back.  The engine is a
  parameter: \<open>pump\<close> tells what \<open>WaitForEvent\<close> does next from an engine state: call back, return
  or block for good, and \<open>sync_events\<close> gives the callbacks that a call of the engine makes
  before it returns.
\<close>

section \<open>Data\<close>

record frame_context =
  fc_thread_id :: int
  fc_frame_number :: u32
  fc_source :: "source_location option"

datatype variable_container_kind = Locals_Kind | Registers_Kind | Structure_Kind

record dap_variable =
  var_name :: string
  var_value :: string
  var_type :: "string option"
  var_evaluate_name :: "string option"
  var_memory_reference :: "string option"
  var_named_variables :: "int option"
  var_variables_reference :: int

record variable_container_context =
  vc_thread_id :: int
  vc_frame_number :: u32
  vc_kind :: variable_container_kind
  vc_variables :: "dap_variable list"

record pending_stop =
  ps_reason :: stop_reason
  ps_description :: "string option"
  ps_hit_breakpoint_ids :: "int list option"

definition no_source :: requested_source where
  "no_source = Source None None None None None None J_Null None"

record dap_breakpoint =
  db_id :: "int option"
  db_verified :: bool
  db_message :: "string option"
  db_failed :: bool
  db_source :: "requested_source option"
  db_line :: "int option"
  db_column :: "int option"
  db_instruction_reference :: "string option"

datatype scope_hint = Locals_Hint | Registers_Hint

record dap_scope =
  sc_name :: string
  sc_hint :: scope_hint
  sc_variables_reference :: int
  sc_named_variables :: int
  sc_expensive :: bool
  sc_source :: "dap_source option"
  sc_line :: "int option"
  sc_column :: "int option"

record dap_module =
  mod_id :: string
  mod_name :: string
  mod_path :: string
  mod_symbol_status :: string
  mod_address_range :: string

datatype response_body =
    No_Body
  | Capabilities_Body "string list" "string list" "string list"
  | Continue_Body bool
  | Threads_Body "dap_thread list"
  | Stack_Trace_Body "dap_stack_frame list" int
  | Scopes_Body "dap_scope list"
  | Variables_Body "dap_variable list"
  | Breakpoints_Body "dap_breakpoint list"
  | Evaluate_Body string int
  | Set_Variable_Body string "string option" "int option" "int option" "string option"
  | Set_Expression_Body string "string option"
  | Memory_Body string string "int option"
  | Write_Body int
  | Disassemble_Body "dap_instruction list"
  | Modules_Body "dap_module list" int
  | Exception_Body string string bool string
  | Data_Info_Body string string
  | Source_Body string

datatype message =
    Response int string response_body
  | Error_Response int string string
  | Event dap_event

fun is_response :: "message \<Rightarrow> bool" where
  "is_response (Event e) = False"
| "is_response m = True"

section \<open>The engine's events\<close>

text \<open>\<open>full_path_of\<close> is \<open>get_full_path\<close>, which asks the file system; \<open>read_file_of\<close> is the content of a
  file that can be opened.\<close>

text \<open>A breakpoint event comes with the engine's description of the last event, if it has one.\<close>

datatype engine_event =
    Ev_Breakpoint "string option"
  | Ev_Exception u32 u64 bool
  | Ev_System_Error u32
  | Ev_Create_Thread
  | Ev_Exit_Thread
  | Ev_Exit_Process u32
  | Ev_Session_Status nat
  | Ev_Execution_Status nat
  | Ev_Output string

datatype 'e pump_result =
    Pump_Callback engine_event 'e
  | Pump_Return hresult 'e
  | Pump_Block

record 'e target =
  base :: "'e engine"
  pump :: "'e \<Rightarrow> 'e pump_result"
  sync_events :: "'e \<Rightarrow> engine_event list \<times> 'e"
  full_path_of :: "string \<Rightarrow> string"
  inspector_of :: "'e inspector"
  read_file_of :: "string \<Rightarrow> string option"
  connector_of :: "'e connector"

section \<open>The state\<close>

text \<open>
  Where the thread of \<open>wait_for_session_event_loop\<close> is: not running, about to test the loop's
  condition, inside the dispatched \<open>wait_for_event\<close>, back from it, or behind the loop but
  not yet through with \<open>wait_loop_active_ = false\<close>.
\<close>

datatype loop_place = No_Loop | Loop_Checking | Loop_Waiting | Loop_Returned | Loop_Exiting

text \<open>
  \<open>unowned_session\<close> is a session object that a local variable still refers to: moved out of the
  member for disposal, or released on a kernel disconnect.  The thread events that wait for
  the next stop are kept by reason and thread id.  \<open>detached_wait\<close> says that a kernel disconnect
  has left the worker in \<open>wait_for_event\<close> on a detached thread.  \<open>teardowns\<close> logs the destroyed
  session objects by whether their destructor terminates the debuggee.
\<close>

record 'e server =
  debugger_session :: "'e session option"
  pending_disposed_session :: "'e session option"
  unowned_session :: "'e session option"
  session_serial :: nat
  is_execution_running :: bool
  session_stop_or_exit_observed :: bool
  suppress_session_events :: bool
  kernel_initial_resume_pending :: bool
  skip_next_break_hit_event :: bool
  detach_on_disconnect :: bool
  terminate_debuggee_on_disconnect :: bool
  launch_awaiting_configuration_done :: bool
  launch_stop_at_entry :: bool
  launch_thread_id :: "int option"
  restore_source_line_stepping_after_stop :: bool
  should_exit :: bool
  initialize_request_handled :: bool
  pending_stopped_event :: "pending_stop option"
  frame_contexts :: "int \<Rightarrow> frame_context option"
  next_variables_reference :: int
  variables_by_reference :: "int \<Rightarrow> variable_container_context option"
  conditions_by_id :: "int \<Rightarrow> string option"
  condition_ids_by_path :: "string \<Rightarrow> int list option"
  pending_thread_events :: "(thread_reason \<times> int) list"
  wait_loop :: loop_place
  loop_serial :: nat
  detached_wait :: bool
  outbound :: "message list"
  teardowns :: "bool list"

definition new_server :: "'e server" where
  "new_server = \<lparr>debugger_session = None, pending_disposed_session = None, unowned_session = None,
     session_serial = 0, is_execution_running = False, session_stop_or_exit_observed = False,
     suppress_session_events = False, kernel_initial_resume_pending = False, skip_next_break_hit_event = False,
     detach_on_disconnect = False, terminate_debuggee_on_disconnect = False,
     launch_awaiting_configuration_done = False, launch_stop_at_entry = False, launch_thread_id = None,
     restore_source_line_stepping_after_stop = False, should_exit = False, initialize_request_handled = False,
     pending_stopped_event = None, frame_contexts = (\<lambda>i. None), next_variables_reference = 1,
     variables_by_reference = (\<lambda>i. None), conditions_by_id = (\<lambda>i. None), condition_ids_by_path = (\<lambda>p. None),
     pending_thread_events = [], wait_loop = No_Loop, loop_serial = 0, detached_wait = False, outbound = [], teardowns = []\<rparr>"

section \<open>Outbound messages\<close>

definition post_message :: "message \<Rightarrow> 'e server \<Rightarrow> 'e server" where
  "post_message m s = s\<lparr>outbound := outbound s @ [m]\<rparr>"

definition send_event :: "dap_event \<Rightarrow> ('e server, unit) act" where
  "send_event e = update_state (post_message (Event e))"

definition send_response :: "int \<Rightarrow> string \<Rightarrow> response_body \<Rightarrow> ('e server, unit) act" where
  "send_response request_seq command body = update_state (post_message (Response request_seq command body))"

definition send_error_response :: "int \<Rightarrow> string \<Rightarrow> string \<Rightarrow> ('e server, unit) act" where
  "send_error_response request_seq command m = update_state (post_message (Error_Response request_seq command m))"

section \<open>The session object\<close>

definition live_session :: "'e server \<Rightarrow> 'e session option" where
  "live_session s =
     (case debugger_session s of
        Some x \<Rightarrow> Some x
      | None \<Rightarrow> (case pending_disposed_session s of Some x \<Rightarrow> Some x | None \<Rightarrow> unowned_session s))"

definition put_session :: "'e session \<Rightarrow> 'e server \<Rightarrow> 'e server" where
  "put_session x s =
     (if debugger_session s \<noteq> None then s\<lparr>debugger_session := Some x\<rparr>
      else if pending_disposed_session s \<noteq> None then s\<lparr>pending_disposed_session := Some x\<rparr>
      else if unowned_session s \<noteq> None then s\<lparr>unowned_session := Some x\<rparr> else s)"

text \<open>The session's \<open>on_output_received\<close>: every text that is not empty becomes an output event.\<close>

definition on_output_received :: "string \<Rightarrow> 'e server \<Rightarrow> 'e server" where
  "on_output_received output s =
     (if output \<noteq> [] then post_message (Event (create_output_event output Console)) s else s)"

text \<open>A call of the session object; the output it forwards is queued in order.\<close>

definition on_session :: "('e session, 'a) act \<Rightarrow> ('e server, 'a) act" where
  "on_session f s =
     (case live_session s of
        None \<Rightarrow> (Inl (Runtime_Error ''No active debugger session is available.''), s)
      | Some x \<Rightarrow>
          (case f (x\<lparr>forwarded := []\<rparr>) of (r, x') \<Rightarrow>
             (r, fold on_output_received (forwarded x') (put_session (x'\<lparr>forwarded := []\<rparr>) s))))"

section \<open>Stops and suspended state\<close>

definition set_pending_stopped_event ::
    "stop_reason \<Rightarrow> string option \<Rightarrow> int list option \<Rightarrow> 'e server \<Rightarrow> 'e server" where
  "set_pending_stopped_event reason description ids s =
     s\<lparr>pending_stopped_event :=
         Some \<lparr>ps_reason = reason, ps_description = description, ps_hit_breakpoint_ids = ids\<rparr>\<rparr>"

definition clear_pending_stopped_event :: "'e server \<Rightarrow> 'e server" where
  "clear_pending_stopped_event s = s\<lparr>pending_stopped_event := None\<rparr>"

definition has_pending_stopped_event :: "'e server \<Rightarrow> bool" where
  "has_pending_stopped_event s \<longleftrightarrow> pending_stopped_event s \<noteq> None"

definition is_represented_stop_while_halted :: "'e server \<Rightarrow> bool" where
  "is_represented_stop_while_halted s \<longleftrightarrow> \<not> is_execution_running s"

definition reset_launch_configuration_state :: "'e server \<Rightarrow> 'e server" where
  "reset_launch_configuration_state s =
     s\<lparr>launch_awaiting_configuration_done := False, launch_stop_at_entry := False, launch_thread_id := None\<rparr>"

definition reset_suspended_state :: "'e server \<Rightarrow> 'e server" where
  "reset_suspended_state s =
     s\<lparr>frame_contexts := (\<lambda>i. None), variables_by_reference := (\<lambda>i. None), next_variables_reference := 1,
       pending_thread_events := []\<rparr>"

definition is_session_unavailable :: "'e server \<Rightarrow> bool" where
  "is_session_unavailable s \<longleftrightarrow> should_exit s \<or> debugger_session s = None"

definition thread_id_of :: "u32 \<Rightarrow> int option" where
  "thread_id_of i = (if uint i > int_max then None else Some (uint i))"

text \<open>As called on the dispatcher's worker, where \<open>invoke\<close> is a direct call.\<close>

definition current_thread_id_on_worker :: "'e target \<Rightarrow> ('e server, int option) act" where
  "current_thread_id_on_worker L s =
     (case debugger_session s of
        None \<Rightarrow> (Inr None, s)
      | Some x \<Rightarrow>
          act_catch (act_bind (on_session (get_current_thread_id (base L))) (\<lambda>i. ret (thread_id_of i)))
            (\<lambda>e. ret None) s)"

section \<open>Disposal\<close>

definition destroy_session :: "'e session option \<Rightarrow> 'e server \<Rightarrow> 'e server" where
  "destroy_session x s =
     (case x of None \<Rightarrow> s | Some y \<Rightarrow> s\<lparr>teardowns := teardowns s @ [terminate_on_dispose y]\<rparr>)"

text \<open>The members \<open>dispose_debugger_session\<close> resets, whichever thread it runs on.\<close>

definition reset_session_members :: "'e server \<Rightarrow> 'e server" where
  "reset_session_members s =
     (reset_suspended_state (clear_pending_stopped_event (reset_launch_configuration_state s)))
       \<lparr>debugger_session := None, detach_on_disconnect := False, is_execution_running := False,
        session_stop_or_exit_observed := True, conditions_by_id := (\<lambda>i. None),
        condition_ids_by_path := (\<lambda>p. None), suppress_session_events := False,
        terminate_debuggee_on_disconnect := False, kernel_initial_resume_pending := False,
        skip_next_break_hit_event := False\<rparr>"

text \<open>On the worker thread the session is parked, and the one parked before is destroyed by the move.\<close>

definition dispose_on_worker :: "('e server, unit) act" where
  "dispose_on_worker = update_state (\<lambda>s.
     reset_session_members
       (case debugger_session s of
          None \<Rightarrow> s
        | Some x \<Rightarrow> destroy_session (pending_disposed_session s) s\<lparr>pending_disposed_session := Some x\<rparr>))"

section \<open>Queued events\<close>

definition flush_pending_thread_events :: "'e server \<Rightarrow> 'e server" where
  "flush_pending_thread_events s =
     s\<lparr>pending_thread_events := [],
       outbound := outbound s @ map (\<lambda>(reason, t). Event (create_thread_event reason t)) (pending_thread_events s)\<rparr>"

definition queue_thread_event :: "'e target \<Rightarrow> thread_reason \<Rightarrow> ('e server, unit) act" where
  "queue_thread_event L reason =
     act_bind (current_thread_id_on_worker L) (\<lambda>thread_id.
       case thread_id of
         None \<Rightarrow> ret ()
       | Some t \<Rightarrow> update_state (\<lambda>s.
           if is_execution_running s \<or> has_pending_stopped_event s
           then s\<lparr>pending_thread_events := pending_thread_events s @ [(reason, t)]\<rparr>
           else post_message (Event (create_thread_event reason t)) s))"

definition queue_session_termination :: "int \<Rightarrow> ('e server, unit) act" where
  "queue_session_termination exit_code =
     act_then (update_state (\<lambda>s.
         post_message (Event Terminated_Event) (post_message (Event (create_exited_event exit_code))
           (flush_pending_thread_events
              (s\<lparr>is_execution_running := False, session_stop_or_exit_observed := True\<rparr>)))))
       (act_then dispose_on_worker (update_state (\<lambda>s. s\<lparr>should_exit := True\<rparr>)))"

definition queue_session_ended :: "('e server, unit) act" where
  "queue_session_ended =
     act_then (update_state (\<lambda>s. s\<lparr>is_execution_running := False, session_stop_or_exit_observed := True\<rparr>))
       (act_bind (get_state debugger_session) (\<lambda>x.
          if x = None then ret ()
          else act_then (update_state (\<lambda>s. post_message (Event Terminated_Event) (flush_pending_thread_events s)))
                 (act_then dispose_on_worker (update_state (\<lambda>s. s\<lparr>should_exit := True\<rparr>)))))"

section \<open>Conditional breakpoints and the kernel's initial break\<close>

text \<open>
  The matches of the pattern that looks for the words true and false in any case: a match is
  bounded by non-word characters on both sides, so it is a maximal run of word characters.
\<close>

definition is_word_char :: "char \<Rightarrow> bool" where
  "is_word_char c \<longleftrightarrow> is_alpha c \<or> isdigit c \<or> c = CHR ''_''"

fun word_runs :: "string \<Rightarrow> string \<Rightarrow> string list" where
  "word_runs current [] = (if current = [] then [] else [current])"
| "word_runs current (c # cs) =
     (if is_word_char c then word_runs (current @ [c]) cs
      else (if current = [] then [] else [current]) @ word_runs [] cs)"

definition condition_verdict :: "string \<Rightarrow> bool option" where
  "condition_verdict output =
     (case filter (\<lambda>w. w = ''true'' \<or> w = ''false'') (map (map tolower) (word_runs [] output)) of
        [] \<Rightarrow> None
      | ws \<Rightarrow> Some (last ws = ''true''))"

definition try_evaluate_conditional_breakpoint :: "'e target \<Rightarrow> string \<Rightarrow> ('e server, bool option) act" where
  "try_evaluate_conditional_breakpoint L condition =
     act_catch
       (act_bind (on_session (execute_command_with_output (base L) (''dx ('' @ condition @ '')'') True))
          (\<lambda>output. ret (condition_verdict output)))
       (\<lambda>e. ret None)"

definition resume_unseen :: "'e server \<Rightarrow> 'e server" where
  "resume_unseen s =
     (clear_pending_stopped_event (reset_suspended_state s))
       \<lparr>session_stop_or_exit_observed := False, is_execution_running := True, skip_next_break_hit_event := True\<rparr>"

definition try_auto_continue_conditional_breakpoint_hit :: "'e target \<Rightarrow> u32 \<Rightarrow> ('e server, bool) act" where
  "try_auto_continue_conditional_breakpoint_hit L breakpoint_id =
     act_bind (get_state (\<lambda>s. conditions_by_id s (sint breakpoint_id))) (\<lambda>condition.
       case condition of
         None \<Rightarrow> ret False
       | Some c \<Rightarrow>
           act_bind (try_evaluate_conditional_breakpoint L c) (\<lambda>verdict.
             if verdict \<noteq> Some False then ret False
             else act_then (update_state resume_unseen)
                    (act_then (on_session (continue_execution (base L))) (ret True))))"

definition try_auto_continue_kernel_initial_break :: "'e target \<Rightarrow> ('e server, bool) act" where
  "try_auto_continue_kernel_initial_break L =
     act_bind (get_state (\<lambda>s. kernel_initial_resume_pending s \<and> \<not> suppress_session_events s)) (\<lambda>armed.
       if \<not> armed then ret False
       else act_then (update_state (\<lambda>s. resume_unseen (s\<lparr>kernel_initial_resume_pending := False\<rparr>)))
              (act_then (on_session (continue_execution (base L))) (ret True)))"

end
