(* ===== verification/Server_Events.thy ===== *)
theory Server_Events
  imports Server_State
begin

text \<open>
  The callbacks that \<open>dap_server::wire_debugger_session\<close> (src/src/service/dap_server.cpp) registers,
  as the engine reaches them through the sinks of src/src/debugger/debugger_session.cpp; waiting
  for events, the dispatcher's \<open>invoke\<close> beside a parked worker, and the wait loop of
  src/src/service/dap_server_session_events.cpp.  The properties: a stop is reported at most once per
  resume, and a suppressed stop is never reported.
\<close>

section \<open>Callbacks\<close>

definition observe_stop :: "'e server \<Rightarrow> 'e server" where
  "observe_stop s = s\<lparr>is_execution_running := False, session_stop_or_exit_observed := True\<rparr>"

definition on_breakpoint_hit :: "'e target \<Rightarrow> u32 \<Rightarrow> ('e server, unit) act" where
  "on_breakpoint_hit L breakpoint_id =
     act_bind (try_auto_continue_conditional_breakpoint_hit L breakpoint_id) (\<lambda>continued.
       if continued then ret ()
       else update_state (\<lambda>s.
         if is_represented_stop_while_halted s then s
         else if suppress_session_events s then clear_pending_stopped_event (observe_stop s)
         else set_pending_stopped_event Stop_Breakpoint
                (Some (''Paused on breakpoint '' @ dec (unat breakpoint_id) @ ''.''))
                (Some [sint breakpoint_id]) (observe_stop s)))"

definition on_exception_hit :: "'e target \<Rightarrow> int \<Rightarrow> ('e server, unit) act" where
  "on_exception_hit L exception_code =
     act_bind (try_auto_continue_kernel_initial_break L) (\<lambda>continued.
       if continued then ret ()
       else update_state (\<lambda>s.
         if is_represented_stop_while_halted s then s
         else if suppress_session_events s then clear_pending_stopped_event (observe_stop s)
         else if \<not> has_pending_stopped_event s
         then set_pending_stopped_event Stop_Exception
                (Some (''Paused on exception 0x''
                   @ pad_zero 8 (hex_upper (unat (of_int exception_code :: u32))) @ ''.''))
                None (observe_stop s)
         else observe_stop s))"

definition on_break_hit :: "'e target \<Rightarrow> ('e server, unit) act" where
  "on_break_hit L =
     act_bind (get_state skip_next_break_hit_event) (\<lambda>skip.
       if skip then update_state (\<lambda>s. s\<lparr>skip_next_break_hit_event := False\<rparr>)
       else act_then (update_state observe_stop)
         (act_bind (get_state pending_stopped_event) (\<lambda>pending.
            act_then (update_state clear_pending_stopped_event)
              (act_bind (get_state suppress_session_events) (\<lambda>suppress.
                 case pending of
                   None \<Rightarrow> ret ()
                 | Some p \<Rightarrow>
                     if suppress then ret ()
                     else act_then (update_state flush_pending_thread_events)
                       (act_bind (current_thread_id_on_worker L) (\<lambda>t.
                          send_event (create_stopped_event (ps_reason p) (ps_description p) t
                                        (ps_hit_breakpoint_ids p)))))))))"

section \<open>The event sinks\<close>

definition get_last_breakpoint_id :: "string option \<Rightarrow> u32" where
  "get_last_breakpoint_id description =
     (case description of
        None \<Rightarrow> 0
      | Some d \<Rightarrow> (case try_parse_breakpoint_id d of None \<Rightarrow> 0 | Some i \<Rightarrow> i))"

definition exception_sink :: "'e target \<Rightarrow> u32 \<Rightarrow> u64 \<Rightarrow> bool \<Rightarrow> ('e server, unit) act" where
  "exception_sink L code address first_chance =
     act_bind (on_session (\<lambda>x. case exception_callback code address first_chance x of (c, x') \<Rightarrow> (Inr c, x')))
       (\<lambda>c. case c of None \<Rightarrow> ret () | Some exception_code \<Rightarrow> on_exception_hit L exception_code)"

text \<open>\<open>DEBUG_SESSION_END_SESSION_ACTIVE_TERMINATE\<close>, \<open>..._ACTIVE_DETACH\<close> and \<open>..._PASSIVE\<close>.\<close>

definition ends_session :: "nat \<Rightarrow> bool" where
  "ends_session status \<longleftrightarrow> status = 1 \<or> status = 2 \<or> status = 3"

definition kStatusBreak :: nat where
  "kStatusBreak = 6"

definition kStatusNoDebuggee :: nat where
  "kStatusNoDebuggee = 7"

fun deliver :: "'e target \<Rightarrow> engine_event \<Rightarrow> ('e server, unit) act" where
  "deliver L (Ev_Breakpoint description) = on_breakpoint_hit L (get_last_breakpoint_id description)"
| "deliver L (Ev_Exception code address first_chance) = exception_sink L code address first_chance"
| "deliver L (Ev_System_Error e) = on_exception_hit L (sint e)"
| "deliver L Ev_Create_Thread = queue_thread_event L Thread_Started"
| "deliver L Ev_Exit_Thread = queue_thread_event L Thread_Exited"
| "deliver L (Ev_Exit_Process code) = queue_session_termination (sint code)"
| "deliver L (Ev_Session_Status status) = (if ends_session status then queue_session_ended else ret ())"
| "deliver L (Ev_Execution_Status status) =
     (if status = kStatusBreak then on_break_hit L
      else if status = kStatusNoDebuggee then queue_session_ended else ret ())"
| "deliver L (Ev_Output t) = on_session (\<lambda>x. (Inr (), output_callback t x))"

text \<open>A call of the session that the dispatcher runs, with the callbacks the engine makes meanwhile.\<close>

definition session_task :: "'e target \<Rightarrow> ('e session, 'a) act \<Rightarrow> ('e server, 'a) act" where
  "session_task L f s =
     (case on_session f s of (r, s1) \<Rightarrow>
        (case live_session s1 of
           None \<Rightarrow> (r, s1)
         | Some x \<Rightarrow>
             (case sync_events L (eng x) of (evs, e') \<Rightarrow>
                (case act_iter (deliver L) evs (put_session (x\<lparr>eng := e'\<rparr>) s1) of
                   (Inl e, s2) \<Rightarrow> (Inl e, s2)
                 | (Inr u, s2) \<Rightarrow> (r, s2)))))"

section \<open>Waiting for events\<close>

partial_function (option) wait_for_event :: "'e target \<Rightarrow> ('e server, unit) wact" where
  "wait_for_event L s =
     (case live_session s of
        None \<Rightarrow> Some (Inl (Runtime_Error ''No active debugger session is available.''), s)
      | Some x \<Rightarrow>
          if sess_disposed x then Some (Inl (Runtime_Error ''debugger_session has been disposed.''), s)
          else (case pump L (eng x) of
                  Pump_Block \<Rightarrow> None
                | Pump_Return hr e' \<Rightarrow>
                    Some (act_check (check_hr hr ''WaitForEvent failed'') (put_session (x\<lparr>eng := e'\<rparr>) s))
                | Pump_Callback ev e' \<Rightarrow>
                    (case deliver L ev (put_session (x\<lparr>eng := e'\<rparr>) s) of
                       (Inl e, s') \<Rightarrow> Some (Inl e, s')
                     | (Inr u, s') \<Rightarrow> wait_for_event L s')))"

text \<open>
  \<open>dispatcher_.invoke\<close> from another thread: the worker first has to come back from the wait loop's
  \<open>wait_for_event\<close>, if it sits there; then the task runs and its exception is wrapped.
\<close>

definition free_worker :: "'e target \<Rightarrow> ('e server, unit) wact" where
  "free_worker L s =
     (if wait_loop s = Loop_Waiting
      then (case wait_for_event L s of
              None \<Rightarrow> None
            | Some (Inl e, s') \<Rightarrow> Some (Inr (), s'\<lparr>wait_loop := Loop_Exiting\<rparr>)
            | Some (Inr u, s') \<Rightarrow> Some (Inr (), s'\<lparr>wait_loop := Loop_Returned\<rparr>))
      else Some (Inr (), s))"

definition invoke :: "'e target \<Rightarrow> ('e server, 'a) act \<Rightarrow> ('e server, 'a) wact" where
  "invoke L f = w_then (free_worker L) (now (dispatcher_invoke False new_channel f))"

definition invoke_session :: "'e target \<Rightarrow> ('e session, 'a) act \<Rightarrow> ('e server, 'a) wact" where
  "invoke_session L f = invoke L (session_task L f)"

text \<open>The same for a call of the session that may itself not end.\<close>

definition invoke_session_w :: "'e target \<Rightarrow> ('e session, 'a) wact \<Rightarrow> ('e server, 'a) wact" where
  "invoke_session_w L f =
     w_then (free_worker L) (\<lambda>s.
       case live_session s of
         None \<Rightarrow> now (dispatcher_invoke False new_channel (session_task L (\<lambda>y. the (f y)))) s
       | Some x \<Rightarrow>
           if f (x\<lparr>forwarded := []\<rparr>) = None then None
           else now (dispatcher_invoke False new_channel (session_task L (\<lambda>y. the (f y)))) s)"

definition try_get_current_thread_id :: "'e target \<Rightarrow> ('e server, int option) wact" where
  "try_get_current_thread_id L s =
     (case debugger_session s of
        None \<Rightarrow> Some (Inr None, s)
      | Some x \<Rightarrow>
          w_catch (w_bind (invoke_session L (get_current_thread_id (base L))) (\<lambda>i. w_ret (thread_id_of i)))
            (\<lambda>e. w_ret None) s)"

section \<open>The wait loop\<close>

definition start_waiting_for_session_event :: "'e server \<Rightarrow> 'e server" where
  "start_waiting_for_session_event s =
     (if wait_loop s \<noteq> No_Loop then s
      else s\<lparr>session_stop_or_exit_observed := False, wait_loop := Loop_Checking, loop_serial := session_serial s\<rparr>)"

definition restore_source_line_stepping_if_needed :: "'e target \<Rightarrow> ('e server, unit) wact" where
  "restore_source_line_stepping_if_needed L =
     w_bind (w_get restore_source_line_stepping_after_stop) (\<lambda>restore.
       if \<not> restore then w_ret ()
       else w_then (w_catch (invoke_session L (enable_source_line_stepping (base L))) (\<lambda>e. w_ret ()))
              (w_set (\<lambda>s. s\<lparr>restore_source_line_stepping_after_stop := False\<rparr>)))"

definition drain_pending_disposed_session :: "'e target \<Rightarrow> ('e server, unit) wact" where
  "drain_pending_disposed_session L =
     w_bind (w_get pending_disposed_session) (\<lambda>owned.
       if owned = None then w_ret ()
       else w_catch
         (w_then (w_set (\<lambda>s. s\<lparr>pending_disposed_session := None, unowned_session := owned\<rparr>))
            (invoke L (update_state (\<lambda>s. destroy_session (unowned_session s) s\<lparr>unowned_session := None\<rparr>))))
         (\<lambda>e. w_ret ()))"

text \<open>One step of the thread that runs \<open>wait_for_session_event_loop\<close>; a callback is a step of its own.\<close>

definition loop_step :: "'e target \<Rightarrow> ('e server, unit) wact" where
  "loop_step L s =
     (case wait_loop s of
        No_Loop \<Rightarrow> None
      | Loop_Checking \<Rightarrow>
          Some (Inr (), s\<lparr>wait_loop :=
            (if debugger_session s \<noteq> None \<and> session_serial s = loop_serial s \<and> \<not> session_stop_or_exit_observed s
             then Loop_Waiting else Loop_Exiting)\<rparr>)
      | Loop_Waiting \<Rightarrow>
          (case live_session s of
             None \<Rightarrow> Some (Inr (), s\<lparr>wait_loop := Loop_Exiting\<rparr>)
           | Some x \<Rightarrow>
               if sess_disposed x then Some (Inr (), s\<lparr>wait_loop := Loop_Exiting\<rparr>)
               else (case pump L (eng x) of
                       Pump_Block \<Rightarrow> None
                     | Pump_Return hr e' \<Rightarrow>
                         Some (Inr (), (put_session (x\<lparr>eng := e'\<rparr>) s)
                           \<lparr>wait_loop := (if hr_failed hr then Loop_Exiting else Loop_Returned)\<rparr>)
                     | Pump_Callback ev e' \<Rightarrow>
                         (case deliver L ev (put_session (x\<lparr>eng := e'\<rparr>) s) of
                            (Inl e, s') \<Rightarrow> Some (Inr (), s'\<lparr>wait_loop := Loop_Exiting\<rparr>)
                          | (Inr u, s') \<Rightarrow> Some (Inr (), s'))))
      | Loop_Returned \<Rightarrow>
          w_then (if session_stop_or_exit_observed s then restore_source_line_stepping_if_needed L else w_ret ())
            (w_set (\<lambda>s. s\<lparr>wait_loop := Loop_Checking\<rparr>)) s
      | Loop_Exiting \<Rightarrow>
          w_then (drain_pending_disposed_session L)
            (w_set (\<lambda>s. s\<lparr>wait_loop := No_Loop, restore_source_line_stepping_after_stop := False\<rparr>)) s)"

text \<open>The request thread joins the wait loop: the loop's thread runs to its end.\<close>

partial_function (option) run_wait_loop :: "'e target \<Rightarrow> ('e server, unit) wact" where
  "run_wait_loop L s =
     (if wait_loop s = No_Loop then Some (Inr (), s)
      else (case loop_step L s of None \<Rightarrow> None | Some (r, s') \<Rightarrow> run_wait_loop L s'))"

definition join_wait_loop :: "'e target \<Rightarrow> ('e server, unit) wact" where
  "join_wait_loop L = w_then (run_wait_loop L) (drain_pending_disposed_session L)"

text \<open>Off the worker thread, the session is destroyed by a dispatched task; failures are ignored.\<close>

definition dispose_debugger_session :: "'e target \<Rightarrow> ('e server, unit) wact" where
  "dispose_debugger_session L =
     w_then
       (w_bind (w_get debugger_session) (\<lambda>x.
          if x = None then w_ret ()
          else w_catch
            (w_then (w_set (\<lambda>s. s\<lparr>debugger_session := None, unowned_session := x\<rparr>))
               (invoke L (update_state (\<lambda>s. destroy_session (unowned_session s) s\<lparr>unowned_session := None\<rparr>))))
            (\<lambda>e. w_ret ())))
       (w_set reset_session_members)"

section \<open>Invariants of the state under events\<close>

lemma dispatcher_invoke_empty:
  "dispatcher_invoke False new_channel f s =
     (case f s of (Inl e, s') \<Rightarrow> (Inl (Dispatcher_Failure (what e)), s') | (Inr v, s') \<Rightarrow> (Inr v, s'))"
  by (simp add: dispatcher_invoke_def submit_def post_def push_def new_channel_def)

text \<open>
  What a predicate on the server state has to promise so that the session object, the events, the
  dispatcher and the wait loop keep it: one law per member they write.  The first contract
  is about calls of the session object, the second about everything that waits for events
  or runs on the dispatcher, given that the callbacks keep the predicate; the third one
  has the laws under which the callbacks keep it.
\<close>

locale session_invariant =
  fixes P :: "'e server \<Rightarrow> bool"
  assumes session_law: "P s \<Longrightarrow> x = None \<or> debugger_session s \<noteq> None \<Longrightarrow> P (s\<lparr>debugger_session := x\<rparr>)"
    and parked_law: "P s \<Longrightarrow> P (s\<lparr>pending_disposed_session := x\<rparr>)"
    and unowned_law: "P s \<Longrightarrow> P (s\<lparr>unowned_session := x\<rparr>)"
    and console_law: "P s \<Longrightarrow> P (post_message (Event (create_output_event t Console)) s)"
begin

lemma put_session_law: "P s \<Longrightarrow> P (put_session x s)"
  by (simp add: put_session_def session_law parked_law unowned_law)

lemma output_law: "P s \<Longrightarrow> P (fold on_output_received ts s)"
  by (induction ts arbitrary: s) (simp_all add: on_output_received_def console_law)

lemma on_session_keeps: "keeps P (on_session f)"
  unfolding keeps_def on_session_def by (auto split: option.split prod.split intro!: output_law put_session_law)

end

locale event_invariant = session_invariant +
  assumes teardown_law: "P s \<Longrightarrow> P (s\<lparr>teardowns := ts\<rparr>)"
    and reset_law: "P s \<Longrightarrow> P (reset_session_members s)"
    and restore_law: "P s \<Longrightarrow> P (s\<lparr>restore_source_line_stepping_after_stop := b\<rparr>)"
    and loop_law: "P s \<Longrightarrow> P (s\<lparr>wait_loop := l\<rparr>)"
    and deliver_keeps: "keeps P (deliver L ev)"
begin

lemma destroy_law: "P s \<Longrightarrow> P (destroy_session x s)"
  by (simp add: destroy_session_def teardown_law split: option.split)

lemma session_task_keeps: "keeps P (session_task L f)"
  unfolding keeps_def
proof (intro allI impI)
  fix s
  assume "P s"
  then have s1: "P (snd (on_session f s))" by (rule keepsD [OF on_session_keeps])
  have "keeps P (act_iter (deliver L) evs)" for evs by (intro keeps_iter deliver_keeps)
  then have "P (snd (act_iter (deliver L) evs (put_session x (snd (on_session f s)))))" for evs x
    by (rule keepsD) (rule put_session_law [OF s1])
  then show "P (snd (session_task L f s))"
    using s1 by (auto simp: session_task_def split: prod.split option.split sum.split) (metis snd_conv)+
qed

text \<open>The two loops, by induction over the calls of a run that returns.\<close>

lemma wait_for_event_maintains: "maintains P (wait_for_event L)"
proof (rule maintainsI)
  fix s r s'
  assume p: "P s" and w: "wait_for_event L s = Some (r, s')"
  have "P t \<longrightarrow> P (snd y)" if w: "wait_for_event K t = Some y" for K t y
  proof (rule wait_for_event.raw_induct [where P = "\<lambda>K t y. P t \<longrightarrow> P (snd y)", OF _ w],
      rule impI)
    fix wait K s y
    assume wait: "\<And>K s y. wait K s = Some y \<Longrightarrow> P s \<longrightarrow> P (snd y)" and p: "P s"
      and y: "(case live_session s of
        None \<Rightarrow> Some (Inl (Runtime_Error ''No active debugger session is available.''), s)
      | Some x \<Rightarrow>
          if sess_disposed x then Some (Inl (Runtime_Error ''debugger_session has been disposed.''), s)
          else (case pump K (eng x) of
                  Pump_Block \<Rightarrow> None
                | Pump_Return hr e' \<Rightarrow>
                    Some (act_check (check_hr hr ''WaitForEvent failed'') (put_session (x\<lparr>eng := e'\<rparr>) s))
                | Pump_Callback ev e' \<Rightarrow>
                    (case deliver K ev (put_session (x\<lparr>eng := e'\<rparr>) s) of
                       (Inl e, s') \<Rightarrow> Some (Inl e, s')
                     | (Inr u, s') \<Rightarrow> wait K s'))) = Some y"
    have d: "P t" if "deliver K ev (put_session z s) = (q, t)" for ev z q t
      using keepsD [OF deliver_keeps put_session_law [OF p, of z], of K ev] that by simp
    have c: "P (snd (act_check c (put_session z s)))" for c z
      using keepsD [OF keeps_check, of P, OF put_session_law [OF p]] .
    show "P (snd y)"
    proof (cases "live_session s")
      case None
      then show ?thesis using y p by auto
    next
      case (Some x)
      show ?thesis
      proof (cases "sess_disposed x")
        case True
        then show ?thesis using y p Some by auto
      next
        case False
        show ?thesis
        proof (cases "pump K (eng x)")
          case (Pump_Callback ev e')
          obtain q t where t: "deliver K ev (put_session (x\<lparr>eng := e'\<rparr>) s) = (q, t)"
            by (cases "deliver K ev (put_session (x\<lparr>eng := e'\<rparr>) s)")
          then show ?thesis
            using d [OF t] wait [of K t y] y Some False Pump_Callback
            by (cases q) (simp_all add: t, metis snd_conv)
        next
          case (Pump_Return hr e')
          then show ?thesis using y Some False c by auto
        next
          case Pump_Block
          then show ?thesis using y Some False by simp
        qed
      qed
    qed
  qed
  then show "P s'" using p w by fastforce
qed

lemma free_worker_maintains: "maintains P (free_worker L)"
proof (rule maintainsI)
  fix s r s'
  assume p: "P s" "free_worker L s = Some (r, s')"
  then show "P s'"
    using maintainsD [OF wait_for_event_maintains p(1)]
    by (auto simp: free_worker_def intro: loop_law split: if_splits option.splits prod.splits sum.splits)
qed

lemma invoke_maintains: "keeps P f \<Longrightarrow> maintains P (invoke L f)"
proof -
  assume f: "keeps P f"
  have "P (snd (dispatcher_invoke False new_channel f s))" if "P s" for s
    using keepsD [OF f that]
    by (cases "f s" rule: prod.exhaust) (auto simp: dispatcher_invoke_empty split: sum.split)
  then have "keeps P (dispatcher_invoke False new_channel f)" by (simp add: keeps_def)
  then show "maintains P (invoke L f)" unfolding invoke_def by (intro triples free_worker_maintains)
qed

lemma invoke_session_maintains: "maintains P (invoke_session L f)"
  unfolding invoke_session_def by (intro invoke_maintains session_task_keeps)

lemma invoke_session_w_maintains: "maintains P (invoke_session_w L f)"
proof -
  let ?run = "now (dispatcher_invoke False new_channel (session_task L (\<lambda>y. the (f y))))"
  have "P (snd (dispatcher_invoke False new_channel (session_task L (\<lambda>y. the (f y))) s))" if "P s" for s
    using keepsD [OF session_task_keeps [of L "\<lambda>y. the (f y)"] that]
    by (cases "session_task L (\<lambda>y. the (f y)) s" rule: prod.exhaust) (auto simp: dispatcher_invoke_empty split: sum.split)
  then have "maintains P ?run" by (intro maintains_now) (simp add: keeps_def)
  then have "maintains P (\<lambda>s. case live_session s of
         None \<Rightarrow> ?run s
       | Some x \<Rightarrow> if f (x\<lparr>forwarded := []\<rparr>) = None then None else ?run s)"
    by (intro maintainsI) (auto dest: maintainsD split: option.splits if_splits)
  then show ?thesis unfolding invoke_session_w_def by (intro triples free_worker_maintains)
qed

lemma try_get_current_thread_id_maintains: "maintains P (try_get_current_thread_id L)"
proof -
  have k: "maintains P (w_catch (w_bind (invoke_session L (get_current_thread_id (base L)))
      (\<lambda>i. w_ret (thread_id_of i))) (\<lambda>e. w_ret None))"
    by (intro triples keeps_rules invoke_session_maintains)
  show ?thesis
    by (rule maintainsI)
      (auto simp: try_get_current_thread_id_def split: option.splits dest: maintainsD [OF k])
qed

lemma restore_stepping_maintains: "maintains P (restore_source_line_stepping_if_needed L)"
  unfolding restore_source_line_stepping_if_needed_def
  by (intro triples keeps_rules invoke_session_maintains restore_law)

lemma drain_maintains: "maintains P (drain_pending_disposed_session L)"
  unfolding drain_pending_disposed_session_def
  by (intro triples keeps_rules invoke_maintains)
    (auto intro!: unowned_law parked_law destroy_law simp flip: fun_upd_def)

lemma dispose_maintains: "maintains P (dispose_debugger_session L)"
  unfolding dispose_debugger_session_def
  by (intro triples keeps_rules invoke_maintains reset_law)
    (auto intro!: unowned_law session_law destroy_law)

lemma loop_step_maintains: "maintains P (loop_step L)"
proof (rule maintainsI)
  fix s r s'
  assume p: "P s" and step: "loop_step L s = Some (r, s')"
  show "P s'"
  proof (cases "wait_loop s")
    case Loop_Waiting
    have "P (snd (deliver L ev (put_session x s)))" for ev x
      using p by (intro keepsD [OF deliver_keeps] put_session_law)
    then have "P t" if "deliver L ev (put_session x s) = (q, t)" for ev x q t using that by (metis snd_conv)
    then show ?thesis
      using step Loop_Waiting p
      by (auto simp: loop_step_def intro!: loop_law put_session_law
          split: option.splits if_splits pump_result.splits prod.splits sum.splits)
  next
    case Loop_Returned
    have "maintains P (w_then (if session_stop_or_exit_observed s then restore_source_line_stepping_if_needed L else w_ret ())
        (w_set (\<lambda>s. s\<lparr>wait_loop := Loop_Checking\<rparr>)))"
      by (intro triples keeps_rules restore_stepping_maintains loop_law)
    then show ?thesis using step Loop_Returned p by (auto simp: loop_step_def dest: maintainsD)
  next
    case Loop_Exiting
    have "maintains P (w_then (drain_pending_disposed_session L)
        (w_set (\<lambda>s. s\<lparr>wait_loop := No_Loop, restore_source_line_stepping_after_stop := False\<rparr>)))"
      by (intro triples keeps_rules drain_maintains restore_law loop_law)
    then show ?thesis using step Loop_Exiting p by (auto simp: loop_step_def dest: maintainsD)
  qed (use step p in \<open>auto simp: loop_step_def intro: loop_law\<close>)
qed

lemma run_wait_loop_maintains: "maintains P (run_wait_loop L)"
proof (rule maintainsI)
  fix s r s'
  assume p: "P s" and w: "run_wait_loop L s = Some (r, s')"
  have "P t \<longrightarrow> P (snd y)" if w: "run_wait_loop K t = Some y" for K t y
  proof (rule run_wait_loop.raw_induct [where P = "\<lambda>K t y. P t \<longrightarrow> P (snd y)", OF _ w],
      rule impI)
    fix run K s y
    assume run: "\<And>K s y. run K s = Some y \<Longrightarrow> P s \<longrightarrow> P (snd y)" and p: "P s"
      and y: "(if wait_loop s = No_Loop then Some (Inr (), s)
       else (case loop_step K s of None \<Rightarrow> None | Some (r, s') \<Rightarrow> run K s')) = Some y"
    show "P (snd y)"
    proof (cases "wait_loop s = No_Loop")
      case True
      then show ?thesis using y p by auto
    next
      case False
      then obtain r s' where s': "loop_step K s = Some (r, s')" using y by (auto split: option.splits)
      then show ?thesis
        using maintainsD [OF loop_step_maintains p s'] run [of K s' y] y False by simp
    qed
  qed
  then show "P s'" using p w by fastforce
qed

lemma join_wait_loop_maintains: "maintains P (join_wait_loop L)"
  unfolding join_wait_loop_def by (intro triples run_wait_loop_maintains drain_maintains)

end

locale server_invariant = session_invariant +
  assumes dropped_law: "P s \<Longrightarrow> P (s\<lparr>teardowns := ts\<rparr>)"
    and members_law: "P s \<Longrightarrow> P (reset_session_members s)"
    and stepping_law: "P s \<Longrightarrow> P (s\<lparr>restore_source_line_stepping_after_stop := b\<rparr>)"
    and place_law: "P s \<Longrightarrow> P (s\<lparr>wait_loop := l\<rparr>)"
    and event_law: "P s \<Longrightarrow> P (post_message (Event e) s)"
    and pending_law: "P s \<Longrightarrow> P (s\<lparr>pending_stopped_event := p\<rparr>)"
    and observe_law: "P s \<Longrightarrow> P (observe_stop s)"
    and buffer_law: "P s \<Longrightarrow> P (s\<lparr>pending_thread_events := evs\<rparr>)"
    and resume_law: "P s \<Longrightarrow> P (resume_unseen s)"
    and kernel_law: "P s \<Longrightarrow> P (s\<lparr>kernel_initial_resume_pending := b\<rparr>)"
    and skip_law: "P s \<Longrightarrow> P (s\<lparr>skip_next_break_hit_event := b\<rparr>)"
    and exit_law: "P s \<Longrightarrow> P (s\<lparr>should_exit := b\<rparr>)"
begin

lemma destroyed_law: "P s \<Longrightarrow> P (destroy_session x s)"
  by (simp add: destroy_session_def dropped_law split: option.split)

lemma flush_law:
  assumes "P s"
  shows "P (flush_pending_thread_events s)"
proof -
  have p: "P t \<Longrightarrow> P (t\<lparr>outbound := outbound t @ map (\<lambda>(r, i). Event (create_thread_event r i)) evs\<rparr>)" for t evs
  proof (induction evs arbitrary: t)
    case Nil
    then show ?case by simp
  next
    case (Cons e evs)
    then show ?case
      using Cons.IH [OF event_law [OF Cons.prems, of "create_thread_event (fst e) (snd e)"]]
      by (cases e) (simp add: post_message_def)
  qed
  show ?thesis
    using p [OF buffer_law [OF assms, of "[]"], of "pending_thread_events s"]
    by (simp add: flush_pending_thread_events_def)
qed

lemma pending_laws:
  "P s \<Longrightarrow> P (clear_pending_stopped_event s)" "P s \<Longrightarrow> P (set_pending_stopped_event r d i s)"
  by (simp_all add: clear_pending_stopped_event_def set_pending_stopped_event_def pending_law)

lemma current_thread_keeps: "keeps P (current_thread_id_on_worker L)"
proof -
  have k: "keeps P (act_catch (act_bind (on_session (get_current_thread_id (base L))) (\<lambda>i. ret (thread_id_of i)))
      (\<lambda>e. ret None))"
    by (intro keeps_rules on_session_keeps)
  show ?thesis
    unfolding keeps_def current_thread_id_on_worker_def
    using keepsD [OF k] by (auto split: option.split)
qed

lemma dispose_on_worker_keeps: "keeps P dispose_on_worker"
  unfolding dispose_on_worker_def
  by (intro keeps_update) (auto split: option.split intro!: members_law parked_law destroyed_law)

lemma queue_session_termination_keeps: "keeps P (queue_session_termination code)"
proof -
  have "P (s\<lparr>is_execution_running := False, session_stop_or_exit_observed := True\<rparr>)" if "P s" for s
    using observe_law [OF that] by (simp add: observe_stop_def)
  then show ?thesis
    unfolding queue_session_termination_def
    by (intro keeps_rules dispose_on_worker_keeps event_law flush_law exit_law)
qed

lemma queue_session_ended_keeps: "keeps P queue_session_ended"
proof -
  have "P (s\<lparr>is_execution_running := False, session_stop_or_exit_observed := True\<rparr>)" if "P s" for s
    using observe_law [OF that] by (simp add: observe_stop_def)
  then show ?thesis
    unfolding queue_session_ended_def
    by (intro keeps_rules dispose_on_worker_keeps event_law flush_law exit_law)
qed

lemma queue_thread_event_keeps: "keeps P (queue_thread_event L reason)"
  unfolding queue_thread_event_def
  by (intro keeps_rules current_thread_keeps)
    (auto split: option.split intro!: keeps_rules buffer_law event_law)

lemma auto_continue_keeps:
  "keeps P (try_auto_continue_conditional_breakpoint_hit L i)" "keeps P (try_auto_continue_kernel_initial_break L)"
proof -
  show "keeps P (try_auto_continue_conditional_breakpoint_hit L i)"
    unfolding try_auto_continue_conditional_breakpoint_hit_def try_evaluate_conditional_breakpoint_def
    by (intro keeps_rules) (auto split: option.split intro!: keeps_rules on_session_keeps resume_law)
  show "keeps P (try_auto_continue_kernel_initial_break L)"
    unfolding try_auto_continue_kernel_initial_break_def
    by (intro keeps_rules on_session_keeps resume_law kernel_law)
qed

lemma callbacks_keep:
  "keeps P (on_breakpoint_hit L i)" "keeps P (on_exception_hit L c)" "keeps P (on_break_hit L)"
proof -
  show "keeps P (on_breakpoint_hit L i)"
    unfolding on_breakpoint_hit_def
    by (intro keeps_rules auto_continue_keeps) (auto intro!: pending_laws observe_law)
  show "keeps P (on_exception_hit L c)"
    unfolding on_exception_hit_def
    by (intro keeps_rules auto_continue_keeps) (auto intro!: pending_laws observe_law)
  show "keeps P (on_break_hit L)"
    unfolding on_break_hit_def send_event_def
    by (intro keeps_rules skip_law pending_laws observe_law)
      (auto split: option.split intro!: keeps_rules flush_law current_thread_keeps event_law)
qed

lemma exception_sink_keeps: "keeps P (exception_sink L c a f)"
  unfolding exception_sink_def
  by (intro keeps_rules on_session_keeps) (auto split: option.split intro!: keeps_rules callbacks_keep)

lemma callbacks_deliver: "keeps P (deliver L ev)"
  by (cases ev)
    (auto intro!: callbacks_keep exception_sink_keeps queue_thread_event_keeps queue_session_termination_keeps
      queue_session_ended_keeps on_session_keeps keeps_rules)

end

sublocale server_invariant \<subseteq> event_invariant
  by unfold_locales (rule dropped_law members_law stepping_law place_law callbacks_deliver, assumption?)+

section \<open>Responses and suspended state under events\<close>

definition responses :: "'e server \<Rightarrow> message list" where
  "responses s = filter is_response (outbound s)"

text \<open>Frame and variable handles exist at a stop only.\<close>

definition handles_at_stop :: "'e server \<Rightarrow> bool" where
  "handles_at_stop s \<longleftrightarrow>
     (is_execution_running s \<longrightarrow> frame_contexts s = (\<lambda>i. None) \<and> variables_by_reference s = (\<lambda>i. None))"

lemmas state_updates = observe_stop_def reset_session_members_def resume_unseen_def reset_suspended_state_def
  clear_pending_stopped_event_def reset_launch_configuration_state_def post_message_def
  set_pending_stopped_event_def flush_pending_thread_events_def

interpretation quiet: server_invariant "\<lambda>s. responses s = R" for R
  by unfold_locales (simp_all add: responses_def state_updates)

interpretation handles: server_invariant handles_at_stop
  by unfold_locales (simp_all add: handles_at_stop_def state_updates)

section \<open>Counting stops\<close>

fun is_stop :: "message \<Rightarrow> bool" where
  "is_stop (Event (Stopped_Event r d t i)) = True"
| "is_stop m = False"

definition stops :: "'e server \<Rightarrow> nat" where
  "stops s = length (filter is_stop (outbound s))"

text \<open>A stop can be reported once more while the target runs or a stop waits to be reported.\<close>

definition stop_credit :: "'e server \<Rightarrow> nat" where
  "stop_credit s = (if is_execution_running s \<or> pending_stopped_event s \<noteq> None then 1 else 0)"

definition after_event :: "'e target \<Rightarrow> 'e server \<Rightarrow> engine_event \<Rightarrow> 'e server" where
  "after_event L s ev = snd (deliver L ev s)"

text \<open>How often a callback itself set a halted target running again.\<close>

fun self_resumes :: "'e target \<Rightarrow> engine_event list \<Rightarrow> 'e server \<Rightarrow> nat" where
  "self_resumes L [] s = 0"
| "self_resumes L (ev # evs) s =
     (if \<not> is_execution_running s \<and> is_execution_running (after_event L s ev) then 1 else 0)
       + self_resumes L evs (after_event L s ev)"

text \<open>What a call of the session object leaves alone.\<close>

definition same_stop_state :: "'e server \<Rightarrow> 'e server \<Rightarrow> bool" where
  "same_stop_state s t \<longleftrightarrow> is_execution_running t = is_execution_running s
     \<and> pending_stopped_event t = pending_stopped_event s \<and> stops t = stops s
     \<and> suppress_session_events t = suppress_session_events s \<and> conditions_by_id t = conditions_by_id s
     \<and> kernel_initial_resume_pending t = kernel_initial_resume_pending s
     \<and> skip_next_break_hit_event t = skip_next_break_hit_event s"

lemma same_stop_state_put: "same_stop_state s (put_session x t) = same_stop_state s t"
  by (simp add: same_stop_state_def put_session_def stops_def)

lemma same_stop_state_output: "same_stop_state s (fold on_output_received ts t) = same_stop_state s t"
  by (induction ts arbitrary: t)
    (simp_all add: same_stop_state_def on_output_received_def post_message_def stops_def create_output_event_def)

lemma same_stop_state_refl [simp]: "same_stop_state s s"
  by (simp add: same_stop_state_def)

lemma on_session_same: "keeps (same_stop_state s) (on_session f)"
  by (auto simp: keeps_def on_session_def same_stop_state_put same_stop_state_output
      split: option.split prod.split)

lemma current_thread_same: "keeps (same_stop_state s) (current_thread_id_on_worker L)"
proof -
  have k: "keeps (same_stop_state s) (act_catch (act_bind (on_session (get_current_thread_id (base L)))
      (\<lambda>i. ret (thread_id_of i))) (\<lambda>e. ret None))"
    by (intro keeps_rules on_session_same)
  show ?thesis
    unfolding keeps_def current_thread_id_on_worker_def using keepsD [OF k] by (auto split: option.split)
qed

lemma on_session_same_result: "on_session f s = (r, t) \<Longrightarrow> same_stop_state s t"
  using keepsD [OF on_session_same, of s s f] by simp

lemma current_thread_same_result: "current_thread_id_on_worker L s = (r, t) \<Longrightarrow> same_stop_state s t"
  using keepsD [OF current_thread_same, of s s L] by simp

lemma output_outbound:
  "\<exists>outputs. outbound (fold on_output_received ts s) = outbound s @ map (\<lambda>x. Event (Output_Event x Console)) outputs"
proof (induction ts arbitrary: s)
  case Nil
  then show ?case by (simp add: exI [of _ "[]"])
next
  case (Cons t ts)
  obtain outputs where ob: "outbound (fold on_output_received ts (on_output_received t s))
      = outbound (on_output_received t s) @ map (\<lambda>x. Event (Output_Event x Console)) outputs"
    using Cons.IH by blast
  show ?case
    by (rule exI [of _ "(if t = [] then [] else [t]) @ outputs"])
      (use ob in \<open>auto simp: on_output_received_def [of t] post_message_def create_output_event_def\<close>)
qed

lemma on_session_outbound:
  assumes "on_session f s = (r, t)"
  shows "\<exists>outputs. outbound t = outbound s @ map (\<lambda>x. Event (Output_Event x Console)) outputs"
proof (cases "live_session s")
  case None
  then show ?thesis using assms by (simp add: on_session_def exI [of _ "[]"])
next
  case (Some x)
  obtain q x' where x': "f (x\<lparr>forwarded := []\<rparr>) = (q, x')" by (cases "f (x\<lparr>forwarded := []\<rparr>)")
  have "outbound (put_session y s) = outbound s" for y by (simp add: put_session_def)
  then show ?thesis
    using assms Some x' output_outbound [of "forwarded x'" "put_session (x'\<lparr>forwarded := []\<rparr>) s"]
    by (auto simp: on_session_def)
qed

lemma current_thread_outbound:
  assumes "current_thread_id_on_worker L s = (r, t)"
  shows "\<exists>outputs. outbound t = outbound s @ map (\<lambda>x. Event (Output_Event x Console)) outputs"
proof (cases "debugger_session s")
  case None
  then show ?thesis using assms by (simp add: current_thread_id_on_worker_def exI [of _ "[]"])
next
  case (Some x)
  obtain q u where u: "on_session (get_current_thread_id (base L)) s = (q, u)"
    by (cases "on_session (get_current_thread_id (base L)) s")
  then have "t = u"
    using assms Some by (cases q) (auto simp: current_thread_id_on_worker_def act_defs)
  then show ?thesis using on_session_outbound [OF u] by simp
qed

lemma evaluate_condition_same:
  "try_evaluate_conditional_breakpoint L c s = (r, t) \<Longrightarrow> same_stop_state s t"
proof -
  have "keeps (same_stop_state s) (try_evaluate_conditional_breakpoint L c)"
    unfolding try_evaluate_conditional_breakpoint_def by (intro keeps_rules on_session_same)
  then show "try_evaluate_conditional_breakpoint L c s = (r, t) \<Longrightarrow> same_stop_state s t"
    using keepsD [of "same_stop_state s" _ s] by fastforce
qed

text \<open>Either a callback resumes the target unseen, or it leaves the decision to its caller.\<close>

definition resumed_from :: "'e server \<Rightarrow> 'e server \<Rightarrow> bool" where
  "resumed_from s t \<longleftrightarrow> stops t = stops s \<and> is_execution_running t \<and> pending_stopped_event t = None
     \<and> suppress_session_events t = suppress_session_events s"

lemma resume_unseen_resumes: "same_stop_state s t \<Longrightarrow> resumed_from s (resume_unseen t)"
  by (simp add: same_stop_state_def resumed_from_def state_updates stops_def)

lemma resumed_from_same: "resumed_from s t \<Longrightarrow> same_stop_state t u \<Longrightarrow> resumed_from s u"
  by (simp add: same_stop_state_def resumed_from_def)

lemma resume_and_continue:
  assumes "act_then (update_state f) (act_then (on_session g) (ret True)) s = (r, t)" "resumed_from s (f s)"
  shows "r \<noteq> Inr False \<and> resumed_from s t"
proof -
  obtain q u where q: "on_session g (f s) = (q, u)" by (cases "on_session g (f s)")
  show ?thesis
    using assms(1) q resumed_from_same [OF assms(2) on_session_same_result [OF q]]
    by (cases q) (auto simp: act_defs)
qed

lemma auto_continue_outcome:
  assumes "try_auto_continue_conditional_breakpoint_hit L i s = (r, t)"
  shows "r = Inr False \<and> same_stop_state s t \<or> r \<noteq> Inr False \<and> resumed_from s t \<and> conditions_by_id s \<noteq> (\<lambda>i. None)"
proof (cases "conditions_by_id s (sint i)")
  case None
  then show ?thesis
    using assms by (simp add: try_auto_continue_conditional_breakpoint_hit_def act_bind_def get_state_def ret_def)
next
  case (Some c)
  obtain v u where v: "try_evaluate_conditional_breakpoint L c s = (v, u)"
    by (cases "try_evaluate_conditional_breakpoint L c s")
  have su: "same_stop_state s u" by (rule evaluate_condition_same [OF v])
  have "\<exists>w. v = Inr w"
    using v by (auto simp: try_evaluate_conditional_breakpoint_def act_catch_def ret_def split: prod.splits sum.splits)
  then obtain w where w: "v = Inr w" by blast
  have e: "try_auto_continue_conditional_breakpoint_hit L i s =
      (if w \<noteq> Some False then (Inr False, u)
       else act_then (update_state resume_unseen) (act_then (on_session (continue_execution (base L))) (ret True)) u)"
    by (simp add: try_auto_continue_conditional_breakpoint_hit_def act_bind_def get_state_def Some v w ret_def)
  show ?thesis
  proof (cases "w = Some False")
    case False
    then show ?thesis using e assms su by simp
  next
    case True
    then have "act_then (update_state resume_unseen) (act_then (on_session (continue_execution (base L))) (ret True)) u = (r, t)"
      using e assms by simp
    then have "r \<noteq> Inr False \<and> resumed_from u t"
      by (rule resume_and_continue) (rule resume_unseen_resumes, simp)
    then show ?thesis using su Some by (auto simp: same_stop_state_def resumed_from_def)
  qed
qed

lemma kernel_continue_outcome:
  assumes "try_auto_continue_kernel_initial_break L s = (r, t)"
  shows "r = Inr False \<and> t = s
    \<or> r \<noteq> Inr False \<and> resumed_from s t \<and> kernel_initial_resume_pending s \<and> \<not> suppress_session_events s"
proof (cases "kernel_initial_resume_pending s \<and> \<not> suppress_session_events s")
  case False
  then show ?thesis
    using assms by (simp add: try_auto_continue_kernel_initial_break_def act_bind_def get_state_def ret_def)
next
  case True
  let ?f = "\<lambda>s. resume_unseen (s\<lparr>kernel_initial_resume_pending := False\<rparr>)"
  have "act_then (update_state ?f) (act_then (on_session (continue_execution (base L))) (ret True)) s = (r, t)"
    using True assms by (simp add: try_auto_continue_kernel_initial_break_def act_bind_def get_state_def)
  then have "r \<noteq> Inr False \<and> resumed_from s t"
    by (rule resume_and_continue) (simp add: resumed_from_def state_updates stops_def)
  then show ?thesis using True by simp
qed

text \<open>
  The relation between the states before and after an event: the stops reported so far and
  the credit grow only by an unseen resume.
\<close>

definition stop_accounted :: "'e server \<Rightarrow> 'e server \<Rightarrow> bool" where
  "stop_accounted s t \<longleftrightarrow>
     stops t + stop_credit t \<le> stops s + stop_credit s
       + (if \<not> is_execution_running s \<and> is_execution_running t then 1 else 0)"

lemma resumed_accounted: "resumed_from s t \<Longrightarrow> stop_accounted s t"
  by (simp add: stop_accounted_def resumed_from_def stop_credit_def)

lemma same_accounted: "same_stop_state s t \<Longrightarrow> stop_accounted s t"
  by (simp add: stop_accounted_def same_stop_state_def stop_credit_def)

lemma breakpoint_accounted: "stop_accounted s (snd (on_breakpoint_hit L i s))"
proof -
  obtain r t where t: "try_auto_continue_conditional_breakpoint_hit L i s = (r, t)"
    by (cases "try_auto_continue_conditional_breakpoint_hit L i s")
  show ?thesis
    using auto_continue_outcome [OF t] t
    by (auto simp: on_breakpoint_hit_def act_bind_def update_state_def ret_def is_represented_stop_while_halted_def
        same_stop_state_def stop_accounted_def stop_credit_def state_updates stops_def
        split: sum.split dest!: resumed_accounted)
qed

lemma exception_accounted: "stop_accounted s (snd (on_exception_hit L c s))"
proof -
  obtain r t where t: "try_auto_continue_kernel_initial_break L s = (r, t)"
    by (cases "try_auto_continue_kernel_initial_break L s")
  show ?thesis
    using kernel_continue_outcome [OF t] t
    by (auto simp: on_exception_hit_def act_bind_def update_state_def ret_def is_represented_stop_while_halted_def
        has_pending_stopped_event_def stop_accounted_def stop_credit_def state_updates stops_def
        split: sum.split dest!: resumed_accounted)
qed

text \<open>The break callback, with the report as one update.\<close>

lemma on_break_hit_result:
  "\<exists>u. same_stop_state (flush_pending_thread_events (clear_pending_stopped_event (observe_stop s))) u
     \<and> snd (on_break_hit L s) =
        (if skip_next_break_hit_event s then s\<lparr>skip_next_break_hit_event := False\<rparr>
         else case pending_stopped_event s of
           None \<Rightarrow> clear_pending_stopped_event (observe_stop s)
         | Some p \<Rightarrow>
             if suppress_session_events s then clear_pending_stopped_event (observe_stop s)
             else u\<lparr>outbound := outbound u @ [Event (create_stopped_event (ps_reason p) (ps_description p)
                 (case fst (current_thread_id_on_worker L
                     (flush_pending_thread_events (clear_pending_stopped_event (observe_stop s)))) of
                    Inl e \<Rightarrow> None | Inr t \<Rightarrow> t) (ps_hit_breakpoint_ids p))]\<rparr>)"
proof -
  let ?v = "flush_pending_thread_events (clear_pending_stopped_event (observe_stop s))"
  obtain r u where u: "current_thread_id_on_worker L ?v = (r, u)" by (cases "current_thread_id_on_worker L ?v")
  have "\<exists>w. r = Inr w"
    using u by (auto simp: current_thread_id_on_worker_def act_catch_def act_bind_def ret_def
        split: option.splits prod.splits sum.splits)
  then obtain w where w: "r = Inr w" by blast
  have "same_stop_state ?v u" by (rule current_thread_same_result [OF u])
  moreover have "suppress_session_events (clear_pending_stopped_event (observe_stop s)) = suppress_session_events s"
    "pending_stopped_event (observe_stop s) = pending_stopped_event s"
    by (simp_all add: state_updates)
  ultimately show ?thesis
    using u w
    by (intro exI [of _ u])
      (auto simp: on_break_hit_def act_bind_def act_then_def update_state_def get_state_def ret_def send_event_def
        post_message_def split: option.split)
qed

lemma current_thread_returns: "\<exists>t u. current_thread_id_on_worker L s = (Inr t, u)"
  by (auto simp: current_thread_id_on_worker_def act_catch_def act_bind_def ret_def
      split: option.split prod.split sum.split)

lemma on_break_hit_reports:
  assumes "\<not> skip_next_break_hit_event s" "\<not> suppress_session_events s" "pending_stopped_event s = Some p"
    and "current_thread_id_on_worker L (flush_pending_thread_events (clear_pending_stopped_event (observe_stop s)))
      = (Inr t, u)"
  shows "on_break_hit L s = (Inr (), u\<lparr>outbound := outbound u @
    [Event (create_stopped_event (ps_reason p) (ps_description p) t (ps_hit_breakpoint_ids p))]\<rparr>)"
proof -
  have "suppress_session_events (clear_pending_stopped_event (observe_stop s)) = suppress_session_events s"
    "pending_stopped_event (observe_stop s) = pending_stopped_event s"
    by (simp_all add: state_updates)
  then show ?thesis using assms by (simp add: on_break_hit_def act_defs send_event_def post_message_def)
qed

lemma stops_flush [simp]: "stops (flush_pending_thread_events s) = stops s"
  by (simp add: flush_pending_thread_events_def stops_def filter_map comp_def case_prod_beta create_thread_event_def)

lemma break_accounted: "stop_accounted s (snd (on_break_hit L s))"
proof -
  let ?v = "flush_pending_thread_events (clear_pending_stopped_event (observe_stop s))"
  have v: "\<not> is_execution_running ?v" "pending_stopped_event ?v = None" "stops ?v = stops s"
    by (simp_all add: state_updates stops_def filter_map comp_def case_prod_beta create_thread_event_def)
  have c: "stop_accounted s (clear_pending_stopped_event (observe_stop s))"
    by (simp add: stop_accounted_def stop_credit_def state_updates stops_def)
  have k: "stop_accounted s (s\<lparr>skip_next_break_hit_event := False\<rparr>)"
    by (simp add: stop_accounted_def stop_credit_def stops_def)
  have "stop_accounted s (u\<lparr>outbound := outbound u @ [Event (create_stopped_event a b t i)]\<rparr>)"
    if "same_stop_state ?v u" "pending_stopped_event s = Some p" for u p a b t i
    using v that
    by (simp add: same_stop_state_def stop_accounted_def stop_credit_def create_stopped_event_def stops_def)
  note reported = this
  obtain u where u: "same_stop_state ?v u" and r: "snd (on_break_hit L s) =
        (if skip_next_break_hit_event s then s\<lparr>skip_next_break_hit_event := False\<rparr>
         else case pending_stopped_event s of
           None \<Rightarrow> clear_pending_stopped_event (observe_stop s)
         | Some p \<Rightarrow>
             if suppress_session_events s then clear_pending_stopped_event (observe_stop s)
             else u\<lparr>outbound := outbound u @ [Event (create_stopped_event (ps_reason p) (ps_description p)
                 (case fst (current_thread_id_on_worker L ?v) of Inl e \<Rightarrow> None | Inr t \<Rightarrow> t)
                 (ps_hit_breakpoint_ids p))]\<rparr>)"
    using on_break_hit_result [of s L] by (elim exE conjE) (rule that)
  show ?thesis
  proof (cases "pending_stopped_event s")
    case None
    then show ?thesis unfolding r using c k by simp
  next
    case (Some p)
    then show ?thesis unfolding r using c k reported [OF u Some] by simp
  qed
qed

lemma thread_event_same: "same_stop_state s (snd (queue_thread_event L reason s))"
proof -
  have "same_stop_state s t \<Longrightarrow> same_stop_state s (t\<lparr>pending_thread_events := evs\<rparr>)"
    "same_stop_state s t \<Longrightarrow> same_stop_state s (post_message (Event (create_thread_event r i)) t)" for t evs r i
    by (simp_all add: same_stop_state_def post_message_def stops_def create_thread_event_def)
  then have "keeps (same_stop_state s) (queue_thread_event L reason)"
    unfolding queue_thread_event_def
    by (intro keeps_rules current_thread_same) (auto split: option.split intro!: keeps_rules)
  then show ?thesis by (rule keepsD) simp
qed

lemma dispose_on_worker_result:
  "\<not> is_execution_running (snd (dispose_on_worker s))" "pending_stopped_event (snd (dispose_on_worker s)) = None"
  "conditions_by_id (snd (dispose_on_worker s)) = (\<lambda>i. None)" "\<not> kernel_initial_resume_pending (snd (dispose_on_worker s))"
  "stops (snd (dispose_on_worker s)) = stops s"
  by (simp_all add: dispose_on_worker_def update_state_def state_updates stops_def destroy_session_def split: option.split)

text \<open>A target that can neither report a stop nor be resumed by a callback.\<close>

definition session_over :: "'e server \<Rightarrow> bool" where
  "session_over s \<longleftrightarrow> \<not> is_execution_running s \<and> pending_stopped_event s = None
     \<and> conditions_by_id s = (\<lambda>i. None) \<and> \<not> kernel_initial_resume_pending s"

lemma termination_result:
  "session_over (snd (queue_session_termination code s)) \<and> stops (snd (queue_session_termination code s)) = stops s"
  by (simp add: queue_session_termination_def act_defs session_over_def dispose_on_worker_def state_updates
      stops_def filter_map comp_def case_prod_beta create_thread_event_def create_exited_event_def destroy_session_def split: option.split)

lemma session_ended_result:
  "stops (snd (queue_session_ended s)) = stops s \<and> \<not> is_execution_running (snd (queue_session_ended s))
   \<and> (if debugger_session s = None
      then snd (queue_session_ended s) = observe_stop s else session_over (snd (queue_session_ended s)))"
  by (simp add: queue_session_ended_def act_defs session_over_def dispose_on_worker_def state_updates
      stops_def filter_map comp_def case_prod_beta create_thread_event_def destroy_session_def split: option.split)

lemma exception_sink_result:
  "\<exists>t. same_stop_state s t \<and> (snd (exception_sink L c a f s) = t \<or> (\<exists>i. snd (exception_sink L c a f s) = snd (on_exception_hit L i t)))"
proof -
  let ?g = "\<lambda>x. case exception_callback c a f x of (c, x') \<Rightarrow> (Inr c, x')"
  obtain r t where t: "on_session ?g s = (r, t)" by (cases "on_session ?g s")
  show ?thesis
    using on_session_same_result [OF t] t
    by (intro exI [of _ t]) (auto simp: exception_sink_def act_bind_def ret_def split: sum.split option.split)
qed

lemma same_accounted_trans: "same_stop_state s t \<Longrightarrow> stop_accounted t u \<Longrightarrow> stop_accounted s u"
  by (simp add: same_stop_state_def stop_accounted_def stop_credit_def)

lemma after_event_accounted: "stop_accounted s (after_event L s ev)"
proof (cases ev)
  case (Ev_Exception c a f)
  obtain t where t: "same_stop_state s t" and
      r: "snd (exception_sink L c a f s) = t \<or> (\<exists>i. snd (exception_sink L c a f s) = snd (on_exception_hit L i t))"
    using exception_sink_result [of s L c a f] by blast
  have "stop_accounted s (snd (on_exception_hit L i t))" for i
    by (rule same_accounted_trans [OF t exception_accounted])
  then show ?thesis using r same_accounted [OF t] Ev_Exception by (auto simp: after_event_def)
next
  case (Ev_Exit_Process c)
  then show ?thesis
    using termination_result [of "sint c" s] by (simp add: after_event_def stop_accounted_def stop_credit_def session_over_def)
next
  case (Ev_Session_Status n)
  then show ?thesis
    using session_ended_result [of s]
    by (auto simp: after_event_def stop_accounted_def stop_credit_def session_over_def state_updates ret_def split: if_splits)
next
  case (Ev_Execution_Status n)
  then show ?thesis
    using session_ended_result [of s] break_accounted [of s L]
    by (auto simp: after_event_def stop_accounted_def stop_credit_def session_over_def state_updates ret_def split: if_splits)
next
  case (Ev_Output x)
  then show ?thesis
    using same_accounted [OF keepsD [OF on_session_same same_stop_state_refl]] by (simp add: after_event_def)
qed (auto simp: after_event_def breakpoint_accounted exception_accounted intro!: same_accounted thread_event_same)

text \<open>While events are suppressed, or once the session is over, no event reports a stop.\<close>

definition hushed :: "'e server \<Rightarrow> bool" where
  "hushed s \<longleftrightarrow> suppress_session_events s \<or> session_over s"

definition kept_silent :: "'e server \<Rightarrow> 'e server \<Rightarrow> bool" where
  "kept_silent s t \<longleftrightarrow> (hushed s \<longrightarrow> hushed t \<and> stops t = stops s)"

lemma kept_silent_trans: "kept_silent s t \<Longrightarrow> kept_silent t u \<Longrightarrow> kept_silent s u"
  by (simp add: kept_silent_def)

lemma same_kept_silent: "same_stop_state s t \<Longrightarrow> kept_silent s t"
  by (simp add: kept_silent_def hushed_def same_stop_state_def session_over_def)

lemma resumed_kept_silent:
  "resumed_from s t \<Longrightarrow> suppress_session_events s \<or> \<not> hushed s \<Longrightarrow> kept_silent s t"
  by (auto simp: kept_silent_def hushed_def resumed_from_def)

lemma breakpoint_kept_silent: "kept_silent s (snd (on_breakpoint_hit L i s))"
proof -
  obtain r t where t: "try_auto_continue_conditional_breakpoint_hit L i s = (r, t)"
    by (cases "try_auto_continue_conditional_breakpoint_hit L i s")
  show ?thesis
    using auto_continue_outcome [OF t] t
    by (auto simp: on_breakpoint_hit_def act_bind_def update_state_def ret_def is_represented_stop_while_halted_def
        same_stop_state_def kept_silent_def hushed_def session_over_def resumed_from_def state_updates stops_def
        split: sum.split)
qed

lemma exception_kept_silent: "kept_silent s (snd (on_exception_hit L c s))"
proof -
  obtain r t where t: "try_auto_continue_kernel_initial_break L s = (r, t)"
    by (cases "try_auto_continue_kernel_initial_break L s")
  show ?thesis
    using kernel_continue_outcome [OF t] t
    by (auto simp: on_exception_hit_def act_bind_def update_state_def ret_def is_represented_stop_while_halted_def
        kept_silent_def hushed_def session_over_def resumed_from_def state_updates stops_def
        split: sum.split)
qed

lemma break_kept_silent: "kept_silent s (snd (on_break_hit L s))"
proof -
  have c: "kept_silent s (clear_pending_stopped_event (observe_stop s))"
    by (simp add: kept_silent_def hushed_def session_over_def state_updates stops_def)
  have k: "kept_silent s (s\<lparr>skip_next_break_hit_event := False\<rparr>)"
    by (simp add: kept_silent_def hushed_def session_over_def stops_def)
  show ?thesis
  proof (cases "skip_next_break_hit_event s \<or> pending_stopped_event s = None \<or> suppress_session_events s")
    case True
    then have "snd (on_break_hit L s) = s\<lparr>skip_next_break_hit_event := False\<rparr>
        \<or> snd (on_break_hit L s) = clear_pending_stopped_event (observe_stop s)"
      using on_break_hit_result [of s L] by (auto split: option.splits)
    then show ?thesis using c k by auto
  next
    case False
    then show ?thesis by (auto simp: kept_silent_def hushed_def session_over_def)
  qed
qed

lemma after_event_silent: "kept_silent s (after_event L s ev)"
proof (cases ev)
  case (Ev_Exception c a f)
  obtain t where t: "same_stop_state s t" and
      r: "snd (exception_sink L c a f s) = t \<or> (\<exists>i. snd (exception_sink L c a f s) = snd (on_exception_hit L i t))"
    using exception_sink_result [of s L c a f] by blast
  have "kept_silent s (snd (on_exception_hit L i t))" for i
    by (rule kept_silent_trans [OF same_kept_silent [OF t] exception_kept_silent])
  then show ?thesis using r same_kept_silent [OF t] Ev_Exception by (auto simp: after_event_def)
next
  case (Ev_Exit_Process c)
  then show ?thesis
    using termination_result [of "sint c" s] by (simp add: after_event_def kept_silent_def hushed_def)
next
  case (Ev_Session_Status n)
  then show ?thesis
    using session_ended_result [of s]
    by (auto simp: after_event_def kept_silent_def hushed_def session_over_def state_updates ret_def split: if_splits)
next
  case (Ev_Execution_Status n)
  then show ?thesis
    using session_ended_result [of s] break_kept_silent [of s L]
    by (auto simp: after_event_def kept_silent_def hushed_def session_over_def state_updates ret_def split: if_splits)
next
  case (Ev_Output x)
  then show ?thesis
    using same_kept_silent [OF keepsD [OF on_session_same same_stop_state_refl]] by (simp add: after_event_def)
qed (auto simp: after_event_def breakpoint_kept_silent exception_kept_silent intro!: same_kept_silent thread_event_same)

lemma hushed_keeps_deliver: "keeps (\<lambda>s. hushed s \<and> stops s = n) (deliver L ev)"
  using after_event_silent by (fastforce simp: keeps_def kept_silent_def after_event_def)

text \<open>Nothing but a launch or attach installs a session, and only its disposal ends suppression.\<close>

interpretation gone: server_invariant "\<lambda>s. debugger_session s = None"
  by unfold_locales (simp_all add: state_updates)

interpretation suppressing: server_invariant "\<lambda>s. debugger_session s = None \<or> suppress_session_events s"
  by unfold_locales (auto simp: state_updates)

definition muted :: "nat \<Rightarrow> 'e server \<Rightarrow> bool" where
  "muted n s \<longleftrightarrow> debugger_session s = None \<or> suppress_session_events s \<and> stops s = n"

lemma muted_keeps_deliver: "keeps (muted n) (deliver (L :: 'a target) ev)"
  unfolding keeps_def
proof (intro allI impI)
  fix s :: "'a server"
  assume m: "muted n s"
  show "muted n (snd (deliver L ev s))"
  proof (cases "debugger_session s = None")
    case True
    then show ?thesis using keepsD [OF gone.callbacks_deliver True, of L ev] by (simp add: muted_def)
  next
    case False
    then have "hushed s \<and> stops s = n" using m by (auto simp: muted_def hushed_def)
    then have "stops (snd (deliver L ev s)) = n" using keepsD [OF hushed_keeps_deliver] by fastforce
    then show ?thesis
      using m keepsD [OF suppressing.callbacks_deliver, of s L ev] False by (auto simp: muted_def)
  qed
qed

interpretation muted: event_invariant "muted n" for n
  by (unfold_locales; (rule muted_keeps_deliver)?)
    (auto simp: muted_def stops_def state_updates create_output_event_def)

interpretation hush: event_invariant "\<lambda>s. hushed s \<and> stops s = n" for n
  by unfold_locales
    (simp_all add: hushed_def session_over_def stops_def state_updates create_output_event_def
      hushed_keeps_deliver [unfolded hushed_def session_over_def stops_def])

section \<open>Properties\<close>

text \<open>
  C9. A stop is reported at most once per resume, whatever the engine does: over any sequence of
  engine callbacks, the adapter sends at most as many stopped events as there were resumes:
  the one that set the target running, or the stop that was already waiting to be
  reported, and the resumes the callbacks made themselves for a condition that does not
  hold or for a kernel's initial break.
\<close>

theorem stops_reported_once:
  "stops (foldl (after_event L) s evs) + stop_credit (foldl (after_event L) s evs)
     \<le> stops s + stop_credit s + self_resumes L evs s"
proof (induction evs arbitrary: s)
  case Nil
  then show ?case by simp
next
  case (Cons ev evs)
  have "stops (foldl (after_event L) (after_event L s ev) evs) + stop_credit (foldl (after_event L) (after_event L s ev) evs)
      \<le> stops (after_event L s ev) + stop_credit (after_event L s ev) + self_resumes L evs (after_event L s ev)"
    by (rule Cons.IH)
  then show ?case
    using after_event_accounted [of s L ev] unfolding stop_accounted_def foldl_Cons self_resumes.simps by linarith
qed

text \<open>
  C11. Suppression is complete: while session events are suppressed no sequence of engine
  callbacks sends a stopped event, also when the session ends meanwhile.
\<close>

theorem suppressed_stops_invisible:
  assumes "suppress_session_events s"
  shows "stops (foldl (after_event L) s evs) = stops s"
proof -
  have "kept_silent s (foldl (after_event L) s evs)" for s
  proof (induction evs arbitrary: s)
    case Nil
    then show ?case by (simp add: kept_silent_def)
  next
    case (Cons ev evs)
    show ?case using kept_silent_trans [OF after_event_silent Cons.IH] by simp
  qed
  then show ?thesis using assms by (simp add: kept_silent_def hushed_def)
qed

text \<open>A target that hits breakpoint 3 and stops, for the witnesses: the engine state counts the events.\<close>

definition stop_script :: "engine_event list" where
  "stop_script = [Ev_Create_Thread, Ev_Breakpoint (Some ''Hit breakpoint 3''), Ev_Execution_Status kStatusBreak]"

definition script_target :: "nat target" where
  "script_target =
     \<lparr>base = echo_engine,
      pump = (\<lambda>n. if n < length stop_script then Pump_Callback (stop_script ! n) (n + 1) else Pump_Return 0 n),
      sync_events = (\<lambda>n. ([], n)), full_path_of = (\<lambda>p. p),
      inspector_of = struct_inspector, read_file_of = (\<lambda>p. None), connector_of = script_connector\<rparr>"

definition running_server :: "nat server" where
  "running_server = new_server\<lparr>debugger_session := Some (new_session 0), is_execution_running := True,
     wait_loop := Loop_Waiting\<rparr>"

theorem suppressed_stops_invisible_witness:
  "suppress_session_events (running_server\<lparr>suppress_session_events := True\<rparr>)
   \<and> stops (foldl (after_event script_target) (running_server\<lparr>suppress_session_events := True\<rparr>) stop_script) = 0"
  using suppressed_stops_invisible [of "running_server\<lparr>suppress_session_events := True\<rparr>" script_target stop_script]
  by (simp add: running_server_def new_server_def stops_def)

text \<open>
  C12. A breakpoint stop is reported completely: when the running target hits an unconditional
  breakpoint and breaks, the adapter sends the buffered thread events in order and
  behind them exactly one stopped event that names the breakpoint; the target counts as
  halted and the wait loop's exit condition holds.
\<close>

theorem breakpoint_stop_reported:
  assumes "is_execution_running s" "\<not> suppress_session_events s" "\<not> skip_next_break_hit_event s"
    and "conditions_by_id s (sint (get_last_breakpoint_id d)) = None"
  shows "\<exists>t outputs. outbound (foldl (after_event L) s [Ev_Breakpoint d, Ev_Execution_Status kStatusBreak])
      = outbound s @ map (\<lambda>(reason, i). Event (Thread_Event reason i)) (pending_thread_events s)
          @ map (\<lambda>x. Event (Output_Event x Console)) outputs
          @ [Event (Stopped_Event Stop_Breakpoint
              (Some (''Paused on breakpoint '' @ dec (unat (get_last_breakpoint_id d)) @ ''.'')) t
              (Some [sint (get_last_breakpoint_id d)]))]
    \<and> \<not> is_execution_running (foldl (after_event L) s [Ev_Breakpoint d, Ev_Execution_Status kStatusBreak])"
proof -
  let ?i = "get_last_breakpoint_id d"
  let ?s1 = "set_pending_stopped_event Stop_Breakpoint (Some (''Paused on breakpoint '' @ dec (unat ?i) @ ''.''))
      (Some [sint ?i]) (observe_stop s)"
  have s1: "after_event L s (Ev_Breakpoint d) = ?s1"
    using assms
    by (simp add: after_event_def on_breakpoint_hit_def try_auto_continue_conditional_breakpoint_hit_def act_defs
        is_represented_stop_while_halted_def)
  let ?v = "flush_pending_thread_events (clear_pending_stopped_event (observe_stop ?s1))"
  obtain t u where u: "current_thread_id_on_worker L ?v = (Inr t, u)"
    using current_thread_returns by blast
  have s1_facts: "\<not> skip_next_break_hit_event ?s1" "\<not> suppress_session_events ?s1"
    using assms by (simp_all add: state_updates)
  have "on_break_hit L ?s1 = (Inr (), u\<lparr>outbound := outbound u @
      [Event (Stopped_Event Stop_Breakpoint (Some (''Paused on breakpoint '' @ dec (unat ?i) @ ''.'')) t (Some [sint ?i]))]\<rparr>)"
    by (subst on_break_hit_reports [OF s1_facts _ u, where p = "\<lparr>ps_reason = Stop_Breakpoint,
        ps_description = Some (''Paused on breakpoint '' @ dec (unat ?i) @ ''.''), ps_hit_breakpoint_ids = Some [sint ?i]\<rparr>"])
      (simp_all add: set_pending_stopped_event_def create_stopped_event_def)
  moreover have break_event: "after_event L x (Ev_Execution_Status kStatusBreak) = snd (on_break_hit L x)" for x
    by (simp add: after_event_def)
  ultimately have s2: "foldl (after_event L) s [Ev_Breakpoint d, Ev_Execution_Status kStatusBreak] = u\<lparr>outbound := outbound u @
      [Event (Stopped_Event Stop_Breakpoint (Some (''Paused on breakpoint '' @ dec (unat ?i) @ ''.'')) t (Some [sint ?i]))]\<rparr>"
    by (simp only: foldl.simps s1 break_event snd_conv)
  obtain outputs where ob: "outbound u = outbound ?v @ map (\<lambda>x. Event (Output_Event x Console)) outputs"
    using current_thread_outbound [OF u] by blast
  have n: "\<not> is_execution_running u"
    using current_thread_same_result [OF u] by (simp add: same_stop_state_def state_updates)
  have v: "outbound ?v = outbound s @ map (\<lambda>(reason, i). Event (Thread_Event reason i)) (pending_thread_events s)"
    by (simp add: state_updates create_thread_event_def)
  show ?thesis unfolding s2 using ob v n by (intro exI [of _ t] exI [of _ outputs]) simp
qed

theorem breakpoint_stop_reported_witness:
  "\<exists>t outputs. outbound (foldl (after_event script_target) running_server
        [Ev_Breakpoint (Some ''Hit breakpoint 3''), Ev_Execution_Status kStatusBreak])
      = map (\<lambda>x. Event (Output_Event x Console)) outputs
          @ [Event (Stopped_Event Stop_Breakpoint
              (Some (''Paused on breakpoint '' @ dec (unat (get_last_breakpoint_id (Some ''Hit breakpoint 3''))) @ ''.'')) t
              (Some [sint (get_last_breakpoint_id (Some ''Hit breakpoint 3''))]))]"
  using breakpoint_stop_reported [of running_server "Some ''Hit breakpoint 3''" script_target]
  by (auto simp: running_server_def new_server_def)

end
