(* ===== verification/Server_Contracts.thy ===== *)
theory Server_Contracts
  imports Server_Events
begin

text \<open>
  The contract of a request handler towards the client, and the rules that show it for the
  handlers' building blocks: a handler that returns has sent exactly one response, for the
  request it serves; a handler that throws has sent none, so that the error response
  \<open>handle_request\<close> sends is the only one.
\<close>

fun answered :: "message \<Rightarrow> (int \<times> string) option" where
  "answered (Response request_seq c b) = Some (request_seq, c)"
| "answered (Error_Response request_seq c m) = Some (request_seq, c)"
| "answered (Event e) = None"

text \<open>Sends no response, on every path; and one that moreover does not throw.\<close>

definition unanswered :: "('e server, 'a) wact \<Rightarrow> bool" where
  "unanswered m \<longleftrightarrow> (\<forall>R. maintains (\<lambda>s. responses s = R) m)"

definition completes :: "('e server, 'a) wact \<Rightarrow> bool" where
  "completes m \<longleftrightarrow> (\<forall>R. ensures (\<lambda>s. responses s = R) m (\<lambda>_ s. responses s = R) (\<lambda>_. False))"

definition answers :: "int \<Rightarrow> string \<Rightarrow> ('e server, unit) wact \<Rightarrow> bool" where
  "answers q c m \<longleftrightarrow>
     (\<forall>R. ensures (\<lambda>s. responses s = R) m
            (\<lambda>_ s. \<exists>r. responses s = R @ [r] \<and> answered r = Some (q, c)) (\<lambda>s. responses s = R))"

named_theorems answer_rules \<open>rules for the response contract of handlers\<close>

section \<open>Actions without a response\<close>

lemma unanswered_now: "(\<And>R. keeps (\<lambda>s. responses s = R) m) \<Longrightarrow> unanswered (now m)"
  by (simp add: unanswered_def maintains_now)

lemma unanswered_ret [answer_rules]: "unanswered (w_ret v)"
  by (intro unanswered_now keeps_rules)

lemma unanswered_raise [answer_rules]: "unanswered (w_raise e)"
  by (intro unanswered_now keeps_rules)

lemma unanswered_get [answer_rules]: "unanswered (w_get f)"
  by (intro unanswered_now keeps_rules)

lemma unanswered_set [answer_rules]: "(\<And>s. responses (f s) = responses s) \<Longrightarrow> unanswered (w_set f)"
  by (intro unanswered_now keeps_rules) simp

lemma unanswered_bind [answer_rules]: "unanswered m \<Longrightarrow> (\<And>v. unanswered (f v)) \<Longrightarrow> unanswered (w_bind m f)"
  by (simp add: unanswered_def maintains_bind)

lemma unanswered_then [answer_rules]: "unanswered m \<Longrightarrow> unanswered n \<Longrightarrow> unanswered (w_then m n)"
  by (simp add: unanswered_def maintains_then)

lemma unanswered_catch [answer_rules]: "unanswered m \<Longrightarrow> (\<And>e. unanswered (h e)) \<Longrightarrow> unanswered (w_catch m h)"
  by (simp add: unanswered_def maintains_catch)

lemma unanswered_if [answer_rules]: "(b \<Longrightarrow> unanswered m) \<Longrightarrow> (\<not> b \<Longrightarrow> unanswered n) \<Longrightarrow> unanswered (if b then m else n)"
  by simp

lemma unanswered_blocks [answer_rules]:
  "unanswered (invoke_session L f)" "unanswered (try_get_current_thread_id L)" "unanswered (now (on_session g))"
  "unanswered (restore_source_line_stepping_if_needed L)" "unanswered (dispose_debugger_session L)"
  "unanswered (join_wait_loop L)" "unanswered (wait_for_event L)" "unanswered (invoke_session_w L k)"
  unfolding unanswered_def
  by (intro allI quiet.invoke_session_maintains quiet.try_get_current_thread_id_maintains
      maintains_now quiet.on_session_keeps quiet.restore_stepping_maintains quiet.dispose_maintains
      quiet.join_wait_loop_maintains quiet.wait_for_event_maintains
      quiet.invoke_session_w_maintains)+

lemma unanswered_event [answer_rules]: "unanswered (now (send_event e))"
  unfolding send_event_def by (intro unanswered_now keeps_update quiet.event_law)

lemma unanswered_invoke [answer_rules]:
  "(\<And>R. keeps (\<lambda>s. responses s = R) f) \<Longrightarrow> unanswered (invoke L f)"
  by (simp add: unanswered_def quiet.invoke_maintains)

section \<open>Actions that do not throw\<close>

lemma completes_ret [answer_rules]: "completes (w_ret v)"
  by (simp add: completes_def ensures_ret)

lemma completes_get [answer_rules]: "completes (w_get f)"
  by (simp add: completes_def ensures_get)

lemma completes_set [answer_rules]: "(\<And>s. responses (f s) = responses s) \<Longrightarrow> completes (w_set f)"
  by (simp add: completes_def ensures_set)

lemma completes_event [answer_rules]: "completes (now (send_event e))"
  unfolding completes_def send_event_def by (simp add: ensures_set quiet.event_law)

lemma completes_bind [answer_rules]: "completes m \<Longrightarrow> (\<And>v. completes (f v)) \<Longrightarrow> completes (w_bind m f)"
  unfolding completes_def by (intro allI ensures_bind) auto

lemma completes_then [answer_rules]: "completes m \<Longrightarrow> completes n \<Longrightarrow> completes (w_then m n)"
  by (simp add: w_then_def completes_bind)

lemma completes_if [answer_rules]: "(b \<Longrightarrow> completes m) \<Longrightarrow> (\<not> b \<Longrightarrow> completes n) \<Longrightarrow> completes (if b then m else n)"
  by simp

text \<open>Swallowing every exception makes an action complete.\<close>

lemma completes_catch [answer_rules]: "unanswered m \<Longrightarrow> (\<And>e. completes (h e)) \<Longrightarrow> completes (w_catch m h)"
  unfolding completes_def unanswered_def by (intro allI ensures_catch) auto

lemma completes_thread_id [answer_rules]: "completes (try_get_current_thread_id L)"
proof -
  let ?m = "w_catch (w_bind (invoke_session L (get_current_thread_id (base L))) (\<lambda>i. w_ret (thread_id_of i)))
      (\<lambda>e. w_ret None)"
  have "completes ?m" by (intro answer_rules)
  then show ?thesis
    unfolding completes_def ensures_def try_get_current_thread_id_def
    by (fastforce split: option.splits)
qed

section \<open>Answering actions\<close>

lemma answers_response [answer_rules]: "answers q c (now (send_response q c b))"
  unfolding answers_def send_response_def
  by (intro allI ensures_set) (simp add: responses_def post_message_def)

lemma answers_error [answer_rules]: "answers q c (now (send_error_response q c m))"
  unfolding answers_def send_error_response_def
  by (intro allI ensures_set) (simp add: responses_def post_message_def)

lemma answers_bind [answer_rules]: "unanswered m \<Longrightarrow> (\<And>v. answers q c (f v)) \<Longrightarrow> answers q c (w_bind m f)"
  unfolding answers_def unanswered_def by (intro allI ensures_bind) auto

lemma answers_then [answer_rules]: "unanswered m \<Longrightarrow> answers q c n \<Longrightarrow> answers q c (w_then m n)"
  by (simp add: w_then_def answers_bind)

lemma answers_then_complete:
  assumes "answers q c m" "completes n"
  shows "answers q c (w_then m n)"
  unfolding answers_def
proof (intro allI ensures_then)
  fix R
  show "ensures (\<lambda>s. responses s = R) m (\<lambda>_ s. \<exists>r. responses s = R @ [r] \<and> answered r = Some (q, c)) (\<lambda>s. responses s = R)"
    using assms(1) by (simp add: answers_def)
  show "ensures (\<lambda>s. \<exists>r. responses s = R @ [r] \<and> answered r = Some (q, c)) n
      (\<lambda>_ s. \<exists>r. responses s = R @ [r] \<and> answered r = Some (q, c)) (\<lambda>s. responses s = R)"
    using assms(2) unfolding completes_def ensures_def by (fastforce split: sum.splits)
qed

lemma answers_catch [answer_rules]: "answers q c m \<Longrightarrow> (\<And>e. answers q c (h e)) \<Longrightarrow> answers q c (w_catch m h)"
  unfolding answers_def by (intro allI ensures_catch) auto

lemma answers_if [answer_rules]: "(b \<Longrightarrow> answers q c m) \<Longrightarrow> (\<not> b \<Longrightarrow> answers q c n) \<Longrightarrow> answers q c (if b then m else n)"
  by simp

section \<open>The exceptions that leave an action\<close>

text \<open>
  An action never throws \<open>unhandled_dap_request\<close>, which names a request of its own; only the
  dispatch throws it.
\<close>

fun plain :: "exn \<Rightarrow> bool" where
  "plain (Unhandled_Request request_seq command) = False"
| "plain e = True"

definition tame :: "('e server, 'a) wact \<Rightarrow> bool" where
  "tame m \<longleftrightarrow> (\<forall>s e s'. m s = Some (Inl e, s') \<longrightarrow> plain e)"

named_theorems tame_rules \<open>rules for the exceptions that leave an action\<close>

lemma tame_now: "(\<And>s e s'. f s = (Inl e, s') \<Longrightarrow> plain e) \<Longrightarrow> tame (now f)"
  by (simp add: tame_def now_def)

lemma tame_basic [tame_rules]:
  "tame (w_ret v)" "tame (w_get g)" "tame (w_set h)" "tame (now (send_event ev))"
  "tame (now (send_response q c b))" "tame (now (send_error_response q c m))"
  by (rule tame_now;
      simp add: ret_def get_state_def update_state_def send_event_def send_response_def send_error_response_def)+

lemma tame_raise [tame_rules]: "plain e \<Longrightarrow> tame (w_raise e)"
  by (rule tame_now) (simp add: raise_def)

lemma tame_bind [tame_rules]: "tame m \<Longrightarrow> (\<And>v. tame (f v)) \<Longrightarrow> tame (w_bind m f)"
  unfolding tame_def w_bind_def by (fastforce split: option.splits prod.splits sum.splits)

lemma tame_then [tame_rules]: "tame m \<Longrightarrow> tame n \<Longrightarrow> tame (w_then m n)"
  by (simp add: w_then_def tame_bind)

lemma tame_catch [tame_rules]: "tame m \<Longrightarrow> (\<And>e. plain e \<Longrightarrow> tame (h e)) \<Longrightarrow> tame (w_catch m h)"
  unfolding tame_def w_catch_def by (fastforce split: option.splits prod.splits sum.splits)

lemma tame_caught: "(\<And>e. tame (h e)) \<Longrightarrow> tame (w_catch m h)"
  unfolding tame_def w_catch_def by (fastforce split: option.splits prod.splits sum.splits)

lemma tame_if [tame_rules]: "(b \<Longrightarrow> tame m) \<Longrightarrow> (\<not> b \<Longrightarrow> tame n) \<Longrightarrow> tame (if b then m else n)"
  by simp

text \<open>The dispatcher wraps what its tasks throw.\<close>

lemma tame_free_worker: "tame (free_worker L)"
  by (auto simp: tame_def free_worker_def split: if_splits option.splits prod.splits sum.splits)

lemma tame_dispatched: "tame (now (dispatcher_invoke False new_channel f))"
  by (rule tame_now) (auto simp: dispatcher_invoke_empty split: prod.splits sum.splits)

lemma tame_invoke [tame_rules]: "tame (invoke L f)" "tame (invoke_session L g)"
  unfolding invoke_def invoke_session_def by (intro tame_rules tame_free_worker tame_dispatched)+

lemma tame_invoke_w [tame_rules]: "tame (invoke_session_w L g)"
proof -
  have "tame (\<lambda>s. case live_session s of
      None \<Rightarrow> now (dispatcher_invoke False new_channel (session_task L (\<lambda>y. the (g y)))) s
    | Some x \<Rightarrow> if g (x\<lparr>forwarded := []\<rparr>) = None then None
        else now (dispatcher_invoke False new_channel (session_task L (\<lambda>y. the (g y)))) s)"
    using tame_dispatched [of "session_task L (\<lambda>y. the (g y))"]
    by (auto simp: tame_def split: option.splits if_splits)
  then show ?thesis unfolding invoke_session_w_def by (intro tame_then tame_free_worker)
qed

lemma tame_thread_id [tame_rules]: "tame (try_get_current_thread_id L)"
proof -
  have "tame (w_catch (w_bind (invoke_session L (get_current_thread_id (base L))) (\<lambda>i. w_ret (thread_id_of i)))
      (\<lambda>e. w_ret None))"
    by (intro tame_rules)
  then show ?thesis unfolding tame_def try_get_current_thread_id_def by (auto split: option.splits)
qed

lemma tame_interrupt [tame_rules]: "tame (now (on_session (interrupt (base L))))"
  by (rule tame_now)
    (auto simp: on_session_def interrupt_def throw_if_disposed_def act_defs engine_call_def check_hr_def
      split: option.splits prod.splits if_splits)

lemma tame_stepping [tame_rules]: "tame (restore_source_line_stepping_if_needed L)"
  unfolding restore_source_line_stepping_if_needed_def by (intro tame_rules)

lemma tame_disposal [tame_rules]: "tame (dispose_debugger_session L)" "tame (drain_pending_disposed_session L)"
  unfolding dispose_debugger_session_def drain_pending_disposed_session_def by (intro tame_rules)+

lemma tame_join [tame_rules]: "tame (join_wait_loop L)"
proof -
  have "fst y = Inr ()" if w: "run_wait_loop K t = Some y" for K :: "'e target" and t y
  proof (rule run_wait_loop.raw_induct [where P = "\<lambda>K t y. fst y = Inr ()", OF _ w])
    fix run and K :: "'e target" and s y
    assume run: "\<And>K s y. run K s = Some y \<Longrightarrow> fst y = Inr ()"
      and y: "(if wait_loop s = No_Loop then Some (Inr (), s)
       else (case loop_step K s of None \<Rightarrow> None | Some (r, s') \<Rightarrow> run K s')) = Some y"
    show "fst y = Inr ()" using run [of K "snd (the (loop_step K s))" y] y by (cases "loop_step K s") (auto split: if_splits)
  qed
  then have "tame (run_wait_loop L)" unfolding tame_def by fastforce
  then show ?thesis unfolding join_wait_loop_def by (intro tame_rules)
qed

end
