(* ===== verification/Server_Execution.thy ===== *)
theory Server_Execution
  imports Server_Contracts Json_Model
begin

text \<open>
  The handlers that drive the life of a session: initialize, configurationDone, threads, continue,
  the three steps, pause, terminate and disconnect (src/src/service/dap_server_*.cpp), with the
  guards of src/src/service/dap_server.cpp that the handlers share.
\<close>

section \<open>Guards and access to the session\<close>

definition require_positive_thread_id :: "int \<Rightarrow> string \<Rightarrow> int \<Rightarrow> ('e server, bool) act" where
  "require_positive_thread_id request_seq command thread_id =
     (if thread_id > 0 then ret True
      else act_then (send_error_response request_seq command
             (''The '' @ command @ '' request requires a positive threadId.'')) (ret False))"

definition reject_single_thread :: "int \<Rightarrow> string \<Rightarrow> bool \<Rightarrow> ('e server, bool) act" where
  "reject_single_thread request_seq command single_thread =
     (if \<not> single_thread then ret True
      else act_then (send_error_response request_seq command
             (''The '' @ command @ '' request does not support singleThread because ''
                @ ''supportsSingleThreadExecutionRequests is false.'')) (ret False))"

definition reject_target_id :: "int \<Rightarrow> string \<Rightarrow> bool \<Rightarrow> ('e server, bool) act" where
  "reject_target_id request_seq command has_target_id =
     (if \<not> has_target_id then ret True
      else act_then (send_error_response request_seq command
             (''The '' @ command @ '' request does not support targetId because supportsStepInTargetsRequest is false.''))
             (ret False))"

definition require_debugger_session :: "('e server, unit) act" where
  "require_debugger_session s =
     (if debugger_session s = None then (Inl (Runtime_Error ''No active debugger session is available.''), s)
      else (Inr (), s))"

definition w_rethrow :: "('s, 'a) wact \<Rightarrow> ('s, unit) wact \<Rightarrow> ('s, 'a) wact" where
  "w_rethrow m cleanup = w_catch m (\<lambda>e. w_then cleanup (w_raise e))"

definition w_guard :: "('s, bool) act \<Rightarrow> ('s, unit) wact \<Rightarrow> ('s, unit) wact" where
  "w_guard c m = w_bind (now c) (\<lambda>accepted. if accepted then m else w_ret ())"

definition set_running :: "bool \<Rightarrow> 'e server \<Rightarrow> 'e server" where
  "set_running b s = s\<lparr>is_execution_running := b\<rparr>"

definition read_session_data_or_default :: "('e server, 'a) wact \<Rightarrow> 'a \<Rightarrow> ('e server, 'a) wact" where
  "read_session_data_or_default reader fallback =
     w_bind (w_get (\<lambda>s. debugger_session s = None \<or> is_execution_running s)) (\<lambda>unreadable.
       if unreadable then w_ret fallback
       else w_catch reader (\<lambda>e.
         w_bind (w_get is_session_unavailable) (\<lambda>gone. if gone then w_ret fallback else w_raise e)))"

section \<open>Handlers\<close>

definition handle_initialize_request :: "int \<Rightarrow> string \<Rightarrow> ('e server, unit) wact" where
  "handle_initialize_request request_seq command =
     w_bind (w_get initialize_request_handled) (\<lambda>handled.
       if handled
       then now (send_error_response request_seq command
              ''The initialize request may only be sent once per debug adapter session.'')
       else w_then (now (send_response request_seq command
              (Capabilities_Body
                 [''supportsClipboardContext'', ''supportsConfigurationDoneRequest'',
                  ''supportsConditionalBreakpoints'', ''supportsDataBreakpoints'',
                  ''supportsDelayedStackTraceLoading'', ''supportsDisassembleRequest'',
                  ''supportsExceptionInfoRequest'', ''supportsFunctionBreakpoints'',
                  ''supportsInstructionBreakpoints'', ''supportsModulesRequest'', ''supportsReadMemoryRequest'',
                  ''supportsSetVariable'', ''supportsSetExpression'', ''supportsSteppingGranularity'',
                  ''supportsTerminateRequest'', ''supportsWriteMemoryRequest'', ''supportTerminateDebuggee'']
                 [''supportsEvaluateForHovers'', ''supportsHitConditionalBreakpoints'', ''supportsLogPoints'',
                  ''supportsRestartRequest'', ''supportsRestartFrame'', ''supportsStepBack'',
                  ''supportsSingleThreadExecutionRequests'', ''supportsValueFormattingOptions'',
                  ''supportSuspendDebuggee'']
                 [''cpp''])))
              (w_then (w_set (\<lambda>s. s\<lparr>initialize_request_handled := True\<rparr>))
                 (now (send_event Initialized_Event))))"

definition continue_after_configuration_done :: "'e target \<Rightarrow> ('e server, unit) wact" where
  "continue_after_configuration_done L =
     w_bind (w_get (\<lambda>s. debugger_session s = None \<or> is_execution_running s)) (\<lambda>skip.
       if skip then w_ret ()
       else w_bind (w_bind (w_get launch_thread_id) (\<lambda>t.
                      case t of Some i \<Rightarrow> w_ret (Some i) | None \<Rightarrow> try_get_current_thread_id L)) (\<lambda>thread_id.
         case thread_id of
           None \<Rightarrow> w_ret ()
         | Some i \<Rightarrow>
             w_catch
               (w_then (w_set reset_suspended_state)
                  (w_then (w_set (set_running True))
                     (w_then (invoke_session L (continue_execution (base L)))
                        (w_then (now (send_event (create_continued_event i True)))
                           (w_set start_waiting_for_session_event)))))
               (\<lambda>e. w_set (set_running False))))"

definition handle_configuration_done_request :: "'e target \<Rightarrow> int \<Rightarrow> string \<Rightarrow> ('e server, unit) wact" where
  "handle_configuration_done_request L request_seq command =
     w_then (now (send_response request_seq command No_Body))
       (w_then
          (w_bind (w_get (\<lambda>s. launch_awaiting_configuration_done s \<and> \<not> launch_stop_at_entry s)) (\<lambda>continue.
             if continue then continue_after_configuration_done L else w_ret ()))
          (w_set reset_launch_configuration_state))"

definition get_threads :: "'e target \<Rightarrow> ('e server, dap_thread list) wact" where
  "get_threads L =
     read_session_data_or_default
       (w_bind (try_get_current_thread_id L) (\<lambda>current.
          w_bind (invoke_session L (get_thread_ids (base L))) (\<lambda>ids.
            case create_threads ids current of Inl e \<Rightarrow> w_raise e | Inr ts \<Rightarrow> w_ret ts)))
       []"

definition handle_threads_request :: "'e target \<Rightarrow> int \<Rightarrow> string \<Rightarrow> ('e server, unit) wact" where
  "handle_threads_request L request_seq command =
     w_bind (get_threads L) (\<lambda>ts. now (send_response request_seq command (Threads_Body ts)))"

definition handle_continue_request ::
    "'e target \<Rightarrow> int \<Rightarrow> string \<Rightarrow> int \<Rightarrow> bool \<Rightarrow> ('e server, unit) wact" where
  "handle_continue_request L request_seq command thread_id single_thread =
     w_guard (require_positive_thread_id request_seq command thread_id)
       (w_guard (reject_single_thread request_seq command single_thread)
          (w_bind (w_get is_execution_running) (\<lambda>running.
             if running then now (send_error_response request_seq command ''The debuggee is already running.'')
             else w_then (now require_debugger_session)
               (w_then
                  (w_rethrow
                     (w_then (invoke_session L (set_current_thread (base L) (of_int thread_id)))
                        (w_then (w_set (set_running True))
                           (w_then (invoke_session L (continue_execution (base L)))
                              (w_set reset_suspended_state))))
                     (w_set (set_running False)))
                  (w_then (now (send_response request_seq command (Continue_Body True)))
                     (w_then (now (send_event (create_continued_event thread_id True)))
                        (w_set start_waiting_for_session_event)))))))"

definition prepare_stepping_granularity ::
    "'e target \<Rightarrow> stepping_granularity option \<Rightarrow> ('e server, unit) wact" where
  "prepare_stepping_granularity L granularity =
     (if granularity = Some Instruction_Granularity
      then w_then (invoke_session L (enable_instruction_stepping (base L)))
             (w_set (\<lambda>s. s\<lparr>restore_source_line_stepping_after_stop := True\<rparr>))
      else w_then (invoke_session L (enable_source_line_stepping (base L)))
             (w_set (\<lambda>s. s\<lparr>restore_source_line_stepping_after_stop := False\<rparr>)))"

text \<open>What the three step handlers do behind their guards.\<close>

definition run_step ::
    "'e target \<Rightarrow> int \<Rightarrow> string \<Rightarrow> int \<Rightarrow> stepping_granularity option \<Rightarrow> string \<Rightarrow> ('e session, unit) act
     \<Rightarrow> ('e server, unit) wact" where
  "run_step L request_seq command thread_id granularity description step =
     w_bind (w_get is_execution_running) (\<lambda>running.
       if running
       then now (send_error_response request_seq command ''Cannot step while the debuggee is running.'')
       else w_then (now require_debugger_session)
         (w_then
            (w_rethrow
               (w_then (invoke_session L (set_current_thread (base L) (of_int thread_id)))
                  (w_then (prepare_stepping_granularity L granularity)
                     (w_then (w_set (set_pending_stopped_event Stop_Step (Some description) None))
                        (w_then (w_set (set_running True))
                           (w_then (invoke_session L step)
                              (w_then (w_set reset_suspended_state)
                                 (w_set start_waiting_for_session_event)))))))
               (w_then (w_set (set_running False))
                  (w_then (w_set clear_pending_stopped_event) (restore_source_line_stepping_if_needed L))))
            (now (send_response request_seq command No_Body))))"

definition handle_next_request ::
    "'e target \<Rightarrow> int \<Rightarrow> string \<Rightarrow> int \<Rightarrow> bool \<Rightarrow> stepping_granularity option \<Rightarrow> ('e server, unit) wact" where
  "handle_next_request L request_seq command thread_id single_thread granularity =
     w_guard (require_positive_thread_id request_seq command thread_id)
       (w_guard (reject_single_thread request_seq command single_thread)
          (run_step L request_seq command thread_id granularity ''Step completed.'' (step_over (base L))))"

definition handle_step_in_request ::
    "'e target \<Rightarrow> int \<Rightarrow> string \<Rightarrow> int \<Rightarrow> bool \<Rightarrow> int option \<Rightarrow> stepping_granularity option
     \<Rightarrow> ('e server, unit) wact" where
  "handle_step_in_request L request_seq command thread_id single_thread target_id granularity =
     w_guard (require_positive_thread_id request_seq command thread_id)
       (w_guard (reject_single_thread request_seq command single_thread)
          (w_guard (reject_target_id request_seq command (target_id \<noteq> None))
             (run_step L request_seq command thread_id granularity ''Step in completed.'' (step_into (base L)))))"

definition handle_step_out_request ::
    "'e target \<Rightarrow> int \<Rightarrow> string \<Rightarrow> int \<Rightarrow> bool \<Rightarrow> stepping_granularity option \<Rightarrow> ('e server, unit) wact" where
  "handle_step_out_request L request_seq command thread_id single_thread granularity =
     w_guard (require_positive_thread_id request_seq command thread_id)
       (w_guard (reject_single_thread request_seq command single_thread)
          (run_step L request_seq command thread_id granularity ''Step out completed.'' (step_out (base L))))"

text \<open>Breaking in goes around the dispatcher: \<open>interrupt\<close> is called on the request thread.\<close>

definition handle_pause_request :: "'e target \<Rightarrow> int \<Rightarrow> string \<Rightarrow> int \<Rightarrow> ('e server, unit) wact" where
  "handle_pause_request L request_seq command thread_id =
     w_guard (require_positive_thread_id request_seq command thread_id)
       (w_bind (w_get is_execution_running) (\<lambda>running.
          if \<not> running then now (send_error_response request_seq command ''The debuggee is not running.'')
          else w_then (now require_debugger_session)
            (w_then
               (w_rethrow
                  (w_then (w_set reset_suspended_state)
                     (w_then (w_set (set_pending_stopped_event Stop_Pause (Some ''Execution paused.'') None))
                        (w_then (now (on_session (interrupt (base L))))
                           (w_set start_waiting_for_session_event))))
                  (w_set clear_pending_stopped_event))
               (now (send_response request_seq command No_Body)))))"

definition handle_terminate_request :: "'e target \<Rightarrow> int \<Rightarrow> string \<Rightarrow> ('e server, unit) wact" where
  "handle_terminate_request L request_seq command =
     w_bind (w_get debugger_session) (\<lambda>session.
       if session = None
       then w_then (now (send_response request_seq command No_Body))
              (w_then (now (send_event Terminated_Event)) (w_set (\<lambda>s. s\<lparr>should_exit := True\<rparr>)))
       else w_bind (w_get session_stop_or_exit_observed) (\<lambda>previous.
         w_then (w_set (\<lambda>s. s\<lparr>session_stop_or_exit_observed := False\<rparr>))
           (w_then
              (w_rethrow (invoke_session L (terminate_current_process (base L)))
                 (w_set (\<lambda>s. s\<lparr>session_stop_or_exit_observed := previous\<rparr>)))
              (w_then
                 (w_bind (w_get session_stop_or_exit_observed) (\<lambda>observed.
                    if \<not> observed then w_set start_waiting_for_session_event else w_ret ()))
                 (now (send_response request_seq command No_Body))))))"

section \<open>Disconnect\<close>

definition interrupt_best_effort :: "'e target \<Rightarrow> ('e server, unit) wact" where
  "interrupt_best_effort L = w_catch (now (on_session (interrupt (base L)))) (\<lambda>e. w_ret ())"

text \<open>
  The kernel path leaves the machine running: breakpoints are cleared, the target is resumed and
  a detached thread has the worker wait, so that the resume reaches the machine; the
  session object is released without being destroyed.
\<close>

definition disconnect_kernel_leaving_machine_running :: "'e target \<Rightarrow> ('e server, unit) wact" where
  "disconnect_kernel_leaving_machine_running L =
     w_then
       (w_catch
          (w_then
             (w_bind (w_get is_execution_running) (\<lambda>running.
                if running then interrupt_best_effort L else w_ret ()))
             (w_then
                (invoke_session L (act_then (clear_all_breakpoints (base L)) (continue_execution (base L))))
                (w_set (\<lambda>s. s\<lparr>detached_wait := True\<rparr>))))
          (\<lambda>e. w_ret ()))
       (w_set (\<lambda>s. s\<lparr>unowned_session := debugger_session s, debugger_session := None,
          is_execution_running := False, detach_on_disconnect := False,
          terminate_debuggee_on_disconnect := False, session_stop_or_exit_observed := True\<rparr>))"

definition disconnect_debugger_session :: "'e target \<Rightarrow> bool option \<Rightarrow> ('e server, unit) wact" where
  "disconnect_debugger_session L terminate_debuggee =
     w_bind (w_get debugger_session) (\<lambda>session.
       case session of
         None \<Rightarrow> w_ret ()
       | Some x \<Rightarrow>
           w_then (w_set (\<lambda>s. s\<lparr>kernel_initial_resume_pending := False\<rparr>))
             (if is_kernel x then disconnect_kernel_leaving_machine_running L
              else w_then
                (w_bind (w_get is_execution_running) (\<lambda>running.
                   if running then w_then (interrupt_best_effort L) (w_set (set_running False)) else w_ret ()))
                (w_bind (w_get (\<lambda>s.
                     let should_terminate = (case terminate_debuggee of
                           None \<Rightarrow> terminate_debuggee_on_disconnect s | Some b \<Rightarrow> b)
                     in \<not> should_terminate \<and> (detach_on_disconnect s \<or> terminate_debuggee_on_disconnect s)))
                   (\<lambda>should_detach.
                      w_then
                        (if should_detach then invoke_session L (detach_current_process (base L)) else w_ret ())
                        (dispose_debugger_session L)))))"

definition handle_disconnect_request ::
    "'e target \<Rightarrow> int \<Rightarrow> string \<Rightarrow> bool option \<Rightarrow> ('e server, unit) wact" where
  "handle_disconnect_request L request_seq command terminate_debuggee =
     w_bind (w_get (\<lambda>s. debugger_session s \<noteq> None \<and> \<not> session_stop_or_exit_observed s)) (\<lambda>should_send_terminated.
       w_then (disconnect_debugger_session L terminate_debuggee)
         (w_then (now (send_response request_seq command No_Body))
            (w_then (if should_send_terminated then now (send_event Terminated_Event) else w_ret ())
               (w_set (\<lambda>s. s\<lparr>should_exit := True\<rparr>)))))"

section \<open>The response contract of the handlers\<close>

lemma responses_updates [simp]:
  "responses (set_running b s) = responses s" "responses (reset_suspended_state s) = responses s"
  "responses (start_waiting_for_session_event s) = responses s"
  "responses (reset_launch_configuration_state s) = responses s"
  "responses (set_pending_stopped_event r d i s) = responses s"
  "responses (clear_pending_stopped_event s) = responses s"
  by (simp_all add: responses_def set_running_def start_waiting_for_session_event_def state_updates)

lemma responses_fields [simp]:
  "responses (s\<lparr>session_stop_or_exit_observed := b\<rparr>) = responses s" "responses (s\<lparr>should_exit := b\<rparr>) = responses s"
  "responses (s\<lparr>restore_source_line_stepping_after_stop := b\<rparr>) = responses s"
  "responses (s\<lparr>initialize_request_handled := b\<rparr>) = responses s"
  "responses (s\<lparr>suppress_session_events := b\<rparr>) = responses s" "responses (s\<lparr>detached_wait := b\<rparr>) = responses s"
  "responses (s\<lparr>kernel_initial_resume_pending := b\<rparr>) = responses s"
  by (simp_all add: responses_def)

lemma answers_guard [answer_rules]:
  assumes "\<And>s v s'. g s = (Inr v, s') \<Longrightarrow> v \<Longrightarrow> responses s' = responses s"
    and "\<And>s v s'. g s = (Inr v, s') \<Longrightarrow> \<not> v \<Longrightarrow> \<exists>r. responses s' = responses s @ [r] \<and> answered r = Some (q, c)"
    and "\<And>s e s'. g s = (Inl e, s') \<Longrightarrow> responses s' = responses s"
    and "answers q c m"
  shows "answers q c (w_guard g m)"
  unfolding answers_def w_guard_def
proof (intro allI ensures_bind)
  fix R
  let ?done = "\<lambda>s. \<exists>r. responses s = R @ [r] \<and> answered r = Some (q, c)"
  show "ensures (\<lambda>s. responses s = R) (now g) (\<lambda>v s. if v then responses s = R else ?done s) (\<lambda>s. responses s = R)"
    using assms(1-3) by (intro ensuresI) (auto simp: now_def)
  show "ensures (\<lambda>s. if v then responses s = R else ?done s) (if v then m else w_ret ()) (\<lambda>_. ?done) (\<lambda>s. responses s = R)" for v
    using assms(4) by (cases v) (auto simp: answers_def intro: ensures_ret)
qed

lemma answers_guards [answer_rules]:
  "answers q c m \<Longrightarrow> answers q c (w_guard (require_positive_thread_id q c t) m)"
  "answers q c m \<Longrightarrow> answers q c (w_guard (reject_single_thread q c b) m)"
  "answers q c m \<Longrightarrow> answers q c (w_guard (reject_target_id q c b) m)"
  by (rule answers_guard;
      auto simp: require_positive_thread_id_def reject_single_thread_def reject_target_id_def send_error_response_def
        act_defs responses_def post_message_def split: if_splits)+

lemma unanswered_rethrow [answer_rules]: "unanswered m \<Longrightarrow> unanswered c \<Longrightarrow> unanswered (w_rethrow m c)"
  unfolding w_rethrow_def by (intro answer_rules)

lemma unanswered_require [answer_rules]: "unanswered (now require_debugger_session)"
  by (rule unanswered_now) (simp add: keeps_def require_debugger_session_def)

lemma unanswered_read [answer_rules]: "unanswered m \<Longrightarrow> unanswered (read_session_data_or_default m d)"
  unfolding read_session_data_or_default_def by (intro answer_rules)

lemma answers_initialize [answer_rules]: "answers q c (handle_initialize_request q c)"
  unfolding handle_initialize_request_def
  by (intro answers_bind answers_if answer_rules answers_then_complete) simp_all

lemma completes_continue_after [answer_rules]: "completes (continue_after_configuration_done L)"
  unfolding continue_after_configuration_done_def
  by (intro answer_rules) (auto split: option.split intro!: answer_rules)

lemma answers_configuration_done [answer_rules]: "answers q c (handle_configuration_done_request L q c)"
  unfolding handle_configuration_done_request_def
  by (intro answers_then_complete answer_rules) simp_all

lemma answers_threads [answer_rules]: "answers q c (handle_threads_request L q c)"
  unfolding handle_threads_request_def get_threads_def
  by (intro answer_rules) (auto split: sum.split intro!: answer_rules)

lemma answers_continue [answer_rules]: "answers q c (handle_continue_request L q c t b)"
  unfolding handle_continue_request_def
  by (intro answer_rules answers_then_complete [OF answers_response]) simp_all

lemma unanswered_granularity [answer_rules]: "unanswered (prepare_stepping_granularity L g)"
  unfolding prepare_stepping_granularity_def by (intro answer_rules) simp_all

lemma answers_run_step [answer_rules]: "answers q c (run_step L q c t g d f)"
  unfolding run_step_def by (intro answer_rules) simp_all

lemma answers_steps [answer_rules]:
  "answers q c (handle_next_request L q c t b g)" "answers q c (handle_step_in_request L q c t b i g)"
  "answers q c (handle_step_out_request L q c t b g)"
  unfolding handle_next_request_def handle_step_in_request_def handle_step_out_request_def
  by (intro answer_rules)+

lemma answers_pause [answer_rules]: "answers q c (handle_pause_request L q c t)"
  unfolding handle_pause_request_def by (intro answer_rules) simp_all

lemma answers_terminate [answer_rules]: "answers q c (handle_terminate_request L q c)"
  unfolding handle_terminate_request_def
  by (intro answers_bind answers_if answers_then_complete [OF answers_response] answer_rules) simp_all

lemma unanswered_disconnect [answer_rules]: "unanswered (disconnect_debugger_session L b)"
  unfolding disconnect_debugger_session_def disconnect_kernel_leaving_machine_running_def interrupt_best_effort_def
  by (intro answer_rules) (auto split: option.split simp: responses_def set_running_def intro!: answer_rules)

lemma answers_disconnect [answer_rules]: "answers q c (handle_disconnect_request L q c b)"
  unfolding handle_disconnect_request_def
  by (intro answers_bind answers_then answers_then_complete [OF answers_response] answer_rules) simp_all

section \<open>The exceptions that leave the handlers\<close>

lemma tame_checks:
  "tame (now (require_positive_thread_id q c t))" "tame (now (reject_single_thread q c b))"
  "tame (now (reject_target_id q c b))"
  by (rule tame_now;
      auto simp: require_positive_thread_id_def reject_single_thread_def reject_target_id_def
        send_error_response_def act_defs split: if_splits)+

lemma tame_guard [tame_rules]:
  "tame m \<Longrightarrow> tame (w_guard (require_positive_thread_id q c t) m)"
  "tame m \<Longrightarrow> tame (w_guard (reject_single_thread q c b) m)"
  "tame m \<Longrightarrow> tame (w_guard (reject_target_id q c b) m)"
  unfolding w_guard_def by (intro tame_rules tame_checks; assumption)+

lemma tame_rethrow [tame_rules]: "tame m \<Longrightarrow> tame c \<Longrightarrow> tame (w_rethrow m c)"
  unfolding w_rethrow_def by (intro tame_rules)

lemma tame_require [tame_rules]: "tame (now require_debugger_session)"
  by (rule tame_now) (auto simp: require_debugger_session_def split: if_splits)

lemma tame_read [tame_rules]: "tame m \<Longrightarrow> tame (read_session_data_or_default m d)"
  unfolding read_session_data_or_default_def by (intro tame_rules)

lemma create_threads_plain: "create_threads ids current = Inl e \<Longrightarrow> plain e"
  by (induction ids) (auto simp: checked_to_int_def split: if_splits sum.splits)

lemma tame_continue_after [tame_rules]: "tame (continue_after_configuration_done L)"
  unfolding continue_after_configuration_done_def by (auto split: option.split intro!: tame_rules)

lemma tame_granularity [tame_rules]: "tame (prepare_stepping_granularity L g)"
  unfolding prepare_stepping_granularity_def by (intro tame_rules)

lemma tame_disconnect [tame_rules]: "tame (disconnect_debugger_session L b)"
  unfolding disconnect_debugger_session_def disconnect_kernel_leaving_machine_running_def interrupt_best_effort_def
  by (auto split: option.split intro!: tame_rules)

lemma tame_execution [tame_rules]:
  "tame (handle_initialize_request q c)" "tame (handle_configuration_done_request L q c)"
  "tame (handle_threads_request L q c)" "tame (handle_continue_request L q c t b)"
  "tame (handle_pause_request L q c t)" "tame (handle_terminate_request L q c)"
  "tame (handle_disconnect_request L q c d)"
  unfolding handle_initialize_request_def handle_configuration_done_request_def handle_threads_request_def
    get_threads_def handle_continue_request_def handle_pause_request_def handle_terminate_request_def
    handle_disconnect_request_def
  by (auto split: sum.split intro!: tame_rules dest: create_threads_plain)

lemma tame_steps [tame_rules]:
  "tame (handle_next_request L q c t b g)" "tame (handle_step_in_request L q c t b i g)"
  "tame (handle_step_out_request L q c t b g)"
  unfolding handle_next_request_def handle_step_in_request_def handle_step_out_request_def run_step_def
  by (auto intro!: tame_rules)

end
