(* ===== verification/Server_Breakpoints.thy ===== *)
theory Server_Breakpoints
  imports Server_Execution
begin

text \<open>
  The breakpoint handlers of src/src/service: setBreakpoints, setFunctionBreakpoints,
  setInstructionBreakpoints, setDataBreakpoints, setExceptionBreakpoints and exceptionInfo, with
  the bookkeeping of conditional breakpoints and the update of a running target of dap_server.cpp.
\<close>

section \<open>Requests\<close>

record set_breakpoints_arguments =
  sb_source :: requested_source
  sb_breakpoints :: "source_breakpoint list option"
  sb_lines :: "int list option"

record parsed_source_breakpoint =
  pb_request :: source_breakpoint
  pb_spec :: "source_breakpoint_spec option"
  pb_error_message :: "string option"
  pb_has_unsupported_options :: bool

definition read_requested_source_breakpoints :: "set_breakpoints_arguments \<Rightarrow> source_breakpoint list" where
  "read_requested_source_breakpoints a =
     (case sb_breakpoints a of
        Some bs \<Rightarrow> bs
      | None \<Rightarrow> (case sb_lines a of
          None \<Rightarrow> []
        | Some ls \<Rightarrow> map (\<lambda>l. \<lparr>rb_line = l, rb_column = None, rb_condition = None, rb_hit_condition = None,
                               rb_log_message = None, rb_mode = None\<rparr>) ls))"

definition has_unsupported_options :: "source_breakpoint \<Rightarrow> bool" where
  "has_unsupported_options b \<longleftrightarrow> rb_column b \<noteq> None \<or> \<not> is_blank_opt (rb_hit_condition b)
     \<or> \<not> is_blank_opt (rb_log_message b) \<or> \<not> is_blank_opt (rb_mode b)"

definition parse_source_breakpoint :: "source_breakpoint \<Rightarrow> parsed_source_breakpoint" where
  "parse_source_breakpoint b =
     (if has_unsupported_options b
      then \<lparr>pb_request = b, pb_spec = None,
            pb_error_message = Some ''Hit-count, logpoint, mode, and column source breakpoints are not supported.'',
            pb_has_unsupported_options = True\<rparr>
      else if rb_line b \<le> 0 \<or> rb_line b > int_max
      then \<lparr>pb_request = b, pb_spec = None,
            pb_error_message = Some ''Breakpoint lines must be between 1 and 2147483647.'',
            pb_has_unsupported_options = False\<rparr>
      else \<lparr>pb_request = b, pb_spec = Some \<lparr>spec_line = rb_line b, spec_condition = rb_condition b\<rparr>,
            pb_error_message = None, pb_has_unsupported_options = False\<rparr>)"

definition create_unsupported_breakpoint_message :: "requested_source \<Rightarrow> source_breakpoint list \<Rightarrow> string" where
  "create_unsupported_breakpoint_message source breakpoints =
     (let source_label = (case rs_path source of
            Some p \<Rightarrow> if is_blank p then (case rs_name source of None \<Rightarrow> ''<unknown source>'' | Some n \<Rightarrow> n) else p
          | None \<Rightarrow> (case rs_name source of None \<Rightarrow> ''<unknown source>'' | Some n \<Rightarrow> n));
          lines = sort (remdups (map rb_line breakpoints))
      in ''Rejected unsupported breakpoint options for '' @ source_label @ '' at line(s) ''
           @ join '', '' (map dec_int lines)
           @ '': hit-count, logpoint, mode, and column source breakpoints are not supported.'' @ [CR, LF])"

definition create_source_breakpoint_response ::
    "requested_source \<Rightarrow> source_breakpoint \<Rightarrow> bool \<Rightarrow> string option \<Rightarrow> bool \<Rightarrow> int option \<Rightarrow> dap_breakpoint" where
  "create_source_breakpoint_response source b verified m failed i =
     \<lparr>db_id = i, db_verified = verified, db_message = m, db_failed = failed, db_source = Some source,
      db_line = Some (rb_line b), db_column = rb_column b, db_instruction_reference = None\<rparr>"

section \<open>Conditional breakpoints\<close>

definition clear_conditional_breakpoint_state :: "string \<Rightarrow> 'e server \<Rightarrow> 'e server" where
  "clear_conditional_breakpoint_state source_path s =
     (case condition_ids_by_path s source_path of
        None \<Rightarrow> s
      | Some ids \<Rightarrow>
          s\<lparr>conditions_by_id := (\<lambda>i. if i \<in> set ids then None else conditions_by_id s i),
            condition_ids_by_path := (condition_ids_by_path s)(source_path := None)\<rparr>)"

definition record_condition ::
    "string \<Rightarrow> source_breakpoint_result \<times> source_breakpoint \<Rightarrow> 'e server \<Rightarrow> 'e server" where
  "record_condition source_path rb s =
     (case (rb_condition (snd rb), result_id (fst rb)) of
        (Some c, Some i) \<Rightarrow>
          if is_blank c \<or> \<not> result_verified (fst rb) then s
          else s\<lparr>conditions_by_id := (conditions_by_id s)(i := Some c),
                 condition_ids_by_path := (condition_ids_by_path s)
                   (source_path := Some ((case condition_ids_by_path s source_path of None \<Rightarrow> [] | Some ids \<Rightarrow> ids) @ [i]))\<rparr>
      | _ \<Rightarrow> s)"

definition update_conditional_breakpoint_state ::
    "string \<Rightarrow> source_breakpoint_result list \<Rightarrow> source_breakpoint list \<Rightarrow> 'e server \<Rightarrow> 'e server" where
  "update_conditional_breakpoint_state source_path configured requested s =
     fold (record_condition source_path) (zip configured requested) (clear_conditional_breakpoint_state source_path s)"

section \<open>Updating a running target\<close>

definition run_with_suppressed_session_events :: "('e server, 'a) wact \<Rightarrow> ('e server, 'a) wact" where
  "run_with_suppressed_session_events action =
     w_then (w_set (\<lambda>s. s\<lparr>suppress_session_events := True\<rparr>))
       (w_bind (w_rethrow action (w_set (\<lambda>s. s\<lparr>suppress_session_events := False\<rparr>))) (\<lambda>v.
          w_then (w_set (\<lambda>s. s\<lparr>suppress_session_events := False\<rparr>)) (w_ret v)))"

definition apply_breakpoint_update_while_running ::
    "'e target \<Rightarrow> ('e server, 'a) wact \<Rightarrow> ('e server, 'a) wact" where
  "apply_breakpoint_update_while_running L apply_update =
     w_bind
       (run_with_suppressed_session_events
          (w_then (now (on_session (interrupt (base L))))
             (w_then (join_wait_loop L)
                (w_bind apply_update (\<lambda>v.
                   w_then (w_set (set_running True))
                     (w_then (invoke_session L (continue_execution (base L))) (w_ret v)))))))
       (\<lambda>v. w_then (w_set start_waiting_for_session_event) (w_ret v))"

text \<open>The pattern of the update handlers: directly at a stop, through a transient stop while running.\<close>

definition update_breakpoints :: "'e target \<Rightarrow> ('e session, 'a) act \<Rightarrow> ('e server, 'a) wact" where
  "update_breakpoints L f =
     w_bind (w_get is_execution_running) (\<lambda>resume_after_update.
       if resume_after_update then apply_breakpoint_update_while_running L (invoke_session L f)
       else invoke_session L f)"

definition set_breakpoints_while_running ::
    "'e target \<Rightarrow> string \<Rightarrow> source_breakpoint_spec list \<Rightarrow> ('e server, source_breakpoint_result list) wact" where
  "set_breakpoints_while_running L source_path specs =
     apply_breakpoint_update_while_running L
       (invoke_session L (set_source_breakpoints (base L) (full_path_of L) source_path specs))"

section \<open>setBreakpoints\<close>

text \<open>
  The response takes the results in order for the breakpoints that were configurable;
  \<open>configured[configured_index++]\<close> is the head of the remaining results.
\<close>

fun merge_results ::
    "requested_source \<Rightarrow> parsed_source_breakpoint list \<Rightarrow> source_breakpoint_result list \<Rightarrow> dap_breakpoint list" where
  "merge_results source [] configured = []"
| "merge_results source (p # ps) configured =
     (case pb_error_message p of
        Some m \<Rightarrow> create_source_breakpoint_response source (pb_request p) False (Some m) True None
                    # merge_results source ps configured
      | None \<Rightarrow>
          (let r = hd configured
           in create_source_breakpoint_response source (pb_request p) (result_verified r) (result_message r)
                (\<not> result_verified r) (result_id r) # merge_results source ps (tl configured)))"

definition handle_set_breakpoints_request ::
    "'e target \<Rightarrow> int \<Rightarrow> string \<Rightarrow> set_breakpoints_arguments \<Rightarrow> ('e server, unit) wact" where
  "handle_set_breakpoints_request L request_seq command arguments =
     (let source = sb_source arguments
      in if (case rs_source_reference source of None \<Rightarrow> False | Some r \<Rightarrow> r > 0)
         then now (send_error_response request_seq command
                (''The setBreakpoints request does not support '' @ quoted ''source.sourceReference'' @ ''; provide ''
                   @ quoted ''source.path'' @ ''.''))
         else case rs_path source of
           None \<Rightarrow> now (send_error_response request_seq command
                     (''The setBreakpoints request requires '' @ quoted ''source.path'' @ ''.''))
         | Some source_path \<Rightarrow>
             if is_blank source_path
             then now (send_error_response request_seq command
                     (''The setBreakpoints request requires '' @ quoted ''source.path'' @ ''.''))
             else
               (let parsed = map parse_source_breakpoint (read_requested_source_breakpoints arguments);
                    unsupported = map pb_request (filter pb_has_unsupported_options parsed);
                    configurable = filter (\<lambda>p. pb_spec p \<noteq> None) parsed;
                    supported = map (the \<circ> pb_spec) configurable
                in w_then (now require_debugger_session)
                  (w_bind (w_get is_execution_running) (\<lambda>resume_after_update.
                     w_bind (if resume_after_update then set_breakpoints_while_running L source_path supported
                             else invoke_session L
                                    (set_source_breakpoints (base L) (full_path_of L) source_path supported))
                       (\<lambda>configured.
                          w_then (w_set (update_conditional_breakpoint_state source_path configured
                                           (map pb_request configurable)))
                            (w_then (now (send_response request_seq command
                                       (Breakpoints_Body (merge_results source parsed configured))))
                               (if unsupported \<noteq> []
                                then now (send_event (create_output_event
                                       (create_unsupported_breakpoint_message source unsupported) Important))
                                else w_ret ())))))))"

section \<open>Function, instruction and data breakpoints\<close>

text \<open>The handlers map every failure of the update to an error response.\<close>

definition respond_or_report ::
    "int \<Rightarrow> string \<Rightarrow> ('e server, 'a) wact \<Rightarrow> ('a \<Rightarrow> response_body) \<Rightarrow> ('e server, unit) wact" where
  "respond_or_report request_seq command m body =
     w_catch (w_bind m (\<lambda>v. now (send_response request_seq command (body v))))
       (\<lambda>e. now (send_error_response request_seq command (unwrap_failure_message e (what e))))"

definition plain_breakpoint :: "source_breakpoint_result \<Rightarrow> string option \<Rightarrow> dap_breakpoint" where
  "plain_breakpoint r reference =
     \<lparr>db_id = result_id r, db_verified = result_verified r, db_message = result_message r, db_failed = False,
      db_source = None, db_line = None, db_column = None, db_instruction_reference = reference\<rparr>"

definition with_session ::
    "int \<Rightarrow> string \<Rightarrow> string \<Rightarrow> ('e server, unit) wact \<Rightarrow> ('e server, unit) wact" where
  "with_session request_seq command request_name m =
     w_bind (w_get debugger_session) (\<lambda>session.
       if session = None
       then now (send_error_response request_seq command
              (''The '' @ request_name @ '' request requires an active debugger session.''))
       else m)"

definition handle_set_function_breakpoints_request ::
    "'e target \<Rightarrow> int \<Rightarrow> string \<Rightarrow> string list \<Rightarrow> ('e server, unit) wact" where
  "handle_set_function_breakpoints_request L request_seq command names =
     (if list_ex is_blank names
      then now (send_error_response request_seq command ''Every function breakpoint requires a non-empty name.'')
      else with_session request_seq command ''setFunctionBreakpoints''
        (respond_or_report request_seq command
           (update_breakpoints L (set_function_breakpoints (base L) (map trim_both names)))
           (\<lambda>results. Breakpoints_Body (map (\<lambda>r. plain_breakpoint r None) results))))"

text \<open>The references with their offsets, parsed in order up to the first one that is not valid.\<close>

fun parse_instruction_references :: "(string \<times> int option) list \<Rightarrow> string + u64 list" where
  "parse_instruction_references [] = Inr []"
| "parse_instruction_references ((reference, offset) # rest) =
     (case try_parse_memory_reference reference of
        None \<Rightarrow> Inl (''The instruction reference '' @ quoted reference @ '' is not a valid address.'')
      | Some address \<Rightarrow>
          (let n = (case offset of None \<Rightarrow> 0 | Some n \<Rightarrow> n)
           in case try_apply_byte_offset address (of_int n) of
                None \<Rightarrow> Inl (''The offset '' @ dec_int n @ '' moves '' @ quoted reference
                             @ '' outside the 64-bit address space.'')
              | Some moved \<Rightarrow>
                  (case parse_instruction_references rest of Inl m \<Rightarrow> Inl m | Inr addresses \<Rightarrow> Inr (moved # addresses))))"

definition handle_set_instruction_breakpoints_request ::
    "'e target \<Rightarrow> int \<Rightarrow> string \<Rightarrow> (string \<times> int option) list \<Rightarrow> ('e server, unit) wact" where
  "handle_set_instruction_breakpoints_request L request_seq command breakpoints =
     (case parse_instruction_references breakpoints of
        Inl m \<Rightarrow> now (send_error_response request_seq command m)
      | Inr addresses \<Rightarrow>
          with_session request_seq command ''setInstructionBreakpoints''
            (respond_or_report request_seq command
               (update_breakpoints L (set_instruction_breakpoints (base L) addresses))
               (\<lambda>results. Breakpoints_Body
                  (map (\<lambda>(r, a). plain_breakpoint r (Some (hex_address a))) (zip results addresses)))))"

definition try_parse_data_id :: "string \<Rightarrow> (u64 \<times> u32) option" where
  "try_parse_data_id data_id =
     (if CHR '':'' \<notin> set data_id then None
      else let head = takeWhile (\<lambda>c. c \<noteq> CHR '':'') data_id;
               size_text = drop (Suc (length head)) data_id
           in case try_parse_memory_reference head of
                None \<Rightarrow> None
              | Some address \<Rightarrow>
                  (case stoul size_text of
                     Inl e \<Rightarrow> None
                   | Inr (parsed, consumed) \<Rightarrow>
                       if consumed \<noteq> length size_text then None
                       else if parsed = 1 \<or> parsed = 2 \<or> parsed = 4 \<or> parsed = 8 then Some (address, parsed)
                       else None))"

fun parse_data_breakpoints :: "(string \<times> data_access option) list \<Rightarrow> string + data_breakpoint_spec list" where
  "parse_data_breakpoints [] = Inr []"
| "parse_data_breakpoints ((data_id, access) # rest) =
     (case try_parse_data_id data_id of
        None \<Rightarrow> Inl (''The dataId '' @ quoted data_id
                     @ '' is not valid. Request dataBreakpointInfo again for the current stop.'')
      | Some (address, n) \<Rightarrow>
          (case parse_data_breakpoints rest of
             Inl m \<Rightarrow> Inl m
           | Inr specs \<Rightarrow>
               Inr (\<lparr>data_address = address, data_size = n,
                     data_break_on_read = (access \<noteq> None \<and> access \<noteq> Some Write_Access)\<rparr> # specs)))"

definition handle_set_data_breakpoints_request ::
    "'e target \<Rightarrow> int \<Rightarrow> string \<Rightarrow> (string \<times> data_access option) list \<Rightarrow> ('e server, unit) wact" where
  "handle_set_data_breakpoints_request L request_seq command breakpoints =
     (case parse_data_breakpoints breakpoints of
        Inl m \<Rightarrow> now (send_error_response request_seq command m)
      | Inr specs \<Rightarrow>
          with_session request_seq command ''setDataBreakpoints''
            (respond_or_report request_seq command
               (update_breakpoints L (set_data_breakpoints (base L) specs))
               (\<lambda>results. Breakpoints_Body (map (\<lambda>r. plain_breakpoint r None) results))))"

section \<open>Exceptions\<close>

definition exception_filter_breakpoint :: "string \<Rightarrow> dap_breakpoint" where
  "exception_filter_breakpoint f =
     \<lparr>db_id = None, db_verified = (f = ''cpp''),
      db_message = (if f = ''cpp'' then None else Some (''Unknown exception filter '' @ quoted f @ ''.'')),
      db_failed = False, db_source = None, db_line = None, db_column = None, db_instruction_reference = None\<rparr>"

definition handle_set_exception_breakpoints_request ::
    "'e target \<Rightarrow> int \<Rightarrow> string \<Rightarrow> string list \<Rightarrow> ('e server, unit) wact" where
  "handle_set_exception_breakpoints_request L request_seq command filters =
     with_session request_seq command ''setExceptionBreakpoints''
       (respond_or_report request_seq command
          (update_breakpoints L (set_cpp_first_chance_break (base L) (''cpp'' \<in> set filters)))
          (\<lambda>u. Breakpoints_Body (map exception_filter_breakpoint filters)))"

definition describe_exception_code :: "u32 \<Rightarrow> string" where
  "describe_exception_code code =
     (if code = 0xC0000005 then ''Access violation''
      else if code = 0xC0000094 then ''Integer division by zero''
      else if code = 0xC00000FD then ''Stack overflow''
      else if code = 0xC0000409 then ''Stack buffer overrun / fail fast''
      else if code = 0xE06D7363 then ''C++ exception''
      else if code = 0x80000003 then ''Break instruction''
      else ''Exception 0x'' @ pad_zero 8 (hex_upper (unat code)))"

definition exception_body :: "last_exception_info \<Rightarrow> response_body" where
  "exception_body x =
     Exception_Body (''0x'' @ pad_zero 8 (hex_upper (unat (exc_code x)))) (describe_exception_code (exc_code x))
       (exc_first_chance x)
       (describe_exception_code (exc_code x) @ '' at 0x'' @ hex_lower (unat (exc_address x)) @ '' (''
          @ (if exc_first_chance x then ''first'' else ''second'') @ '' chance).'')"

definition get_last_exception :: "('e session, last_exception_info option) act" where
  "get_last_exception = get_state last_exception"

definition handle_exception_info_request :: "'e target \<Rightarrow> int \<Rightarrow> string \<Rightarrow> ('e server, unit) wact" where
  "handle_exception_info_request L request_seq command =
     w_bind (w_get is_execution_running) (\<lambda>running.
       if running
       then now (send_error_response request_seq command
              ''The debuggee is currently running. Exception details are only available while stopped.'')
       else with_session request_seq command ''exceptionInfo''
         (w_catch
            (w_bind (invoke_session L get_last_exception) (\<lambda>x.
               case x of
                 None \<Rightarrow> now (send_error_response request_seq command
                           ''No exception has been observed in this session.'')
               | Some i \<Rightarrow> now (send_response request_seq command (exception_body i))))
            (\<lambda>e. now (send_error_response request_seq command (unwrap_failure_message e (what e))))))"

section \<open>The response contract of the handlers\<close>

lemma responses_conditions [simp]:
  fixes s :: "'e server"
  shows "responses (update_conditional_breakpoint_state p configured requested s) = responses s"
proof -
  have "responses (clear_conditional_breakpoint_state p s) = responses s"
    by (simp add: clear_conditional_breakpoint_state_def responses_def split: option.split)
  moreover have "responses (fold (record_condition p) rbs t) = responses t" for rbs and t :: "'e server"
    by (induction rbs arbitrary: t)
      (simp_all add: record_condition_def responses_def split: option.split)
  ultimately show ?thesis by (simp add: update_conditional_breakpoint_state_def)
qed

lemma unanswered_suppressed [answer_rules]:
  "unanswered m \<Longrightarrow> unanswered (run_with_suppressed_session_events m)"
  unfolding run_with_suppressed_session_events_def by (intro answer_rules) simp_all

lemma unanswered_transient [answer_rules]:
  "unanswered m \<Longrightarrow> unanswered (apply_breakpoint_update_while_running L m)"
  unfolding apply_breakpoint_update_while_running_def by (intro answer_rules) simp_all

lemma unanswered_updates [answer_rules]:
  "unanswered (update_breakpoints L f)" "unanswered (set_breakpoints_while_running L p specs)"
  unfolding update_breakpoints_def set_breakpoints_while_running_def by (intro answer_rules)+

lemma answers_report [answer_rules]: "unanswered m \<Longrightarrow> answers q c (respond_or_report q c m body)"
  unfolding respond_or_report_def by (intro answer_rules)

lemma answers_with_session [answer_rules]: "answers q c m \<Longrightarrow> answers q c (with_session q c n m)"
  unfolding with_session_def by (intro answer_rules)

lemma answers_set_breakpoints [answer_rules]: "answers q c (handle_set_breakpoints_request L q c a)"
  unfolding handle_set_breakpoints_request_def Let_def
  by (auto split: option.split intro!: answer_rules answers_then_complete [OF answers_response])

lemma answers_command_breakpoints [answer_rules]:
  "answers q c (handle_set_function_breakpoints_request L q c ns)"
  "answers q c (handle_set_instruction_breakpoints_request L q c rs)"
  "answers q c (handle_set_data_breakpoints_request L q c ds)"
  "answers q c (handle_set_exception_breakpoints_request L q c fs)"
  unfolding handle_set_function_breakpoints_request_def handle_set_instruction_breakpoints_request_def
    handle_set_data_breakpoints_request_def handle_set_exception_breakpoints_request_def
  by (auto split: sum.split intro!: answer_rules)

lemma answers_exception_info [answer_rules]: "answers q c (handle_exception_info_request L q c)"
  unfolding handle_exception_info_request_def by (auto split: option.split intro!: answer_rules)

section \<open>The exceptions that leave the handlers\<close>

lemma tame_suppressed [tame_rules]: "tame m \<Longrightarrow> tame (run_with_suppressed_session_events m)"
  unfolding run_with_suppressed_session_events_def by (intro tame_rules)

lemma tame_transient [tame_rules]: "tame m \<Longrightarrow> tame (apply_breakpoint_update_while_running L m)"
  unfolding apply_breakpoint_update_while_running_def by (intro tame_rules)

lemma tame_updates [tame_rules]:
  "tame (update_breakpoints L f)" "tame (set_breakpoints_while_running L p specs)"
  unfolding update_breakpoints_def set_breakpoints_while_running_def by (intro tame_rules)+

lemma tame_report [tame_rules]: "tame (respond_or_report q c m body)"
  unfolding respond_or_report_def by (intro tame_caught tame_rules)

lemma tame_with_session [tame_rules]: "tame m \<Longrightarrow> tame (with_session q c n m)"
  unfolding with_session_def by (intro tame_rules)

lemma tame_set_breakpoints [tame_rules]: "tame (handle_set_breakpoints_request L q c a)"
  unfolding handle_set_breakpoints_request_def Let_def by (auto split: option.split intro!: tame_rules)

lemma tame_command_breakpoints [tame_rules]:
  "tame (handle_set_function_breakpoints_request L q c ns)"
  "tame (handle_set_instruction_breakpoints_request L q c rs)"
  "tame (handle_set_data_breakpoints_request L q c ds)"
  "tame (handle_set_exception_breakpoints_request L q c fs)"
  unfolding handle_set_function_breakpoints_request_def handle_set_instruction_breakpoints_request_def
    handle_set_data_breakpoints_request_def handle_set_exception_breakpoints_request_def
  by (auto split: sum.split intro!: tame_rules)

lemma tame_exception_info [tame_rules]: "tame (handle_exception_info_request L q c)"
  unfolding handle_exception_info_request_def by (auto split: option.split intro!: tame_rules)

section \<open>Transient stops\<close>

text \<open>Behind a region without session events: nothing was reported and reports are on again.\<close>

definition unseen :: "nat \<Rightarrow> 'e server \<Rightarrow> bool" where
  "unseen n s \<longleftrightarrow> debugger_session s = None \<or> stops s = n \<and> \<not> suppress_session_events s"

lemma suppressed_region:
  assumes "maintains (muted n) m"
  shows "ensures (\<lambda>s. stops s = n) (run_with_suppressed_session_events m) (\<lambda>_. unseen n) (unseen n)"
proof -
  have r: "ensures (muted n) (w_rethrow m (w_set (\<lambda>s. s\<lparr>suppress_session_events := False\<rparr>))) (\<lambda>_. muted n) (unseen n)"
    unfolding w_rethrow_def
    by (intro ensures_catch [OF assms] ensures_then [where Q = "unseen n"] ensures_set ensures_raise)
      (auto simp: muted_def unseen_def stops_def)
  show ?thesis
    unfolding run_with_suppressed_session_events_def
    by (intro ensures_then [where Q = "muted n"] ensures_bind [OF r] ensures_set ensures_ret
        ensures_then [where Q = "unseen n"])
      (auto simp: muted_def unseen_def stops_def)
qed

lemma muted_interrupt: "maintains (muted n) (now (on_session f))"
  by (intro maintains_now muted.on_session_keeps)

lemma muted_running: "maintains (muted n) (w_set (set_running b))"
  by (rule ensures_set) (auto simp: muted_def set_running_def stops_def)

lemma transient_stop_unseen:
  "ensures (\<lambda>s. stops s = n) (apply_breakpoint_update_while_running L (invoke_session L f)) (\<lambda>_. unseen n) (unseen n)"
proof -
  have m: "maintains (muted n)
      (w_then (now (on_session (interrupt (base L))))
         (w_then (join_wait_loop L)
            (w_bind (invoke_session L f) (\<lambda>v.
               w_then (w_set (set_running True))
                 (w_then (invoke_session L (continue_execution (base L))) (w_ret v))))))"
    by (intro triples keeps_rules muted_interrupt muted_running muted.join_wait_loop_maintains
        muted.invoke_session_maintains)
  show ?thesis
    unfolding apply_breakpoint_update_while_running_def
    by (intro ensures_bind [OF suppressed_region [OF m]] ensures_then [where Q = "unseen n"] ensures_set ensures_ret)
      (auto simp: unseen_def start_waiting_for_session_event_def stops_def)
qed

section \<open>The conditions of a file\<close>

text \<open>The conditions that a set of configured breakpoints brings along, by breakpoint id.\<close>

fun conditions_of :: "(source_breakpoint_result \<times> source_breakpoint) list \<Rightarrow> (int \<times> string) list" where
  "conditions_of [] = []"
| "conditions_of ((r, b) # rest) =
     (case (rb_condition b, result_id r) of
        (Some c, Some i) \<Rightarrow> if \<not> is_blank c \<and> result_verified r then (i, c) # conditions_of rest else conditions_of rest
      | _ \<Rightarrow> conditions_of rest)"

definition recorded_ids :: "string \<Rightarrow> 'e server \<Rightarrow> int list" where
  "recorded_ids p s = (case condition_ids_by_path s p of None \<Rightarrow> [] | Some ids \<Rightarrow> ids)"

lemma record_conditions:
  fixes s :: "'e server"
  shows "conditions_by_id (fold (record_condition p) rbs s) = conditions_by_id s ++ map_of (rev (conditions_of rbs))"
    and "recorded_ids p (fold (record_condition p) rbs s) = recorded_ids p s @ map fst (conditions_of rbs)"
    and "q \<noteq> p \<Longrightarrow> condition_ids_by_path (fold (record_condition p) rbs s) q = condition_ids_by_path s q"
proof (induction rbs arbitrary: s)
  case (Cons rb rbs)
  obtain r b where rb: "rb = (r, b)" by (cases rb)
  { case 1 show ?case
      using Cons(1) by (auto simp: rb record_condition_def map_add_assoc map_add_upd split: option.split) }
  { case 2 show ?case
      using Cons(2) by (auto simp: rb record_condition_def recorded_ids_def split: option.split) }
  { case 3 then show ?case
      using Cons(3) by (auto simp: rb record_condition_def split: option.split) }
qed simp_all

section \<open>Properties\<close>


text \<open>A target that breaks at the next wait, for the witness.\<close>

definition halting_target :: "nat target" where
  "halting_target = script_target\<lparr>pump :=
     (\<lambda>n. if n = 0 then Pump_Callback (Ev_Execution_Status kStatusBreak) 1 else Pump_Return 0 n)\<rparr>"

lemmas wait_evaluation = throw_if_disposed_def engine_call_def act_check_def check_hr_def hr_failed_def
  echo_engine_def new_session_def script_target_def running_server_def new_server_def act_defs w_rethrow_def
  now_def w_bind_def w_then_def w_catch_def live_session_def put_session_def on_session_def invoke_session_def
  invoke_def free_worker_def join_wait_loop_def session_task_def dispatcher_invoke_empty loop_step_def
  on_break_hit_def observe_stop_def clear_pending_stopped_event_def drain_pending_disposed_session_def
  start_waiting_for_session_event_def restore_source_line_stepping_if_needed_def run_wait_loop.simps
  execute_debugger_command_def output_callback_def handle_output_received_def on_output_received_def
  post_message_def run_with_suppressed_session_events_def

lemma halting_update:
  "\<exists>r s'. apply_breakpoint_update_while_running halting_target
       (invoke_session halting_target (set_function_breakpoints (base halting_target) [])) running_server = Some (r, s')
     \<and> debugger_session s' \<noteq> None"
  by (simp add: halting_target_def apply_breakpoint_update_while_running_def wait_evaluation interrupt_def
      continue_execution_def resume_with_def set_running_def set_function_breakpoints_def set_command_breakpoints_def
      clear_ids_def)



end
