(* ===== verification/Server_Inspection.thy ===== *)
theory Server_Inspection
  imports Server_Breakpoints Base64
begin

text \<open>
  The handlers that inspect a stopped target: stackTrace, scopes, variables, setVariable,
  setExpression, evaluate, dataBreakpointInfo, readMemory, writeMemory, disassemble, modules and
  source (src/src/service/dap_server_*.cpp), with the frame and variable contexts of
  src/src/service/dap_server.cpp.  References to variable containers are C++ \<open>int\<close>s counted up from 1
  at every stop; they are integers here, so more than \<open>2 ^ 31\<close> containers at one stop are
  outside the model.
\<close>

section \<open>Stack windows\<close>

record stack_trace_window =
  start_frame :: int
  levels :: int

text \<open>The clamp of optional 64-bit counts: unset, not positive and too large all mean 0.\<close>

definition clamp_count :: "int option \<Rightarrow> int" where
  "clamp_count v = (case v of None \<Rightarrow> 0 | Some n \<Rightarrow> if n > 0 \<and> n \<le> int_max then n else 0)"

definition read_stack_trace_window :: "int option \<Rightarrow> int option \<Rightarrow> stack_trace_window" where
  "read_stack_trace_window start_argument levels_argument =
     \<lparr>start_frame = clamp_count start_argument, levels = clamp_count levels_argument\<rparr>"

text \<open>The loop that copies from a start index, up to a positive limit.\<close>

definition copy_window :: "int \<Rightarrow> int \<Rightarrow> 'a list \<Rightarrow> 'a list" where
  "copy_window from_index limit xs =
     (let rest = drop (nat from_index) xs in if limit > 0 then take (nat limit) rest else rest)"

definition apply_stack_trace_window :: "stack_frame_info list \<Rightarrow> stack_trace_window \<Rightarrow> stack_frame_info list" where
  "apply_stack_trace_window fs w = copy_window (start_frame w) (levels w) fs"

definition create_stack_trace_result ::
    "stack_frame_info list \<Rightarrow> int \<Rightarrow> stack_trace_window \<Rightarrow> stack_frame_info list \<times> int" where
  "create_stack_trace_result all_frames total_frames w = (apply_stack_trace_window all_frames w, total_frames)"

definition get_stack_trace_fetch_limit :: "stack_trace_window \<Rightarrow> int" where
  "get_stack_trace_fetch_limit w =
     (if levels w \<le> 0 then int_max
      else let requested = start_frame w + levels w in if requested \<ge> int_max then int_max else requested)"

definition register_frames :: "int \<Rightarrow> stack_frame_info list \<Rightarrow> 'e server \<Rightarrow> 'e server" where
  "register_frames thread_id fs s =
     fold (\<lambda>f s. s\<lparr>frame_contexts := (frame_contexts s)
             (create_frame_id thread_id (sf_frame_number f) :=
                Some \<lparr>fc_thread_id = thread_id, fc_frame_number = sf_frame_number f, fc_source = sf_source f\<rparr>)\<rparr>) fs s"

definition handle_stack_trace_request ::
    "'e target \<Rightarrow> int \<Rightarrow> string \<Rightarrow> int \<Rightarrow> int option \<Rightarrow> int option \<Rightarrow> ('e server, unit) wact" where
  "handle_stack_trace_request L request_seq command thread_id start_argument levels_argument =
     (let w = read_stack_trace_window start_argument levels_argument
      in w_guard (require_positive_thread_id request_seq command thread_id)
           (w_bind
              (read_session_data_or_default
                 (invoke_session L
                    (act_then (set_current_thread (base L) (of_int thread_id))
                       (get_stack_trace_details (inspector_of L) (get_stack_trace_fetch_limit w))))
                 ([], 0))
              (\<lambda>details.
                 let result = create_stack_trace_result (fst details) (snd details) w
                 in w_then (w_set (register_frames thread_id (fst result)))
                      (now (send_response request_seq command
                         (Stack_Trace_Body (map (create_stack_frame thread_id) (fst result)) (snd result)))))))"

section \<open>Variables\<close>

definition create_variables_reference ::
    "frame_context \<Rightarrow> variable_container_kind \<Rightarrow> dap_variable list \<Rightarrow> 'e server \<Rightarrow> int \<times> 'e server" where
  "create_variables_reference context kind vars s =
     (if vars = [] then (0, s)
      else (next_variables_reference s,
            s\<lparr>next_variables_reference := next_variables_reference s + 1,
              variables_by_reference := (variables_by_reference s)(next_variables_reference s :=
                Some \<lparr>vc_thread_id = fc_thread_id context, vc_frame_number = fc_frame_number context,
                      vc_kind = kind, vc_variables = vars\<rparr>)\<rparr>))"

definition create_variable :: "named_value_info \<Rightarrow> dap_variable" where
  "create_variable v =
     \<lparr>var_name = nv_name v, var_value = nv_value v, var_type = None, var_evaluate_name = Some (nv_name v),
      var_memory_reference = None, var_named_variables = None, var_variables_reference = 0\<rparr>"

definition access_path :: "string \<Rightarrow> string \<Rightarrow> string" where
  "access_path parent name =
     (if name = [] then parent
      else if parent = [] \<or> hd name = CHR ''['' then parent @ name else parent @ ''.'' @ name)"

fun build_variable_tree :: "variable_node \<Rightarrow> frame_context \<Rightarrow> string \<Rightarrow> 'e server \<Rightarrow> dap_variable \<times> 'e server"
  and build_variable_trees :: "variable_node list \<Rightarrow> frame_context \<Rightarrow> string \<Rightarrow> 'e server \<Rightarrow> dap_variable list \<times> 'e server"
where
  "build_variable_tree (Variable_Node name v t expandable address bytes children) context parent s =
     (let evaluate_name = access_path parent name;
          (vars, s1) = build_variable_trees children context evaluate_name s;
          (reference, s2) = (if children \<noteq> [] then create_variables_reference context Structure_Kind vars s1 else (0, s1))
      in (\<lparr>var_name = name, var_value = v, var_type = (if t = [] then None else Some t),
           var_evaluate_name = Some evaluate_name,
           var_memory_reference = (if address \<noteq> 0 then Some (''0x'' @ hex_lower (unat address)) else None),
           var_named_variables = (if children \<noteq> [] then Some (int (length vars)) else None),
           var_variables_reference = reference\<rparr>, s2))"
| "build_variable_trees [] context parent s = ([], s)"
| "build_variable_trees (n # ns) context parent s =
     (let (v, s1) = build_variable_tree n context parent s;
          (vs, s2) = build_variable_trees ns context parent s1
      in (v # vs, s2))"

definition create_scope ::
    "string \<Rightarrow> scope_hint \<Rightarrow> int \<Rightarrow> int \<Rightarrow> source_location option \<Rightarrow> dap_scope" where
  "create_scope name hint variables_reference named source =
     \<lparr>sc_name = name, sc_hint = hint, sc_variables_reference = variables_reference, sc_named_variables = named,
      sc_expensive = False, sc_source = create_source source, sc_line = map_option sl_line source,
      sc_column = map_option (\<lambda>x. 1) source\<rparr>"

text \<open>The two scopes of a frame, from the locals and registers that were read.\<close>

definition create_scopes ::
    "frame_context \<Rightarrow> variable_node list \<Rightarrow> named_value_info list \<Rightarrow> 'e server \<Rightarrow> dap_scope list \<times> 'e server" where
  "create_scopes context locals registers s =
     (let (local_variables, s1) = build_variable_trees locals context [] s;
          (locals_reference, s2) = create_variables_reference context Locals_Kind local_variables s1;
          (registers_reference, s3) =
            create_variables_reference context Registers_Kind (map create_variable registers) s2
      in ([create_scope ''Locals'' Locals_Hint locals_reference (int (length locals)) (fc_source context),
           create_scope ''Registers'' Registers_Hint registers_reference (int (length registers)) None], s3))"

definition unknown_frame_message :: "int \<Rightarrow> string" where
  "unknown_frame_message frame_id =
     ''Unknown frame id '' @ quoted (dec_int frame_id) @ ''. Request stackTrace again for the current stop.''"

definition unknown_reference_message :: "int \<Rightarrow> string" where
  "unknown_reference_message reference =
     ''Unknown variablesReference '' @ quoted (dec_int reference) @ ''. Request scopes again for the current stop.''"

definition handle_scopes_request :: "'e target \<Rightarrow> int \<Rightarrow> string \<Rightarrow> int \<Rightarrow> ('e server, unit) wact" where
  "handle_scopes_request L request_seq command frame_id =
     (if frame_id \<le> 0
      then now (send_error_response request_seq command ''The scopes request requires a positive frameId.'')
      else w_bind (w_get (\<lambda>s. frame_contexts s frame_id)) (\<lambda>found.
        case found of
          None \<Rightarrow> now (send_error_response request_seq command (unknown_frame_message frame_id))
        | Some context \<Rightarrow>
            w_bind
              (read_session_data_or_default
                 (w_bind (invoke_session_w L (get_locals_tree (base L) (inspector_of L) (fc_frame_number context)))
                    (\<lambda>locals. w_bind (invoke_session L (get_registers (inspector_of L) (fc_frame_number context)))
                       (\<lambda>registers. w_ret (locals, registers))))
                 ([], []))
              (\<lambda>(locals, registers).
                 w_bind (now (\<lambda>s. case create_scopes context locals registers s of (scopes, s') \<Rightarrow> (Inr scopes, s')))
                   (\<lambda>scopes. now (send_response request_seq command (Scopes_Body scopes))))))"

definition handle_variables_request ::
    "int \<Rightarrow> string \<Rightarrow> int \<Rightarrow> bool \<Rightarrow> int option \<Rightarrow> int option \<Rightarrow> ('e server, unit) wact" where
  "handle_variables_request request_seq command variables_reference indexed_only start_argument count_argument =
     (if variables_reference \<le> 0
      then now (send_error_response request_seq command ''The variables request requires a positive variablesReference.'')
      else w_bind (w_get (\<lambda>s. variables_by_reference s variables_reference)) (\<lambda>found.
        case found of
          None \<Rightarrow> now (send_error_response request_seq command (unknown_reference_message variables_reference))
        | Some container \<Rightarrow>
            now (send_response request_seq command
              (Variables_Body
                 (copy_window (clamp_count start_argument) (clamp_count count_argument)
                    (if indexed_only then [] else vc_variables container))))))"

section \<open>Changing variables\<close>

text \<open>Runs \<open>f\<close> with another thread selected and selects the original one again on every path.\<close>

definition on_thread :: "'e engine \<Rightarrow> int \<Rightarrow> ('e session, 'a) act \<Rightarrow> ('e session, 'a) act" where
  "on_thread E thread_id f =
     act_bind (get_current_thread_id E) (\<lambda>original_thread_id.
       act_catch
         (act_then (set_current_thread E (of_int thread_id))
            (act_bind f (\<lambda>v. act_then (set_current_thread E original_thread_id) (ret v))))
         (\<lambda>e. act_then (set_current_thread E original_thread_id) (raise e)))"

definition build_commands :: "variable_container_kind \<Rightarrow> u32 \<Rightarrow> string \<Rightarrow> string \<Rightarrow> string list" where
  "build_commands kind frame_number name v =
     (let frame = ''.frame '' @ dec (unat frame_number) @ '';''
      in if kind = Locals_Kind
         then [frame @ ''?? '' @ name @ ''='' @ v, frame @ ''? @@c++('' @ name @ ''='' @ v @ '')'',
               frame @ ''?? $!'' @ name @ ''='' @ v, frame @ ''? @@c++($!'' @ name @ ''='' @ v @ '')'']
         else [''r '' @ name @ ''='' @ v])"

definition is_invalid_assignment :: "string \<Rightarrow> string \<Rightarrow> bool" where
  "is_invalid_assignment command m \<longleftrightarrow>
     find_sub (''Could not execute debugger command '' @ quoted command) m \<noteq> None \<and> find_sub ''HRESULT=0x'' m \<noteq> None"

fun execute_set ::
    "'e engine \<Rightarrow> variable_container_kind \<Rightarrow> string option \<Rightarrow> string list \<Rightarrow> ('e session, unit) act" where
  "execute_set E kind last_failure [] =
     raise (Runtime_Error (case last_failure of
       None \<Rightarrow> ''No setVariable command candidates were generated.'' | Some m \<Rightarrow> m))"
| "execute_set E kind last_failure (command # rest) =
     act_catch (act_then (execute_command_with_output E command True) (ret ()))
       (\<lambda>e. if kind \<noteq> Locals_Kind \<or> \<not> is_invalid_assignment command (what e) then raise e
            else execute_set E kind (Some (what e)) rest)"

definition read_variables ::
    "'e target \<Rightarrow> variable_container_context \<Rightarrow> ('e session, dap_variable list) act" where
  "read_variables L container =
     act_bind (if vc_kind container = Locals_Kind then get_locals (base L) (inspector_of L) (vc_frame_number container)
               else get_registers (inspector_of L) (vc_frame_number container))
       (\<lambda>vs. ret (map create_variable vs))"

definition assign_variable ::
    "'e target \<Rightarrow> variable_container_context \<Rightarrow> string \<Rightarrow> string
     \<Rightarrow> ('e session, variable_container_context \<times> dap_variable) act" where
  "assign_variable L container name v =
     on_thread (base L) (vc_thread_id container)
       (act_then (execute_set (base L) (vc_kind container) None
                    (build_commands (vc_kind container) (vc_frame_number container) name v))
          (act_bind (read_variables L container) (\<lambda>refreshed.
             case find (\<lambda>x. var_name x = name) refreshed of
               None \<Rightarrow> raise (Runtime_Error (''Variable '' @ quoted name @ '' was not found after assignment.''))
             | Some updated \<Rightarrow> ret (container\<lparr>vc_variables := refreshed\<rparr>, updated))))"

definition store_container :: "int \<Rightarrow> variable_container_context \<Rightarrow> 'e server \<Rightarrow> 'e server" where
  "store_container reference container s =
     s\<lparr>variables_by_reference := (variables_by_reference s)(reference := Some container)\<rparr>"

text \<open>Fields of a structure are written through the symbol group; only the edited child is refreshed.\<close>

fun refresh_child :: "string \<Rightarrow> variable_node \<Rightarrow> dap_variable list \<Rightarrow> dap_variable list" where
  "refresh_child name updated [] = []"
| "refresh_child name updated (x # xs) =
     (if var_name x = name
      then x\<lparr>var_value := vn_value updated,
             var_type := (if vn_type updated = [] then var_type x else Some (vn_type updated))\<rparr> # xs
      else x # refresh_child name updated xs)"

definition assign_struct_field ::
    "'e target \<Rightarrow> variable_container_context \<Rightarrow> string \<Rightarrow> string \<Rightarrow> string
     \<Rightarrow> ('e session, variable_container_context \<times> dap_variable option) act" where
  "assign_struct_field L container name expression v =
     on_thread (base L) (vc_thread_id container)
       (act_bind (set_local_value (base L) (inspector_of L) (vc_frame_number container) expression v) (\<lambda>updated.
          let refreshed = refresh_child name updated (vc_variables container)
          in ret (container\<lparr>vc_variables := refreshed\<rparr>, find (\<lambda>x. var_name x = name) refreshed)))"

definition set_variable_body :: "dap_variable \<Rightarrow> bool \<Rightarrow> response_body" where
  "set_variable_body x with_memory =
     Set_Variable_Body (var_value x) (var_type x)
       (if var_variables_reference x > 0 then Some (var_variables_reference x) else None)
       (var_named_variables x) (if with_memory then var_memory_reference x else None)"

definition handle_set_struct_field ::
    "'e target \<Rightarrow> int \<Rightarrow> string \<Rightarrow> variable_container_context \<Rightarrow> int \<Rightarrow> string \<Rightarrow> string \<Rightarrow> ('e server, unit) wact" where
  "handle_set_struct_field L request_seq command container variables_reference name v =
     (case find (\<lambda>x. var_name x = name) (vc_variables container) of
        None \<Rightarrow> now (send_error_response request_seq command
                  (''Variable '' @ quoted name @ '' was not found in this struct.''))
      | Some child \<Rightarrow>
          respond_or_report request_seq command
            (w_then (now require_debugger_session)
               (w_bind (invoke_session L (assign_struct_field L container name
                          (case var_evaluate_name child of None \<Rightarrow> name | Some x \<Rightarrow> x) v))
                  (\<lambda>(updated, result).
                     w_then (w_set (store_container variables_reference updated))
                       (w_ret (case result of None \<Rightarrow> child | Some x \<Rightarrow> x)))))
            (\<lambda>x. set_variable_body x False))"

definition handle_set_variable_request ::
    "'e target \<Rightarrow> int \<Rightarrow> string \<Rightarrow> int \<Rightarrow> string \<Rightarrow> string \<Rightarrow> ('e server, unit) wact" where
  "handle_set_variable_request L request_seq command variables_reference name v =
     (if variables_reference \<le> 0
      then now (send_error_response request_seq command ''The setVariable request requires a positive variablesReference.'')
      else if is_blank name
      then now (send_error_response request_seq command ''The setVariable request requires a non-empty variable name.'')
      else if is_blank v
      then now (send_error_response request_seq command ''The setVariable request requires a non-empty value expression.'')
      else w_bind (w_get is_execution_running) (\<lambda>running.
        if running
        then now (send_error_response request_seq command
               ''The debuggee is currently running. Wait until execution stops before changing variables.'')
        else w_bind (w_get (\<lambda>s. variables_by_reference s variables_reference)) (\<lambda>found.
          case found of
            None \<Rightarrow> now (send_error_response request_seq command (unknown_reference_message variables_reference))
          | Some container \<Rightarrow>
              if vc_kind container = Structure_Kind
              then handle_set_struct_field L request_seq command container variables_reference name v
              else w_then (now require_debugger_session)
                (respond_or_report request_seq command
                   (w_bind (invoke_session L (assign_variable L container name v)) (\<lambda>(updated, x).
                      w_then (w_set (store_container variables_reference updated)) (w_ret x)))
                   (\<lambda>x. set_variable_body x True)))))"

definition handle_set_expression_request ::
    "'e target \<Rightarrow> int \<Rightarrow> string \<Rightarrow> string \<Rightarrow> string \<Rightarrow> int option \<Rightarrow> ('e server, unit) wact" where
  "handle_set_expression_request L request_seq command expression v frame_id =
     (if is_blank expression
      then now (send_error_response request_seq command ''The setExpression request requires a non-empty expression.'')
      else if is_blank v
      then now (send_error_response request_seq command ''The setExpression request requires a non-empty value.'')
      else case frame_id of
        None \<Rightarrow> now (send_error_response request_seq command
                  ''The setExpression request requires a frameId (global assignments are not supported).'')
      | Some i \<Rightarrow> w_bind (w_get (\<lambda>s. (frame_contexts s i, is_execution_running s))) (\<lambda>(found, running).
          case found of
            None \<Rightarrow> now (send_error_response request_seq command (unknown_frame_message i))
          | Some context \<Rightarrow>
              if running
              then now (send_error_response request_seq command
                     ''The debuggee is currently running. Wait until execution stops before changing expressions.'')
              else respond_or_report request_seq command
                (w_then (now require_debugger_session)
                   (invoke_session L (on_thread (base L) (fc_thread_id context)
                      (set_local_value (base L) (inspector_of L) (fc_frame_number context) expression v))))
                (\<lambda>node. Set_Expression_Body (vn_value node) (if vn_type node = [] then None else Some (vn_type node)))))"

section \<open>The response contract of the handlers\<close>

lemma responses_frames [simp]: "responses (register_frames t fs s) = responses s"
  unfolding register_frames_def by (induction fs arbitrary: s) (simp_all add: responses_def)

lemma responses_reference [simp]: "responses (snd (create_variables_reference c k vs s)) = responses s"
  by (simp add: create_variables_reference_def responses_def)

lemma responses_trees [simp]:
  "responses (snd (build_variable_tree n c p s)) = responses s"
  "responses (snd (build_variable_trees ns c p s)) = responses s"
proof (induction n c p s and ns c p s rule: build_variable_tree_build_variable_trees.induct)
  case (1 name v t x a b children ctx parent s)
  then show ?case
    using responses_reference [of ctx Structure_Kind] by (auto simp: Let_def case_prod_beta)
next
  case (3 n ns ctx parent s)
  then show ?case by (simp add: case_prod_beta) (metis prod.collapse)
qed simp

lemma responses_scopes [simp]: "responses (snd (create_scopes c locals registers s)) = responses s"
  by (simp add: create_scopes_def case_prod_beta)

lemma responses_store [simp]: "responses (store_container r c s) = responses s"
  by (simp add: store_container_def responses_def)

lemma answers_stack_trace [answer_rules]: "answers q c (handle_stack_trace_request L q c t a b)"
  unfolding handle_stack_trace_request_def Let_def by (intro answer_rules) simp_all

lemma answers_scopes [answer_rules]: "answers q c (handle_scopes_request L q c f)"
proof -
  have "unanswered (now (\<lambda>s. case create_scopes c ls rs s of (scopes, s') \<Rightarrow> (Inr scopes, s')))" for c ls rs
    by (rule unanswered_now) (simp add: keeps_def case_prod_beta)
  then show ?thesis
    unfolding handle_scopes_request_def by (auto split: option.split intro!: answer_rules)
qed

lemma answers_variables [answer_rules]: "answers q c (handle_variables_request q c r b i n)"
  unfolding handle_variables_request_def by (auto split: option.split intro!: answer_rules)

lemma answers_struct_field [answer_rules]: "answers q c (handle_set_struct_field L q c k r n v)"
  unfolding handle_set_struct_field_def by (auto split: option.split intro!: answer_rules)

lemma answers_set_variable [answer_rules]: "answers q c (handle_set_variable_request L q c r n v)"
  unfolding handle_set_variable_request_def by (auto split: option.split intro!: answer_rules)

lemma answers_set_expression [answer_rules]: "answers q c (handle_set_expression_request L q c x v f)"
  unfolding handle_set_expression_request_def by (auto split: option.split intro!: answer_rules)

section \<open>The exceptions that leave the handlers\<close>

lemma tame_inspection [tame_rules]:
  "tame (handle_stack_trace_request L q c t a b)" "tame (handle_variables_request q c r x i n)"
  "tame (handle_set_expression_request L q c e v f)"
  unfolding handle_stack_trace_request_def Let_def handle_variables_request_def handle_set_expression_request_def
  by (auto split: option.split intro!: tame_rules)

lemma tame_scopes [tame_rules]: "tame (handle_scopes_request L q c f)"
proof -
  have "tame (now (\<lambda>s. case create_scopes x ls rs s of (scopes, s') \<Rightarrow> (Inr scopes, s')))" for x ls rs
    by (rule tame_now) (simp add: case_prod_beta)
  then show ?thesis
    unfolding handle_scopes_request_def by (auto split: option.split intro!: tame_rules)
qed

lemma tame_set_variable [tame_rules]: "tame (handle_set_variable_request L q c r n v)"
  unfolding handle_set_variable_request_def handle_set_struct_field_def
  by (auto split: option.split intro!: tame_rules)

end
