(* ===== verification/Server_Memory.thy ===== *)
theory Server_Memory
  imports Server_Inspection
begin

text \<open>
  The remaining handlers of src/src/service: evaluate, dataBreakpointInfo, readMemory, writeMemory,
  disassemble, modules and source.
\<close>

section \<open>Evaluate\<close>

record evaluate_arguments =
  ea_expression :: string
  ea_frame_id :: "int option"
  ea_context :: "evaluate_context option"
  ea_has_source :: bool
  ea_line :: "int option"
  ea_column :: "int option"

definition create_evaluate_command :: "string \<Rightarrow> u32 option \<Rightarrow> exn + string" where
  "create_evaluate_command expression frame_number =
     (if expression = [] \<or> is_blank expression then Inl (Invalid_Argument ''expression must be non-empty'')
      else Inr (case frame_number of
                  None \<Rightarrow> expression
                | Some f \<Rightarrow> ''.frame '' @ dec (unat f) @ '';'' @ expression))"

definition evaluate_in_frame ::
    "'e target \<Rightarrow> frame_context \<Rightarrow> bool \<Rightarrow> string \<Rightarrow> ('e session, string) act" where
  "evaluate_in_frame L context prefer_expression expression =
     on_thread (base L) (fc_thread_id context)
       (act_bind
          (if prefer_expression
           then act_catch
                  (act_bind (get_local_value (base L) (inspector_of L) (fc_frame_number context) expression)
                     (\<lambda>node. ret (Some (vn_value node))))
                  (\<lambda>e. ret None)
           else ret None)
          (\<lambda>resolved.
             case resolved of
               Some v \<Rightarrow> ret v
             | None \<Rightarrow>
                 (case create_evaluate_command expression (Some (fc_frame_number context)) of
                    Inl e \<Rightarrow> raise e
                  | Inr command \<Rightarrow> execute_command_with_output (base L) command True)))"

definition evaluate_body :: "string \<Rightarrow> response_body" where
  "evaluate_body result = Evaluate_Body (if result = [] \<or> is_blank result then ''(no output)'' else result) 0"

text \<open>The part of the handler behind the argument checks and the frame lookup.\<close>

definition evaluate_checked ::
    "'e target \<Rightarrow> int \<Rightarrow> string \<Rightarrow> evaluate_arguments \<Rightarrow> frame_context option \<Rightarrow> ('e server, unit) wact" where
  "evaluate_checked L request_seq command a context =
     (if ea_context a = Some Hover_Context then now (send_response request_seq command (Evaluate_Body [] 0))
      else w_bind (w_get is_execution_running) (\<lambda>running.
        if running
        then now (send_error_response request_seq command
               ''The debuggee is currently running. Wait until execution stops before evaluating commands.'')
        else if is_execution_control_command (ea_expression a)
        then now (send_error_response request_seq command
               (''Execution-control WinDbg commands are not supported in evaluate. Use the DAP continue ''
                  @ ''and stepping requests instead.''))
        else w_then (now require_debugger_session)
          (respond_or_report request_seq command
             (invoke_session L
                (case context of
                   None \<Rightarrow> execute_command_with_output (base L) (ea_expression a) True
                 | Some c \<Rightarrow> evaluate_in_frame L c
                     (ea_context a = Some Watch_Context \<or> ea_context a = Some Clipboard_Context) (ea_expression a)))
             evaluate_body)))"

definition handle_evaluate_request ::
    "'e target \<Rightarrow> int \<Rightarrow> string \<Rightarrow> evaluate_arguments \<Rightarrow> ('e server, unit) wact" where
  "handle_evaluate_request L request_seq command a =
     (if ea_expression a = [] \<or> is_blank (ea_expression a)
      then now (send_error_response request_seq command ''The evaluate request requires a non-empty expression.'')
      else if ea_column a \<noteq> None \<and> ea_line a = None
      then now (send_error_response request_seq command ''The evaluate request requires line when column is provided.'')
      else if ea_line a \<noteq> None \<and> \<not> ea_has_source a
      then now (send_error_response request_seq command ''The evaluate request requires source when line is provided.'')
      else case ea_frame_id a of
        None \<Rightarrow> evaluate_checked L request_seq command a None
      | Some frame_id \<Rightarrow>
          if frame_id \<le> 0
          then now (send_error_response request_seq command
                 ''The evaluate request requires a positive frameId when frameId is provided.'')
          else w_bind (w_get (\<lambda>s. frame_contexts s frame_id)) (\<lambda>found.
            case found of
              None \<Rightarrow> now (send_error_response request_seq command (unknown_frame_message frame_id))
            | Some context \<Rightarrow> evaluate_checked L request_seq command a (Some context)))"

section \<open>Data breakpoint info\<close>

text \<open>Where the request points: frame number, thread id and expression, or the error to report.\<close>

definition data_breakpoint_target ::
    "string \<Rightarrow> int option \<Rightarrow> int option \<Rightarrow> 'e server \<Rightarrow> string + u32 \<times> int \<times> string" where
  "data_breakpoint_target name variables_reference frame_id s =
     (case variables_reference of
        Some r \<Rightarrow>
          (case variables_by_reference s r of
             None \<Rightarrow> Inl (unknown_reference_message r)
           | Some c \<Rightarrow>
               Inr (vc_frame_number c, vc_thread_id c,
                    case find (\<lambda>x. var_name x = name \<and> var_evaluate_name x \<noteq> None) (vc_variables c) of
                      None \<Rightarrow> name
                    | Some x \<Rightarrow> the (var_evaluate_name x)))
      | None \<Rightarrow>
          (case frame_id of
             Some i \<Rightarrow>
               (case frame_contexts s i of
                  None \<Rightarrow> Inl (unknown_frame_message i)
                | Some c \<Rightarrow> Inr (fc_frame_number c, fc_thread_id c, name))
           | None \<Rightarrow> Inl ''The dataBreakpointInfo request requires a variablesReference or a frameId.''))"

definition data_id :: "u64 \<Rightarrow> u32 \<Rightarrow> string" where
  "data_id address n = ''0x'' @ hex_lower (unat address) @ '':'' @ dec (unat n)"

definition watch_size :: "u32 \<Rightarrow> u32" where
  "watch_size n = (if n \<noteq> 1 \<and> n \<noteq> 2 \<and> n \<noteq> 4 \<and> n \<noteq> 8 then 8 else n)"

definition data_info_body :: "string \<Rightarrow> u64 \<times> u32 \<Rightarrow> response_body" where
  "data_info_body expression location =
     (let n = watch_size (snd location)
      in Data_Info_Body (data_id (fst location) n)
           (expression @ '' ('' @ dec (unat n) @ '' bytes at 0x'' @ hex_lower (unat (fst location)) @ '')''))"

definition handle_data_breakpoint_info_request ::
    "'e target \<Rightarrow> int \<Rightarrow> string \<Rightarrow> string \<Rightarrow> int option \<Rightarrow> int option \<Rightarrow> ('e server, unit) wact" where
  "handle_data_breakpoint_info_request L request_seq command name variables_reference frame_id =
     (if is_blank name
      then now (send_error_response request_seq command ''The dataBreakpointInfo request requires a non-empty name.'')
      else w_bind (w_get (data_breakpoint_target name variables_reference frame_id)) (\<lambda>found.
        case found of
          Inl m \<Rightarrow> now (send_error_response request_seq command m)
        | Inr (frame_number, thread_id, expression) \<Rightarrow>
            with_session request_seq command ''dataBreakpointInfo''
              (respond_or_report request_seq command
                 (invoke_session L (on_thread (base L) thread_id
                    (get_symbol_address (base L) (inspector_of L) frame_number expression)))
                 (data_info_body expression))))"

section \<open>Memory\<close>

text \<open>The address of a memory request: the reference, moved by the offset.\<close>

definition memory_reference_error :: "string \<Rightarrow> string \<Rightarrow> string" where
  "memory_reference_error request_name reference =
     ''The '' @ request_name @ '' request '' @ quoted ''memoryReference'' @ '' value '' @ quoted reference
       @ '' is not a valid address.''"

definition memory_offset_error :: "string \<Rightarrow> string" where
  "memory_offset_error request_name =
     ''The '' @ request_name @ '' request '' @ quoted ''offset''
       @ '' moves the address outside the 64-bit address space.''"

definition parse_reference :: "string \<Rightarrow> u64 option" where
  "parse_reference reference = (if is_blank reference then None else try_parse_memory_reference reference)"

definition session_read_memory :: "'e target \<Rightarrow> u64 \<Rightarrow> u32 \<Rightarrow> ('e session, u8 list) act" where
  "session_read_memory L address count x =
     (read_memory (insp_view (inspector_of L) (eng x)) (sess_disposed x) address count, x)"

definition memory_body :: "u64 \<Rightarrow> int \<Rightarrow> u8 list \<Rightarrow> response_body" where
  "memory_body address count bytes =
     Memory_Body (''0x'' @ hex_lower (unat address)) (base64_encode bytes)
       (if int (length bytes) < count then Some (count - int (length bytes)) else None)"

definition unless_running ::
    "int \<Rightarrow> string \<Rightarrow> string \<Rightarrow> ('e server, unit) wact \<Rightarrow> ('e server, unit) wact" where
  "unless_running request_seq command m n =
     w_bind (w_get is_execution_running) (\<lambda>running.
       if running then now (send_error_response request_seq command m) else n)"

definition handle_read_memory_request ::
    "'e target \<Rightarrow> int \<Rightarrow> string \<Rightarrow> string \<Rightarrow> int \<Rightarrow> int option \<Rightarrow> ('e server, unit) wact" where
  "handle_read_memory_request L request_seq command reference count offset =
     (case parse_reference reference of
        None \<Rightarrow> now (send_error_response request_seq command (memory_reference_error ''readMemory'' reference))
      | Some address \<Rightarrow>
          if count < 0 \<or> count > 16777216
          then now (send_error_response request_seq command
                 (''The readMemory request '' @ quoted ''count'' @ '' must be between 0 and 16 MiB.''))
          else (case try_apply_byte_offset address (of_int (case offset of None \<Rightarrow> 0 | Some n \<Rightarrow> n)) of
                  None \<Rightarrow> now (send_error_response request_seq command (memory_offset_error ''readMemory''))
                | Some moved \<Rightarrow>
                    unless_running request_seq command
                      ''The debuggee is currently running. Wait until execution stops before reading memory.''
                      (with_session request_seq command ''readMemory''
                         (respond_or_report request_seq command
                            (read_session_data_or_default
                               (invoke_session L (session_read_memory L moved (of_int count))) [])
                            (memory_body moved count)))))"

definition handle_write_memory_request ::
    "'e target \<Rightarrow> int \<Rightarrow> string \<Rightarrow> string \<Rightarrow> string \<Rightarrow> int option \<Rightarrow> ('e server, unit) wact" where
  "handle_write_memory_request L request_seq command reference data offset =
     (case parse_reference reference of
        None \<Rightarrow> now (send_error_response request_seq command (memory_reference_error ''writeMemory'' reference))
      | Some address \<Rightarrow>
          (case try_base64_decode data of
             None \<Rightarrow> now (send_error_response request_seq command
                       (''The writeMemory request '' @ quoted ''data'' @ '' value is not valid base64.''))
           | Some bytes \<Rightarrow>
               (case try_apply_byte_offset address (of_int (case offset of None \<Rightarrow> 0 | Some n \<Rightarrow> n)) of
                  None \<Rightarrow> now (send_error_response request_seq command (memory_offset_error ''writeMemory''))
                | Some moved \<Rightarrow>
                    unless_running request_seq command
                      ''The debuggee is currently running. Wait until execution stops before writing memory.''
                      (with_session request_seq command ''writeMemory''
                         (respond_or_report request_seq command
                            (w_then (now require_debugger_session)
                               (invoke_session L (write_memory (base L) moved bytes)))
                            (\<lambda>written. Write_Body (uint written)))))))"

section \<open>Disassembly\<close>

record disassemble_arguments =
  da_memory_reference :: string
  da_offset :: "int option"
  da_instruction_offset :: "int option"
  da_instruction_count :: int
  da_resolve_symbols :: "bool option"

definition try_read_disassemble_arguments :: "disassemble_arguments \<Rightarrow> string + u64 \<times> int \<times> int \<times> bool" where
  "try_read_disassemble_arguments a =
     (if is_blank (da_memory_reference a)
      then Inl (''The disassemble request requires a non-empty '' @ quoted ''memoryReference'' @ ''.'')
      else if da_instruction_count a < 0 \<or> da_instruction_count a > int_max
      then Inl (''The disassemble request requires an '' @ quoted ''instructionCount''
                  @ '' that fits in a 32-bit integer and is not negative.'')
      else if (case da_instruction_offset a of None \<Rightarrow> False | Some n \<Rightarrow> n < int_min \<or> n > int_max)
      then Inl (''The disassemble request '' @ quoted ''instructionOffset'' @ '' must fit in a 32-bit integer.'')
      else case try_parse_memory_reference (da_memory_reference a) of
             None \<Rightarrow> Inl (memory_reference_error ''disassemble'' (da_memory_reference a))
           | Some address \<Rightarrow>
               (case try_apply_byte_offset address (of_int (case da_offset a of None \<Rightarrow> 0 | Some n \<Rightarrow> n)) of
                  None \<Rightarrow> Inl ''The disassemble request offset moves the target address out of range.''
                | Some adjusted \<Rightarrow>
                    Inr (adjusted, (case da_instruction_offset a of None \<Rightarrow> 0 | Some n \<Rightarrow> n),
                         da_instruction_count a, (case da_resolve_symbols a of None \<Rightarrow> False | Some b \<Rightarrow> b))))"

definition session_disassemble ::
    "'e target \<Rightarrow> u64 \<Rightarrow> int \<Rightarrow> int \<Rightarrow> bool \<Rightarrow> ('e session, disassembled_instruction_info list) act" where
  "session_disassemble L address instruction_offset instruction_count resolve_symbols x =
     (disassemble (insp_view (inspector_of L) (eng x)) (sess_disposed x) address instruction_offset
        instruction_count resolve_symbols, x)"

text \<open>The current frame's source is attached to the instruction it stands at, and to the first one otherwise.\<close>

definition locate_instructions ::
    "stack_frame_info option \<Rightarrow> disassembled_instruction_info list \<Rightarrow> dap_instruction list" where
  "locate_instructions current_frame instructions =
     (case current_frame of
        None \<Rightarrow> map create_disassembled_instruction instructions
      | Some f \<Rightarrow>
          (case sf_source f of
             None \<Rightarrow> map create_disassembled_instruction instructions
           | Some source \<Rightarrow>
               (let located = map (\<lambda>i. if di_address i = sf_instruction_offset f then i\<lparr>di_source := Some source\<rparr> else i)
                                instructions
                in case map create_disassembled_instruction located of
                     [] \<Rightarrow> []
                   | d # ds \<Rightarrow>
                       (if dx_location d = None
                        then d\<lparr>dx_location := Some \<lparr>ds_name = file_name (sl_path source), ds_path = sl_path source\<rparr>\<rparr>
                        else d) # ds)))"

definition handle_disassemble_request ::
    "'e target \<Rightarrow> int \<Rightarrow> string \<Rightarrow> disassemble_arguments \<Rightarrow> ('e server, unit) wact" where
  "handle_disassemble_request L request_seq command a =
     (case try_read_disassemble_arguments a of
        Inl m \<Rightarrow> now (send_error_response request_seq command m)
      | Inr (address, instruction_offset, instruction_count, resolve_symbols) \<Rightarrow>
          unless_running request_seq command
            ''The debuggee is currently running. Wait until execution stops before disassembling code.''
            (with_session request_seq command ''disassemble''
               (respond_or_report request_seq command
                  (w_bind
                     (read_session_data_or_default
                        (invoke_session L
                           (session_disassemble L address instruction_offset instruction_count resolve_symbols)) [])
                     (\<lambda>instructions.
                        w_bind
                          (read_session_data_or_default
                             (w_bind (invoke_session L (get_stack_trace (inspector_of L) 1))
                                (\<lambda>fs. w_ret (case fs of [] \<Rightarrow> None | f # rest \<Rightarrow> Some f))) None)
                          (\<lambda>current_frame. w_ret (locate_instructions current_frame instructions))))
                  Disassemble_Body)))"

section \<open>Modules and sources\<close>

definition create_module :: "module_info \<Rightarrow> dap_module" where
  "create_module i =
     \<lparr>mod_id = ''0x'' @ hex_lower (unat (mi_base i)), mod_name = mi_name i, mod_path = mi_image_path i,
      mod_symbol_status = mi_symbol_status i,
      mod_address_range = ''0x'' @ hex_lower (unat (mi_base i)) @ ''-0x''
        @ hex_lower (unat (mi_base i + ucast (mi_size i)))\<rparr>"

definition handle_modules_request ::
    "'e target \<Rightarrow> int \<Rightarrow> string \<Rightarrow> int option \<Rightarrow> int option \<Rightarrow> ('e server, unit) wact" where
  "handle_modules_request L request_seq command start_module module_count =
     (let start = (case start_module of None \<Rightarrow> 0 | Some n \<Rightarrow> n);
          count = (case module_count of None \<Rightarrow> 0 | Some n \<Rightarrow> n)
      in if start < 0 \<or> count < 0
         then now (send_error_response request_seq command
                ''The modules request requires non-negative startModule and moduleCount.'')
         else unless_running request_seq command
           ''The debuggee is currently running. The module list is only available while stopped.''
           (with_session request_seq command ''modules''
              (respond_or_report request_seq command
                 (read_session_data_or_default (invoke_session L (get_modules (inspector_of L))) [])
                 (\<lambda>ms. Modules_Body (map create_module (copy_window start count ms)) (int (length ms))))))"

definition handle_source_request :: "'e target \<Rightarrow> int \<Rightarrow> string \<Rightarrow> string option \<Rightarrow> ('e server, unit) wact" where
  "handle_source_request L request_seq command path =
     (case path of
        None \<Rightarrow> now (send_error_response request_seq command
                  ''Source content is unavailable: the source has no path to read.'')
      | Some p \<Rightarrow>
          if is_blank p
          then now (send_error_response request_seq command
                 ''Source content is unavailable: the source has no path to read.'')
          else (case read_file_of L p of
                  None \<Rightarrow> now (send_error_response request_seq command
                            (''Could not open source file '' @ quoted p @ ''.''))
                | Some content \<Rightarrow> now (send_response request_seq command (Source_Body content))))"

section \<open>The response contract of the handlers\<close>

lemma answers_unless_running [answer_rules]: "answers q c n \<Longrightarrow> answers q c (unless_running q c m n)"
  unfolding unless_running_def by (intro answer_rules)

lemma answers_evaluate [answer_rules]: "answers q c (handle_evaluate_request L q c a)"
proof -
  have "answers q c (evaluate_checked L q c a x)" for x
    unfolding evaluate_checked_def by (intro answer_rules)
  then show ?thesis
    unfolding handle_evaluate_request_def by (auto split: option.split intro!: answer_rules)
qed

lemma answers_data_info [answer_rules]: "answers q c (handle_data_breakpoint_info_request L q c n r f)"
  unfolding handle_data_breakpoint_info_request_def by (auto split: sum.split intro!: answer_rules)

lemma answers_memory [answer_rules]:
  "answers q c (handle_read_memory_request L q c r n i)" "answers q c (handle_write_memory_request L q c r d i)"
  "answers q c (handle_disassemble_request L q c a)" "answers q c (handle_modules_request L q c sm mc)"
  "answers q c (handle_source_request L q c p)"
  unfolding handle_read_memory_request_def handle_write_memory_request_def handle_disassemble_request_def
    handle_modules_request_def handle_source_request_def Let_def
  by (auto split: option.split sum.split intro!: answer_rules)

section \<open>The exceptions that leave the handlers\<close>

lemma tame_evaluate [tame_rules]: "tame (handle_evaluate_request L q c a)"
proof -
  have "tame (evaluate_checked L q c a x)" for x
    unfolding evaluate_checked_def by (intro tame_rules)
  then show ?thesis
    unfolding handle_evaluate_request_def by (auto split: option.split intro!: tame_rules)
qed

lemma tame_unless_running [tame_rules]: "tame n \<Longrightarrow> tame (unless_running q c m n)"
  unfolding unless_running_def by (intro tame_rules)

lemma tame_memory [tame_rules]:
  "tame (handle_data_breakpoint_info_request L q c name r f)"
  "tame (handle_read_memory_request L q c x n i)" "tame (handle_write_memory_request L q c x d i)"
  "tame (handle_disassemble_request L q c a)" "tame (handle_modules_request L q c sm mc)"
  "tame (handle_source_request L q c p)"
  unfolding handle_data_breakpoint_info_request_def handle_read_memory_request_def handle_write_memory_request_def
    handle_disassemble_request_def handle_modules_request_def handle_source_request_def Let_def
  by (auto split: option.split sum.split intro!: tame_rules)

end
