(* ===== verification/Requests.thy ===== *)
theory Requests
  imports Protocol Server_Memory
begin

text \<open>
  One conversion per request of the protocol (src/src/protocol/protocol.h): the arguments as the
  handlers take them, and the envelope of a request.  Requests without a handler are converted
  before they are rejected, so their conversions are here, too.
\<close>

section \<open>The envelope\<close>

text \<open>Absent or null arguments keep their defaults, which is what an object without fields gives.\<close>

definition request_from_json ::
    "(string \<Rightarrow> int) \<Rightarrow> json \<Rightarrow> string \<Rightarrow> (json \<Rightarrow> string + 'a) \<Rightarrow> string + int \<times> string \<times> 'a" where
  "request_from_json tr m command_name arguments =
     r_bind (field_or m ''seq'' (get_int tr) 0) (\<lambda>seq.
       r_bind (field m ''type'' (get_enum ''ProtocolMessageType'' (enum_names [''request'', ''response'', ''event'']))) (\<lambda>t.
         r_bind (field_or m ''command'' get_string command_name) (\<lambda>command.
           r_bind (arguments (case find_key m ''arguments'' of None \<Rightarrow> J_Null | Some a \<Rightarrow> a)) (\<lambda>a.
             Inr (seq, command, a)))))"

section \<open>Arguments of the handled requests\<close>

definition no_arguments_from_json :: "json \<Rightarrow> string + unit" where
  "no_arguments_from_json j = Inr ()"

definition initialize_arguments_from_json :: "json \<Rightarrow> string + unit" where
  "initialize_arguments_from_json j =
     check_fields j
       (strings [''clientID'', ''clientName'', ''adapterID'', ''locale'']
        @ booleans [''linesStartAt1'', ''columnsStartAt1'']
        @ [(''pathFormat'', get_enum ''InitializeRequestArgumentsPathFormat'' (enum_names [''path'', ''uri'']))]
        @ booleans [''supportsVariableType'', ''supportsVariablePaging'', ''supportsRunInTerminalRequest'',
                    ''supportsMemoryReferences'', ''supportsProgressReporting'', ''supportsInvalidatedEvent'',
                    ''supportsMemoryEvent'', ''supportsArgsCanBeInterpretedByShell'',
                    ''supportsStartDebuggingRequest'', ''supportsANSIStyling''])"

definition launch_arguments_from_json :: "json \<Rightarrow> string + unit" where
  "launch_arguments_from_json j = check_fields j (booleans [''noDebug''])"

definition continue_arguments_from_json :: "(string \<Rightarrow> int) \<Rightarrow> json \<Rightarrow> string + int \<times> bool option" where
  "continue_arguments_from_json tr j =
     r_bind (field_or j ''threadId'' (get_int tr) 0) (\<lambda>thread_id.
       r_bind (field j ''singleThread'' get_bool) (\<lambda>single_thread. Inr (thread_id, single_thread)))"

definition step_arguments_from_json ::
    "(string \<Rightarrow> int) \<Rightarrow> json \<Rightarrow> string + int \<times> bool option \<times> stepping_granularity option" where
  "step_arguments_from_json tr j =
     r_bind (field_or j ''threadId'' (get_int tr) 0) (\<lambda>thread_id.
       r_bind (field j ''singleThread'' get_bool) (\<lambda>single_thread.
         r_bind (field j ''granularity'' stepping_granularity_from_json) (\<lambda>granularity.
           Inr (thread_id, single_thread, granularity))))"

definition step_in_arguments_from_json ::
    "(string \<Rightarrow> int) \<Rightarrow> json \<Rightarrow> string + int \<times> bool option \<times> int option \<times> stepping_granularity option" where
  "step_in_arguments_from_json tr j =
     r_bind (field_or j ''threadId'' (get_int tr) 0) (\<lambda>thread_id.
       r_bind (field j ''singleThread'' get_bool) (\<lambda>single_thread.
         r_bind (field j ''targetId'' (get_int tr)) (\<lambda>target_id.
           r_bind (field j ''granularity'' stepping_granularity_from_json) (\<lambda>granularity.
             Inr (thread_id, single_thread, target_id, granularity)))))"

definition thread_arguments_from_json :: "(string \<Rightarrow> int) \<Rightarrow> json \<Rightarrow> string + int" where
  "thread_arguments_from_json tr j = field_or j ''threadId'' (get_int tr) 0"

definition terminate_arguments_from_json :: "json \<Rightarrow> string + unit" where
  "terminate_arguments_from_json j = check_fields j (booleans [''restart''])"

definition disconnect_arguments_from_json :: "json \<Rightarrow> string + bool option" where
  "disconnect_arguments_from_json j =
     r_bind (field j ''restart'' get_bool) (\<lambda>restart.
       r_bind (field j ''terminateDebuggee'' get_bool) (\<lambda>terminate_debuggee.
         r_bind (field j ''suspendDebuggee'' get_bool) (\<lambda>suspend_debuggee. Inr terminate_debuggee)))"

definition set_breakpoints_arguments_from_json ::
    "(string \<Rightarrow> int) \<Rightarrow> json \<Rightarrow> string + set_breakpoints_arguments" where
  "set_breakpoints_arguments_from_json tr j =
     r_bind (field_or j ''source'' (source_from_json tr) no_source) (\<lambda>source.
       r_bind (field j ''breakpoints'' (get_vector (source_breakpoint_from_json tr))) (\<lambda>breakpoints.
         r_bind (field j ''lines'' (get_vector (get_int64 tr))) (\<lambda>lines.
           r_bind (field j ''sourceModified'' get_bool) (\<lambda>modified.
             Inr \<lparr>sb_source = source, sb_breakpoints = breakpoints, sb_lines = lines\<rparr>))))"

definition set_function_breakpoints_arguments_from_json :: "json \<Rightarrow> string + string list" where
  "set_function_breakpoints_arguments_from_json j =
     field_or j ''breakpoints'' (get_vector function_breakpoint_from_json) []"

definition set_instruction_breakpoints_arguments_from_json ::
    "(string \<Rightarrow> int) \<Rightarrow> json \<Rightarrow> string + (string \<times> int option) list" where
  "set_instruction_breakpoints_arguments_from_json tr j =
     field_or j ''breakpoints'' (get_vector (instruction_breakpoint_from_json tr)) []"

definition set_data_breakpoints_arguments_from_json :: "json \<Rightarrow> string + (string \<times> data_access option) list" where
  "set_data_breakpoints_arguments_from_json j =
     field_or j ''breakpoints'' (get_vector data_breakpoint_from_json) []"

definition set_exception_breakpoints_arguments_from_json :: "json \<Rightarrow> string + string list" where
  "set_exception_breakpoints_arguments_from_json j =
     r_bind (field_or j ''filters'' (get_vector get_string) []) (\<lambda>filters.
       r_bind (check_fields j
                 [(''filterOptions'', only_check (get_vector exception_filter_options_from_json)),
                  (''exceptionOptions'', only_check (get_vector exception_options_from_json))]) (\<lambda>u. Inr filters))"

definition data_breakpoint_info_arguments_from_json ::
    "(string \<Rightarrow> int) \<Rightarrow> json \<Rightarrow> string + string \<times> int option \<times> int option" where
  "data_breakpoint_info_arguments_from_json tr j =
     r_bind (field j ''variablesReference'' (get_int tr)) (\<lambda>variables_reference.
       r_bind (field_or j ''name'' get_string []) (\<lambda>name.
         r_bind (field j ''frameId'' (get_int tr)) (\<lambda>frame_id.
           r_bind (check_fields j (long_integers tr [''bytes''] @ booleans [''asAddress''] @ strings [''mode''])) (\<lambda>u.
             Inr (name, variables_reference, frame_id)))))"

definition stack_trace_arguments_from_json ::
    "(string \<Rightarrow> int) \<Rightarrow> json \<Rightarrow> string + int \<times> int option \<times> int option" where
  "stack_trace_arguments_from_json tr j =
     r_bind (field_or j ''threadId'' (get_int tr) 0) (\<lambda>thread_id.
       r_bind (field j ''startFrame'' (get_int64 tr)) (\<lambda>start.
         r_bind (field j ''levels'' (get_int64 tr)) (\<lambda>levels_argument.
           r_bind (field j ''format'' stack_frame_format_from_json) (\<lambda>u.
             Inr (thread_id, start, levels_argument)))))"

definition scopes_arguments_from_json :: "(string \<Rightarrow> int) \<Rightarrow> json \<Rightarrow> string + int" where
  "scopes_arguments_from_json tr j = field_or j ''frameId'' (get_int tr) 0"

text \<open>The filter matters only by whether it asks for indexed children.\<close>

definition variables_arguments_from_json ::
    "(string \<Rightarrow> int) \<Rightarrow> json \<Rightarrow> string + int \<times> bool \<times> int option \<times> int option" where
  "variables_arguments_from_json tr j =
     r_bind (field_or j ''variablesReference'' (get_int tr) 0) (\<lambda>variables_reference.
       r_bind (field_or j ''filter''
                 (get_enum ''VariablesArgumentsFilter'' [(''indexed'', True), (''named'', False)]) False) (\<lambda>indexed_only.
         r_bind (field j ''start'' (get_int64 tr)) (\<lambda>start.
           r_bind (field j ''count'' (get_int64 tr)) (\<lambda>count.
             r_bind (field j ''format'' value_format_from_json) (\<lambda>u.
               Inr (variables_reference, indexed_only, start, count))))))"

definition set_variable_arguments_from_json :: "(string \<Rightarrow> int) \<Rightarrow> json \<Rightarrow> string + int \<times> string \<times> string" where
  "set_variable_arguments_from_json tr j =
     r_bind (field_or j ''variablesReference'' (get_int tr) 0) (\<lambda>variables_reference.
       r_bind (field_or j ''name'' get_string []) (\<lambda>name.
         r_bind (field_or j ''value'' get_string []) (\<lambda>v.
           r_bind (field j ''format'' value_format_from_json) (\<lambda>u. Inr (variables_reference, name, v)))))"

definition set_expression_arguments_from_json ::
    "(string \<Rightarrow> int) \<Rightarrow> json \<Rightarrow> string + string \<times> string \<times> int option" where
  "set_expression_arguments_from_json tr j =
     r_bind (field_or j ''expression'' get_string []) (\<lambda>expression.
       r_bind (field_or j ''value'' get_string []) (\<lambda>v.
         r_bind (field j ''frameId'' (get_int tr)) (\<lambda>frame_id.
           r_bind (field j ''format'' value_format_from_json) (\<lambda>u. Inr (expression, v, frame_id)))))"

definition evaluate_arguments_from_json :: "(string \<Rightarrow> int) \<Rightarrow> json \<Rightarrow> string + evaluate_arguments" where
  "evaluate_arguments_from_json tr j =
     r_bind (field_or j ''expression'' get_string []) (\<lambda>expression.
       r_bind (field j ''frameId'' (get_int tr)) (\<lambda>frame_id.
         r_bind (field j ''line'' (get_int64 tr)) (\<lambda>line.
           r_bind (field j ''column'' (get_int64 tr)) (\<lambda>column.
             r_bind (field j ''source'' (source_from_json tr)) (\<lambda>source.
               r_bind (field j ''context'' (get_enum ''EvaluateArgumentsContext''
                         [(''watch'', Watch_Context), (''repl'', Repl_Context), (''hover'', Hover_Context),
                          (''clipboard'', Clipboard_Context), (''variables'', Variables_Context)])) (\<lambda>context.
                 r_bind (field j ''format'' value_format_from_json) (\<lambda>u.
                   Inr \<lparr>ea_expression = expression, ea_frame_id = frame_id, ea_context = context,
                        ea_has_source = (source \<noteq> None), ea_line = line, ea_column = column\<rparr>)))))))"

definition read_memory_arguments_from_json ::
    "(string \<Rightarrow> int) \<Rightarrow> json \<Rightarrow> string + string \<times> int option \<times> int" where
  "read_memory_arguments_from_json tr j =
     r_bind (field_or j ''memoryReference'' get_string []) (\<lambda>reference.
       r_bind (field j ''offset'' (get_int64 tr)) (\<lambda>offset.
         r_bind (field_or j ''count'' (get_int64 tr) 0) (\<lambda>count. Inr (reference, offset, count))))"

definition write_memory_arguments_from_json ::
    "(string \<Rightarrow> int) \<Rightarrow> json \<Rightarrow> string + string \<times> int option \<times> string" where
  "write_memory_arguments_from_json tr j =
     r_bind (field_or j ''memoryReference'' get_string []) (\<lambda>reference.
       r_bind (field j ''offset'' (get_int64 tr)) (\<lambda>offset.
         r_bind (field j ''allowPartial'' get_bool) (\<lambda>partial.
           r_bind (field_or j ''data'' get_string []) (\<lambda>data. Inr (reference, offset, data)))))"

definition disassemble_arguments_from_json :: "(string \<Rightarrow> int) \<Rightarrow> json \<Rightarrow> string + disassemble_arguments" where
  "disassemble_arguments_from_json tr j =
     r_bind (field_or j ''memoryReference'' get_string []) (\<lambda>reference.
       r_bind (field j ''offset'' (get_int64 tr)) (\<lambda>offset.
         r_bind (field j ''instructionOffset'' (get_int64 tr)) (\<lambda>instruction_offset.
           r_bind (field_or j ''instructionCount'' (get_int64 tr) 0) (\<lambda>instruction_count.
             r_bind (field j ''resolveSymbols'' get_bool) (\<lambda>resolve_symbols.
               Inr \<lparr>da_memory_reference = reference, da_offset = offset, da_instruction_offset = instruction_offset,
                    da_instruction_count = instruction_count, da_resolve_symbols = resolve_symbols\<rparr>)))))"

definition modules_arguments_from_json :: "(string \<Rightarrow> int) \<Rightarrow> json \<Rightarrow> string + int option \<times> int option" where
  "modules_arguments_from_json tr j =
     r_bind (field j ''startModule'' (get_int tr)) (\<lambda>start.
       r_bind (field j ''moduleCount'' (get_int64 tr)) (\<lambda>count. Inr (start, count)))"

definition source_arguments_from_json :: "(string \<Rightarrow> int) \<Rightarrow> json \<Rightarrow> string + string option" where
  "source_arguments_from_json tr j =
     r_bind (field j ''source'' (source_from_json tr)) (\<lambda>source.
       r_bind (field_or j ''sourceReference'' (get_int tr) 0) (\<lambda>reference.
         Inr (case source of None \<Rightarrow> None | Some s \<Rightarrow> rs_path s)))"

section \<open>Arguments of the requests without a handler\<close>

text \<open>The environment of a \<open>runInTerminal\<close> request: an object whose values are strings.\<close>

fun get_string_map :: "json \<Rightarrow> string + unit" where
  "get_string_map (J_Object kvs) = only_check (read_all_of (get_string \<circ> snd)) kvs"
| "get_string_map j = Inl (type_error ''object'' j)"

definition run_in_terminal_kind_from_json :: "json \<Rightarrow> string + unit" where
  "run_in_terminal_kind_from_json =
     get_enum ''RunInTerminalRequestArgumentsKind'' (enum_names [''integrated'', ''external''])"

definition start_debugging_presentation_from_json :: "json \<Rightarrow> string + unit" where
  "start_debugging_presentation_from_json =
     get_enum ''StartDebuggingRequestArgumentsOutputPresentation'' (enum_names [''separate'', ''mergeWithParent''])"

definition start_debugging_request_kind_from_json :: "json \<Rightarrow> string + unit" where
  "start_debugging_request_kind_from_json =
     get_enum ''StartDebuggingRequestArgumentsRequest'' (enum_names [''launch'', ''attach''])"

definition breakpoint_locations_arguments_from_json :: "(string \<Rightarrow> int) \<Rightarrow> json \<Rightarrow> string + unit" where
  "breakpoint_locations_arguments_from_json tr j =
     check_fields j
       ((''source'', only_check (source_from_json tr)) # long_integers tr [''line'', ''column'', ''endLine'', ''endColumn''])"

definition cancel_arguments_from_json :: "(string \<Rightarrow> int) \<Rightarrow> json \<Rightarrow> string + unit" where
  "cancel_arguments_from_json tr j =
     check_fields j (integers tr [''requestId''] @ strings [''progressId''])"

definition completions_arguments_from_json :: "(string \<Rightarrow> int) \<Rightarrow> json \<Rightarrow> string + unit" where
  "completions_arguments_from_json tr j =
     check_fields j (integers tr [''frameId''] @ strings [''text''] @ long_integers tr [''column'', ''line''])"

definition goto_arguments_from_json :: "(string \<Rightarrow> int) \<Rightarrow> json \<Rightarrow> string + unit" where
  "goto_arguments_from_json tr j = check_fields j (integers tr [''threadId'', ''targetId''])"

definition goto_targets_arguments_from_json :: "(string \<Rightarrow> int) \<Rightarrow> json \<Rightarrow> string + unit" where
  "goto_targets_arguments_from_json tr j =
     check_fields j ((''source'', only_check (source_from_json tr)) # long_integers tr [''line'', ''column''])"

definition locations_arguments_from_json :: "(string \<Rightarrow> int) \<Rightarrow> json \<Rightarrow> string + unit" where
  "locations_arguments_from_json tr j = check_fields j (integers tr [''locationReference''])"

definition restart_frame_arguments_from_json :: "(string \<Rightarrow> int) \<Rightarrow> json \<Rightarrow> string + unit" where
  "restart_frame_arguments_from_json tr j = check_fields j (integers tr [''frameId''])"

definition reverse_continue_arguments_from_json :: "(string \<Rightarrow> int) \<Rightarrow> json \<Rightarrow> string + unit" where
  "reverse_continue_arguments_from_json tr j =
     check_fields j (integers tr [''threadId''] @ booleans [''singleThread''])"

definition run_in_terminal_arguments_from_json :: "json \<Rightarrow> string + unit" where
  "run_in_terminal_arguments_from_json j =
     check_fields j
       ((''kind'', run_in_terminal_kind_from_json) # strings [''title'', ''cwd'']
        @ [(''args'', only_check (get_vector get_string)), (''env'', get_string_map)]
        @ booleans [''argsCanBeInterpretedByShell''])"

definition start_debugging_arguments_from_json :: "json \<Rightarrow> string + unit" where
  "start_debugging_arguments_from_json j =
     check_fields j
       [(''configuration'', \<lambda>c. if is_object c then Inr () else Inl (type_error ''object'' c)),
        (''outputPresentation'', start_debugging_presentation_from_json),
        (''request'', start_debugging_request_kind_from_json)]"

definition step_back_arguments_from_json :: "(string \<Rightarrow> int) \<Rightarrow> json \<Rightarrow> string + unit" where
  "step_back_arguments_from_json tr j = only_check (step_arguments_from_json tr) j"

definition step_in_targets_arguments_from_json :: "(string \<Rightarrow> int) \<Rightarrow> json \<Rightarrow> string + unit" where
  "step_in_targets_arguments_from_json tr j = check_fields j (integers tr [''frameId''])"

definition terminate_threads_arguments_from_json :: "(string \<Rightarrow> int) \<Rightarrow> json \<Rightarrow> string + unit" where
  "terminate_threads_arguments_from_json tr j =
     check_fields j [(''threadIds'', only_check (get_vector (get_int tr)))]"

definition unhandled_requests ::
    "(string \<Rightarrow> int) \<Rightarrow> (string \<times> (json \<Rightarrow> string + unit)) list" where
  "unhandled_requests tr =
     [(''breakpointLocations'', breakpoint_locations_arguments_from_json tr),
      (''cancel'', cancel_arguments_from_json tr),
      (''completions'', completions_arguments_from_json tr), (''goto'', goto_arguments_from_json tr),
      (''gotoTargets'', goto_targets_arguments_from_json tr),
      (''loadedSources'', no_arguments_from_json), (''locations'', locations_arguments_from_json tr),
      (''restart'', no_arguments_from_json), (''restartFrame'', restart_frame_arguments_from_json tr),
      (''reverseContinue'', reverse_continue_arguments_from_json tr),
      (''runInTerminal'', run_in_terminal_arguments_from_json),
      (''startDebugging'', start_debugging_arguments_from_json),
      (''stepBack'', step_back_arguments_from_json tr),
      (''stepInTargets'', step_in_targets_arguments_from_json tr),
      (''terminateThreads'', terminate_threads_arguments_from_json tr)]"

end
