(* ===== verification/Protocol_Messages.thy ===== *)
theory Protocol_Messages
  imports Protocol
begin

text \<open>
  The conversion of events and responses from JSON (the \<open>from_json\<close> functions of
  src/src/protocol/protocol.h) and their dispatch (\<open>dispatch_event\<close> and \<open>dispatch_response\<close> of
  src/src/protocol/dap_service.h).  The handlers of such messages do nothing,
  but the fields are converted first, in the order of the code, and a field of another JSON
  type raises.  So a conversion yields nothing but its error.
\<close>

section \<open>Checks of one value\<close>

text \<open>Whether a number can be read does not depend on how it is truncated.\<close>

definition check_int :: "json \<Rightarrow> string + unit" where
  "check_int = only_check (get_int (\<lambda>f. 0))"

definition check_long :: "json \<Rightarrow> string + unit" where
  "check_long = only_check (get_int64 (\<lambda>f. 0))"

definition check_string :: "json \<Rightarrow> string + unit" where
  "check_string = only_check get_string"

definition check_bool :: "json \<Rightarrow> string + unit" where
  "check_bool = only_check get_bool"

fun check_double :: "json \<Rightarrow> string + unit" where
  "check_double (J_Int n) = Inr ()"
| "check_double (J_Float f) = Inr ()"
| "check_double j = Inl (type_error ''number'' j)"

definition check_list :: "(json \<Rightarrow> string + unit) \<Rightarrow> json \<Rightarrow> string + unit" where
  "check_list f = only_check (get_vector f)"

text \<open>A field of type \<open>nlohmann::json\<close> takes any value.\<close>

definition any_value :: "json \<Rightarrow> string + unit" where
  "any_value j = Inr ()"

section \<open>Enumerations\<close>

definition protocol_message_type_from_json :: "json \<Rightarrow> string + unit" where
  "protocol_message_type_from_json =
     get_enum ''ProtocolMessageType'' (enum_names [''request'', ''response'', ''event''])"

definition breakpoint_event_body_reason_from_json :: "json \<Rightarrow> string + unit" where
  "breakpoint_event_body_reason_from_json =
     get_enum ''BreakpointEventBodyReason'' (enum_names [''changed'', ''new'', ''removed''])"

definition breakpoint_reason_from_json :: "json \<Rightarrow> string + unit" where
  "breakpoint_reason_from_json =
     get_enum ''BreakpointReason'' (enum_names [''pending'', ''failed''])"

definition column_descriptor_type_from_json :: "json \<Rightarrow> string + unit" where
  "column_descriptor_type_from_json =
     get_enum ''ColumnDescriptorType'' (enum_names [''string'', ''number'', ''boolean'', ''unixTimestampUTC''])"

definition breakpoint_mode_applicability_from_json :: "json \<Rightarrow> string + unit" where
  "breakpoint_mode_applicability_from_json =
     get_enum ''BreakpointModeApplicability'' (enum_names [''source'', ''exception'', ''data'', ''instruction''])"

definition invalidated_areas_from_json :: "json \<Rightarrow> string + unit" where
  "invalidated_areas_from_json =
     get_enum ''InvalidatedAreas'' (enum_names [''all'', ''stacks'', ''threads'', ''variables''])"

definition loaded_source_event_body_reason_from_json :: "json \<Rightarrow> string + unit" where
  "loaded_source_event_body_reason_from_json =
     get_enum ''LoadedSourceEventBodyReason'' (enum_names [''new'', ''changed'', ''removed''])"

definition module_event_body_reason_from_json :: "json \<Rightarrow> string + unit" where
  "module_event_body_reason_from_json =
     get_enum ''ModuleEventBodyReason'' (enum_names [''new'', ''changed'', ''removed''])"

definition output_event_body_category_from_json :: "json \<Rightarrow> string + unit" where
  "output_event_body_category_from_json =
     get_enum ''OutputEventBodyCategory''
       (enum_names
          [''console'', ''important'', ''stdout'', ''stderr'', ''telemetry''])"

definition output_event_body_group_from_json :: "json \<Rightarrow> string + unit" where
  "output_event_body_group_from_json =
     get_enum ''OutputEventBodyGroup'' (enum_names [''start'', ''startCollapsed'', ''end''])"

definition process_event_body_start_method_from_json :: "json \<Rightarrow> string + unit" where
  "process_event_body_start_method_from_json =
     get_enum ''ProcessEventBodyStartMethod'' (enum_names [''launch'', ''attach'', ''attachForSuspendedLaunch''])"

definition stopped_event_body_reason_from_json :: "json \<Rightarrow> string + unit" where
  "stopped_event_body_reason_from_json =
     get_enum ''StoppedEventBodyReason''
       (enum_names
          [''step'', ''breakpoint'', ''exception'', ''pause'', ''entry'', ''goto'', ''function breakpoint'',
           ''data breakpoint'', ''instruction breakpoint''])"

definition thread_event_body_reason_from_json :: "json \<Rightarrow> string + unit" where
  "thread_event_body_reason_from_json =
     get_enum ''ThreadEventBodyReason'' (enum_names [''started'', ''exited''])"

definition response_message_from_json :: "json \<Rightarrow> string + unit" where
  "response_message_from_json =
     get_enum ''ResponseMessage'' (enum_names [''cancelled'', ''notStopped''])"

definition completion_item_type_from_json :: "json \<Rightarrow> string + unit" where
  "completion_item_type_from_json =
     get_enum ''CompletionItemType''
       (enum_names
          [''method'', ''function'', ''constructor'', ''field'', ''variable'', ''class'', ''interface'',
           ''module'', ''property'', ''unit'', ''value'', ''enum'', ''keyword'', ''snippet'', ''text'',
           ''color'', ''file'', ''reference'', ''customcolor''])"

definition data_breakpoint_access_type_from_json :: "json \<Rightarrow> string + unit" where
  "data_breakpoint_access_type_from_json =
     get_enum ''DataBreakpointAccessType'' (enum_names [''read'', ''write'', ''readWrite''])"

definition disassembled_instruction_presentation_hint_from_json :: "json \<Rightarrow> string + unit" where
  "disassembled_instruction_presentation_hint_from_json =
     get_enum ''DisassembledInstructionPresentationHint'' (enum_names [''normal'', ''invalid''])"

definition variable_presentation_hint_kind_from_json :: "json \<Rightarrow> string + unit" where
  "variable_presentation_hint_kind_from_json =
     get_enum ''VariablePresentationHintKind''
       (enum_names
          [''property'', ''method'', ''class'', ''data'', ''event'', ''baseClass'', ''innerClass'',
           ''interface'', ''mostDerivedClass'', ''virtual'', ''dataBreakpoint''])"

definition variable_presentation_hint_attributes_item_from_json :: "json \<Rightarrow> string + unit" where
  "variable_presentation_hint_attributes_item_from_json =
     get_enum ''VariablePresentationHintAttributesItem''
       (enum_names
          [''static'', ''constant'', ''readOnly'', ''rawString'', ''hasObjectId'', ''canHaveObjectId'',
           ''hasSideEffects'', ''hasDataBreakpoint''])"

definition variable_presentation_hint_visibility_from_json :: "json \<Rightarrow> string + unit" where
  "variable_presentation_hint_visibility_from_json =
     get_enum ''VariablePresentationHintVisibility''
       (enum_names
          [''public'', ''private'', ''protected'', ''internal'', ''final''])"

definition exception_break_mode_from_json :: "json \<Rightarrow> string + unit" where
  "exception_break_mode_from_json =
     get_enum ''ExceptionBreakMode'' (enum_names [''never'', ''always'', ''unhandled'', ''userUnhandled''])"

definition scope_presentation_hint_from_json :: "json \<Rightarrow> string + unit" where
  "scope_presentation_hint_from_json =
     get_enum ''ScopePresentationHint'' (enum_names [''arguments'', ''locals'', ''registers'', ''returnValue''])"

definition stack_frame_presentation_hint_from_json :: "json \<Rightarrow> string + unit" where
  "stack_frame_presentation_hint_from_json =
     get_enum ''StackFramePresentationHint'' (enum_names [''normal'', ''label'', ''subtle''])"

section \<open>Envelopes\<close>

definition event_fields :: "(json \<Rightarrow> string + unit) \<Rightarrow> (string \<times> (json \<Rightarrow> string + unit)) list" where
  "event_fields b =
     [(''seq'', check_int), (''type'', protocol_message_type_from_json), (''event'', check_string), (''body'', b)]"

definition response_fields :: "(json \<Rightarrow> string + unit) \<Rightarrow> (string \<times> (json \<Rightarrow> string + unit)) list" where
  "response_fields b =
     [(''seq'', check_int), (''type'', protocol_message_type_from_json), (''request_seq'', check_int),
      (''success'', check_bool), (''command'', check_string), (''message'', response_message_from_json), (''body'', b)]"

section \<open>Objects, events and responses\<close>

definition breakpoint_from_json :: "json \<Rightarrow> string + unit" where
  "breakpoint_from_json j =
     check_fields j
        [(''id'', check_int), (''verified'', check_bool), (''message'', check_string),
         (''source'', only_check (source_from_json (\<lambda>f. 0))), (''line'', check_long),
         (''column'', check_long), (''endLine'', check_long), (''endColumn'', check_long),
         (''instructionReference'', check_string), (''offset'', check_long),
         (''reason'', breakpoint_reason_from_json)]"

definition breakpoint_event_body_from_json :: "json \<Rightarrow> string + unit" where
  "breakpoint_event_body_from_json j =
     check_fields j
        [(''reason'', breakpoint_event_body_reason_from_json), (''breakpoint'', breakpoint_from_json)]"

definition breakpoint_event_from_json :: "json \<Rightarrow> string + unit" where
  "breakpoint_event_from_json j = check_fields j (event_fields breakpoint_event_body_from_json)"

definition exception_breakpoints_filter_from_json :: "json \<Rightarrow> string + unit" where
  "exception_breakpoints_filter_from_json j =
     check_fields j
        [(''filter'', check_string), (''label'', check_string), (''description'', check_string),
         (''default'', check_bool), (''supportsCondition'', check_bool),
         (''conditionDescription'', check_string)]"

definition column_descriptor_from_json :: "json \<Rightarrow> string + unit" where
  "column_descriptor_from_json j =
     check_fields j
        [(''attributeName'', check_string), (''label'', check_string), (''format'', check_string),
         (''type'', column_descriptor_type_from_json), (''width'', check_long)]"

definition breakpoint_mode_from_json :: "json \<Rightarrow> string + unit" where
  "breakpoint_mode_from_json j =
     check_fields j
        [(''mode'', check_string), (''label'', check_string), (''description'', check_string),
         (''appliesTo'', check_list breakpoint_mode_applicability_from_json)]"

definition capabilities_from_json :: "json \<Rightarrow> string + unit" where
  "capabilities_from_json j =
     check_fields j
        [(''supportsConfigurationDoneRequest'', check_bool), (''supportsFunctionBreakpoints'', check_bool),
         (''supportsConditionalBreakpoints'', check_bool), (''supportsHitConditionalBreakpoints'', check_bool),
         (''supportsEvaluateForHovers'', check_bool),
         (''exceptionBreakpointFilters'', check_list exception_breakpoints_filter_from_json),
         (''supportsStepBack'', check_bool), (''supportsSetVariable'', check_bool),
         (''supportsRestartFrame'', check_bool), (''supportsGotoTargetsRequest'', check_bool),
         (''supportsStepInTargetsRequest'', check_bool), (''supportsCompletionsRequest'', check_bool),
         (''completionTriggerCharacters'', check_list check_string), (''supportsModulesRequest'', check_bool),
         (''additionalModuleColumns'', check_list column_descriptor_from_json),
         (''supportedChecksumAlgorithms'', check_list (only_check checksum_algorithm_from_json)),
         (''supportsRestartRequest'', check_bool), (''supportsExceptionOptions'', check_bool),
         (''supportsValueFormattingOptions'', check_bool), (''supportsExceptionInfoRequest'', check_bool),
         (''supportTerminateDebuggee'', check_bool), (''supportSuspendDebuggee'', check_bool),
         (''supportsDelayedStackTraceLoading'', check_bool), (''supportsLoadedSourcesRequest'', check_bool),
         (''supportsLogPoints'', check_bool), (''supportsTerminateThreadsRequest'', check_bool),
         (''supportsSetExpression'', check_bool), (''supportsTerminateRequest'', check_bool),
         (''supportsDataBreakpoints'', check_bool), (''supportsReadMemoryRequest'', check_bool),
         (''supportsWriteMemoryRequest'', check_bool), (''supportsDisassembleRequest'', check_bool),
         (''supportsCancelRequest'', check_bool), (''supportsBreakpointLocationsRequest'', check_bool),
         (''supportsClipboardContext'', check_bool), (''supportsSteppingGranularity'', check_bool),
         (''supportsInstructionBreakpoints'', check_bool), (''supportsExceptionFilterOptions'', check_bool),
         (''supportsSingleThreadExecutionRequests'', check_bool),
         (''supportsDataBreakpointBytes'', check_bool),
         (''breakpointModes'', check_list breakpoint_mode_from_json), (''supportsANSIStyling'', check_bool)]"

definition capabilities_event_body_from_json :: "json \<Rightarrow> string + unit" where
  "capabilities_event_body_from_json j = check_fields j [(''capabilities'', capabilities_from_json)]"

definition capabilities_event_from_json :: "json \<Rightarrow> string + unit" where
  "capabilities_event_from_json j = check_fields j (event_fields capabilities_event_body_from_json)"

definition continued_event_body_from_json :: "json \<Rightarrow> string + unit" where
  "continued_event_body_from_json j =
     check_fields j
        [(''threadId'', check_int), (''allThreadsContinued'', check_bool)]"

definition continued_event_from_json :: "json \<Rightarrow> string + unit" where
  "continued_event_from_json j = check_fields j (event_fields continued_event_body_from_json)"

definition exited_event_body_from_json :: "json \<Rightarrow> string + unit" where
  "exited_event_body_from_json j = check_fields j [(''exitCode'', check_int)]"

definition exited_event_from_json :: "json \<Rightarrow> string + unit" where
  "exited_event_from_json j = check_fields j (event_fields exited_event_body_from_json)"

definition initialized_event_from_json :: "json \<Rightarrow> string + unit" where
  "initialized_event_from_json j = check_fields j (event_fields any_value)"

definition invalidated_event_body_from_json :: "json \<Rightarrow> string + unit" where
  "invalidated_event_body_from_json j =
     check_fields j
        [(''areas'', check_list invalidated_areas_from_json), (''threadId'', check_int),
         (''stackFrameId'', check_int)]"

definition invalidated_event_from_json :: "json \<Rightarrow> string + unit" where
  "invalidated_event_from_json j = check_fields j (event_fields invalidated_event_body_from_json)"

definition loaded_source_event_body_from_json :: "json \<Rightarrow> string + unit" where
  "loaded_source_event_body_from_json j =
     check_fields j
        [(''reason'', loaded_source_event_body_reason_from_json),
         (''source'', only_check (source_from_json (\<lambda>f. 0)))]"

definition loaded_source_event_from_json :: "json \<Rightarrow> string + unit" where
  "loaded_source_event_from_json j = check_fields j (event_fields loaded_source_event_body_from_json)"

definition memory_event_body_from_json :: "json \<Rightarrow> string + unit" where
  "memory_event_body_from_json j =
     check_fields j
        [(''memoryReference'', check_string), (''offset'', check_long), (''count'', check_long)]"

definition memory_event_from_json :: "json \<Rightarrow> string + unit" where
  "memory_event_from_json j = check_fields j (event_fields memory_event_body_from_json)"

definition module_from_json :: "json \<Rightarrow> string + unit" where
  "module_from_json j =
     check_fields j
        [(''id'', any_value), (''name'', check_string), (''path'', check_string),
         (''isOptimized'', check_bool), (''isUserCode'', check_bool), (''version'', check_string),
         (''symbolStatus'', check_string), (''symbolFilePath'', check_string),
         (''dateTimeStamp'', check_string), (''addressRange'', check_string)]"

definition module_event_body_from_json :: "json \<Rightarrow> string + unit" where
  "module_event_body_from_json j =
     check_fields j
        [(''reason'', module_event_body_reason_from_json), (''module'', module_from_json)]"

definition module_event_from_json :: "json \<Rightarrow> string + unit" where
  "module_event_from_json j = check_fields j (event_fields module_event_body_from_json)"

definition output_event_body_from_json :: "json \<Rightarrow> string + unit" where
  "output_event_body_from_json j =
     check_fields j
        [(''category'', output_event_body_category_from_json), (''output'', check_string),
         (''group'', output_event_body_group_from_json), (''variablesReference'', check_int),
         (''source'', only_check (source_from_json (\<lambda>f. 0))), (''line'', check_long),
         (''column'', check_long), (''data'', any_value), (''locationReference'', check_int)]"

definition output_event_from_json :: "json \<Rightarrow> string + unit" where
  "output_event_from_json j = check_fields j (event_fields output_event_body_from_json)"

definition process_event_body_from_json :: "json \<Rightarrow> string + unit" where
  "process_event_body_from_json j =
     check_fields j
        [(''name'', check_string), (''systemProcessId'', check_int), (''isLocalProcess'', check_bool),
         (''startMethod'', process_event_body_start_method_from_json), (''pointerSize'', check_long)]"

definition process_event_from_json :: "json \<Rightarrow> string + unit" where
  "process_event_from_json j = check_fields j (event_fields process_event_body_from_json)"

definition progress_end_event_body_from_json :: "json \<Rightarrow> string + unit" where
  "progress_end_event_body_from_json j =
     check_fields j
        [(''progressId'', check_string), (''message'', check_string)]"

definition progress_end_event_from_json :: "json \<Rightarrow> string + unit" where
  "progress_end_event_from_json j = check_fields j (event_fields progress_end_event_body_from_json)"

definition progress_start_event_body_from_json :: "json \<Rightarrow> string + unit" where
  "progress_start_event_body_from_json j =
     check_fields j
        [(''progressId'', check_string), (''title'', check_string), (''requestId'', check_int),
         (''cancellable'', check_bool), (''message'', check_string), (''percentage'', check_double)]"

definition progress_start_event_from_json :: "json \<Rightarrow> string + unit" where
  "progress_start_event_from_json j = check_fields j (event_fields progress_start_event_body_from_json)"

definition progress_update_event_body_from_json :: "json \<Rightarrow> string + unit" where
  "progress_update_event_body_from_json j =
     check_fields j
        [(''progressId'', check_string), (''message'', check_string), (''percentage'', check_double)]"

definition progress_update_event_from_json :: "json \<Rightarrow> string + unit" where
  "progress_update_event_from_json j = check_fields j (event_fields progress_update_event_body_from_json)"

definition stopped_event_body_from_json :: "json \<Rightarrow> string + unit" where
  "stopped_event_body_from_json j =
     check_fields j
        [(''reason'', stopped_event_body_reason_from_json), (''description'', check_string),
         (''threadId'', check_int), (''preserveFocusHint'', check_bool), (''text'', check_string),
         (''allThreadsStopped'', check_bool), (''hitBreakpointIds'', check_list check_int)]"

definition stopped_event_from_json :: "json \<Rightarrow> string + unit" where
  "stopped_event_from_json j = check_fields j (event_fields stopped_event_body_from_json)"

definition terminated_event_body_from_json :: "json \<Rightarrow> string + unit" where
  "terminated_event_body_from_json j = check_fields j [(''restart'', any_value)]"

definition terminated_event_from_json :: "json \<Rightarrow> string + unit" where
  "terminated_event_from_json j = check_fields j (event_fields terminated_event_body_from_json)"

definition thread_event_body_from_json :: "json \<Rightarrow> string + unit" where
  "thread_event_body_from_json j =
     check_fields j
        [(''reason'', thread_event_body_reason_from_json), (''threadId'', check_int)]"

definition thread_event_from_json :: "json \<Rightarrow> string + unit" where
  "thread_event_from_json j = check_fields j (event_fields thread_event_body_from_json)"

definition attach_response_from_json :: "json \<Rightarrow> string + unit" where
  "attach_response_from_json j = check_fields j (response_fields any_value)"

definition breakpoint_location_from_json :: "json \<Rightarrow> string + unit" where
  "breakpoint_location_from_json j =
     check_fields j
        [(''line'', check_long), (''column'', check_long), (''endLine'', check_long),
         (''endColumn'', check_long)]"

definition breakpoint_locations_response_body_from_json :: "json \<Rightarrow> string + unit" where
  "breakpoint_locations_response_body_from_json j =
     check_fields j
        [(''breakpoints'', check_list breakpoint_location_from_json)]"

definition breakpoint_locations_response_from_json :: "json \<Rightarrow> string + unit" where
  "breakpoint_locations_response_from_json j = check_fields j (response_fields breakpoint_locations_response_body_from_json)"

definition cancel_response_from_json :: "json \<Rightarrow> string + unit" where
  "cancel_response_from_json j = check_fields j (response_fields any_value)"

definition completion_item_from_json :: "json \<Rightarrow> string + unit" where
  "completion_item_from_json j =
     check_fields j
        [(''label'', check_string), (''text'', check_string), (''sortText'', check_string),
         (''detail'', check_string), (''type'', completion_item_type_from_json), (''start'', check_long),
         (''length'', check_long), (''selectionStart'', check_long), (''selectionLength'', check_long)]"

definition completions_response_body_from_json :: "json \<Rightarrow> string + unit" where
  "completions_response_body_from_json j =
     check_fields j
        [(''targets'', check_list completion_item_from_json)]"

definition completions_response_from_json :: "json \<Rightarrow> string + unit" where
  "completions_response_from_json j = check_fields j (response_fields completions_response_body_from_json)"

definition configuration_done_response_from_json :: "json \<Rightarrow> string + unit" where
  "configuration_done_response_from_json j = check_fields j (response_fields any_value)"

definition continue_response_body_from_json :: "json \<Rightarrow> string + unit" where
  "continue_response_body_from_json j = check_fields j [(''allThreadsContinued'', check_bool)]"

definition continue_response_from_json :: "json \<Rightarrow> string + unit" where
  "continue_response_from_json j = check_fields j (response_fields continue_response_body_from_json)"

definition data_breakpoint_info_response_body_from_json :: "json \<Rightarrow> string + unit" where
  "data_breakpoint_info_response_body_from_json j =
     check_fields j
        [(''dataId'', check_string), (''description'', check_string),
         (''accessTypes'', check_list data_breakpoint_access_type_from_json), (''canPersist'', check_bool)]"

definition data_breakpoint_info_response_from_json :: "json \<Rightarrow> string + unit" where
  "data_breakpoint_info_response_from_json j = check_fields j (response_fields data_breakpoint_info_response_body_from_json)"

definition disassembled_instruction_from_json :: "json \<Rightarrow> string + unit" where
  "disassembled_instruction_from_json j =
     check_fields j
        [(''address'', check_string), (''instructionBytes'', check_string), (''instruction'', check_string),
         (''symbol'', check_string), (''location'', only_check (source_from_json (\<lambda>f. 0))),
         (''line'', check_long), (''column'', check_long), (''endLine'', check_long),
         (''endColumn'', check_long),
         (''presentationHint'', disassembled_instruction_presentation_hint_from_json)]"

definition disassemble_response_body_from_json :: "json \<Rightarrow> string + unit" where
  "disassemble_response_body_from_json j =
     check_fields j
        [(''instructions'', check_list disassembled_instruction_from_json)]"

definition disassemble_response_from_json :: "json \<Rightarrow> string + unit" where
  "disassemble_response_from_json j = check_fields j (response_fields disassemble_response_body_from_json)"

definition disconnect_response_from_json :: "json \<Rightarrow> string + unit" where
  "disconnect_response_from_json j = check_fields j (response_fields any_value)"

definition variable_presentation_hint_from_json :: "json \<Rightarrow> string + unit" where
  "variable_presentation_hint_from_json j =
     check_fields j
        [(''kind'', variable_presentation_hint_kind_from_json),
         (''attributes'', check_list variable_presentation_hint_attributes_item_from_json),
         (''visibility'', variable_presentation_hint_visibility_from_json), (''lazy'', check_bool)]"

definition evaluate_response_body_from_json :: "json \<Rightarrow> string + unit" where
  "evaluate_response_body_from_json j =
     check_fields j
        [(''result'', check_string), (''type'', check_string),
         (''presentationHint'', variable_presentation_hint_from_json), (''variablesReference'', check_int),
         (''namedVariables'', check_int), (''indexedVariables'', check_int),
         (''memoryReference'', check_string), (''valueLocationReference'', check_int)]"

definition evaluate_response_from_json :: "json \<Rightarrow> string + unit" where
  "evaluate_response_from_json j = check_fields j (response_fields evaluate_response_body_from_json)"

function exception_details_from_json :: "json \<Rightarrow> string + unit" where
  "exception_details_from_json j =
     r_bind (check_fields j (strings [''message'', ''typeName'', ''fullTypeName'', ''evaluateName'', ''stackTrace'']))
       (\<lambda>u. r_bind (field j ''innerException'' (get_vector exception_details_from_json)) (\<lambda>v. Inr ()))"
  by pat_completeness auto
termination
  by (relation "measure size") (auto dest!: find_key_size dest: array_size)

declare exception_details_from_json.simps [simp del]

definition exception_info_response_body_from_json :: "json \<Rightarrow> string + unit" where
  "exception_info_response_body_from_json j =
     check_fields j
        [(''exceptionId'', check_string), (''description'', check_string),
         (''breakMode'', exception_break_mode_from_json), (''details'', exception_details_from_json)]"

definition exception_info_response_from_json :: "json \<Rightarrow> string + unit" where
  "exception_info_response_from_json j = check_fields j (response_fields exception_info_response_body_from_json)"

definition goto_response_from_json :: "json \<Rightarrow> string + unit" where
  "goto_response_from_json j = check_fields j (response_fields any_value)"

definition goto_target_from_json :: "json \<Rightarrow> string + unit" where
  "goto_target_from_json j =
     check_fields j
        [(''id'', check_int), (''label'', check_string), (''line'', check_long), (''column'', check_long),
         (''endLine'', check_long), (''endColumn'', check_long), (''instructionPointerReference'', check_string)]"

definition goto_targets_response_body_from_json :: "json \<Rightarrow> string + unit" where
  "goto_targets_response_body_from_json j = check_fields j [(''targets'', check_list goto_target_from_json)]"

definition goto_targets_response_from_json :: "json \<Rightarrow> string + unit" where
  "goto_targets_response_from_json j = check_fields j (response_fields goto_targets_response_body_from_json)"

definition initialize_response_from_json :: "json \<Rightarrow> string + unit" where
  "initialize_response_from_json j = check_fields j (response_fields capabilities_from_json)"

definition launch_response_from_json :: "json \<Rightarrow> string + unit" where
  "launch_response_from_json j = check_fields j (response_fields any_value)"

definition loaded_sources_response_body_from_json :: "json \<Rightarrow> string + unit" where
  "loaded_sources_response_body_from_json j =
     check_fields j
        [(''sources'', check_list (only_check (source_from_json (\<lambda>f. 0))))]"

definition loaded_sources_response_from_json :: "json \<Rightarrow> string + unit" where
  "loaded_sources_response_from_json j = check_fields j (response_fields loaded_sources_response_body_from_json)"

definition locations_response_body_from_json :: "json \<Rightarrow> string + unit" where
  "locations_response_body_from_json j =
     check_fields j
        [(''source'', only_check (source_from_json (\<lambda>f. 0))), (''line'', check_long),
         (''column'', check_long), (''endLine'', check_long), (''endColumn'', check_long)]"

definition locations_response_from_json :: "json \<Rightarrow> string + unit" where
  "locations_response_from_json j = check_fields j (response_fields locations_response_body_from_json)"

definition modules_response_body_from_json :: "json \<Rightarrow> string + unit" where
  "modules_response_body_from_json j =
     check_fields j
        [(''modules'', check_list module_from_json), (''totalModules'', check_long)]"

definition modules_response_from_json :: "json \<Rightarrow> string + unit" where
  "modules_response_from_json j = check_fields j (response_fields modules_response_body_from_json)"

definition next_response_from_json :: "json \<Rightarrow> string + unit" where
  "next_response_from_json j = check_fields j (response_fields any_value)"

definition pause_response_from_json :: "json \<Rightarrow> string + unit" where
  "pause_response_from_json j = check_fields j (response_fields any_value)"

definition read_memory_response_body_from_json :: "json \<Rightarrow> string + unit" where
  "read_memory_response_body_from_json j =
     check_fields j
        [(''address'', check_string), (''unreadableBytes'', check_long), (''data'', check_string)]"

definition read_memory_response_from_json :: "json \<Rightarrow> string + unit" where
  "read_memory_response_from_json j = check_fields j (response_fields read_memory_response_body_from_json)"

definition restart_response_from_json :: "json \<Rightarrow> string + unit" where
  "restart_response_from_json j = check_fields j (response_fields any_value)"

definition restart_frame_response_from_json :: "json \<Rightarrow> string + unit" where
  "restart_frame_response_from_json j = check_fields j (response_fields any_value)"

definition reverse_continue_response_from_json :: "json \<Rightarrow> string + unit" where
  "reverse_continue_response_from_json j = check_fields j (response_fields any_value)"

definition run_in_terminal_response_body_from_json :: "json \<Rightarrow> string + unit" where
  "run_in_terminal_response_body_from_json j =
     check_fields j
        [(''processId'', check_int), (''shellProcessId'', check_int)]"

definition run_in_terminal_response_from_json :: "json \<Rightarrow> string + unit" where
  "run_in_terminal_response_from_json j = check_fields j (response_fields run_in_terminal_response_body_from_json)"

definition scope_from_json :: "json \<Rightarrow> string + unit" where
  "scope_from_json j =
     check_fields j
        [(''name'', check_string), (''presentationHint'', scope_presentation_hint_from_json),
         (''variablesReference'', check_int), (''namedVariables'', check_int),
         (''indexedVariables'', check_int), (''expensive'', check_bool),
         (''source'', only_check (source_from_json (\<lambda>f. 0))), (''line'', check_long),
         (''column'', check_long), (''endLine'', check_long), (''endColumn'', check_long)]"

definition scopes_response_body_from_json :: "json \<Rightarrow> string + unit" where
  "scopes_response_body_from_json j = check_fields j [(''scopes'', check_list scope_from_json)]"

definition scopes_response_from_json :: "json \<Rightarrow> string + unit" where
  "scopes_response_from_json j = check_fields j (response_fields scopes_response_body_from_json)"

definition set_breakpoints_response_body_from_json :: "json \<Rightarrow> string + unit" where
  "set_breakpoints_response_body_from_json j =
     check_fields j
        [(''breakpoints'', check_list breakpoint_from_json)]"

definition set_breakpoints_response_from_json :: "json \<Rightarrow> string + unit" where
  "set_breakpoints_response_from_json j = check_fields j (response_fields set_breakpoints_response_body_from_json)"

definition set_data_breakpoints_response_body_from_json :: "json \<Rightarrow> string + unit" where
  "set_data_breakpoints_response_body_from_json j =
     check_fields j
        [(''breakpoints'', check_list breakpoint_from_json)]"

definition set_data_breakpoints_response_from_json :: "json \<Rightarrow> string + unit" where
  "set_data_breakpoints_response_from_json j = check_fields j (response_fields set_data_breakpoints_response_body_from_json)"

definition set_exception_breakpoints_response_body_from_json :: "json \<Rightarrow> string + unit" where
  "set_exception_breakpoints_response_body_from_json j =
     check_fields j
        [(''breakpoints'', check_list breakpoint_from_json)]"

definition set_exception_breakpoints_response_from_json :: "json \<Rightarrow> string + unit" where
  "set_exception_breakpoints_response_from_json j = check_fields j (response_fields set_exception_breakpoints_response_body_from_json)"

definition set_expression_response_body_from_json :: "json \<Rightarrow> string + unit" where
  "set_expression_response_body_from_json j =
     check_fields j
        [(''value'', check_string), (''type'', check_string),
         (''presentationHint'', variable_presentation_hint_from_json), (''variablesReference'', check_int),
         (''namedVariables'', check_int), (''indexedVariables'', check_int),
         (''memoryReference'', check_string), (''valueLocationReference'', check_int)]"

definition set_expression_response_from_json :: "json \<Rightarrow> string + unit" where
  "set_expression_response_from_json j = check_fields j (response_fields set_expression_response_body_from_json)"

definition set_function_breakpoints_response_body_from_json :: "json \<Rightarrow> string + unit" where
  "set_function_breakpoints_response_body_from_json j =
     check_fields j
        [(''breakpoints'', check_list breakpoint_from_json)]"

definition set_function_breakpoints_response_from_json :: "json \<Rightarrow> string + unit" where
  "set_function_breakpoints_response_from_json j = check_fields j (response_fields set_function_breakpoints_response_body_from_json)"

definition set_instruction_breakpoints_response_body_from_json :: "json \<Rightarrow> string + unit" where
  "set_instruction_breakpoints_response_body_from_json j =
     check_fields j
        [(''breakpoints'', check_list breakpoint_from_json)]"

definition set_instruction_breakpoints_response_from_json :: "json \<Rightarrow> string + unit" where
  "set_instruction_breakpoints_response_from_json j = check_fields j (response_fields set_instruction_breakpoints_response_body_from_json)"

definition set_variable_response_body_from_json :: "json \<Rightarrow> string + unit" where
  "set_variable_response_body_from_json j =
     check_fields j
        [(''value'', check_string), (''type'', check_string), (''variablesReference'', check_int),
         (''namedVariables'', check_int), (''indexedVariables'', check_int),
         (''memoryReference'', check_string), (''valueLocationReference'', check_int)]"

definition set_variable_response_from_json :: "json \<Rightarrow> string + unit" where
  "set_variable_response_from_json j = check_fields j (response_fields set_variable_response_body_from_json)"

definition source_response_body_from_json :: "json \<Rightarrow> string + unit" where
  "source_response_body_from_json j =
     check_fields j
        [(''content'', check_string), (''mimeType'', check_string)]"

definition source_response_from_json :: "json \<Rightarrow> string + unit" where
  "source_response_from_json j = check_fields j (response_fields source_response_body_from_json)"

definition stack_frame_from_json :: "json \<Rightarrow> string + unit" where
  "stack_frame_from_json j =
     check_fields j
        [(''id'', check_int), (''name'', check_string),
         (''source'', only_check (source_from_json (\<lambda>f. 0))), (''line'', check_long),
         (''column'', check_long), (''endLine'', check_long), (''endColumn'', check_long),
         (''canRestart'', check_bool), (''instructionPointerReference'', check_string),
         (''moduleId'', any_value), (''presentationHint'', stack_frame_presentation_hint_from_json)]"

definition stack_trace_response_body_from_json :: "json \<Rightarrow> string + unit" where
  "stack_trace_response_body_from_json j =
     check_fields j
        [(''stackFrames'', check_list stack_frame_from_json), (''totalFrames'', check_long)]"

definition stack_trace_response_from_json :: "json \<Rightarrow> string + unit" where
  "stack_trace_response_from_json j = check_fields j (response_fields stack_trace_response_body_from_json)"

definition start_debugging_response_from_json :: "json \<Rightarrow> string + unit" where
  "start_debugging_response_from_json j = check_fields j (response_fields any_value)"

definition step_back_response_from_json :: "json \<Rightarrow> string + unit" where
  "step_back_response_from_json j = check_fields j (response_fields any_value)"

definition step_in_response_from_json :: "json \<Rightarrow> string + unit" where
  "step_in_response_from_json j = check_fields j (response_fields any_value)"

definition step_in_target_from_json :: "json \<Rightarrow> string + unit" where
  "step_in_target_from_json j =
     check_fields j
        [(''id'', check_int), (''label'', check_string), (''line'', check_long), (''column'', check_long),
         (''endLine'', check_long), (''endColumn'', check_long)]"

definition step_in_targets_response_body_from_json :: "json \<Rightarrow> string + unit" where
  "step_in_targets_response_body_from_json j =
     check_fields j
        [(''targets'', check_list step_in_target_from_json)]"

definition step_in_targets_response_from_json :: "json \<Rightarrow> string + unit" where
  "step_in_targets_response_from_json j = check_fields j (response_fields step_in_targets_response_body_from_json)"

definition step_out_response_from_json :: "json \<Rightarrow> string + unit" where
  "step_out_response_from_json j = check_fields j (response_fields any_value)"

definition terminate_response_from_json :: "json \<Rightarrow> string + unit" where
  "terminate_response_from_json j = check_fields j (response_fields any_value)"

definition terminate_threads_response_from_json :: "json \<Rightarrow> string + unit" where
  "terminate_threads_response_from_json j = check_fields j (response_fields any_value)"

definition thread_from_json :: "json \<Rightarrow> string + unit" where
  "thread_from_json j = check_fields j [(''id'', check_int), (''name'', check_string)]"

definition threads_response_body_from_json :: "json \<Rightarrow> string + unit" where
  "threads_response_body_from_json j = check_fields j [(''threads'', check_list thread_from_json)]"

definition threads_response_from_json :: "json \<Rightarrow> string + unit" where
  "threads_response_from_json j = check_fields j (response_fields threads_response_body_from_json)"

definition variable_from_json :: "json \<Rightarrow> string + unit" where
  "variable_from_json j =
     check_fields j
        [(''name'', check_string), (''value'', check_string), (''type'', check_string),
         (''presentationHint'', variable_presentation_hint_from_json), (''evaluateName'', check_string),
         (''variablesReference'', check_int), (''namedVariables'', check_int),
         (''indexedVariables'', check_int), (''memoryReference'', check_string),
         (''declarationLocationReference'', check_int), (''valueLocationReference'', check_int)]"

definition variables_response_body_from_json :: "json \<Rightarrow> string + unit" where
  "variables_response_body_from_json j = check_fields j [(''variables'', check_list variable_from_json)]"

definition variables_response_from_json :: "json \<Rightarrow> string + unit" where
  "variables_response_from_json j = check_fields j (response_fields variables_response_body_from_json)"

definition write_memory_response_body_from_json :: "json \<Rightarrow> string + unit" where
  "write_memory_response_body_from_json j =
     check_fields j
        [(''offset'', check_long), (''bytesWritten'', check_long)]"

definition write_memory_response_from_json :: "json \<Rightarrow> string + unit" where
  "write_memory_response_from_json j = check_fields j (response_fields write_memory_response_body_from_json)"

section \<open>Tables of the dispatch\<close>

definition event_conversions :: "(string \<times> (json \<Rightarrow> string + unit)) list" where
  "event_conversions =
     [(''breakpoint'', breakpoint_event_from_json), (''capabilities'', capabilities_event_from_json),
      (''continued'', continued_event_from_json), (''exited'', exited_event_from_json),
      (''initialized'', initialized_event_from_json), (''invalidated'', invalidated_event_from_json),
      (''loadedSource'', loaded_source_event_from_json), (''memory'', memory_event_from_json),
      (''module'', module_event_from_json), (''output'', output_event_from_json),
      (''process'', process_event_from_json), (''progressEnd'', progress_end_event_from_json),
      (''progressStart'', progress_start_event_from_json),
      (''progressUpdate'', progress_update_event_from_json), (''stopped'', stopped_event_from_json),
      (''terminated'', terminated_event_from_json), (''thread'', thread_event_from_json)]"

definition response_conversions :: "(string \<times> (json \<Rightarrow> string + unit)) list" where
  "response_conversions =
     [(''attach'', attach_response_from_json),
      (''breakpointLocations'', breakpoint_locations_response_from_json),
      (''cancel'', cancel_response_from_json), (''completions'', completions_response_from_json),
      (''configurationDone'', configuration_done_response_from_json),
      (''continue'', continue_response_from_json),
      (''dataBreakpointInfo'', data_breakpoint_info_response_from_json),
      (''disassemble'', disassemble_response_from_json), (''disconnect'', disconnect_response_from_json),
      (''evaluate'', evaluate_response_from_json), (''exceptionInfo'', exception_info_response_from_json),
      (''goto'', goto_response_from_json), (''gotoTargets'', goto_targets_response_from_json),
      (''initialize'', initialize_response_from_json), (''launch'', launch_response_from_json),
      (''loadedSources'', loaded_sources_response_from_json), (''locations'', locations_response_from_json),
      (''modules'', modules_response_from_json), (''next'', next_response_from_json),
      (''pause'', pause_response_from_json), (''readMemory'', read_memory_response_from_json),
      (''restart'', restart_response_from_json), (''restartFrame'', restart_frame_response_from_json),
      (''reverseContinue'', reverse_continue_response_from_json),
      (''runInTerminal'', run_in_terminal_response_from_json), (''scopes'', scopes_response_from_json),
      (''setBreakpoints'', set_breakpoints_response_from_json),
      (''setDataBreakpoints'', set_data_breakpoints_response_from_json),
      (''setExceptionBreakpoints'', set_exception_breakpoints_response_from_json),
      (''setExpression'', set_expression_response_from_json),
      (''setFunctionBreakpoints'', set_function_breakpoints_response_from_json),
      (''setInstructionBreakpoints'', set_instruction_breakpoints_response_from_json),
      (''setVariable'', set_variable_response_from_json), (''source'', source_response_from_json),
      (''stackTrace'', stack_trace_response_from_json),
      (''startDebugging'', start_debugging_response_from_json), (''stepBack'', step_back_response_from_json),
      (''stepIn'', step_in_response_from_json), (''stepInTargets'', step_in_targets_response_from_json),
      (''stepOut'', step_out_response_from_json), (''terminate'', terminate_response_from_json),
      (''terminateThreads'', terminate_threads_response_from_json), (''threads'', threads_response_from_json),
      (''variables'', variables_response_from_json), (''writeMemory'', write_memory_response_from_json)]"

end
