(* ===== verification/Server_Targets.thy ===== *)
theory Server_Targets
  imports Server_Breakpoints
begin

text \<open>
  The launch and attach handlers (src/src/service/dap_server_launch.cpp, dap_server_attach.cpp) with
  what they use of src/src/service/dap_server.cpp: finding the engine, creating and configuring a
  session, and the process and stopped events.
\<close>

section \<open>Finding the engine\<close>

definition default_dbgeng_candidates :: "'e connector \<Rightarrow> string list" where
  "default_dbgeng_candidates C =
     (let suffix = [BACKSLASH] @ ''Windows Kits'' @ [BACKSLASH] @ ''10'' @ [BACKSLASH] @ ''Debuggers'' @ [BACKSLASH]
            @ sdk_architecture C @ [BACKSLASH] @ ''dbgeng.dll''
      in map (\<lambda>directory. directory @ suffix)
           (List.map_filter (env_var C) [''ProgramFiles(x86)'', ''ProgramW6432'', ''ProgramFiles'']
            @ [''C:'' @ [BACKSLASH] @ ''Program Files (x86)'']))"

definition try_resolve_debugger_engine_path :: "'e connector \<Rightarrow> string option \<Rightarrow> string option" where
  "try_resolve_debugger_engine_path C requested =
     (if \<not> is_blank_opt requested
      then (if path_exists C (the requested) then requested else None)
      else let base_directory = executable_directory C;
               bundled = join_path (join_path base_directory (architecture_directory C)) ''dbgeng.dll''
           in if base_directory \<noteq> [] \<and> path_exists C bundled then Some bundled
              else find (path_exists C) (default_dbgeng_candidates C))"

section \<open>Sessions\<close>

text \<open>A session object has an identity, which the wait loop compares.\<close>

definition install_session :: "'e session \<Rightarrow> 'e server \<Rightarrow> 'e server" where
  "install_session x s = s\<lparr>debugger_session := Some x, session_serial := session_serial s + 1\<rparr>"

definition create_debugger_session :: "'e target \<Rightarrow> string \<Rightarrow> ('e server, unit) wact" where
  "create_debugger_session L engine_path =
     w_then (dispose_debugger_session L)
       (w_bind (invoke L (\<lambda>s. (open_session (connector_of L) engine_path, s))) (\<lambda>x.
          w_set (install_session x)))"

definition apply_session_configuration ::
    "'e target \<Rightarrow> string list option \<Rightarrow> string list option \<Rightarrow> ('e server, unit) wact" where
  "apply_session_configuration L symbol_path source_path =
     w_then (invoke_session L (enable_source_line_support (base L)))
       (w_then (case symbol_path of
                  None \<Rightarrow> w_ret () | Some paths \<Rightarrow> invoke_session L (set_symbol_path (base L) paths))
          (case source_path of
             None \<Rightarrow> w_ret () | Some paths \<Rightarrow> invoke_session L (set_source_path (base L) paths)))"

text \<open>
  A dispatched call of the session that opens a target and waits for its first event; the
  engine's callbacks reach the server meanwhile.
\<close>

definition invoke_and_wait :: "'e target \<Rightarrow> ('e session, unit) act \<Rightarrow> ('e server, unit) wact" where
  "invoke_and_wait L f =
     w_then (free_worker L)
       (w_catch (w_then (now (session_task L f)) (wait_for_event L))
          (\<lambda>e. w_raise (Dispatcher_Failure (what e))))"

definition connect_target :: "'e target \<Rightarrow> ('e session, unit) act \<Rightarrow> ('e server, unit) wact" where
  "connect_target L f = run_with_suppressed_session_events (invoke_and_wait L f)"

definition send_process_event :: "string \<Rightarrow> int option \<Rightarrow> start_method \<Rightarrow> ('e server, unit) wact" where
  "send_process_event name process_id start = now (send_event (create_process_event name process_id start))"

definition send_stopped_event :: "'e target \<Rightarrow> stop_reason \<Rightarrow> string \<Rightarrow> ('e server, unit) wact" where
  "send_stopped_event L reason description =
     w_bind (try_get_current_thread_id L) (\<lambda>t.
       now (send_event (create_stopped_event reason (Some description) t None)))"

section \<open>Launch\<close>

definition no_engine_message :: string where
  "no_engine_message =
     ''Could not locate dbgeng.dll. Set '' @ quoted ''dbgengPath'' @ '' to your dbgeng.dll, or install the ''
       @ ''Windows SDK Debugging Tools.''"

text \<open>Which session resumes at \<open>configurationDone\<close>, and from which thread.\<close>

definition await_configuration :: "'e target \<Rightarrow> bool \<Rightarrow> ('e server, unit) wact" where
  "await_configuration L stop_at_entry =
     w_then (w_set (\<lambda>s. s\<lparr>launch_awaiting_configuration_done := True, launch_stop_at_entry := stop_at_entry\<rparr>))
       (w_bind (try_get_current_thread_id L) (\<lambda>t. w_set (\<lambda>s. s\<lparr>launch_thread_id := t\<rparr>)))"

definition set_disconnect_policy :: "bool \<Rightarrow> bool \<Rightarrow> 'e server \<Rightarrow> 'e server" where
  "set_disconnect_policy detach terminate s =
     s\<lparr>detach_on_disconnect := detach, terminate_debuggee_on_disconnect := terminate\<rparr>"

text \<open>The response, the process event and the visible stop at the end of both handlers.\<close>

definition announce_target ::
    "'e target \<Rightarrow> int \<Rightarrow> string \<Rightarrow> string \<Rightarrow> int option \<Rightarrow> start_method \<Rightarrow> (stop_reason \<times> string) option
     \<Rightarrow> ('e server, unit) wact" where
  "announce_target L request_seq command name process_id start entry_stop =
     w_then (now (send_response request_seq command No_Body))
       (w_then (send_process_event name process_id start)
          (w_then (w_set (set_running False))
             (case entry_stop of None \<Rightarrow> w_ret () | Some (reason, description) \<Rightarrow> send_stopped_event L reason description)))"

definition handle_launch_request ::
    "'e target \<Rightarrow> (json \<Rightarrow> string) \<Rightarrow> json \<Rightarrow> int \<Rightarrow> string \<Rightarrow> ('e server, unit) wact" where
  "handle_launch_request L dump root request_seq command =
     (let arguments = get_arguments root;
          executable_path = try_get_string arguments ''program'';
          connection_string = try_get_string arguments ''connectionString'';
          stop_at_entry = (try_get_boolean arguments ''stopAtEntry'' = Some True)
      in if try_get_boolean arguments ''noDebug'' = Some True
         then now (send_error_response request_seq command ''Launching without debugging is not supported.'')
         else if is_blank_opt executable_path
         then now (send_error_response request_seq command
                (''The launch request requires a '' @ quoted ''program'' @ '' argument.''))
         else case try_resolve_debugger_engine_path (connector_of L) (try_get_string arguments ''dbgengPath'') of
           None \<Rightarrow> now (send_error_response request_seq command no_engine_message)
         | Some engine_path \<Rightarrow>
             w_then (create_debugger_session L engine_path)
               (w_then (apply_session_configuration L (try_get_string_list arguments ''symbolPath'')
                          (try_get_string_list arguments ''sources''))
                  (w_then
                     (connect_target L
                        (if is_blank_opt connection_string
                         then launch_process (connector_of L) (the executable_path)
                                (try_get_command_line_arguments dump arguments) (resolve_working_directory arguments)
                         else launch_remote_process (connector_of L) (the connection_string) (the executable_path)
                                (try_get_command_line_arguments dump arguments) (resolve_working_directory arguments)))
                     (w_then (await_configuration L stop_at_entry)
                        (w_then (w_set (set_disconnect_policy False True))
                           (announce_target L request_seq command (the executable_path) None Start_Launch
                              (if stop_at_entry then Some (Stop_Entry, ''Paused at process entry.'') else None)))))))"

section \<open>Attach\<close>

fun poll_for_process_id :: "'e target \<Rightarrow> nat \<Rightarrow> string \<Rightarrow> ('e server, u32 option) wact" where
  "poll_for_process_id L remaining executable_name =
     w_bind (invoke_session L (try_find_process_id_by_executable_name (connector_of L) executable_name)) (\<lambda>found.
       case remaining of
         0 \<Rightarrow> w_ret found
       | Suc n \<Rightarrow>
           if found \<noteq> None then w_ret found
           else w_then (w_set (\<lambda>s. case live_session s of
                          None \<Rightarrow> s | Some x \<Rightarrow> put_session (x\<lparr>eng := poll_pause (connector_of L) (eng x)\<rparr>) s))
                  (poll_for_process_id L n executable_name))"

declare poll_for_process_id.simps [simp del]

definition attach_kernel_request ::
    "'e target \<Rightarrow> int \<Rightarrow> string \<Rightarrow> string \<Rightarrow> bool \<Rightarrow> string \<Rightarrow> string list option \<Rightarrow> string list option
     \<Rightarrow> ('e server, unit) wact" where
  "attach_kernel_request L request_seq command connection_string stop_at_entry engine_path symbol_path source_path =
     w_then (create_debugger_session L engine_path)
       (w_then (apply_session_configuration L symbol_path source_path)
          (w_then (connect_target L (attach_kernel_target (connector_of L) connection_string))
             (w_then (w_set (set_disconnect_policy False False))
                (w_then (w_set (\<lambda>s. s\<lparr>kernel_initial_resume_pending := True\<rparr>))
                   (w_then (await_configuration L stop_at_entry)
                      (announce_target L request_seq command (''kernel target '' @ connection_string) None Start_Attach
                         (if stop_at_entry then Some (Stop_Pause, ''Paused after kernel attach.'') else None)))))))"

definition open_dump_request ::
    "'e target \<Rightarrow> int \<Rightarrow> string \<Rightarrow> string \<Rightarrow> string \<Rightarrow> string list option \<Rightarrow> string list option
     \<Rightarrow> ('e server, unit) wact" where
  "open_dump_request L request_seq command dump_file engine_path symbol_path source_path =
     w_then (create_debugger_session L engine_path)
       (w_then (apply_session_configuration L symbol_path source_path)
          (w_then (connect_target L (open_dump (connector_of L) dump_file))
             (w_then (w_set (set_disconnect_policy False False))
                (announce_target L request_seq command dump_file None Start_Attach
                   (Some (Stop_Pause, ''Paused after opening dump file.''))))))"

text \<open>The process to attach to, by its name: the id that is found, connected to afterwards.\<close>

definition find_process ::
    "'e target \<Rightarrow> string option \<Rightarrow> string \<Rightarrow> int \<Rightarrow> ('e server, int option) wact" where
  "find_process L connection_string process_name_argument timeout_ms =
     w_then
       (if is_blank_opt connection_string then w_ret ()
        else run_with_suppressed_session_events
               (invoke_session L (connect_process_server (connector_of L) (the connection_string))))
       (w_bind (poll_for_process_id L (polls (connector_of L) timeout_ms) process_name_argument) (\<lambda>found.
          w_ret (map_option sint found)))"

definition finish_attach ::
    "'e target \<Rightarrow> int \<Rightarrow> string \<Rightarrow> int \<Rightarrow> bool \<Rightarrow> ('e server, unit) wact" where
  "finish_attach L request_seq command process_id stop_at_entry =
     w_then (await_configuration L stop_at_entry)
       (w_then (w_set (set_disconnect_policy True False))
          (announce_target L request_seq command (''process '' @ dec_int process_id) (Some process_id) Start_Attach
             (if stop_at_entry then Some (Stop_Pause, ''Paused after attach.'') else None)))"

definition attach_process_request ::
    "'e target \<Rightarrow> int \<Rightarrow> string \<Rightarrow> json \<Rightarrow> string option \<Rightarrow> bool \<Rightarrow> string \<Rightarrow> string list option
     \<Rightarrow> string list option \<Rightarrow> ('e server, unit) wact" where
  "attach_process_request L request_seq command arguments connection_string stop_at_entry engine_path
     symbol_path source_path =
     w_then (create_debugger_session L engine_path)
       (w_then (apply_session_configuration L symbol_path source_path)
          (case try_get_int32 arguments ''processId'' of
             None \<Rightarrow>
               (let name = (case try_get_string arguments ''processName'' of None \<Rightarrow> [] | Some n \<Rightarrow> n);
                    timeout_ms = max (case try_get_int32 arguments ''processNameTimeout'' of
                                        None \<Rightarrow> 15000 | Some n \<Rightarrow> n) 0
                in w_bind (find_process L connection_string name timeout_ms) (\<lambda>found.
                     case found of
                       None \<Rightarrow> now (send_error_response request_seq command
                                 (''No process named '' @ quoted name @ '' appeared within '' @ dec_int timeout_ms @ '' ms.''))
                     | Some i \<Rightarrow>
                         w_then (connect_target L (attach_process (connector_of L) i))
                           (finish_attach L request_seq command i stop_at_entry)))
           | Some i \<Rightarrow>
               w_then
                 (connect_target L
                    (if is_blank_opt connection_string then attach_process (connector_of L) i
                     else attach_remote_process (connector_of L) (the connection_string) i))
                 (finish_attach L request_seq command i stop_at_entry)))"

definition handle_attach_request :: "'e target \<Rightarrow> json \<Rightarrow> int \<Rightarrow> string \<Rightarrow> ('e server, unit) wact" where
  "handle_attach_request L root request_seq command =
     (let arguments = get_arguments root;
          dump_file = try_get_string arguments ''dumpFile'';
          connection_string = try_get_string arguments ''connectionString'';
          kernel = (try_get_boolean arguments ''kernel'' = Some True);
          stop_at_entry = (try_get_boolean arguments ''stopAtEntry'' \<noteq> Some False);
          symbol_path = try_get_string_list arguments ''symbolPath'';
          source_path = try_get_string_list arguments ''sources''
      in case try_resolve_debugger_engine_path (connector_of L) (try_get_string arguments ''dbgengPath'') of
           None \<Rightarrow> now (send_error_response request_seq command no_engine_message)
         | Some engine_path \<Rightarrow>
             if kernel
             then (if is_blank_opt connection_string
                   then now (send_error_response request_seq command
                          (''Kernel attach requires a '' @ quoted ''connectionString'' @ '' transport, e.g. ''
                             @ quoted ''net:port=50000,key=...'' @ '' or ''
                             @ quoted (''com:pipe,port='' @ [BACKSLASH, BACKSLASH] @ ''.'' @ [BACKSLASH] @ ''pipe''
                                 @ [BACKSLASH] @ ''kd,resets=0,reconnect'') @ ''.''))
                   else attach_kernel_request L request_seq command (the connection_string) stop_at_entry engine_path
                          symbol_path source_path)
             else if is_blank_opt dump_file \<and> try_get_int32 arguments ''processId'' = None
                     \<and> is_blank_opt (try_get_string arguments ''processName'')
             then now (send_error_response request_seq command
                    (''The attach request requires '' @ quoted ''processId'' @ '', '' @ quoted ''processName''
                       @ '', or '' @ quoted ''dumpFile'' @ ''.''))
             else if \<not> is_blank_opt dump_file
             then open_dump_request L request_seq command (the dump_file) engine_path symbol_path source_path
             else attach_process_request L request_seq command arguments connection_string stop_at_entry engine_path
                    symbol_path source_path)"

section \<open>The response contract of the handlers\<close>

lemma responses_policies [simp]:
  "responses (install_session x s) = responses s" "responses (set_disconnect_policy b d s) = responses s"
  "responses (s\<lparr>launch_thread_id := t\<rparr>) = responses s"
  "responses (s\<lparr>launch_awaiting_configuration_done := b, launch_stop_at_entry := e\<rparr>) = responses s"
  "responses (put_session x s) = responses s"
  by (simp_all add: install_session_def set_disconnect_policy_def responses_def put_session_def)

lemma unanswered_create_session [answer_rules]: "unanswered (create_debugger_session L p)"
  unfolding create_debugger_session_def by (intro answer_rules) (simp_all add: keeps_def)

lemma unanswered_configuration [answer_rules]: "unanswered (apply_session_configuration L a b)"
  unfolding apply_session_configuration_def by (auto split: option.split intro!: answer_rules)

lemma unanswered_connect [answer_rules]: "unanswered (connect_target L f)"
proof -
  have "unanswered (free_worker L)" "unanswered (now (session_task L f))"
    unfolding unanswered_def by (intro allI quiet.free_worker_maintains maintains_now quiet.session_task_keeps)+
  then show ?thesis unfolding connect_target_def invoke_and_wait_def by (intro answer_rules)
qed

lemma unanswered_await [answer_rules]: "unanswered (await_configuration L b)"
  unfolding await_configuration_def by (intro answer_rules) simp_all

lemma answers_announce [answer_rules]: "answers q c (announce_target L q c n i m e)"
proof -
  have "completes (send_stopped_event L r d)" for r d
    unfolding send_stopped_event_def by (intro answer_rules)
  then show ?thesis
    unfolding announce_target_def send_process_event_def
    by (intro answers_then_complete [OF answers_response] answer_rules) (auto split: option.split intro!: answer_rules)
qed

lemma answers_launch [answer_rules]: "answers q c (handle_launch_request L dump root q c)"
  unfolding handle_launch_request_def Let_def by (auto split: option.split intro!: answer_rules)

lemma unanswered_poll [answer_rules]: "unanswered (poll_for_process_id L n p)"
proof (induction n)
  case 0
  show ?case by (subst poll_for_process_id.simps) (auto intro!: answer_rules)
next
  case (Suc n)
  then show ?case
    by (subst poll_for_process_id.simps) (auto intro!: answer_rules split: option.split)
qed

lemma unanswered_find [answer_rules]: "unanswered (find_process L cs n t)"
  unfolding find_process_def by (intro answer_rules)

lemma answers_finish [answer_rules]: "answers q c (finish_attach L q c i b)"
  unfolding finish_attach_def by (intro answer_rules) simp_all

lemma answers_attach_parts [answer_rules]:
  "answers q c (attach_kernel_request L q c cs b p sy so)" "answers q c (open_dump_request L q c d p sy so)"
  unfolding attach_kernel_request_def open_dump_request_def by (intro answer_rules; simp)+

lemma answers_attach_process [answer_rules]: "answers q c (attach_process_request L q c a cs b p sy so)"
  unfolding attach_process_request_def Let_def
  by (intro answer_rules) (auto split: option.split intro!: answer_rules)

lemma answers_attach [answer_rules]: "answers q c (handle_attach_request L root q c)"
  unfolding handle_attach_request_def Let_def
  by (simp add: answer_rules split: option.split)

section \<open>The exceptions that leave the handlers\<close>

lemma tame_session_setup [tame_rules]:
  "tame (create_debugger_session L p)" "tame (apply_session_configuration L a b)" "tame (await_configuration L e)"
  unfolding create_debugger_session_def apply_session_configuration_def await_configuration_def
  by (auto split: option.split intro!: tame_rules)

lemma tame_connect [tame_rules]: "tame (connect_target L f)"
  unfolding connect_target_def invoke_and_wait_def
  by (intro tame_rules tame_free_worker tame_caught) simp

lemma tame_announce [tame_rules]: "tame (announce_target L q c n i m e)"
  unfolding announce_target_def send_process_event_def send_stopped_event_def
  by (auto split: option.split intro!: tame_rules)

lemma tame_launch [tame_rules]: "tame (handle_launch_request L dump root q c)"
  unfolding handle_launch_request_def Let_def by (simp add: tame_rules split: option.split)

lemma tame_poll [tame_rules]: "tame (poll_for_process_id L n p)"
proof (induction n)
  case 0
  show ?case by (subst poll_for_process_id.simps) (auto intro!: tame_rules)
next
  case (Suc n)
  then show ?case by (subst poll_for_process_id.simps) (auto intro!: tame_rules)
qed

lemma tame_finish [tame_rules]: "tame (finish_attach L q c i b)"
  unfolding finish_attach_def by (intro tame_rules)

lemma tame_attach_process [tame_rules]: "tame (attach_process_request L q c a cs b p sy so)"
  unfolding attach_process_request_def find_process_def Let_def
  by (intro tame_rules) (auto split: option.split intro!: tame_rules)

lemma tame_attach [tame_rules]: "tame (handle_attach_request L root q c)"
  unfolding handle_attach_request_def attach_kernel_request_def open_dump_request_def Let_def
  by (simp add: tame_rules split: option.split)

end
