(* ===== verification/Server.thy ===== *)
theory Server
  imports Requests Protocol_Messages Server_Targets
begin

text \<open>
  Dispatch of a message: \<open>dap_service::handle\<close> (src/src/protocol/dap_service.h) and
  \<open>dap_server::handle_request\<close> (src/src/service/dap_server.cpp), which maps every failure to an error
  response.  Events and responses are converted and ignored.
\<close>

section \<open>Dispatch\<close>

text \<open>\<open>json::value\<close> for a string.\<close>

definition string_value :: "json \<Rightarrow> string \<Rightarrow> string + string" where
  "string_value j key =
     (if \<not> is_object j
      then Inl (''[json.exception.type_error.306] cannot use value() with '' @ type_name j)
      else case find_key j key of None \<Rightarrow> Inr [] | Some v \<Rightarrow> get_string v)"

text \<open>A handler runs on the converted request; a failed conversion is thrown.\<close>

definition serve_request :: "string + 'a \<Rightarrow> ('a \<Rightarrow> ('e server, unit) wact) \<Rightarrow> ('e server, unit) wact" where
  "serve_request r handler = (case r of Inl e \<Rightarrow> w_raise (Json_Error e) | Inr a \<Rightarrow> handler a)"

text \<open>
  The handlers of the base class: a request that the service does not handle is rejected under the
  name of its command; events and responses are ignored.
\<close>

definition default_request_handler :: "int \<Rightarrow> string \<Rightarrow> ('e server, unit) wact" where
  [simp]: "default_request_handler request_seq name = w_raise (Unhandled_Request request_seq name)"

definition default_event_handler :: "('e server, unit) wact" where
  [simp]: "default_event_handler = w_ret ()"

definition default_response_handler :: "('e server, unit) wact" where
  [simp]: "default_response_handler = w_ret ()"

definition request_handlers ::
    "'e target \<Rightarrow> (json \<Rightarrow> string) \<Rightarrow> (string \<Rightarrow> int) \<Rightarrow> json \<Rightarrow> (string \<times> ('e server, unit) wact) list" where
  "request_handlers L dump tr m =
     [(''attach'', serve_request (request_from_json tr m ''attach'' no_arguments_from_json)
         (\<lambda>(q, c, u). handle_attach_request L m q c)),
      (''configurationDone'', serve_request (request_from_json tr m ''configurationDone'' no_arguments_from_json)
         (\<lambda>(q, c, u). handle_configuration_done_request L q c)),
      (''continue'', serve_request (request_from_json tr m ''continue'' (continue_arguments_from_json tr))
         (\<lambda>(q, c, t, single). handle_continue_request L q c t (single = Some True))),
      (''dataBreakpointInfo'',
       serve_request (request_from_json tr m ''dataBreakpointInfo'' (data_breakpoint_info_arguments_from_json tr))
         (\<lambda>(q, c, n, r, f). handle_data_breakpoint_info_request L q c n r f)),
      (''disassemble'', serve_request (request_from_json tr m ''disassemble'' (disassemble_arguments_from_json tr))
         (\<lambda>(q, c, a). handle_disassemble_request L q c a)),
      (''disconnect'', serve_request (request_from_json tr m ''disconnect'' disconnect_arguments_from_json)
         (\<lambda>(q, c, t). handle_disconnect_request L q c t)),
      (''evaluate'', serve_request (request_from_json tr m ''evaluate'' (evaluate_arguments_from_json tr))
         (\<lambda>(q, c, a). handle_evaluate_request L q c a)),
      (''exceptionInfo'', serve_request (request_from_json tr m ''exceptionInfo'' (thread_arguments_from_json tr))
         (\<lambda>(q, c, t). handle_exception_info_request L q c)),
      (''initialize'', serve_request (request_from_json tr m ''initialize'' initialize_arguments_from_json)
         (\<lambda>(q, c, u). handle_initialize_request q c)),
      (''launch'', serve_request (request_from_json tr m ''launch'' launch_arguments_from_json)
         (\<lambda>(q, c, u). handle_launch_request L dump m q c)),
      (''modules'', serve_request (request_from_json tr m ''modules'' (modules_arguments_from_json tr))
         (\<lambda>(q, c, s, n). handle_modules_request L q c s n)),
      (''next'', serve_request (request_from_json tr m ''next'' (step_arguments_from_json tr))
         (\<lambda>(q, c, t, single, g). handle_next_request L q c t (single = Some True) g)),
      (''pause'', serve_request (request_from_json tr m ''pause'' (thread_arguments_from_json tr))
         (\<lambda>(q, c, t). handle_pause_request L q c t)),
      (''readMemory'', serve_request (request_from_json tr m ''readMemory'' (read_memory_arguments_from_json tr))
         (\<lambda>(q, c, r, i, n). handle_read_memory_request L q c r n i)),
      (''scopes'', serve_request (request_from_json tr m ''scopes'' (scopes_arguments_from_json tr))
         (\<lambda>(q, c, f). handle_scopes_request L q c f)),
      (''setBreakpoints'',
       serve_request (request_from_json tr m ''setBreakpoints'' (set_breakpoints_arguments_from_json tr))
         (\<lambda>(q, c, a). handle_set_breakpoints_request L q c a)),
      (''setDataBreakpoints'',
       serve_request (request_from_json tr m ''setDataBreakpoints'' set_data_breakpoints_arguments_from_json)
         (\<lambda>(q, c, bs). handle_set_data_breakpoints_request L q c bs)),
      (''setExceptionBreakpoints'',
       serve_request (request_from_json tr m ''setExceptionBreakpoints'' set_exception_breakpoints_arguments_from_json)
         (\<lambda>(q, c, fs). handle_set_exception_breakpoints_request L q c fs)),
      (''setExpression'', serve_request (request_from_json tr m ''setExpression'' (set_expression_arguments_from_json tr))
         (\<lambda>(q, c, x, v, f). handle_set_expression_request L q c x v f)),
      (''setFunctionBreakpoints'',
       serve_request (request_from_json tr m ''setFunctionBreakpoints'' set_function_breakpoints_arguments_from_json)
         (\<lambda>(q, c, ns). handle_set_function_breakpoints_request L q c ns)),
      (''setInstructionBreakpoints'',
       serve_request (request_from_json tr m ''setInstructionBreakpoints''
                        (set_instruction_breakpoints_arguments_from_json tr))
         (\<lambda>(q, c, bs). handle_set_instruction_breakpoints_request L q c bs)),
      (''setVariable'', serve_request (request_from_json tr m ''setVariable'' (set_variable_arguments_from_json tr))
         (\<lambda>(q, c, r, n, v). handle_set_variable_request L q c r n v)),
      (''source'', serve_request (request_from_json tr m ''source'' (source_arguments_from_json tr))
         (\<lambda>(q, c, p). handle_source_request L q c p)),
      (''stackTrace'', serve_request (request_from_json tr m ''stackTrace'' (stack_trace_arguments_from_json tr))
         (\<lambda>(q, c, t, f, n). handle_stack_trace_request L q c t f n)),
      (''stepIn'', serve_request (request_from_json tr m ''stepIn'' (step_in_arguments_from_json tr))
         (\<lambda>(q, c, t, single, i, g). handle_step_in_request L q c t (single = Some True) i g)),
      (''stepOut'', serve_request (request_from_json tr m ''stepOut'' (step_arguments_from_json tr))
         (\<lambda>(q, c, t, single, g). handle_step_out_request L q c t (single = Some True) g)),
      (''terminate'', serve_request (request_from_json tr m ''terminate'' terminate_arguments_from_json)
         (\<lambda>(q, c, u). handle_terminate_request L q c)),
      (''threads'', serve_request (request_from_json tr m ''threads'' no_arguments_from_json)
         (\<lambda>(q, c, u). handle_threads_request L q c)),
      (''variables'', serve_request (request_from_json tr m ''variables'' (variables_arguments_from_json tr))
         (\<lambda>(q, c, r, indexed, i, n). handle_variables_request q c r indexed i n)),
      (''writeMemory'', serve_request (request_from_json tr m ''writeMemory'' (write_memory_arguments_from_json tr))
         (\<lambda>(q, c, r, i, d). handle_write_memory_request L q c r d i))]"

definition dispatch_request ::
    "'e target \<Rightarrow> (json \<Rightarrow> string) \<Rightarrow> (string \<Rightarrow> int) \<Rightarrow> json \<Rightarrow> ('e server, unit) wact" where
  "dispatch_request L dump tr m =
     serve_request (string_value m ''command'') (\<lambda>command.
       case map_of (request_handlers L dump tr m) command of
         Some handler \<Rightarrow> handler
       | None \<Rightarrow>
           (case map_of (unhandled_requests tr) command of
              Some arguments \<Rightarrow>
                serve_request (request_from_json tr m command arguments)
                  (\<lambda>(q, c, u). default_request_handler q command)
            | None \<Rightarrow>
                serve_request (request_from_json tr m [] no_arguments_from_json)
                  (\<lambda>(q, c, u). default_request_handler q c)))"

definition dispatch_event :: "json \<Rightarrow> ('e server, unit) wact" where
  "dispatch_event m =
     serve_request (string_value m ''event'') (\<lambda>name.
       case map_of event_conversions name of
         None \<Rightarrow> w_ret () | Some conversion \<Rightarrow> serve_request (conversion m) (\<lambda>u. default_event_handler))"

definition dispatch_response :: "json \<Rightarrow> ('e server, unit) wact" where
  "dispatch_response m =
     serve_request (string_value m ''command'') (\<lambda>command.
       case map_of response_conversions command of
         None \<Rightarrow> w_ret () | Some conversion \<Rightarrow> serve_request (conversion m) (\<lambda>u. default_response_handler))"

text \<open>Events and responses change nothing.\<close>

lemma dispatch_ignores:
  "dispatch_event m = w_ret () \<or> (\<exists>e. dispatch_event m = w_raise (Json_Error e))"
  "dispatch_response m = w_ret () \<or> (\<exists>e. dispatch_response m = w_raise (Json_Error e))"
  by (auto simp: dispatch_event_def dispatch_response_def serve_request_def split: sum.split option.split)

definition handle ::
    "'e target \<Rightarrow> (json \<Rightarrow> string) \<Rightarrow> (string \<Rightarrow> int) \<Rightarrow> json \<Rightarrow> ('e server, unit) wact" where
  "handle L dump tr m =
     serve_request (string_value m ''type'') (\<lambda>t.
       if t = ''request'' then dispatch_request L dump tr m
       else if t = ''event'' then dispatch_event m
       else if t = ''response'' then dispatch_response m
       else w_raise (Runtime_Error (''Unsupported DAP message type: '' @ t)))"

text \<open>The error response for a failure of the dispatch.\<close>

definition report_failure :: "json \<Rightarrow> exn \<Rightarrow> ('e server, unit) act" where
  "report_failure root e =
     (case e of
        Unhandled_Request q c \<Rightarrow> send_error_response q c (''Unsupported command: <'' @ c @ ''>'')
      | _ \<Rightarrow>
          (case (try_get_sequence root, try_get_command root) of
             (Some q, Some c) \<Rightarrow>
               if c \<noteq> [] \<and> c \<noteq> ''<unknown>'' then send_error_response q c (unwrap_failure_message e (what e))
               else ret ()
           | _ \<Rightarrow> ret ()))"

definition handle_request ::
    "'e target \<Rightarrow> (json \<Rightarrow> string) \<Rightarrow> (string \<Rightarrow> int) \<Rightarrow> json \<Rightarrow> ('e server, bool) wact" where
  "handle_request L dump tr root =
     w_then (w_set (\<lambda>s. s\<lparr>should_exit := False\<rparr>))
       (w_then (w_catch (handle L dump tr root) (\<lambda>e. now (report_failure root e)))
          (w_get should_exit))"

section \<open>One response per request\<close>

lemma request_envelope:
  assumes "request_from_json tr m name f = Inr (q, c, a)" "find_key m ''seq'' = Some (J_Int n)"
    and "find_key m ''command'' = Some (J_String command)"
  shows "q = wrap_int32 n" "c = command"
  using assms
  by (auto simp: request_from_json_def field_or_def field_def r_bind_def split: sum.splits)

text \<open>What the dispatch needs of a handler.\<close>

definition serves :: "int \<Rightarrow> string \<Rightarrow> ('e server, unit) wact \<Rightarrow> bool" where
  "serves q c h \<longleftrightarrow> answers q c h \<and> tame h"

lemma answers_raise: "answers q c (w_raise e)"
  by (simp add: answers_def ensures_raise)

lemma serves_request:
  assumes "find_key m ''seq'' = Some (J_Int n)" "find_key m ''command'' = Some (J_String command)"
    and "\<And>a. serves (wrap_int32 n) command (h (wrap_int32 n, command, a))"
  shows "serves (wrap_int32 n) command (serve_request (request_from_json tr m name f) h)"
proof (cases "request_from_json tr m name f")
  case (Inl e)
  then show ?thesis by (simp add: serve_request_def serves_def answers_raise tame_raise)
next
  case (Inr r)
  obtain q c a where r: "r = (q, c, a)" by (cases r) auto
  show ?thesis
    using assms(3) [of a] request_envelope [OF Inr [unfolded r] assms(1,2)] by (simp add: serve_request_def Inr r)
qed

lemma handlers_serve:
  assumes "find_key m ''seq'' = Some (J_Int n)" "find_key m ''command'' = Some (J_String command)"
    and "(name, h) \<in> set (request_handlers L dump tr m)"
  shows "serves (wrap_int32 n) command h"
proof -
  have "list_all (\<lambda>(name, h). serves (wrap_int32 n) command h) (request_handlers L dump tr m)"
    unfolding request_handlers_def list.pred_inject case_prod_conv
    by (intro conjI TrueI serves_request [OF assms(1,2)])
      (simp_all add: serves_def answer_rules tame_rules case_prod_beta)
  then show ?thesis using assms(3) by (auto simp: list_all_iff)
qed

definition outcome :: "int \<Rightarrow> string \<Rightarrow> 'e server \<Rightarrow> (exn + 'a) \<times> 'e server \<Rightarrow> bool" where
  "outcome q c s y \<longleftrightarrow>
     (case fst y of
        Inr u \<Rightarrow> \<exists>x. responses (snd y) = responses s @ [x] \<and> answered x = Some (q, c)
      | Inl e \<Rightarrow> responses (snd y) = responses s \<and> (plain e \<or> e = Unhandled_Request q c))"

lemma serves_outcome: "serves q c h \<Longrightarrow> h s = Some y \<Longrightarrow> outcome q c s y"
  unfolding serves_def answers_def tame_def outcome_def
  by (cases y) (fastforce simp: ensures_def split: sum.split)

lemma rejected_outcome:
  assumes "find_key m ''seq'' = Some (J_Int n)" "find_key m ''command'' = Some (J_String command)"
    and "serve_request (request_from_json tr m name f) (\<lambda>(q, c, u). w_raise (Unhandled_Request q (g c))) s = Some y"
    and "g command = command"
  shows "outcome (wrap_int32 n) command s y"
proof (cases "request_from_json tr m name f")
  case (Inl e)
  then show ?thesis using assms(3) by (auto simp: serve_request_def now_def raise_def outcome_def)
next
  case (Inr r)
  obtain q c a where r: "r = (q, c, a)" by (cases r) auto
  show ?thesis
    using assms(3,4) request_envelope [OF Inr [unfolded r] assms(1,2)]
    by (auto simp: serve_request_def Inr r now_def raise_def outcome_def)
qed

lemma dispatch_outcome:
  assumes m: "find_key m ''seq'' = Some (J_Int n)" "find_key m ''command'' = Some (J_String command)"
    and y: "dispatch_request L dump tr m s = Some y"
  shows "outcome (wrap_int32 n) command s y"
proof -
  have o: "is_object m" using m(1) by (cases m) simp_all
  have d: "dispatch_request L dump tr m s =
      (case map_of (request_handlers L dump tr m) command of
         Some handler \<Rightarrow> handler s
       | None \<Rightarrow>
           (case map_of (unhandled_requests tr) command of
              Some arguments \<Rightarrow>
                serve_request (request_from_json tr m command arguments)
                  (\<lambda>(q, c, u). w_raise (Unhandled_Request q ((\<lambda>_. command) c))) s
            | None \<Rightarrow>
                serve_request (request_from_json tr m [] no_arguments_from_json)
                  (\<lambda>(q, c, u). w_raise (Unhandled_Request q (id c))) s))"
    using m o by (simp add: dispatch_request_def string_value_def serve_request_def [of "Inr _"] split: option.split)
  show ?thesis
  proof (cases "map_of (request_handlers L dump tr m) command")
    case (Some h)
    then have "(command, h) \<in> set (request_handlers L dump tr m)" by (rule map_of_SomeD)
    then show ?thesis using serves_outcome [OF handlers_serve [OF m]] y d Some by simp
  next
    case None
    show ?thesis
    proof (cases "map_of (unhandled_requests tr) command")
      case (Some f)
      show ?thesis
        by (rule rejected_outcome [OF m, where g = "\<lambda>_. command"]) (use y None Some in \<open>simp_all add: d\<close>)
    next
      case n: None
      show ?thesis by (rule rejected_outcome [OF m, where g = id]) (use y None n in \<open>simp_all add: d\<close>)
    qed
  qed
qed

lemma failure_reported:
  assumes "plain e \<or> e = Unhandled_Request (wrap_int32 n) c" "find_key root ''seq'' = Some (J_Int n)"
    and "find_key root ''command'' = Some (J_String c)" "c \<noteq> []" "c \<noteq> ''<unknown>''"
  shows "\<exists>x. report_failure root e s = (Inr (), post_message x s) \<and> is_response x \<and> answered x = Some (wrap_int32 n, c)"
proof -
  have "is_object root" using assms(2) by (cases root) simp_all
  then have "try_get_sequence root = Some (wrap_int32 n)" "try_get_command root = Some c"
    using assms(2,3) by (simp_all add: try_get_sequence_def try_get_command_def)
  then show ?thesis
    using assms(1,4,5)
    by (cases e) (auto simp: report_failure_def send_error_response_def update_state_def)
qed

lemma request_answered:
  assumes "find_key root ''type'' = Some (J_String ''request'')" "find_key root ''seq'' = Some (J_Int n)"
    and "find_key root ''command'' = Some (J_String c)" "c \<noteq> []" "c \<noteq> ''<unknown>''"
    and "handle_request L dump tr root s = Some (r, s')"
  shows "r = Inr (should_exit s') \<and> (\<exists>x. responses s' = responses s @ [x] \<and> answered x = Some (wrap_int32 n, c))"
proof -
  let ?s = "s\<lparr>should_exit := False\<rparr>"
  have o: "is_object root" using assms(1) by (cases root) simp_all
  then have h: "handle L dump tr root ?s = dispatch_request L dump tr root ?s"
    using assms(1) by (simp add: handle_def string_value_def serve_request_def)
  obtain q t where d: "dispatch_request L dump tr root ?s = Some (q, t)"
    using assms(6) h by (auto simp: handle_request_def wact_defs split: option.splits)
  have out: "outcome (wrap_int32 n) c ?s (q, t)" by (rule dispatch_outcome [OF assms(2,3) d])
  show ?thesis
  proof (cases q)
    case (Inr u)
    then show ?thesis using assms(6) h d out by (auto simp: handle_request_def wact_defs outcome_def)
  next
    case (Inl e)
    then obtain x where "report_failure root e t = (Inr (), post_message x t)" "is_response x"
        "answered x = Some (wrap_int32 n, c)"
      using failure_reported [OF _ assms(2-5), of e t] out by (auto simp: outcome_def)
    then show ?thesis
      using assms(6) h d out Inl
      by (auto simp: handle_request_def wact_defs outcome_def responses_def post_message_def)
  qed
qed

section \<open>Properties\<close>

text \<open>
  C3. Every request gets exactly one response: whenever \<open>handle_request\<close> returns for a message of
  type request with an integer sequence number and a command, it has queued exactly one
  response, which carries the request's sequence number and command, whatever the request's
  arguments, the state of the session and the engine's answers, on error paths, too.
\<close>

theorem one_response_per_request:
  assumes "find_key root ''type'' = Some (J_String ''request'')" "find_key root ''seq'' = Some (J_Int n)"
    and "find_key root ''command'' = Some (J_String c)" "c \<noteq> []" "c \<noteq> ''<unknown>''"
    and "handle_request L dump tr root s = Some (r, s')"
  shows "r = Inr (should_exit s') \<and> (\<exists>x. responses s' = responses s @ [x] \<and> answered x = Some (wrap_int32 n, c))"
  by (rule request_answered [OF assms])

text \<open>A request, for the witnesses.\<close>

definition done_request :: json where
  "done_request =
     J_Object [(''seq'', J_Int 7), (''type'', J_String ''request''), (''command'', J_String ''configurationDone'')]"

lemma done_request_answered:
  "\<exists>r s'. handle_request script_target (\<lambda>j. []) (\<lambda>f. 0) done_request new_server = Some (r, s')
     \<and> outbound s' = [Response 7 ''configurationDone'' No_Body]"
  by (simp add: handle_request_def handle_def done_request_def string_value_def serve_request_def dispatch_request_def
      request_handlers_def request_from_json_def field_or_def field_def r_bind_def get_enum_def enum_names_def
      no_arguments_from_json_def handle_configuration_done_request_def send_response_def wact_defs new_server_def
      post_message_def reset_launch_configuration_state_def)

lemma done_request_handled:
  "\<exists>r s'. handle_request script_target (\<lambda>j. []) (\<lambda>f. 0) done_request new_server = Some (r, s')
     \<and> outbound s' \<noteq> []"
  using done_request_answered by fastforce

theorem one_response_per_request_witness:
  "\<exists>r s' x. handle_request script_target (\<lambda>j. []) (\<lambda>f. 0) done_request new_server = Some (r, s')
     \<and> responses s' = [x] \<and> answered x = Some (7, ''configurationDone'')"
proof -
  obtain r s' where h: "handle_request script_target (\<lambda>j. []) (\<lambda>f. 0) done_request new_server = Some (r, s')"
    using done_request_handled by blast
  have "responses new_server = []" by (simp add: responses_def new_server_def)
  then show ?thesis
    using one_response_per_request [of done_request 7 "''configurationDone''", OF _ _ _ _ _ h] h
    by (auto simp: done_request_def)
qed

end
