(* ===== verification/Server_Liveness.thy ===== *)
theory Server_Liveness
  imports Server
begin

text \<open>
  Requests while the target runs.  The dispatcher's worker then sits in \<open>wait_for_event\<close> for as long as
  the target does not stop, so a handler that waited for it would leave the editor without an
  answer.  The guards of the handlers in src/src/service/dap_server_*.cpp are there to prevent this;
  the lemmas show, handler by handler, that they do.
\<close>

section \<open>Actions that need no worker\<close>

definition target_runs :: "'e server \<Rightarrow> bool" where
  "target_runs s \<longleftrightarrow> is_execution_running s \<and> handles_at_stop s"

interpretation running: session_invariant target_runs
  by unfold_locales (simp_all add: target_runs_def handles_at_stop_def post_message_def)

definition proceeds :: "('e server, 'a) wact \<Rightarrow> 'e server \<Rightarrow> bool" where
  "proceeds m s \<longleftrightarrow> (target_runs s \<longrightarrow> (\<exists>r s'. m s = Some (r, s') \<and> target_runs s'))"

named_theorems proceed_rules \<open>rules for actions that need no worker\<close>

lemma proceeds_now [proceed_rules]: "keeps target_runs m \<Longrightarrow> proceeds (now m) s"
  by (cases "m s") (auto simp: proceeds_def now_def dest: keepsD [where s = s])

lemma proceeds_bind:
  "proceeds m s \<Longrightarrow> (\<And>v s'. proceeds (f v) s') \<Longrightarrow> proceeds (w_bind m f) s"
  unfolding proceeds_def w_bind_def by (fastforce split: sum.split)

lemma proceeds_then [proceed_rules]:
  "proceeds m s \<Longrightarrow> (\<And>s'. proceeds n s') \<Longrightarrow> proceeds (w_then m n) s"
  unfolding w_then_def by (rule proceeds_bind)

lemma proceeds_catch [proceed_rules]:
  "proceeds m s \<Longrightarrow> (\<And>e s'. proceeds (h e) s') \<Longrightarrow> proceeds (w_catch m h) s"
  unfolding proceeds_def w_catch_def by (fastforce split: sum.split)

lemma proceeds_get: "proceeds (w_bind (w_get g) f) s \<longleftrightarrow> proceeds (f (g s)) s"
  by (simp add: proceeds_def wact_defs)

text \<open>Behind a guard on the running target only the branch for it matters.\<close>

lemma proceeds_running [proceed_rules]:
  "(target_runs s \<Longrightarrow> proceeds (f (g s)) s) \<Longrightarrow> proceeds (w_bind (w_get g) f) s"
  by (simp add: proceeds_get) (simp add: proceeds_def)

lemma proceeds_ret [proceed_rules]: "proceeds (w_ret v) s" and proceeds_raise [proceed_rules]: "proceeds (w_raise e) s"
  by (simp_all add: proceeds_def now_def ret_def raise_def)

lemma runs_keeps_update [intro]: "(\<And>s. target_runs s \<Longrightarrow> target_runs (f s)) \<Longrightarrow> keeps target_runs (update_state f)"
  by (simp add: keeps_def update_state_def)

lemma runs_updates [simp]:
  "target_runs (post_message m s) = target_runs s" "target_runs (s\<lparr>should_exit := b\<rparr>) = target_runs s"
  "target_runs (s\<lparr>initialize_request_handled := b\<rparr>) = target_runs s"
  "target_runs (reset_launch_configuration_state s) = target_runs s"
  "target_runs (set_pending_stopped_event r d i s) = target_runs s"
  "target_runs (clear_pending_stopped_event s) = target_runs s"
  "target_runs (start_waiting_for_session_event s) = target_runs s"
  by (simp_all add: target_runs_def handles_at_stop_def state_updates start_waiting_for_session_event_def)

lemma runs_reset [simp]: "target_runs s \<Longrightarrow> target_runs (reset_suspended_state s)"
  by (simp add: target_runs_def handles_at_stop_def state_updates)

lemma keeps_messages [simp]:
  "keeps target_runs (send_response q c b)" "keeps target_runs (send_error_response q c m)"
  "keeps target_runs (send_event e)"
  by (simp_all add: send_response_def send_error_response_def send_event_def keeps_def update_state_def)

lemma proceeds_messages [proceed_rules]:
  "proceeds (now (send_response q c b)) s" "proceeds (now (send_error_response q c m)) s"
  "proceeds (now (send_event e)) s"
  by (simp_all add: proceeds_now)

lemma proceeds_set [proceed_rules]: "(\<And>s. target_runs s \<Longrightarrow> target_runs (f s)) \<Longrightarrow> proceeds (w_set f) s"
  by (intro proceeds_now runs_keeps_update)

lemma proceeds_session [proceed_rules]: "proceeds (now (on_session f)) s"
  by (rule proceeds_now) (rule running.on_session_keeps)

lemma proceeds_require [proceed_rules]: "proceeds (now require_debugger_session) s"
  by (rule proceeds_now) (simp add: keeps_def require_debugger_session_def)

lemma proceeds_rethrow [proceed_rules]: "proceeds m s \<Longrightarrow> (\<And>s'. proceeds c s') \<Longrightarrow> proceeds (w_rethrow m c) s"
  unfolding w_rethrow_def by (intro proceed_rules)

lemma proceeds_if [proceed_rules]:
  "(b \<Longrightarrow> proceeds m s) \<Longrightarrow> (\<not> b \<Longrightarrow> proceeds n s) \<Longrightarrow> proceeds (if b then m else n) s"
  by simp

lemma proceeds_guard [proceed_rules]:
  "keeps target_runs g \<Longrightarrow> (\<And>s'. proceeds m s') \<Longrightarrow> proceeds (w_guard g m) s"
  unfolding w_guard_def by (rule proceeds_bind) (auto intro: proceed_rules)

lemma keeps_guards [proceed_rules]:
  "keeps target_runs (require_positive_thread_id q c t)" "keeps target_runs (reject_single_thread q c b)"
  "keeps target_runs (reject_target_id q c b)"
  by (simp_all add: require_positive_thread_id_def reject_single_thread_def reject_target_id_def
      send_error_response_def keeps_def act_defs)

text \<open>While the target runs there are no handles.\<close>

lemma runs_running [simp]: "target_runs s \<Longrightarrow> is_execution_running s"
  and runs_frames [simp]: "target_runs s \<Longrightarrow> frame_contexts s i = None"
  and runs_containers [simp]: "target_runs s \<Longrightarrow> variables_by_reference s i = None"
  by (simp_all add: target_runs_def handles_at_stop_def)

lemma proceeds_unless_running [proceed_rules]: "proceeds (unless_running q c m n) s"
  unfolding unless_running_def by (intro proceeds_running) (simp add: proceed_rules)

text \<open>A reader with a fallback returns it without asking the session.\<close>

lemma proceeds_read [proceed_rules]:
  "(\<And>s'. proceeds (f d) s') \<Longrightarrow> proceeds (w_bind (read_session_data_or_default m d) f) s"
  by (auto simp: proceeds_def read_session_data_or_default_def wact_defs)

section \<open>The handlers that a running target does not block\<close>

lemma proceeds_life [proceed_rules]:
  "proceeds (handle_initialize_request q c) s" "proceeds (handle_configuration_done_request L q c) s"
  "proceeds (handle_continue_request L q c t b) s" "proceeds (handle_pause_request L q c t) s"
  unfolding handle_initialize_request_def handle_configuration_done_request_def
    continue_after_configuration_done_def handle_continue_request_def handle_pause_request_def
  by (intro proceed_rules; simp add: proceed_rules)+

lemma proceeds_threads [proceed_rules]: "proceeds (handle_threads_request L q c) s"
  unfolding handle_threads_request_def get_threads_def by (intro proceed_rules)

lemma proceeds_run_step [proceed_rules]: "proceeds (run_step L q c t g d step) s"
  unfolding run_step_def by (intro proceeds_running) (simp add: proceed_rules)

lemma proceeds_steps [proceed_rules]:
  "proceeds (handle_next_request L q c t b g) s" "proceeds (handle_step_in_request L q c t b i g) s"
  "proceeds (handle_step_out_request L q c t b g) s"
  unfolding handle_next_request_def handle_step_in_request_def handle_step_out_request_def
  by (intro proceed_rules)+

lemma proceeds_stack_trace [proceed_rules]: "proceeds (handle_stack_trace_request L q c t a b) s"
  unfolding handle_stack_trace_request_def Let_def
  by (intro proceed_rules) (simp add: create_stack_trace_result_def apply_stack_trace_window_def copy_window_def
      register_frames_def)

lemma proceeds_scopes [proceed_rules]: "proceeds (handle_scopes_request L q c f) s"
  unfolding handle_scopes_request_def by (intro proceed_rules) (simp add: proceed_rules)

lemma proceeds_variables [proceed_rules]: "proceeds (handle_variables_request q c r b i n) s"
  unfolding handle_variables_request_def by (intro proceed_rules) (simp add: proceed_rules)

lemma proceeds_set_variable [proceed_rules]: "proceeds (handle_set_variable_request L q c r n v) s"
  unfolding handle_set_variable_request_def by (intro proceed_rules) (simp add: proceed_rules)

lemma proceeds_set_expression [proceed_rules]: "proceeds (handle_set_expression_request L q c x v f) s"
  unfolding handle_set_expression_request_def
  by (auto intro!: proceed_rules split: option.split)

lemma proceeds_evaluate [proceed_rules]: "proceeds (handle_evaluate_request L q c a) s"
proof -
  have "proceeds (evaluate_checked L q c a x) s" for x s
    unfolding evaluate_checked_def by (intro proceed_rules) (simp add: proceed_rules)
  then show ?thesis
    unfolding handle_evaluate_request_def by (auto intro!: proceed_rules split: option.split)
qed

lemma proceeds_data_info [proceed_rules]: "proceeds (handle_data_breakpoint_info_request L q c n r f) s"
  unfolding handle_data_breakpoint_info_request_def
  by (intro proceed_rules) (auto simp: data_breakpoint_target_def intro!: proceed_rules split: option.split)

lemma proceeds_exception_info [proceed_rules]: "proceeds (handle_exception_info_request L q c) s"
  unfolding handle_exception_info_request_def by (intro proceed_rules) (simp add: proceed_rules)

lemma proceeds_memory [proceed_rules]:
  "proceeds (handle_read_memory_request L q c r n i) s" "proceeds (handle_write_memory_request L q c r d i) s"
  "proceeds (handle_disassemble_request L q c a) s" "proceeds (handle_modules_request L q c st co) s"
  "proceeds (handle_source_request L q c p) s"
  unfolding handle_read_memory_request_def handle_write_memory_request_def handle_disassemble_request_def
    handle_modules_request_def handle_source_request_def Let_def
  by (auto intro!: proceed_rules split: option.split sum.split)

section \<open>Dispatch\<close>

text \<open>
  The commands that have to reach the engine also while the target runs: they replace or end the
  session, or interrupt the target first and wait for the break.
\<close>

definition engine_requests :: "string list" where
  "engine_requests =
     [''attach'', ''disconnect'', ''launch'', ''setBreakpoints'', ''setDataBreakpoints'', ''setExceptionBreakpoints'',
      ''setFunctionBreakpoints'', ''setInstructionBreakpoints'', ''terminate'']"

lemma proceeds_serve [proceed_rules]: "(\<And>a. proceeds (h a) s) \<Longrightarrow> proceeds (serve_request r h) s"
  unfolding serve_request_def by (auto intro: proceed_rules split: sum.split)

lemma handlers_proceed:
  assumes "(name, h) \<in> set (request_handlers L dump tr m)" "name \<notin> set engine_requests"
  shows "proceeds h s"
proof -
  have "list_all (\<lambda>(name, h). name \<in> set engine_requests \<or> proceeds h s) (request_handlers L dump tr m)"
    unfolding request_handlers_def list.pred_inject case_prod_conv
    by (intro conjI TrueI; simp add: engine_requests_def proceed_rules case_prod_beta)
  then show ?thesis using assms by (auto simp: list_all_iff)
qed

lemma dispatch_proceeds:
  assumes "find_key m ''command'' = Some (J_String command)" "command \<notin> set engine_requests"
  shows "proceeds (dispatch_request L dump tr m) s"
proof -
  have "proceeds (case map_of (request_handlers L dump tr m) command of
         Some handler \<Rightarrow> handler
       | None \<Rightarrow>
           (case map_of (unhandled_requests tr) command of
              Some arguments \<Rightarrow>
                serve_request (request_from_json tr m command arguments)
                  (\<lambda>(q, c, u). default_request_handler q command)
            | None \<Rightarrow>
                serve_request (request_from_json tr m [] no_arguments_from_json)
                  (\<lambda>(q, c, u). default_request_handler q c))) s"
    using assms(2)
    by (auto split: option.split prod.split dest!: map_of_SomeD intro!: handlers_proceed proceed_rules)
  moreover have "is_object m" using assms(1) by (cases m) simp_all
  ultimately show ?thesis
    using assms(1) by (simp add: dispatch_request_def string_value_def serve_request_def [of "Inr _"])
qed

lemma keeps_report: "keeps target_runs (report_failure root e)"
  unfolding report_failure_def
  by (auto simp: keeps_def ret_def send_error_response_def update_state_def split: exn.split option.split)

section \<open>Properties\<close>


text \<open>A target whose wait never ends, for the witness.\<close>

definition stuck_target :: "nat target" where
  "stuck_target = script_target\<lparr>pump := (\<lambda>n. Pump_Block)\<rparr>"


text \<open>
  C20. Terminate waits for the target: unlike pause and disconnect, the handler does not interrupt the
  running target before it calls the session, so as long as the engine stays in its wait the
  request never returns, and no later request is read.
\<close>

theorem terminate_waits_for_target:
  assumes "debugger_session s = Some x" "\<not> sess_disposed x" "wait_loop s = Loop_Waiting"
    and "pump L (eng x) = Pump_Block"
  shows "handle_terminate_request L q c s = None"
proof -
  let ?t = "s\<lparr>session_stop_or_exit_observed := False\<rparr>"
  have "wait_for_event L ?t = None"
    using assms by (subst wait_for_event.simps) (simp add: live_session_def)
  then have "free_worker L ?t = None" using assms(3) by (simp add: free_worker_def)
  then show ?thesis
    using assms(1)
    by (simp add: handle_terminate_request_def invoke_session_def invoke_def w_rethrow_def wact_defs)
qed

theorem terminate_waits_for_target_witness:
  "handle_terminate_request stuck_target 9 ''terminate'' running_server = None"
  by (rule terminate_waits_for_target [where x = "new_session 0"])
    (simp_all add: running_server_def new_server_def new_session_def stuck_target_def script_target_def)

end
