(* ===== verification/Server_Steps.thy ===== *)
theory Server_Steps
  imports Server_Liveness
begin

text \<open>
  The service as a transition system: its threads' steps are the requests, one at a time, and the
  steps of the wait loop's thread between them.  In every reachable state the
  frame and variable handles belong to the current stop: while the target runs there are none.
  This rests on the engine reporting stops from within \<open>WaitForEvent\<close> only, which is
  how dbgeng documents its event callbacks.
\<close>

section \<open>Stops come from the wait\<close>

fun reports_stop :: "engine_event \<Rightarrow> bool" where
  "reports_stop (Ev_Breakpoint d) = True"
| "reports_stop (Ev_Exception c a f) = True"
| "reports_stop (Ev_System_Error e) = True"
| "reports_stop ev = False"

definition stops_from_wait :: "'e target \<Rightarrow> bool" where
  "stops_from_wait L \<longleftrightarrow> (\<forall>e. \<forall>ev \<in> set (fst (sync_events L e)). \<not> reports_stop ev)"

text \<open>The worker has nothing to do and the target does not run.\<close>

definition at_stop :: "'e server \<Rightarrow> bool" where
  "at_stop s \<longleftrightarrow> \<not> is_execution_running s \<and> wait_loop s \<noteq> Loop_Waiting"

interpretation halted: session_invariant at_stop
  by unfold_locales (simp_all add: at_stop_def post_message_def)

lemma at_stop_updates [simp]:
  "at_stop s \<Longrightarrow> at_stop (observe_stop s)" "at_stop (clear_pending_stopped_event s) = at_stop s"
  "at_stop (flush_pending_thread_events s) = at_stop s" "at_stop (post_message m s) = at_stop s"
  "at_stop s \<Longrightarrow> at_stop (reset_session_members s)" "at_stop (destroy_session x s) = at_stop s"
  "at_stop (s\<lparr>skip_next_break_hit_event := b\<rparr>) = at_stop s" "at_stop (s\<lparr>should_exit := b\<rparr>) = at_stop s"
  "at_stop (s\<lparr>pending_thread_events := evs\<rparr>) = at_stop s" "at_stop (s\<lparr>pending_disposed_session := x\<rparr>) = at_stop s"
  by (simp_all add: at_stop_def state_updates destroy_session_def split: option.split)

lemma halted_thread_id: "keeps at_stop (current_thread_id_on_worker L)"
proof -
  have k: "keeps at_stop (act_catch (act_bind (on_session (get_current_thread_id (base L))) (\<lambda>i. ret (thread_id_of i)))
      (\<lambda>e. ret None))"
    by (intro keeps_rules halted.on_session_keeps)
  show ?thesis
    unfolding keeps_def current_thread_id_on_worker_def using keepsD [OF k] by (auto split: option.split)
qed

lemma halted_disposal: "keeps at_stop dispose_on_worker"
  unfolding dispose_on_worker_def by (intro keeps_update) (auto split: option.split)

lemma halted_deliver: "\<not> reports_stop ev \<Longrightarrow> keeps at_stop (deliver L ev)"
proof (cases ev)
  case (Ev_Execution_Status status)
  have "keeps at_stop (on_break_hit L)"
    unfolding on_break_hit_def send_event_def
    by (intro keeps_rules) (auto split: option.split intro!: keeps_rules halted_thread_id)
  moreover have "keeps at_stop queue_session_ended"
    unfolding queue_session_ended_def
    by (intro keeps_rules halted_disposal) (simp_all add: at_stop_def state_updates)
  ultimately show ?thesis using Ev_Execution_Status by (auto intro: keeps_rules)
next
  case (Ev_Session_Status status)
  have "keeps at_stop queue_session_ended"
    unfolding queue_session_ended_def
    by (intro keeps_rules halted_disposal) (simp_all add: at_stop_def state_updates)
  then show ?thesis using Ev_Session_Status by (auto intro: keeps_rules)
next
  case (Ev_Exit_Process code)
  have "keeps at_stop (queue_session_termination (sint code))"
    unfolding queue_session_termination_def
    by (intro keeps_rules halted_disposal) (simp_all add: at_stop_def state_updates)
  then show ?thesis using Ev_Exit_Process by simp
next
  case (Ev_Output t)
  then show ?thesis by (simp add: halted.on_session_keeps)
qed (auto simp: queue_thread_event_def intro!: keeps_rules halted_thread_id split: option.split)

lemma halted_task:
  fixes L :: "'e target"
  assumes "stops_from_wait L"
  shows "keeps at_stop (session_task L f)"
  unfolding keeps_def
proof (intro allI impI)
  fix s :: "'e server"
  assume "at_stop s"
  then have s1: "at_stop (snd (on_session f s))" by (rule keepsD [OF halted.on_session_keeps])
  have "keeps at_stop (act_iter (deliver L) (fst (sync_events L e)))" for e
    using assms by (intro keeps_iter halted_deliver) (auto simp: stops_from_wait_def)
  then have "at_stop (snd (act_iter (deliver L) (fst (sync_events L e)) (put_session x (snd (on_session f s)))))" for e x
    by (rule keepsD) (rule halted.put_session_law [OF s1])
  then show "at_stop (snd (session_task L f s))"
    using s1 by (auto simp: session_task_def split: prod.split option.split sum.split) (metis fst_conv snd_conv)+
qed

lemma halted_dispatch:
  fixes f :: "('e server, 'a) act"
  assumes "keeps at_stop f"
  shows "keeps at_stop (dispatcher_invoke False new_channel f)"
  unfolding keeps_def
proof (intro allI impI)
  fix s :: "'e server"
  assume "at_stop s"
  then have "at_stop (snd (f s))" by (rule keepsD [OF assms])
  then show "at_stop (snd (dispatcher_invoke False new_channel f s))"
    by (cases "f s") (auto simp: dispatcher_invoke_empty split: sum.split)
qed

lemma halted_invoke: "stops_from_wait L \<Longrightarrow> maintains at_stop (invoke_session L f)"
proof -
  assume "stops_from_wait L"
  then have "keeps at_stop (dispatcher_invoke False new_channel (session_task L f))"
    by (intro halted_dispatch halted_task)
  moreover have "maintains at_stop (free_worker L)"
    by (rule maintainsI) (simp add: free_worker_def at_stop_def)
  ultimately show ?thesis unfolding invoke_session_def invoke_def by (intro triples)
qed

lemma halted_invoke_w: "stops_from_wait L \<Longrightarrow> maintains at_stop (invoke_session_w L f)"
proof -
  let ?run = "now (dispatcher_invoke False new_channel (session_task L (\<lambda>y. the (f y))))"
  assume "stops_from_wait L"
  then have "maintains at_stop ?run" by (intro maintains_now halted_dispatch halted_task)
  then have "maintains at_stop (\<lambda>s. case live_session s of
         None \<Rightarrow> ?run s
       | Some x \<Rightarrow> if f (x\<lparr>forwarded := []\<rparr>) = None then None else ?run s)"
    by (intro maintainsI) (auto dest: maintainsD split: option.splits if_splits)
  moreover have "maintains at_stop (free_worker L)"
    by (rule maintainsI) (simp add: free_worker_def at_stop_def)
  ultimately show ?thesis unfolding invoke_session_w_def by (intro triples)
qed

section \<open>Handlers that create no handles\<close>

abbreviation kept :: "('e server, 'a) wact \<Rightarrow> bool" where
  "kept m \<equiv> maintains handles_at_stop m"

named_theorems kept_rules \<open>rules for actions under which handles belong to the current stop\<close>

lemmas [kept_rules] = maintains_bind maintains_then maintains_catch maintains_if

lemma kept_set [kept_rules]: "(\<And>s. handles_at_stop s \<Longrightarrow> handles_at_stop (f s)) \<Longrightarrow> kept (w_set f)"
  by (rule ensures_set)

lemma kept_basic [kept_rules]:
  "kept (w_ret v)" "kept (w_raise e)" "kept (w_get g)" "kept (now require_debugger_session)"
  "kept (now (send_response q c b))" "kept (now (send_error_response q c m))" "kept (now (send_event ev))"
  by (intro maintains_now; simp add: keeps_def ret_def raise_def get_state_def require_debugger_session_def
      send_response_def send_error_response_def send_event_def update_state_def handles_at_stop_def
      post_message_def)+

lemma kept_blocks [kept_rules]:
  "kept (invoke_session L f)" "kept (invoke_session_w L k)" "kept (try_get_current_thread_id L)"
  "kept (now (on_session g))" "kept (restore_source_line_stepping_if_needed L)" "kept (dispose_debugger_session L)"
  "kept (join_wait_loop L)" "kept (wait_for_event L)" "kept (free_worker L)" "kept (now (session_task L f))"
  by (intro handles.invoke_session_maintains handles.try_get_current_thread_id_maintains maintains_now
      handles.on_session_keeps handles.restore_stepping_maintains handles.dispose_maintains
      handles.join_wait_loop_maintains handles.wait_for_event_maintains handles.invoke_session_w_maintains
      handles.free_worker_maintains handles.session_task_keeps)+

lemma kept_rethrow [kept_rules]: "kept m \<Longrightarrow> kept c \<Longrightarrow> kept (w_rethrow m c)"
  unfolding w_rethrow_def by (intro kept_rules)

lemma kept_guard [kept_rules]: "keeps handles_at_stop g \<Longrightarrow> kept m \<Longrightarrow> kept (w_guard g m)"
  unfolding w_guard_def by (intro kept_rules maintains_now)

lemma guards_keep [kept_rules]:
  "keeps handles_at_stop (require_positive_thread_id q c t)" "keeps handles_at_stop (reject_single_thread q c b)"
  "keeps handles_at_stop (reject_target_id q c b)"
  by (simp_all add: require_positive_thread_id_def reject_single_thread_def reject_target_id_def
      send_error_response_def keeps_def act_defs handles_at_stop_def post_message_def)

lemma kept_wrappers [kept_rules]:
  "kept m \<Longrightarrow> kept (read_session_data_or_default m d)" "kept m \<Longrightarrow> kept (respond_or_report q c m b)"
  "kept n \<Longrightarrow> kept (with_session q c r n)" "kept n \<Longrightarrow> kept (unless_running q c e n)"
  "kept m \<Longrightarrow> kept (run_with_suppressed_session_events m)"
  unfolding read_session_data_or_default_def respond_or_report_def with_session_def unless_running_def
    run_with_suppressed_session_events_def
  by (intro kept_rules; simp add: handles_at_stop_def)+

lemma handles_updates [simp]:
  "handles_at_stop (set_running False s)" "handles_at_stop (reset_suspended_state s)"
  "handles_at_stop s \<Longrightarrow> handles_at_stop (start_waiting_for_session_event s)"
  "handles_at_stop s \<Longrightarrow> handles_at_stop (reset_launch_configuration_state s)"
  "handles_at_stop s \<Longrightarrow> handles_at_stop (set_pending_stopped_event r d i s)"
  "handles_at_stop s \<Longrightarrow> handles_at_stop (clear_pending_stopped_event s)"
  "handles_at_stop s \<Longrightarrow> handles_at_stop (install_session x s)"
  "handles_at_stop s \<Longrightarrow> handles_at_stop (set_disconnect_policy b b' s)"
  "handles_at_stop s \<Longrightarrow> handles_at_stop (put_session x s)"
  "handles_at_stop s \<Longrightarrow> handles_at_stop (post_message m s)"
  by (simp_all add: handles_at_stop_def set_running_def state_updates start_waiting_for_session_event_def
      install_session_def set_disconnect_policy_def put_session_def)

lemma handles_fields [simp]:
  "handles_at_stop (s\<lparr>session_stop_or_exit_observed := b\<rparr>) = handles_at_stop s"
  "handles_at_stop (s\<lparr>should_exit := b\<rparr>) = handles_at_stop s"
  "handles_at_stop (s\<lparr>restore_source_line_stepping_after_stop := b\<rparr>) = handles_at_stop s"
  "handles_at_stop (s\<lparr>initialize_request_handled := b\<rparr>) = handles_at_stop s"
  "handles_at_stop (s\<lparr>detached_wait := b\<rparr>) = handles_at_stop s"
  "handles_at_stop (s\<lparr>kernel_initial_resume_pending := b\<rparr>) = handles_at_stop s"
  "handles_at_stop (s\<lparr>launch_thread_id := t\<rparr>) = handles_at_stop s"
  "handles_at_stop (s\<lparr>launch_awaiting_configuration_done := b, launch_stop_at_entry := b'\<rparr>) = handles_at_stop s"
  by (simp_all add: handles_at_stop_def)

text \<open>Without handles the target may be set running.\<close>

definition bare :: "'e server \<Rightarrow> bool" where
  "bare s \<longleftrightarrow> frame_contexts s = (\<lambda>i. None) \<and> variables_by_reference s = (\<lambda>i. None)"

interpretation bare: server_invariant bare
  by unfold_locales (simp_all add: bare_def state_updates)

lemma bare_handles: "bare s \<Longrightarrow> handles_at_stop s"
  by (simp add: bare_def handles_at_stop_def)

lemma running_bare: "handles_at_stop s \<Longrightarrow> is_execution_running s \<Longrightarrow> bare s"
  by (simp add: bare_def handles_at_stop_def)

lemma kept_from_bare: "kept m \<Longrightarrow> ensures bare m (\<lambda>_. handles_at_stop) handles_at_stop"
  by (erule ensures_pre) (rule bare_handles)

lemma ensures_true: "ensures P m (\<lambda>_ _. True) (\<lambda>_. True)"
  by (simp add: ensures_def split: sum.split)

lemma kept_running [kept_rules]:
  assumes "ensures bare (f True) (\<lambda>_. handles_at_stop) handles_at_stop" "kept (f False)"
  shows "kept (w_bind (w_get is_execution_running) f)"
proof (rule ensures_bind [where Q = "\<lambda>v s. handles_at_stop s \<and> v = is_execution_running s"])
  show "ensures (\<lambda>s. handles_at_stop s \<and> v = is_execution_running s) (f v) (\<lambda>_. handles_at_stop) handles_at_stop" for v
  proof (cases v)
    case True
    have "ensures (\<lambda>s. handles_at_stop s \<and> is_execution_running s) (f True) (\<lambda>_. handles_at_stop) handles_at_stop"
      by (rule ensures_pre [OF assms(1)]) (simp add: running_bare)
    then show ?thesis using True by simp
  next
    case False
    have "ensures (\<lambda>s. handles_at_stop s \<and> \<not> is_execution_running s) (f False) (\<lambda>_. handles_at_stop) handles_at_stop"
      by (rule ensures_pre [OF assms(2)]) simp
    then show ?thesis using False by simp
  qed
qed (rule ensures_get, simp)

lemma kept_resume:
  assumes "kept m"
  shows "kept (w_then (w_set reset_suspended_state) (w_then (w_set (set_running True)) m))"
  by (intro ensures_then [where Q = bare] ensures_then [where Q = handles_at_stop] assms ensures_set)
    (simp_all add: bare_def handles_at_stop_def set_running_def state_updates)

lemma kept_rethrow_halting:
  assumes "ensures handles_at_stop m (\<lambda>_. handles_at_stop) (\<lambda>_. True)"
    and "ensures (\<lambda>_. True) c (\<lambda>_. handles_at_stop) handles_at_stop"
  shows "kept (w_rethrow m c)"
  unfolding w_rethrow_def
  by (intro ensures_catch [OF assms(1)] ensures_then [OF assms(2)] kept_rules)

lemma bare_transient:
  assumes "maintains bare m"
  shows "maintains bare (apply_breakpoint_update_while_running L m)"
proof -
  have "maintains bare (w_set f)" if "\<And>s. bare s \<Longrightarrow> bare (f s)" for f
    by (rule ensures_set) (rule that)
  moreover have "bare s \<Longrightarrow> bare (set_running b s)" "bare s \<Longrightarrow> bare (start_waiting_for_session_event s)"
      "bare s \<Longrightarrow> bare (s\<lparr>suppress_session_events := b\<rparr>)" for b and s :: "'a server"
    by (simp_all add: bare_def set_running_def start_waiting_for_session_event_def)
  ultimately show ?thesis
    unfolding apply_breakpoint_update_while_running_def run_with_suppressed_session_events_def w_rethrow_def
    by (intro triples keeps_rules assms bare.on_session_keeps bare.join_wait_loop_maintains
        bare.invoke_session_maintains) auto
qed

lemma transient_kept:
  "ensures bare (apply_breakpoint_update_while_running L (invoke_session L f)) (\<lambda>_. handles_at_stop) handles_at_stop"
  by (rule ensures_weaken [OF bare_transient [OF bare.invoke_session_maintains]]) (auto intro: bare_handles)

lemma kept_updates [kept_rules]: "kept (update_breakpoints L f)"
  unfolding update_breakpoints_def
  by (intro kept_rules; simp) (auto intro: transient_kept kept_rules)

lemma kept_life [kept_rules]:
  "kept (handle_initialize_request q c)" "kept (handle_threads_request L q c)" "kept (handle_pause_request L q c t)"
  "kept (handle_terminate_request L q c)"
  unfolding handle_initialize_request_def handle_threads_request_def get_threads_def handle_pause_request_def
    handle_terminate_request_def
  by (intro kept_rules; auto split: sum.split intro!: kept_rules)+

lemma kept_configuration_done [kept_rules]: "kept (handle_configuration_done_request L q c)"
proof -
  have r: "kept (w_then (w_set reset_suspended_state) (w_then (w_set (set_running True))
      (w_then (invoke_session L (continue_execution (base L)))
        (w_then (now (send_event (create_continued_event i True))) (w_set start_waiting_for_session_event)))))" for i
    by (intro kept_resume kept_rules) simp
  have "kept (continue_after_configuration_done L)"
    unfolding continue_after_configuration_done_def
    by (intro kept_rules) (auto split: option.split intro!: kept_rules r)
  then show ?thesis
    unfolding handle_configuration_done_request_def by (intro kept_rules) simp_all
qed

lemma ensures_reset: "ensures (\<lambda>_. True) (w_set reset_suspended_state) (\<lambda>_. handles_at_stop) (\<lambda>_. True)"
  by (rule ensures_set) simp

lemma kept_loosely: "kept m \<Longrightarrow> ensures handles_at_stop m (\<lambda>_. handles_at_stop) (\<lambda>_. True)"
  by (erule ensures_weaken) simp_all

lemma kept_continue [kept_rules]: "kept (handle_continue_request L q c t b)"
proof -
  have "ensures handles_at_stop
      (w_then (invoke_session L (set_current_thread (base L) (of_int t)))
        (w_then (w_set (set_running True))
          (w_then (invoke_session L (continue_execution (base L))) (w_set reset_suspended_state))))
      (\<lambda>_. handles_at_stop) (\<lambda>_. True)"
    by (intro ensures_then [OF kept_loosely] ensures_then [OF ensures_true] ensures_pre [OF ensures_then [OF ensures_true]]
        ensures_reset kept_rules) simp_all
  then have r: "kept (w_rethrow
      (w_then (invoke_session L (set_current_thread (base L) (of_int t)))
        (w_then (w_set (set_running True))
          (w_then (invoke_session L (continue_execution (base L))) (w_set reset_suspended_state))))
      (w_set (set_running False)))"
    by (rule kept_rethrow_halting) (simp add: ensures_set)
  show ?thesis
    unfolding handle_continue_request_def
    by (intro kept_guard guards_keep kept_running)
      (simp_all add: kept_basic kept_from_bare maintains_then r kept_set)
qed

lemma kept_run_step [kept_rules]: "kept (run_step L q c t g d step)"
proof -
  have p: "kept (prepare_stepping_granularity L g)"
    unfolding prepare_stepping_granularity_def by (intro kept_rules) simp_all
  have "ensures handles_at_stop
      (w_then (invoke_session L (set_current_thread (base L) (of_int t)))
        (w_then (prepare_stepping_granularity L g)
          (w_then (w_set (set_pending_stopped_event Stop_Step (Some d) None))
            (w_then (w_set (set_running True))
              (w_then (invoke_session L step)
                (w_then (w_set reset_suspended_state) (w_set start_waiting_for_session_event)))))))
      (\<lambda>_. handles_at_stop) (\<lambda>_. True)"
    by (intro ensures_then [OF kept_loosely [OF kept_blocks(1)]] ensures_then [OF kept_loosely [OF p]]
        ensures_then [OF ensures_true] ensures_pre [OF ensures_then [OF ensures_true]]
        ensures_then [OF ensures_reset] ensures_set) simp_all
  moreover have "ensures (\<lambda>_. True)
      (w_then (w_set (set_running False)) (w_then (w_set clear_pending_stopped_event) (restore_source_line_stepping_if_needed L)))
      (\<lambda>_. handles_at_stop) handles_at_stop"
    by (intro ensures_then [where Q = handles_at_stop] ensures_set kept_rules) simp_all
  ultimately show ?thesis
    unfolding run_step_def
    by (intro kept_rules kept_rethrow_halting) (auto intro!: kept_from_bare kept_rules)
qed

lemma kept_steps [kept_rules]:
  "kept (handle_next_request L q c t b g)" "kept (handle_step_in_request L q c t b i g)"
  "kept (handle_step_out_request L q c t b g)"
  unfolding handle_next_request_def handle_step_in_request_def handle_step_out_request_def
  by (intro kept_rules)+

lemma kept_disconnect [kept_rules]: "kept (handle_disconnect_request L q c t)"
proof -
  have i: "kept (interrupt_best_effort L)"
    unfolding interrupt_best_effort_def by (intro kept_rules)
  have k: "kept (disconnect_kernel_leaving_machine_running L)"
    unfolding disconnect_kernel_leaving_machine_running_def
    by (intro kept_rules i kept_from_bare; simp add: handles_at_stop_def)
  have "kept (disconnect_debugger_session L t)"
    unfolding disconnect_debugger_session_def
    by (intro kept_rules) (auto split: option.split intro!: kept_rules i k kept_from_bare)
  then show ?thesis
    unfolding handle_disconnect_request_def by (intro kept_rules) (auto intro: kept_rules)
qed

lemma kept_breakpoints [kept_rules]:
  "kept (handle_set_function_breakpoints_request L q c ns)" "kept (handle_set_instruction_breakpoints_request L q c rs)"
  "kept (handle_set_data_breakpoints_request L q c ds)" "kept (handle_set_exception_breakpoints_request L q c fs)"
  "kept (handle_exception_info_request L q c)"
  unfolding handle_set_function_breakpoints_request_def handle_set_instruction_breakpoints_request_def
    handle_set_data_breakpoints_request_def handle_set_exception_breakpoints_request_def
    handle_exception_info_request_def
  by (auto split: sum.split option.split intro!: kept_rules kept_from_bare)

lemma handles_conditions [simp]:
  fixes s :: "'e server"
  shows "handles_at_stop (update_conditional_breakpoint_state p configured requested s) = handles_at_stop s"
proof -
  have "handles_at_stop (fold (record_condition p) rbs t) = handles_at_stop t" for rbs and t :: "'e server"
    by (induction rbs arbitrary: t)
      (simp_all add: record_condition_def handles_at_stop_def split: option.split)
  moreover have "handles_at_stop (clear_conditional_breakpoint_state p s) = handles_at_stop s"
    by (simp add: clear_conditional_breakpoint_state_def handles_at_stop_def split: option.split)
  ultimately show ?thesis by (simp add: update_conditional_breakpoint_state_def)
qed

lemma kept_set_breakpoints [kept_rules]: "kept (handle_set_breakpoints_request L q c a)"
  unfolding handle_set_breakpoints_request_def Let_def set_breakpoints_while_running_def
  by (auto split: option.split intro!: kept_rules ensures_bind [OF transient_kept])

lemma kept_evaluate [kept_rules]: "kept (handle_evaluate_request L q c a)"
proof -
  have "kept (evaluate_checked L q c a x)" for x
    unfolding evaluate_checked_def by (auto intro!: kept_rules kept_from_bare)
  then show ?thesis
    unfolding handle_evaluate_request_def by (auto split: option.split intro!: kept_rules)
qed

lemma kept_views [kept_rules]:
  "kept (handle_variables_request q c r b i n)" "kept (handle_data_breakpoint_info_request L q c nm rr f)"
  "kept (handle_set_expression_request L q c x v f)"
  unfolding handle_variables_request_def handle_data_breakpoint_info_request_def handle_set_expression_request_def
  by (auto split: option.split sum.split intro!: kept_rules)

lemma kept_memory [kept_rules]:
  "kept (handle_read_memory_request L q c r n i)" "kept (handle_write_memory_request L q c r d i)"
  "kept (handle_disassemble_request L q c da)" "kept (handle_modules_request L q c st co)"
  "kept (handle_source_request L q c p)"
  unfolding handle_read_memory_request_def handle_write_memory_request_def handle_disassemble_request_def
    handle_modules_request_def handle_source_request_def Let_def
  by (auto intro!: kept_rules split: option.split sum.split)

lemma kept_sessions [kept_rules]:
  "kept (create_debugger_session L p)" "kept (apply_session_configuration L a b)" "kept (await_configuration L e)"
  "kept (connect_target L f)" "kept (announce_target L q c n i st es)"
proof -
  have "keeps handles_at_stop (dispatcher_invoke False new_channel (\<lambda>s. (open_session (connector_of L) p, s)))"
    by (auto simp: keeps_def dispatcher_invoke_empty split: sum.split)
  then have "kept (invoke L (\<lambda>s. (open_session (connector_of L) p, s)))"
    unfolding invoke_def by (intro kept_rules maintains_now)
  then show "kept (create_debugger_session L p)"
    unfolding create_debugger_session_def by (intro kept_rules) auto
  show "kept (apply_session_configuration L a b)" "kept (await_configuration L e)" "kept (connect_target L f)"
    unfolding apply_session_configuration_def await_configuration_def connect_target_def invoke_and_wait_def
    by (auto split: option.split intro!: kept_rules)
  show "kept (announce_target L q c n i st es)"
    unfolding announce_target_def send_process_event_def send_stopped_event_def
    by (auto split: option.split intro!: kept_rules)
qed

lemma kept_launch [kept_rules]: "kept (handle_launch_request L dump root q c)"
  unfolding handle_launch_request_def Let_def
  by (auto split: option.split intro!: kept_rules)

lemma kept_poll [kept_rules]: "kept (poll_for_process_id L n p)"
proof (induction n)
  case 0
  show ?case by (subst poll_for_process_id.simps) (auto intro!: kept_rules)
next
  case (Suc n)
  then show ?case
    by (subst poll_for_process_id.simps) (auto intro!: kept_rules split: option.split)
qed

lemma kept_find [kept_rules]: "kept (find_process L cs n t)"
  unfolding find_process_def by (auto intro!: kept_rules)

lemma kept_attach_parts [kept_rules]:
  "kept (finish_attach L q c i b)" "kept (attach_kernel_request L q c cs b p sy so)"
  "kept (open_dump_request L q c d p sy so)"
  unfolding finish_attach_def attach_kernel_request_def open_dump_request_def by (auto intro!: kept_rules)

lemma kept_attach [kept_rules]: "kept (handle_attach_request L root q c)"
proof -
  have "kept (attach_process_request L q c a cs b p sy so)" for a cs b p sy so
    unfolding attach_process_request_def Let_def by (auto split: option.split intro!: kept_rules)
  then show ?thesis
    unfolding handle_attach_request_def Let_def by (auto split: option.split intro!: kept_rules)
qed

section \<open>Handlers that create handles\<close>

definition ready :: "'e server \<Rightarrow> bool" where
  "ready s \<longleftrightarrow> handles_at_stop s \<and> (is_execution_running s \<or> at_stop s)"

abbreviation safe :: "('e server, unit) wact \<Rightarrow> bool" where
  "safe m \<equiv> ensures ready m (\<lambda>_. handles_at_stop) handles_at_stop"

lemma kept_safe: "kept m \<Longrightarrow> safe m"
  by (erule ensures_pre) (simp add: ready_def)

lemma halted_handles: "\<not> is_execution_running s \<Longrightarrow> handles_at_stop s"
  by (simp add: handles_at_stop_def)

text \<open>What a reader yields was read at a stop that still lasts, or it is the fallback.\<close>

lemma read_at_stop:
  assumes "maintains at_stop m"
  shows "ensures ready (read_session_data_or_default m d)
     (\<lambda>v s. handles_at_stop s \<and> (v = d \<or> \<not> is_execution_running s)) handles_at_stop"
  (is "ensures ready _ ?Q _")
proof -
  have "ensures ready (w_get (\<lambda>s. debugger_session s = None \<or> is_execution_running s))
      (\<lambda>v s. ready s \<and> (\<not> v \<longrightarrow> at_stop s)) handles_at_stop"
    by (rule ensures_get) (auto simp: ready_def)
  moreover have "ensures (\<lambda>s. ready s \<and> (\<not> v \<longrightarrow> at_stop s))
      (if v then w_ret d
       else w_catch m (\<lambda>e. w_bind (w_get is_session_unavailable) (\<lambda>gone. if gone then w_ret d else w_raise e)))
      ?Q handles_at_stop" for v
  proof (cases v)
    case True
    then show ?thesis by (auto intro!: ensures_ret simp: ready_def)
  next
    case False
    have "maintains at_stop
        (w_catch m (\<lambda>e. w_bind (w_get is_session_unavailable) (\<lambda>gone. if gone then w_ret d else w_raise e)))"
      by (intro triples keeps_rules assms)
    then have "ensures at_stop
        (w_catch m (\<lambda>e. w_bind (w_get is_session_unavailable) (\<lambda>gone. if gone then w_ret d else w_raise e)))
        ?Q handles_at_stop"
      by (rule ensures_weaken) (simp_all add: at_stop_def halted_handles)
    then have "ensures (\<lambda>s. ready s \<and> at_stop s)
        (w_catch m (\<lambda>e. w_bind (w_get is_session_unavailable) (\<lambda>gone. if gone then w_ret d else w_raise e)))
        ?Q handles_at_stop"
      by (rule ensures_pre) simp
    then show ?thesis using False by simp
  qed
  ultimately show ?thesis unfolding read_session_data_or_default_def by (rule ensures_bind)
qed

lemma running_kept [simp]:
  "is_execution_running (register_frames t fs s) = is_execution_running s"
  "is_execution_running (store_container r k s) = is_execution_running s"
  by (induction fs arbitrary: s) (simp_all add: register_frames_def store_container_def)

lemma ready_guard:
  assumes "ensures ready m (\<lambda>_. handles_at_stop) handles_at_stop"
  shows "safe (w_guard (require_positive_thread_id q c t) m)"
  unfolding w_guard_def
proof (rule ensures_bind [where Q = "\<lambda>_. ready"])
  show "ensures ready (now (require_positive_thread_id q c t)) (\<lambda>_. ready) handles_at_stop"
    by (rule ensuresI)
      (auto simp: now_def require_positive_thread_id_def act_defs send_error_response_def ready_def at_stop_def
        handles_at_stop_def post_message_def split: if_splits)
  show "ensures ready (if v then m else w_ret ()) (\<lambda>_. handles_at_stop) handles_at_stop" for v
    using assms by (cases v) (auto intro!: ensures_ret simp: ready_def)
qed

lemma safe_stack_trace:
  assumes "stops_from_wait L"
  shows "safe (handle_stack_trace_request L q c t a b)"
proof -
  have e: "create_stack_trace_result [] 0 w = ([], 0)" for w
    by (simp add: create_stack_trace_result_def apply_stack_trace_window_def copy_window_def)
  show ?thesis
    unfolding handle_stack_trace_request_def Let_def
    by (intro ready_guard ensures_bind [OF read_at_stop] ensures_then [where Q = handles_at_stop] ensures_set
        kept_basic halted_invoke assms)
      (auto simp: e register_frames_def [of _ "[]"] halted_handles)
qed

lemma reference_kept:
  "is_execution_running (snd (create_variables_reference ctx k vs s)) = is_execution_running s"
  "create_variables_reference ctx k [] s = (0, s)"
  by (simp_all add: create_variables_reference_def)

lemma trees_kept:
  "is_execution_running (snd (build_variable_tree n ctx p s)) = is_execution_running s"
  "is_execution_running (snd (build_variable_trees ns ctx p s)) = is_execution_running s"
proof (induction n ctx p s and ns ctx p s rule: build_variable_tree_build_variable_trees.induct)
  case (1 name v t x a b children ctx parent s)
  then show ?case using reference_kept(1) [of ctx Structure_Kind] by (auto simp: Let_def case_prod_beta)
next
  case (3 n ns ctx parent s)
  then show ?case by (simp add: case_prod_beta) (metis prod.collapse)
qed simp

lemma scopes_kept:
  "is_execution_running (snd (create_scopes ctx ls rs s)) = is_execution_running s"
  "snd (create_scopes ctx [] [] s) = s"
  by (simp_all add: create_scopes_def case_prod_beta reference_kept trees_kept)

lemma safe_scopes:
  fixes L :: "'e target"
  assumes "stops_from_wait L"
  shows "safe (handle_scopes_request L q c f)"
proof -
  have r: "maintains at_stop (w_bind (invoke_session_w L g) (\<lambda>ls. w_bind (invoke_session L h) (\<lambda>rs. w_ret (ls, rs))))"
    for g :: "('e session, variable_node list) wact" and h :: "('e session, named_value_info list) act"
    by (intro triples keeps_rules halted_invoke halted_invoke_w assms)
  have k: "ensures (\<lambda>s. handles_at_stop s \<and> (v = ([], []) \<or> \<not> is_execution_running s))
      (case v of (ls, rs) \<Rightarrow>
         w_bind (now (\<lambda>s. case create_scopes ctx ls rs s of (scopes, s') \<Rightarrow> (Inr scopes, s')))
           (\<lambda>scopes. now (send_response q c (Scopes_Body scopes)))) (\<lambda>_. handles_at_stop) handles_at_stop"
    for ctx v
  proof -
    have "ensures (\<lambda>s. handles_at_stop s \<and> ((ls, rs) = ([], []) \<or> \<not> is_execution_running s))
        (now (\<lambda>s. case create_scopes ctx ls rs s of (scopes, s') \<Rightarrow> (Inr scopes, s'))) (\<lambda>_. handles_at_stop) handles_at_stop"
      for ls rs
      by (rule ensuresI) (auto simp: now_def scopes_kept case_prod_beta intro: halted_handles)
    then show ?thesis by (cases v) (auto intro!: ensures_bind [OF _ kept_basic(5)])
  qed
  have "ensures ready (case found of
          None \<Rightarrow> now (send_error_response q c (unknown_frame_message f))
        | Some ctx \<Rightarrow>
            w_bind
              (read_session_data_or_default
                 (w_bind (invoke_session_w L (get_locals_tree (base L) (inspector_of L) (fc_frame_number ctx)))
                    (\<lambda>locals. w_bind (invoke_session L (get_registers (inspector_of L) (fc_frame_number ctx)))
                       (\<lambda>registers. w_ret (locals, registers))))
                 ([], []))
              (\<lambda>(locals, registers).
                 w_bind (now (\<lambda>s. case create_scopes ctx locals registers s of (scopes, s') \<Rightarrow> (Inr scopes, s')))
                   (\<lambda>scopes. now (send_response q c (Scopes_Body scopes)))))
      (\<lambda>_. handles_at_stop) handles_at_stop" for found
    by (cases found) (auto intro!: kept_safe kept_basic ensures_bind [OF read_at_stop [OF r] k])
  then have "safe (w_bind (w_get (\<lambda>s. frame_contexts s f)) (\<lambda>found. case found of
          None \<Rightarrow> now (send_error_response q c (unknown_frame_message f))
        | Some ctx \<Rightarrow>
            w_bind
              (read_session_data_or_default
                 (w_bind (invoke_session_w L (get_locals_tree (base L) (inspector_of L) (fc_frame_number ctx)))
                    (\<lambda>locals. w_bind (invoke_session L (get_registers (inspector_of L) (fc_frame_number ctx)))
                       (\<lambda>registers. w_ret (locals, registers))))
                 ([], []))
              (\<lambda>(locals, registers).
                 w_bind (now (\<lambda>s. case create_scopes ctx locals registers s of (scopes, s') \<Rightarrow> (Inr scopes, s')))
                   (\<lambda>scopes. now (send_response q c (Scopes_Body scopes))))))"
    by (intro ensures_bind [where Q = "\<lambda>_. ready"] ensures_get)
  then show ?thesis
    unfolding handle_scopes_request_def by (auto intro: kept_safe kept_basic)
qed

lemma safe_if_running:
  assumes "kept m" "maintains at_stop n"
  shows "safe (w_bind (w_get is_execution_running) (\<lambda>running. if running then m else n))"
proof (rule ensures_bind [where Q = "\<lambda>v s. ready s \<and> v = is_execution_running s"])
  show "ensures (\<lambda>s. ready s \<and> v = is_execution_running s) (if v then m else n) (\<lambda>_. handles_at_stop) handles_at_stop" for v
  proof (cases v)
    case True
    have "ensures (\<lambda>s. ready s \<and> is_execution_running s) m (\<lambda>_. handles_at_stop) handles_at_stop"
      by (rule ensures_pre [OF assms(1)]) (simp add: ready_def)
    then show ?thesis using True by simp
  next
    case False
    have "ensures (\<lambda>s. ready s \<and> \<not> is_execution_running s) n (\<lambda>_. handles_at_stop) handles_at_stop"
      by (rule ensures_weaken [OF assms(2)]) (auto simp: ready_def at_stop_def halted_handles)
    then show ?thesis using False by simp
  qed
qed (rule ensures_get, simp)

lemma halted_basic:
  "maintains at_stop (w_ret v)" "maintains at_stop (now require_debugger_session)"
  "maintains at_stop (now (send_response q c b))" "maintains at_stop (now (send_error_response q c m))"
  "maintains at_stop (w_set (store_container r k))"
  by (intro maintains_now; simp add: keeps_def ret_def require_debugger_session_def send_response_def
      send_error_response_def update_state_def at_stop_def post_message_def store_container_def)+

lemma halted_report: "maintains at_stop m \<Longrightarrow> maintains at_stop (respond_or_report q c m b)"
  unfolding respond_or_report_def by (intro triples halted_basic) (simp_all add: halted_basic)

lemma safe_set_variable:
  assumes "stops_from_wait L"
  shows "safe (handle_set_variable_request L q c r n v)"
proof -
  have "maintains at_stop (handle_set_struct_field L q c k r n v)" for k
    unfolding handle_set_struct_field_def
    by (auto intro!: halted_basic halted_report maintains_then maintains_bind halted_invoke assms split: option.split)
  then have "maintains at_stop (w_bind (w_get (\<lambda>s. variables_by_reference s r)) (\<lambda>found.
          case found of
            None \<Rightarrow> now (send_error_response q c (unknown_reference_message r))
          | Some container \<Rightarrow>
              if vc_kind container = Structure_Kind
              then handle_set_struct_field L q c container r n v
              else w_then (now require_debugger_session)
                (respond_or_report q c
                   (w_bind (invoke_session L (assign_variable L container n v)) (\<lambda>(updated, x).
                      w_then (w_set (store_container r updated)) (w_ret x)))
                   (\<lambda>x. set_variable_body x True))))"
    by (intro maintains_bind ensures_get)
      (auto intro!: halted_basic halted_report maintains_then maintains_bind halted_invoke assms split: option.split)
  then show ?thesis
    unfolding handle_set_variable_request_def
    by (simp add: kept_safe [OF kept_basic(6)] safe_if_running [OF kept_basic(6)])
qed

section \<open>Requests\<close>

lemma safe_serve: "(\<And>a. safe (h a)) \<Longrightarrow> safe (serve_request r h)"
  unfolding serve_request_def by (auto intro: kept_safe kept_basic split: sum.split)

lemma handlers_safe:
  assumes "stops_from_wait L" "(name, h) \<in> set (request_handlers L dump tr m)"
  shows "safe h"
proof -
  have "list_all (\<lambda>(name, h). safe h) (request_handlers L dump tr m)"
    unfolding request_handlers_def list.pred_inject case_prod_conv
    by (intro conjI TrueI safe_serve)
      (simp_all add: case_prod_beta kept_safe kept_rules safe_stack_trace safe_scopes safe_set_variable assms(1))
  then show ?thesis using assms(2) by (auto simp: list_all_iff)
qed

lemma handle_safe:
  assumes "stops_from_wait L"
  shows "safe (handle L dump tr m)"
proof -
  have "safe (dispatch_request L dump tr m)"
    unfolding dispatch_request_def
    by (intro safe_serve)
      (auto split: option.split dest!: map_of_SomeD intro!: handlers_safe [OF assms] safe_serve kept_safe [OF kept_basic(2)])
  moreover have "kept (dispatch_event m)" "kept (dispatch_response m)"
    using dispatch_ignores [of m] kept_basic(1,2) by metis+
  ultimately show ?thesis
    unfolding handle_def by (intro safe_serve) (auto intro: kept_safe kept_basic)
qed

lemma kept_report_failure: "keeps handles_at_stop (report_failure root e)"
  unfolding report_failure_def
  by (auto simp: keeps_def ret_def send_error_response_def update_state_def split: exn.split option.split)

lemma request_handles:
  assumes "stops_from_wait L" "ready s" "handle_request L dump tr root s = Some (r, s')"
  shows "handles_at_stop s'"
proof -
  have "ensures ready (handle_request L dump tr root) (\<lambda>_. handles_at_stop) handles_at_stop"
    unfolding handle_request_def
    by (intro ensures_then [where Q = ready] ensures_then [where Q = handles_at_stop] ensures_set
        ensures_catch [OF handle_safe [OF assms(1)]] maintains_now kept_report_failure kept_basic)
      (simp add: ready_def)
  from ensuresD [OF this assms(2,3)] show ?thesis by (simp split: sum.splits)
qed

section \<open>The transition system\<close>

text \<open>
  A request is handled while the target runs, or at a stop when the worker has come back from
  its wait.
\<close>

inductive server_step ::
    "'e target \<Rightarrow> (json \<Rightarrow> string) \<Rightarrow> (string \<Rightarrow> int) \<Rightarrow> 'e server \<Rightarrow> 'e server \<Rightarrow> bool"
  for L dump tr where
  request_step: "handle_request L dump tr root s = Some (r, s') \<Longrightarrow>
     is_execution_running s \<or> wait_loop s \<noteq> Loop_Waiting \<Longrightarrow> server_step L dump tr s s'"
| loop_thread_step: "loop_step L s = Some (r, s') \<Longrightarrow> server_step L dump tr s s'"

inductive_cases server_stepE: "server_step L dump tr s s'"

inductive reachable ::
    "'e target \<Rightarrow> (json \<Rightarrow> string) \<Rightarrow> (string \<Rightarrow> int) \<Rightarrow> 'e server \<Rightarrow> bool"
  for L dump tr where
  reachable_start: "reachable L dump tr new_server"
| reachable_step: "reachable L dump tr s \<Longrightarrow> server_step L dump tr s s' \<Longrightarrow> reachable L dump tr s'"

lemma step_handles:
  assumes "stops_from_wait L" "handles_at_stop s" "server_step L dump tr s s'"
  shows "handles_at_stop s'"
  using assms(3)
proof (rule server_stepE)
  fix root r
  assume "handle_request L dump tr root s = Some (r, s')" "is_execution_running s \<or> wait_loop s \<noteq> Loop_Waiting"
  moreover have "ready s" using calculation(2) assms(2) by (auto simp: ready_def at_stop_def)
  ultimately show ?thesis using request_handles [OF assms(1)] by blast
next
  fix r
  assume "loop_step L s = Some (r, s')"
  then show ?thesis by (rule maintainsD [OF handles.loop_step_maintains assms(2)])
qed

section \<open>Properties\<close>



end
