(* ===== verification/Client_Handles.thy ===== *)
theory Client_Handles
  imports Server_Memory
begin

text \<open>
  What a client can do with the handles it has been given: the references of the scopes and of
  structured variables lead to the values that were read at the stop (src/src/service/dap_server_scopes.cpp,
  dap_server_variables.cpp), and the id of a data breakpoint leads back to the memory it stands for
  (dap_server_data_breakpoint_info.cpp, dap_server_set_data_breakpoints.cpp).
\<close>

section \<open>What a client sees of a frame\<close>

text \<open>References of containers are counted up: those that have not been handed out are not in use.\<close>

definition references_fresh :: "'e server \<Rightarrow> bool" where
  "references_fresh s \<longleftrightarrow>
     0 < next_variables_reference s \<and> (\<forall>r \<ge> next_variables_reference s. variables_by_reference s r = None)"

text \<open>The variables that a variables request without a window is answered with.\<close>

definition requested_variables :: "'e server \<Rightarrow> int \<Rightarrow> dap_variable list option" where
  "requested_variables s r =
     (case handle_variables_request 0 ''variables'' r False None None s of
        Some (q, s') \<Rightarrow>
          (case last (outbound s') of Response i c (Variables_Body vs) \<Rightarrow> Some vs | m \<Rightarrow> None)
      | None \<Rightarrow> None)"

lemma requested_variables_exact:
  "requested_variables s r =
     (if r \<le> 0 then None else map_option vc_variables (variables_by_reference s r))"
  by (simp add: requested_variables_def handle_variables_request_def wact_defs send_response_def
      send_error_response_def post_message_def copy_window_def clamp_count_def split: option.split)

text \<open>A node is presented by a variable whose reference leads to the presentation of its children.\<close>

fun presents :: "'e server \<Rightarrow> string \<Rightarrow> variable_node \<Rightarrow> dap_variable \<Rightarrow> bool"
  and presents_all :: "'e server \<Rightarrow> string \<Rightarrow> variable_node list \<Rightarrow> dap_variable list \<Rightarrow> bool"
where
  "presents s parent (Variable_Node name v t expandable address bytes children) x \<longleftrightarrow>
     var_name x = name \<and> var_value x = v \<and> var_evaluate_name x = Some (access_path parent name)
     \<and> (if children = [] then var_variables_reference x = 0 \<and> var_named_variables x = None
        else var_named_variables x = Some (int (length children))
          \<and> (case requested_variables s (var_variables_reference x) of
               None \<Rightarrow> False
             | Some xs \<Rightarrow> presents_all s (access_path parent name) children xs))"
| "presents_all s parent [] xs \<longleftrightarrow> xs = []"
| "presents_all s parent (n # ns) xs \<longleftrightarrow>
     (case xs of [] \<Rightarrow> False | x # rest \<Rightarrow> presents s parent n x \<and> presents_all s parent ns rest)"

definition extends_to :: "'e server \<Rightarrow> 'e server \<Rightarrow> bool" where
  "extends_to s s' \<longleftrightarrow> references_fresh s' \<and> variables_by_reference s \<subseteq>\<^sub>m variables_by_reference s'"

lemma extends_trans: "extends_to s t \<Longrightarrow> extends_to t u \<Longrightarrow> extends_to s u"
  by (auto simp: extends_to_def intro: map_le_trans)

lemma requested_variables_kept:
  "extends_to s t \<Longrightarrow> requested_variables s r = Some xs \<Longrightarrow> requested_variables t r = Some xs"
  by (auto simp: requested_variables_exact extends_to_def map_le_def dom_def split: if_splits)

lemma presents_kept:
  assumes "extends_to s t"
  shows "presents s p n x \<Longrightarrow> presents t p n x" and "presents_all s p ns xs \<Longrightarrow> presents_all t p ns xs"
  using assms
proof (induction s p n x and s p ns xs rule: presents_presents_all.induct)
  case (1 s parent name v t expandable address bytes children x)
  then show ?case by (auto split: option.splits if_splits dest: requested_variables_kept)
next
  case (3 s parent n ns xs)
  then show ?case by (auto split: list.splits)
qed simp

lemma new_reference:
  assumes "references_fresh s" "create_variables_reference ctx kind xs s = (r, s')"
  shows "extends_to s s'" "xs \<noteq> [] \<Longrightarrow> requested_variables s' r = Some xs" "xs = [] \<Longrightarrow> r = 0"
  using assms
  by (auto simp: create_variables_reference_def extends_to_def references_fresh_def map_le_def
      requested_variables_exact split: if_splits)

lemma trees_length:
  "build_variable_trees ns ctx p s = (xs, s') \<Longrightarrow> length xs = length ns"
  by (induction ns arbitrary: s xs s') (auto split: prod.splits simp: Let_def)

lemma trees_presented:
  "references_fresh s \<Longrightarrow> build_variable_tree n ctx p s = (x, s') \<Longrightarrow> extends_to s s' \<and> presents s' p n x"
  "references_fresh s \<Longrightarrow> build_variable_trees ns ctx p s = (xs, s') \<Longrightarrow> extends_to s s' \<and> presents_all s' p ns xs"
proof (induction n ctx p s and ns ctx p s arbitrary: x s' and xs s' rule: build_variable_tree_build_variable_trees.induct)
  case (1 name v t expandable address bytes children ctx parent s)
  obtain vars s1 where b: "build_variable_trees children ctx (access_path parent name) s = (vars, s1)"
    by (metis surj_pair)
  obtain r s2 where r: "(if children \<noteq> [] then create_variables_reference ctx Structure_Kind vars s1 else (0, s1)) = (r, s2)"
    by (metis surj_pair)
  have e1: "extends_to s s1" and p1: "presents_all s1 (access_path parent name) children vars"
    using 1(1) [OF refl 1(2) b] by auto
  have f1: "references_fresh s1" using e1 by (simp add: extends_to_def)
  have l: "length vars = length children" by (rule trees_length [OF b])
  have x: "s' = s2" "var_variables_reference x = r" "var_name x = name" "var_value x = v"
      "var_evaluate_name x = Some (access_path parent name)"
      "var_named_variables x = (if children \<noteq> [] then Some (int (length vars)) else None)"
    using 1(3) b r by (auto simp: Let_def)
  show ?case
  proof (cases "children = []")
    case True
    then show ?thesis using e1 x r by simp
  next
    case False
    then have c: "create_variables_reference ctx Structure_Kind vars s1 = (r, s2)" using r by simp
    have "vars \<noteq> []" using False l by auto
    then have "requested_variables s2 r = Some vars" by (rule new_reference(2) [OF f1 c])
    then show ?thesis
      using False x l extends_trans [OF e1 new_reference(1) [OF f1 c]] presents_kept(2) [OF new_reference(1) [OF f1 c] p1]
      by simp
  qed
next
  case (2 ctx parent s)
  then show ?case by (simp add: extends_to_def)
next
  case (3 n ns ctx parent s)
  obtain y s1 where y: "build_variable_tree n ctx parent s = (y, s1)" by (metis surj_pair)
  obtain ys s2 where ys: "build_variable_trees ns ctx parent s1 = (ys, s2)" by (metis surj_pair)
  have a: "extends_to s s1" "presents s1 parent n y" using 3(1) [OF 3(3) y] by auto
  have b: "extends_to s1 s2" "presents_all s2 parent ns ys"
    using 3(2) [OF y [symmetric] refl _ ys] a by (auto simp: extends_to_def)
  have "xs = y # ys" "s' = s2" using 3(4) y ys by (auto simp: Let_def)
  then show ?case using extends_trans [OF a(1) b(1)] b(2) presents_kept(1) [OF b(1) a(2)] by simp
qed

text \<open>
  C13. A frame is presented faithfully: following the references of the two scopes through variables
  requests, a client finds exactly the tree of locals and the registers that were read, in order,
  each local with the access path that evaluates to it; what was handed out before stays valid.
\<close>

theorem scopes_round_trip:
  assumes "references_fresh s" "create_scopes ctx locals registers s = (scopes, s')"
  shows "\<exists>l r. map sc_variables_reference scopes = [l, r]
     \<and> (if locals = [] then l = 0 else \<exists>xs. requested_variables s' l = Some xs \<and> presents_all s' [] locals xs)
     \<and> (if registers = [] then r = 0 else requested_variables s' r = Some (map create_variable registers))
     \<and> references_fresh s' \<and> variables_by_reference s \<subseteq>\<^sub>m variables_by_reference s'"
proof -
  obtain vars s1 where b: "build_variable_trees locals ctx [] s = (vars, s1)" by (metis surj_pair)
  obtain l s2 where l: "create_variables_reference ctx Locals_Kind vars s1 = (l, s2)" by (metis surj_pair)
  obtain r s3 where r: "create_variables_reference ctx Registers_Kind (map create_variable registers) s2 = (r, s3)"
    by (metis surj_pair)
  have e1: "extends_to s s1" and p: "presents_all s1 [] locals vars"
    using trees_presented(2) [OF assms(1) b] by auto
  have e2: "extends_to s1 s2"
    using new_reference(1) [OF _ l] e1 by (simp add: extends_to_def)
  have e3: "extends_to s2 s3"
    using new_reference(1) [OF _ r] e2 by (simp add: extends_to_def)
  have len: "length vars = length locals" by (rule trees_length [OF b])
  have "requested_variables s3 l = Some vars" if "locals \<noteq> []"
  proof -
    have "vars \<noteq> []" using that len by auto
    then have "requested_variables s2 l = Some vars" using new_reference(2) [OF _ l] e1 by (simp add: extends_to_def)
    then show ?thesis by (rule requested_variables_kept [OF e3])
  qed
  moreover have "presents_all s3 [] locals vars"
    by (rule presents_kept(2) [OF extends_trans [OF e2 e3] p])
  moreover have "l = 0" if "locals = []"
    using new_reference(3) [OF _ l] e1 len that by (simp add: extends_to_def)
  moreover have "requested_variables s3 r = Some (map create_variable registers)" if "registers \<noteq> []"
    using new_reference(2) [OF _ r] e2 that by (simp add: extends_to_def)
  moreover have "r = 0" if "registers = []"
    using new_reference(3) [OF _ r] e2 that by (simp add: extends_to_def)
  moreover have "s' = s3" "map sc_variables_reference scopes = [l, r]"
    using assms(2) b l r by (auto simp: create_scopes_def create_scope_def)
  ultimately show ?thesis
    using extends_trans [OF extends_trans [OF e1 e2] e3] by (auto simp: extends_to_def)
qed

text \<open>A structure with two fields, for the witness.\<close>

definition point_locals :: "variable_node list" where
  "point_locals =
     [Variable_Node ''p'' ''struct Point'' ''Point'' True 4096 8
        [Variable_Node ''x'' ''1'' ''int'' False 4096 4 [], Variable_Node ''y'' ''2'' ''int'' False 4100 4 []]]"

definition top_frame :: frame_context where
  "top_frame = \<lparr>fc_thread_id = 7, fc_frame_number = 0, fc_source = None\<rparr>"

theorem scopes_round_trip_witness:
  "references_fresh (new_server :: nat server)
   \<and> (\<exists>scopes s' l xs. create_scopes top_frame point_locals [] (new_server :: nat server) = (scopes, s')
        \<and> requested_variables s' l = Some xs \<and> presents_all s' [] point_locals xs)"
proof -
  have f: "references_fresh (new_server :: nat server)" by (simp add: references_fresh_def new_server_def)
  obtain scopes s' where c: "create_scopes top_frame point_locals [] (new_server :: nat server) = (scopes, s')"
    by (metis surj_pair)
  show ?thesis using scopes_round_trip [OF f c] f c by (auto simp: point_locals_def)
qed

section \<open>Data breakpoints\<close>

lemma watch_size_cases: "watch_size n = 1 \<or> watch_size n = 2 \<or> watch_size n = 4 \<or> watch_size n = 8"
  by (simp add: watch_size_def)

lemma reads_asked:
  "(\<exists>y. access = Some y) \<and> access \<noteq> Some Write_Access \<longleftrightarrow> access = Some Read_Access \<or> access = Some Read_Write_Access"
  by (cases "the access"; cases access) auto

lemma data_id_parsed: "try_parse_data_id (data_id a (watch_size n)) = Some (a, watch_size n)"
proof -
  let ?h = "''0x'' @ hex_lower (unat a)" and ?d = "dec (unat (watch_size n))"
  have "\<not> is_digit_of 16 (CHR '':'')" by code_simp
  then have c: "CHR '':'' \<notin> set ?h" by (auto dest: hex_lower_digits)
  then have t: "takeWhile (\<lambda>c. c \<noteq> CHR '':'') (?h @ '':'' @ ?d) = ?h"
    by (subst takeWhile_append2) auto
  have e: "data_id a (watch_size n) = ?h @ '':'' @ ?d" by (simp add: data_id_def)
  have p: "try_parse_memory_reference ?h = Some a" by (rule parse_reference_hex_lower)
  have d: "drop (Suc (length ?h)) (?h @ '':'' @ ?d) = ?d" by simp
  show ?thesis
    unfolding try_parse_data_id_def e Let_def t d p
    using watch_size_cases [of n] by auto
qed

text \<open>
  C22. Data ids round trip: from the ids that dataBreakpointInfo answers with, setDataBreakpoints
  recovers every address and watch size, in order, and breaks on reads exactly when the access
  type asks for reads.
\<close>

theorem data_id_round_trip:
  "parse_data_breakpoints (map (\<lambda>(a, n, access). (data_id a (watch_size n), access)) bs)
     = Inr (map (\<lambda>(a, n, access). \<lparr>data_address = a, data_size = watch_size n,
         data_break_on_read = (access = Some Read_Access \<or> access = Some Read_Write_Access)\<rparr>) bs)"
proof (induction bs)
  case Nil
  then show ?case by simp
next
  case (Cons b bs)
  obtain a n access where b: "b = (a, n, access)" by (cases b) auto
  show ?case by (simp add: b data_id_parsed Cons.IH reads_asked)
qed

end
