(* ===== verification/Session_Lifetime.thy ===== *)
theory Session_Lifetime
  imports Targets
begin

text \<open>
  What a \<open>debugger_session\<close> holds between its constructor and its destructor
  (src/src/debugger/debugger_session.cpp): the engine's interfaces, the two callback sinks with their
  reference counts, and the loaded libraries.  The state of a session's operations is in
  \<open>Debugger_Session\<close>; here only ownership is followed.  As COM documents it, the engine takes
  a reference to a sink when it is registered and gives it back when it is replaced.
\<close>

section \<open>Callback sinks\<close>

record sink =
  ref_count :: u32
  deleted :: bool

definition new_sink :: sink where
  "new_sink = \<lparr>ref_count = 1, deleted = False\<rparr>"

definition add_ref :: "sink \<Rightarrow> u32 \<times> sink" where
  "add_ref k = (let n = ref_count k + 1 in (n, k\<lparr>ref_count := n\<rparr>))"

definition release :: "sink \<Rightarrow> u32 \<times> sink" where
  "release k =
     (let count = ref_count k - 1; k = k\<lparr>ref_count := count\<rparr>
      in (count, if count = 0 then k\<lparr>deleted := True\<rparr> else k))"

datatype interface_id = Unknown_Id | Sink_Id | Other_Id

text \<open>The result, what is stored through \<open>out\<close> (whether it is the sink), and the sink.\<close>

definition query_interface :: "interface_id \<Rightarrow> bool \<Rightarrow> sink \<Rightarrow> hresult \<times> bool option \<times> sink" where
  "query_interface iid has_out k =
     (if \<not> has_out then (0x80004003, None, k)
      else if iid = Unknown_Id \<or> iid = Sink_Id then (0, Some True, snd (add_ref k))
      else (0x80004002, Some False, k))"

section \<open>The members\<close>

datatype engine_interface = Client | Control | Symbols | System_Objects | Registers | Data_Spaces

record holdings =
  interfaces :: "engine_interface list"
  libraries :: "string list"
  event_sink :: "sink option"
  output_sink :: "sink option"
  event_registered :: bool
  output_registered :: bool
  server_handle :: u64
  ended :: bool
  torn_down :: bool

definition no_holdings :: holdings where
  "no_holdings = \<lparr>interfaces = [], libraries = [], event_sink = None, output_sink = None,
     event_registered = False, output_registered = False, server_handle = 0, ended = False, torn_down = False\<rparr>"

section \<open>The constructor\<close>

text \<open>
  The constructor asks the engine's client for the interfaces in this order and stops at the first
  failure; the client it asked is released on both paths.
\<close>

fun query_chain :: "(engine_interface \<Rightarrow> hresult) \<Rightarrow> engine_interface list \<Rightarrow> hresult \<Rightarrow> hresult \<times> engine_interface list" where
  "query_chain q [] hr = (hr, [])"
| "query_chain q (i # rest) hr =
     (if hr_failed (q i) then (q i, [])
      else (case query_chain q rest (q i) of (result, got) \<Rightarrow> (result, i # got)))"

definition queried_interfaces :: "engine_interface list" where
  "queried_interfaces = [Client, Control, Symbols, System_Objects, Registers, Data_Spaces]"

text \<open>A registration that succeeds gives the engine a reference of its own.\<close>

definition register_events :: "hresult \<Rightarrow> holdings \<Rightarrow> holdings" where
  "register_events hr h =
     (if hr_failed hr then h
      else h\<lparr>event_sink := map_option (snd \<circ> add_ref) (event_sink h), event_registered := True\<rparr>)"

definition register_output :: "hresult \<Rightarrow> holdings \<Rightarrow> holdings" where
  "register_output hr h =
     (if hr_failed hr then h
      else h\<lparr>output_sink := map_option (snd \<circ> add_ref) (output_sink h), output_registered := True\<rparr>)"

definition wire_events :: "hresult \<times> hresult \<Rightarrow> holdings \<Rightarrow> exn option \<times> holdings" where
  "wire_events outcome h =
     (let h = register_events (fst outcome) h
      in case check_hr (fst outcome) ''Could not register event callbacks'' of
           Some e \<Rightarrow> (Some e, h)
         | None \<Rightarrow>
             (let h = register_output (snd outcome) h
              in (check_hr (snd outcome) ''Could not register output callbacks'', h)))"

definition acquire_engine :: "'e connector \<Rightarrow> (engine_interface \<Rightarrow> hresult) \<Rightarrow> holdings \<Rightarrow> exn option \<times> holdings" where
  "acquire_engine C q h =
     (case check_hr (fst (create_client C)) ''Could not create the debug engine client'' of
        Some e \<Rightarrow> (Some e, h)
      | None \<Rightarrow>
          (case query_chain q queried_interfaces 0 of (hr, got) \<Rightarrow>
            (let h = h\<lparr>interfaces := got\<rparr>
             in case check_hr hr ''Could not query the debug engine interfaces'' of
                  Some e \<Rightarrow> (Some e, h)
                | None \<Rightarrow>
                    wire_events (set_callbacks C) (h\<lparr>event_sink := Some new_sink, output_sink := Some new_sink\<rparr>))))"

text \<open>The exception that leaves the constructor, if one does, and what is held then.\<close>

definition construct ::
    "'e connector \<Rightarrow> (engine_interface \<Rightarrow> hresult) \<Rightarrow> string \<Rightarrow> exn option \<times> holdings" where
  "construct C q engine_path =
     (case throw_if_null_or_whitespace engine_path ''enginePath'' of
        Some e \<Rightarrow> (Some e, no_holdings)
      | None \<Rightarrow>
          (case get_dbgeng_directory C engine_path of
             Inl e \<Rightarrow> (Some e, no_holdings)
           | Inr directory \<Rightarrow>
               (let h = (if load_engine_dbghelp C directory then no_holdings\<lparr>libraries := [''dbghelp.dll'']\<rparr> else no_holdings)
                in if \<not> load_library C (join_path directory ''dbgeng.dll'') \<and> \<not> load_library C ''dbgeng.dll''
                   then (Some (Runtime_Error (''Could not load dbgeng.dll from '' @ quoted directory @ ''.'')), h)
                   else (let h = h\<lparr>libraries := libraries h @ [''dbgeng.dll'']\<rparr>
                         in if \<not> has_debug_create C
                            then (Some (Runtime_Error ''Could not resolve DebugCreate in dbgeng.dll.''), h)
                            else acquire_engine C q h))))"

section \<open>The destructor\<close>

definition drop_sink :: "sink option \<Rightarrow> sink option" where
  "drop_sink = map_option (snd \<circ> release)"

text \<open>\<open>SetEventCallbacks(nullptr)\<close> and \<open>SetOutputCallbacks(nullptr)\<close>.\<close>

definition unregister :: "holdings \<Rightarrow> holdings" where
  "unregister h =
     h\<lparr>event_sink := (if event_registered h then drop_sink (event_sink h) else event_sink h), event_registered := False,
       output_sink := (if output_registered h then drop_sink (output_sink h) else output_sink h),
       output_registered := False\<rparr>"

definition disconnect_process_server :: "holdings \<Rightarrow> holdings" where
  "disconnect_process_server h =
     (if server_handle h = 0 \<or> Client \<notin> set (interfaces h) then h else h\<lparr>server_handle := 0\<rparr>)"

definition destruct :: "bool \<Rightarrow> holdings \<Rightarrow> holdings" where
  "destruct terminate h =
     (if torn_down h then h
      else (let h = (if Client \<in> set (interfaces h) then unregister h else h);
                h = (if terminate \<and> Client \<in> set (interfaces h) then h\<lparr>ended := True\<rparr> else h);
                h = disconnect_process_server h;
                h = h\<lparr>event_sink := drop_sink (event_sink h), output_sink := drop_sink (output_sink h)\<rparr>;
                h = fold (\<lambda>i h. h\<lparr>interfaces := remove1 i (interfaces h)\<rparr>)
                      [Data_Spaces, Registers, System_Objects, Symbols, Control, Client] h;
                h = h\<lparr>libraries := remove1 ''dbghelp.dll'' (remove1 ''dbgeng.dll'' (libraries h))\<rparr>
            in h\<lparr>torn_down := True\<rparr>))"

section \<open>Lemmas\<close>

text \<open>The constructor throws exactly when opening the session fails, and then the same exception.\<close>

lemma construct_opens:
  assumes "query_interfaces C = fst (query_chain q queried_interfaces 0)"
  shows "case open_session C engine_path of
           Inl e \<Rightarrow> fst (construct C q engine_path) = Some e
         | Inr x \<Rightarrow> fst (construct C q engine_path) = None
             \<and> (has_dbghelp x \<longleftrightarrow> ''dbghelp.dll'' \<in> set (libraries (snd (construct C q engine_path))))"
proof -
  have r: "libraries (snd (wire_events p h)) = libraries h" for p h
    by (simp add: wire_events_def register_events_def register_output_def Let_def split: option.split)
  have w: "fst (wire_events p h) = (case check_hr (fst p) ''Could not register event callbacks'' of
      Some e \<Rightarrow> Some e | None \<Rightarrow> check_hr (snd p) ''Could not register output callbacks'')" for p h
    by (simp add: wire_events_def Let_def split: option.split)
  show ?thesis
    unfolding open_session_def construct_def acquire_engine_def assms
    by (auto simp: Let_def r w no_holdings_def map_filter_simps case_prod_beta split: option.splits sum.splits)
qed

lemma chain_complete: "\<not> hr_failed (fst (query_chain q is hr)) \<Longrightarrow> snd (query_chain q is hr) = is"
  by (induction "is" arbitrary: hr) (auto simp: case_prod_beta split: if_splits)

text \<open>What a constructor that throws leaves behind stays: no destructor runs.\<close>

lemma failed_constructor_leaks:
  assumes "construct C q engine_path = (Some e, h)" "''dbgeng.dll'' \<in> set (libraries h)"
    and "has_debug_create C" "\<not> hr_failed (fst (create_client C))"
  shows "interfaces h = snd (query_chain q queried_interfaces 0)"
  using assms
  by (auto simp: construct_def acquire_engine_def wire_events_def register_events_def register_output_def Let_def
      no_holdings_def check_hr_def split: option.splits sum.splits if_splits prod.splits)

lemma constructed:
  assumes "construct C q engine_path = (None, h)"
  shows "interfaces h = queried_interfaces \<and> libraries h \<in> {[''dbgeng.dll''], [''dbghelp.dll'', ''dbgeng.dll'']}
    \<and> event_sink h = Some \<lparr>ref_count = 2, deleted = False\<rparr> \<and> output_sink h = Some \<lparr>ref_count = 2, deleted = False\<rparr>
    \<and> event_registered h \<and> output_registered h \<and> \<not> ended h \<and> \<not> torn_down h"
  using assms chain_complete [of q queried_interfaces 0]
  by (auto simp: construct_def acquire_engine_def wire_events_def register_events_def register_output_def Let_def
      no_holdings_def new_sink_def add_ref_def check_hr_def split: option.splits sum.splits if_splits prod.splits)

section \<open>Properties\<close>

text \<open>
  C24. A session gives back what it took: after a constructor that returned, both sinks live with a
  reference of the session and one of the engine; the destructor, with or without ending the
  debuggee and with or without a process server, releases every interface, frees every
  library and deletes both sinks, and a second destruction changes nothing.
\<close>

theorem session_lifetime_balanced:
  assumes "construct C q engine_path = (None, h)" and "g = destruct terminate (h\<lparr>server_handle := handle\<rparr>)"
  shows "event_sink h = Some \<lparr>ref_count = 2, deleted = False\<rparr> \<and> output_sink h = Some \<lparr>ref_count = 2, deleted = False\<rparr>
    \<and> interfaces g = [] \<and> libraries g = [] \<and> server_handle g = 0 \<and> ended g = terminate
    \<and> \<not> event_registered g \<and> \<not> output_registered g
    \<and> event_sink g = Some \<lparr>ref_count = 0, deleted = True\<rparr> \<and> output_sink g = Some \<lparr>ref_count = 0, deleted = True\<rparr>
    \<and> destruct again g = g"
  using constructed [OF assms(1)] unfolding assms(2)
  by (auto simp: destruct_def unregister_def drop_sink_def release_def disconnect_process_server_def queried_interfaces_def
      Let_def)

theorem session_lifetime_balanced_witness:
  "\<exists>h. construct script_connector (\<lambda>i. 0) ''C:/dbg/dbgeng.dll'' = (None, h)
     \<and> libraries h = [''dbghelp.dll'', ''dbgeng.dll'']
     \<and> libraries (destruct True (h\<lparr>server_handle := 9\<rparr>)) = []
     \<and> event_sink (destruct True (h\<lparr>server_handle := 9\<rparr>)) = Some \<lparr>ref_count = 0, deleted = True\<rparr>"
proof -
  have "\<exists>h. construct script_connector (\<lambda>i. 0) ''C:/dbg/dbgeng.dll'' = (None, h)
      \<and> libraries h = [''dbghelp.dll'', ''dbgeng.dll'']"
    by (simp add: construct_def script_connector_def throw_if_null_or_whitespace_def isspace_def get_dbgeng_directory_def
        parent_path_def root_length_def drive_length_def is_alpha_def is_separator_def load_engine_dbghelp_def
        acquire_engine_def check_hr_def hr_failed_def queried_interfaces_def wire_events_def register_events_def
        register_output_def no_holdings_def Let_def)
  then show ?thesis
    using session_lifetime_balanced [OF _ refl, of script_connector "\<lambda>i. 0" "''C:/dbg/dbgeng.dll''"] by fastforce
qed

end
