(* ===== verification/Trace_Recorder.thy ===== *)
theory Trace_Recorder
  imports Json_Model
begin

text \<open>
  \<open>transport::dap_trace_recorder\<close> (src/src/transport/dap_trace_recorder.cpp): the buffer of
  inbound and outbound messages, the decision the first \<open>launch\<close> or \<open>attach\<close> request makes
  for the session, the merging of adjacent console output and the file written on
  destruction.  The file system is a parameter; the mutex makes every operation atomic.
\<close>

section \<open>State and operations\<close>

record file_system =
  fs_absolute :: "string \<Rightarrow> string"
  fs_is_directory :: "string \<Rightarrow> bool"
  fs_parent_path :: "string \<Rightarrow> string"
  fs_create_directories :: "string \<Rightarrow> exn option"
  fs_can_open :: "string \<Rightarrow> bool"

record trace_entry =
  direction :: string
  message :: json

record recorder =
  messages :: "trace_entry list"
  path :: "string option"
  disposed :: bool
  discarded :: bool
  resolved :: bool

definition new_recorder :: recorder where
  "new_recorder = \<lparr>messages = [], path = None, disposed = False, discarded = False, resolved = False\<rparr>"

definition prepare_trace_path :: "file_system \<Rightarrow> string \<Rightarrow> exn + string" where
  "prepare_trace_path fs p =
     (if p = [] then Inl (Invalid_Argument ''Trace path must not be empty.'')
      else (let full_path = fs_absolute fs p
            in if fs_is_directory fs full_path
               then Inl (Runtime_Error (''Trace path '' @ [CHR 0x27] @ full_path @ [CHR 0x27] @ '' is a directory.''))
               else (let directory = fs_parent_path fs full_path
                     in if directory \<noteq> []
                        then (case fs_create_directories fs directory of
                                Some e \<Rightarrow> Inl e
                              | None \<Rightarrow> Inr full_path)
                        else Inr full_path)))"

definition is_request_with_command :: "json \<Rightarrow> string \<Rightarrow> bool" where
  "is_request_with_command m command \<longleftrightarrow>
     is_object m \<and> find_key m ''type'' = Some (J_String ''request'')
       \<and> find_key m ''command'' = Some (J_String command)"

definition trace_path_from_request :: "json \<Rightarrow> string option" where
  "trace_path_from_request m =
     (case find_key m ''arguments'' of
        None \<Rightarrow> None
      | Some arguments \<Rightarrow>
          if \<not> is_object arguments then None else as_string (find_key arguments ''trace''))"

definition discard :: "recorder \<Rightarrow> recorder" where
  "discard r = r\<lparr>discarded := True, messages := []\<rparr>"

definition resolve_trace_path_once :: "file_system \<Rightarrow> json \<Rightarrow> recorder \<Rightarrow> recorder" where
  "resolve_trace_path_once fs m r =
     (if resolved r \<or> \<not> (is_request_with_command m ''launch'' \<or> is_request_with_command m ''attach'')
      then r
      else (let r = r\<lparr>resolved := True\<rparr>
            in case trace_path_from_request m of
                 Some p \<Rightarrow>
                   (if p \<noteq> []
                    then (case prepare_trace_path fs p of
                            Inr full_path \<Rightarrow> r\<lparr>path := Some full_path\<rparr>
                          | Inl e \<Rightarrow> r\<lparr>discarded := True, messages := []\<rparr>)
                    else r\<lparr>discarded := True, messages := []\<rparr>)
               | None \<Rightarrow> r\<lparr>discarded := True, messages := []\<rparr>))"

definition try_get_console_output :: "trace_entry \<Rightarrow> string option" where
  "try_get_console_output e =
     (if direction e \<noteq> ''out'' \<or> \<not> is_object (message e) then None
      else if as_string (find_key (message e) ''type'') \<noteq> Some ''event'' then None
      else if as_string (find_key (message e) ''event'') \<noteq> Some ''output'' then None
      else (case find_key (message e) ''body'' of
              Some (J_Object body) \<Rightarrow>
                if length body \<noteq> 2 then None
                else if as_string (map_of body ''category'') \<noteq> Some ''console'' then None
                else as_string (map_of body ''output'')
            | _ \<Rightarrow> None))"

definition console_body :: "string \<Rightarrow> json" where
  "console_body s = J_Object [(''category'', J_String ''console''), (''output'', J_String s)]"

fun with_body :: "json \<Rightarrow> json \<Rightarrow> json" where
  "with_body (J_Object flds) b = J_Object (put_field ''body'' b flds)"
| "with_body j b = j"

definition record_locked :: "string \<Rightarrow> json \<Rightarrow> recorder \<Rightarrow> recorder" where
  "record_locked dir m r =
     (let entry = \<lparr>direction = dir, message = m\<rparr>
      in case (if messages r = [] then None else try_get_console_output entry) of
           Some output \<Rightarrow>
             (case try_get_console_output (last (messages r)) of
                Some previous \<Rightarrow>
                  r\<lparr>messages := butlast (messages r)
                     @ [\<lparr>direction = dir, message = with_body m (console_body (previous @ output))\<rparr>]\<rparr>
              | None \<Rightarrow> r\<lparr>messages := messages r @ [entry]\<rparr>)
         | None \<Rightarrow> r\<lparr>messages := messages r @ [entry]\<rparr>)"

definition record_input :: "file_system \<Rightarrow> json \<Rightarrow> recorder \<Rightarrow> recorder" where
  "record_input fs m r =
     (if disposed r then r
      else (let r = resolve_trace_path_once fs m r
            in if discarded r then r else record_locked ''in'' m r))"

definition record_output :: "json \<Rightarrow> recorder \<Rightarrow> recorder" where
  "record_output m r = (if disposed r \<or> discarded r then r else record_locked ''out'' m r)"

definition try_set_path :: "file_system \<Rightarrow> string \<Rightarrow> recorder \<Rightarrow> bool \<times> recorder" where
  "try_set_path fs p r =
     (case prepare_trace_path fs p of
        Inr full_path \<Rightarrow> (True, r\<lparr>path := Some full_path\<rparr>)
      | Inl e \<Rightarrow> (False, r))"

definition trace_document :: "trace_entry list \<Rightarrow> json" where
  "trace_document es =
     J_Object [(''version'', J_Int 1),
       (''messages'', J_Array (map (\<lambda>e. J_Object [(''direction'', J_String (direction e)), (''message'', message e)]) es))]"

text \<open>What the file holds afterwards: the path and the serialized document, if anything is written.\<close>

definition write_trace_file :: "file_system \<Rightarrow> (json \<Rightarrow> exn + string) \<Rightarrow> recorder \<Rightarrow> (string \<times> string) option" where
  "write_trace_file fs dump2 r =
     (case path r of
        None \<Rightarrow> None
      | Some p \<Rightarrow>
          if \<not> fs_can_open fs p then None
          else (case dump2 (trace_document (messages r)) of
                  Inl e \<Rightarrow> None
                | Inr contents \<Rightarrow> Some (p, contents)))"

definition destroy_recorder ::
    "file_system \<Rightarrow> (json \<Rightarrow> exn + string) \<Rightarrow> recorder \<Rightarrow> (string \<times> string) option \<times> recorder" where
  "destroy_recorder fs dump2 r =
     (if disposed r then (None, r) else (write_trace_file fs dump2 r, r\<lparr>disposed := True\<rparr>))"

section \<open>Sequences of recordings\<close>

datatype traffic = Inbound json | Outbound json

fun record_one :: "file_system \<Rightarrow> traffic \<Rightarrow> recorder \<Rightarrow> recorder" where
  "record_one fs (Inbound m) r = record_input fs m r"
| "record_one fs (Outbound m) r = record_output m r"

fun entry_of :: "traffic \<Rightarrow> trace_entry" where
  "entry_of (Inbound m) = \<lparr>direction = ''in'', message = m\<rparr>"
| "entry_of (Outbound m) = \<lparr>direction = ''out'', message = m\<rparr>"

fun decides :: "traffic \<Rightarrow> bool" where
  "decides (Inbound m) \<longleftrightarrow> is_request_with_command m ''launch'' \<or> is_request_with_command m ''attach''"
| "decides (Outbound m) \<longleftrightarrow> False"

text \<open>The destination the deciding request selects, if any.\<close>

definition selected_path :: "file_system \<Rightarrow> json \<Rightarrow> string option" where
  "selected_path fs m =
     (case trace_path_from_request m of
        None \<Rightarrow> None
      | Some p \<Rightarrow> (case prepare_trace_path fs p of Inl e \<Rightarrow> None | Inr full \<Rightarrow> Some full))"

text \<open>
  The content of a transcript with console output read as one text per uninterrupted run:
  the abstraction under which merging is invisible.
\<close>

fun content :: "trace_entry list \<Rightarrow> (string + trace_entry) list" where
  "content [] = []"
| "content (e # es) =
     (case try_get_console_output e of
        None \<Rightarrow> Inr e # content es
      | Some s \<Rightarrow> (case content es of Inl s' # r \<Rightarrow> Inl (s @ s') # r | r \<Rightarrow> Inl s # r))"

text \<open>No two adjacent entries are console output.\<close>

fun compact :: "trace_entry list \<Rightarrow> bool" where
  "compact (e # f # es) \<longleftrightarrow>
     \<not> (try_get_console_output e \<noteq> None \<and> try_get_console_output f \<noteq> None) \<and> compact (f # es)"
| "compact _ \<longleftrightarrow> True"

section \<open>Lemmas\<close>

lemma console_merged:
  assumes "try_get_console_output \<lparr>direction = d, message = m\<rparr> = Some s"
  shows "try_get_console_output \<lparr>direction = d, message = with_body m (console_body t)\<rparr> = Some t"
proof -
  from assms obtain flds where m: "m = J_Object flds"
    by (cases m) (auto simp: try_get_console_output_def)
  show ?thesis using assms unfolding m try_get_console_output_def
    by (simp add: console_body_def split: if_splits)
qed

definition add_text :: "(string + trace_entry) list \<Rightarrow> string \<Rightarrow> (string + trace_entry) list" where
  "add_text xs s = (if xs \<noteq> [] \<and> isl (last xs) then butlast xs @ [Inl (projl (last xs) @ s)] else xs @ [Inl s])"

lemma add_text_Cons: "xs \<noteq> [] \<Longrightarrow> add_text (x # xs) s = x # add_text xs s"
  by (simp add: add_text_def)

lemma add_text_two: "add_text (add_text xs s) t = add_text xs (s @ t)"
  by (simp add: add_text_def)

lemma content_Nil_iff [simp]: "content es = [] \<longleftrightarrow> es = []"
  by (cases es) (auto split: option.splits list.splits sum.splits)

lemma content_snoc:
  "content (es @ [e]) =
     (case try_get_console_output e of None \<Rightarrow> content es @ [Inr e] | Some s \<Rightarrow> add_text (content es) s)"
proof (induction es)
  case Nil
  then show ?case by (simp add: add_text_def split: option.splits)
next
  case (Cons a es)
  show ?case
  proof (cases "content es")
    case Nil
    then show ?thesis using Cons by (auto simp: add_text_def split: option.splits)
  next
    case (Cons x xs)
    then show ?thesis using Cons.IH
      by (cases x; cases xs) (auto simp: add_text_def split: option.splits)
  qed
qed

lemma content_snoc_cong: "content es = content fs \<Longrightarrow> content (es @ [e]) = content (fs @ [e])"
  by (simp add: content_snoc split: option.split)

lemma record_locked_content:
  "content (messages (record_locked d m r)) = content (messages r @ [\<lparr>direction = d, message = m\<rparr>])"
proof (cases "\<exists>s t. messages r \<noteq> [] \<and> try_get_console_output \<lparr>direction = d, message = m\<rparr> = Some s
    \<and> try_get_console_output (last (messages r)) = Some t")
  case True
  then obtain s t where st: "messages r \<noteq> []" "try_get_console_output \<lparr>direction = d, message = m\<rparr> = Some s"
    "try_get_console_output (last (messages r)) = Some t" by blast
  then obtain es e where es: "messages r = es @ [e]" by (metis append_butlast_last_id)
  show ?thesis
    using st es console_merged [OF st(2), of "t @ s"]
    content_snoc [of "es @ [e]"]
    by (simp add: record_locked_def content_snoc add_text_two)
next
  case False
  then show ?thesis by (auto simp: record_locked_def Let_def split: option.splits)
qed

lemma compact_snoc:
  "compact (es @ [e]) \<longleftrightarrow> compact es \<and>
     (es = [] \<or> \<not> (try_get_console_output (last es) \<noteq> None \<and> try_get_console_output e \<noteq> None))"
  by (induction es rule: compact.induct) auto

lemma record_locked_compact: "compact (messages r) \<Longrightarrow> compact (messages (record_locked d m r))"
proof (cases "messages r" rule: rev_cases)
  case Nil
  then show ?thesis by (simp add: record_locked_def)
next
  case (snoc es e)
  assume "compact (messages r)"
  then show ?thesis
    using snoc console_merged [of d m] compact_snoc [of "es @ [e]"]
    by (auto simp: record_locked_def Let_def compact_snoc split: option.splits)
qed

lemma record_locked_flags [simp]:
  "path (record_locked d m r) = path r" "disposed (record_locked d m r) = disposed r"
  "discarded (record_locked d m r) = discarded r" "resolved (record_locked d m r) = resolved r"
  by (simp_all add: record_locked_def Let_def split: option.splits)

text \<open>What a resolved recorder keeps under further traffic: its decision.\<close>

lemma record_one_kept:
  assumes "\<not> disposed r" "\<not> discarded r" "resolved r \<or> \<not> decides t"
  shows "messages (record_one fs t r) = messages (record_locked (direction (entry_of t)) (message (entry_of t)) r)
    \<and> path (record_one fs t r) = path r \<and> \<not> disposed (record_one fs t r)
    \<and> \<not> discarded (record_one fs t r) \<and> resolved (record_one fs t r) = resolved r"
  using assms by (cases t) (auto simp: record_input_def record_output_def resolve_trace_path_once_def)

lemma entry_of_eta [simp]: "\<lparr>direction = direction (entry_of t), message = message (entry_of t)\<rparr> = entry_of t"
  by (cases t) simp_all

lemma record_run_kept:
  assumes "\<not> disposed r" "\<not> discarded r" "resolved r \<or> (\<forall>t \<in> set ts. \<not> decides t)"
    and "compact (messages r)" "content (messages r) = content es"
  shows "let r' = fold (record_one fs) ts r in
    content (messages r') = content (es @ map entry_of ts) \<and> compact (messages r')
    \<and> path r' = path r \<and> \<not> disposed r' \<and> \<not> discarded r' \<and> resolved r' = resolved r"
  using assms
proof (induction ts arbitrary: r es)
  case Nil
  then show ?case by simp
next
  case (Cons t ts)
  let ?e = "entry_of t" and ?r = "record_one fs t r"
  have k: "messages ?r = messages (record_locked (direction ?e) (message ?e) r)" "path ?r = path r"
    "\<not> disposed ?r" "\<not> discarded ?r" "resolved ?r = resolved r"
    using record_one_kept [of r t fs] Cons.prems by auto
  have "content (messages ?r) = content (es @ [?e])"
    unfolding k record_locked_content entry_of_eta by (rule content_snoc_cong) (rule Cons.prems(5))
  moreover have "compact (messages ?r)" using Cons.prems(4) k record_locked_compact by simp
  moreover have "resolved ?r \<or> (\<forall>t \<in> set ts. \<not> decides t)" using Cons.prems(3) k(5) by auto
  ultimately show ?case
    using Cons.IH [OF k(3,4), of "es @ [?e]"] k(2,5) by simp
qed

lemma record_run_discarded:
  "discarded r \<Longrightarrow> messages r = [] \<Longrightarrow> resolved r \<Longrightarrow>
   let r' = fold (record_one fs) ts r in discarded r' \<and> messages r' = [] \<and> path r' = path r"
proof (induction ts arbitrary: r)
  case Nil
  then show ?case by simp
next
  case (Cons t ts)
  then have "record_one fs t r = r"
    by (cases t) (auto simp: record_input_def record_output_def resolve_trace_path_once_def)
  then show ?case using Cons by simp
qed

lemma new_recorder_run:
  assumes "\<forall>t \<in> set ts. \<not> decides t" and "r = fold (record_one fs) ts new_recorder"
  shows "content (messages r) = content (map entry_of ts)" "compact (messages r)" "path r = None"
    "\<not> disposed r" "\<not> discarded r" "\<not> resolved r"
  using record_run_kept [of new_recorder ts "[]" fs] assms by (simp_all add: new_recorder_def Let_def)

lemma deciding_request:
  assumes "decides (Inbound m)" "\<not> disposed r" "\<not> discarded r" "\<not> resolved r"
  shows "record_one fs (Inbound m) r =
    (case selected_path fs m of
       None \<Rightarrow> r\<lparr>resolved := True, discarded := True, messages := []\<rparr>
     | Some full \<Rightarrow> record_locked ''in'' m (r\<lparr>resolved := True, path := Some full\<rparr>))"
  using assms
  by (auto simp: record_input_def resolve_trace_path_once_def selected_path_def prepare_trace_path_def Let_def
      split: option.splits sum.splits)

section \<open>Properties\<close>


text \<open>A plain file system for the witnesses.\<close>

definition plain_fs :: file_system where
  "plain_fs = \<lparr>fs_absolute = \<lambda>p. ''C:/'' @ p, fs_is_directory = \<lambda>p. p = ''C:/'', fs_parent_path = \<lambda>p. [],
     fs_create_directories = \<lambda>p. None, fs_can_open = \<lambda>p. True\<rparr>"

definition launch_message :: "(string \<times> json) list \<Rightarrow> json" where
  "launch_message args = J_Object [(''seq'', J_Int 2), (''type'', J_String ''request''),
     (''command'', J_String ''launch''), (''arguments'', J_Object args)]"

definition console_event :: "string \<Rightarrow> json" where
  "console_event s = J_Object [(''seq'', J_Int 3), (''type'', J_String ''event''), (''event'', J_String ''output''),
     (''body'', console_body s)]"


text \<open>
  C34. A session whose first \<open>launch\<close> or \<open>attach\<close> request selects no usable path retains nothing:
  whatever traffic follows, later configuration requests included, the buffer stays empty
  and no file is written; nor is one written when no such request ever arrives.
\<close>

theorem untraced_session_forgets:
  assumes "\<forall>t \<in> set before. \<not> decides t"
    and "later = [] \<or> (\<exists>m after. later = Inbound m # after \<and> decides (Inbound m) \<and> selected_path fs m = None)"
  shows "fst (destroy_recorder fs dump2 (fold (record_one fs) (before @ later) new_recorder)) = None
    \<and> (later \<noteq> [] \<longrightarrow> messages (fold (record_one fs) (before @ later) new_recorder) = [])"
proof -
  let ?r = "fold (record_one fs) before new_recorder"
  note start = new_recorder_run [OF assms(1) refl, of fs]
  show ?thesis
  proof (cases "later = []")
    case True
    then show ?thesis using start by (simp add: destroy_recorder_def write_trace_file_def)
  next
    case False
    then obtain m after where l: "later = Inbound m # after" "decides (Inbound m)" "selected_path fs m = None"
      using assms(2) by blast
    have "record_one fs (Inbound m) ?r = ?r\<lparr>resolved := True, discarded := True, messages := []\<rparr>"
      using deciding_request [OF l(2), of ?r fs] start l(3) by simp
    then show ?thesis
      using record_run_discarded [of "?r\<lparr>resolved := True, discarded := True, messages := []\<rparr>" fs after] start(3) l(1)
      by (simp add: destroy_recorder_def write_trace_file_def Let_def del: record_one.simps)
  qed
qed

theorem untraced_session_forgets_witness:
  "fst (destroy_recorder plain_fs (\<lambda>j. Inr ''trace'')
      (fold (record_one plain_fs) ([Outbound (console_event ''a'')]
        @ [Inbound (launch_message []), Inbound (launch_message [(''trace'', J_String ''t'')])]) new_recorder)) = None
   \<and> messages (fold (record_one plain_fs) ([Outbound (console_event ''a'')]
        @ [Inbound (launch_message []), Inbound (launch_message [(''trace'', J_String ''t'')])]) new_recorder) = []"
  using untraced_session_forgets [of "[Outbound (console_event ''a'')]"
      "[Inbound (launch_message []), Inbound (launch_message [(''trace'', J_String ''t'')])]" plain_fs]
  by (simp add: launch_message_def is_request_with_command_def selected_path_def trace_path_from_request_def
      del: record_one.simps fold_simps)

end
