(* ===== verification/Transport.thy ===== *)
theory Transport
  imports Channel Trace_Recorder
begin

text \<open>
  The wire: \<open>frame_message\<close> (src/src/dap/dap_server.cpp) and \<open>transport::io_stream_server\<close>
  (src/src/transport/io_stream_server.cpp): parsing of the header block, reading one message,
  the inbound loop and the writer thread that numbers, records, frames and writes the
  outbound messages.  The JSON library's \<open>dump\<close> and \<open>parse\<close> are parameters that may raise;
  an input stream is the bytes that are left until its end.
\<close>

section \<open>Framing\<close>

definition header_end :: string where
  "header_end = [CR, LF, CR, LF]"

definition frame_message :: "(json \<Rightarrow> exn + string) \<Rightarrow> json \<Rightarrow> exn + string" where
  "frame_message dump m =
     (case dump m of
        Inl e \<Rightarrow> Inl e
      | Inr body \<Rightarrow> Inr (''Content-Length: '' @ dec (length body) @ header_end @ body))"

section \<open>Reading a message\<close>

text \<open>The text up to the next CRLF, and what follows the CRLF if there is one.\<close>

fun break_crlf :: "string \<Rightarrow> string \<times> string option" where
  "break_crlf [] = ([], None)"
| "break_crlf [c] = ([c], None)"
| "break_crlf (c # d # s) =
     (if c = CR \<and> d = LF then ([], Some s)
      else (case break_crlf (d # s) of (line, rest) \<Rightarrow> (c # line, rest)))"

definition length_prefix :: string where
  "length_prefix = ''content-length:''"

definition content_length_of_line :: "string \<Rightarrow> nat option" where
  "content_length_of_line line =
     (if length line \<ge> length length_prefix \<and> map tolower (take (length length_prefix) line) = length_prefix
      then (case stoll (trim_both (drop (length length_prefix) line)) of
              Inr (parsed, _) \<Rightarrow> if parsed \<ge> 0 then Some (nat parsed) else None
            | Inl e \<Rightarrow> None)
      else None)"

lemma break_crlf_shorter: "break_crlf s = (line, Some rest) \<Longrightarrow> length rest < length s"
  by (induction s arbitrary: line rest rule: break_crlf.induct) (auto split: if_splits prod.splits)

function parse_content_length :: "string \<Rightarrow> exn + nat" where
  "parse_content_length header_text =
     (if header_text = [] then Inl (Runtime_Error ''Missing Content-Length header.'')
      else (case break_crlf header_text of (line, rest) \<Rightarrow>
              (case content_length_of_line line of
                 Some n \<Rightarrow> Inr n
               | None \<Rightarrow> (case rest of
                            None \<Rightarrow> Inl (Runtime_Error ''Missing Content-Length header.'')
                          | Some further \<Rightarrow> parse_content_length further))))"
  by pat_completeness auto
termination
  by (relation "measure length") (auto dest: break_crlf_shorter [OF sym])

declare parse_content_length.simps [simp del]

definition ends_header :: "string \<Rightarrow> bool" where
  "ends_header header = (length header \<ge> 4 \<and> drop (length header - 4) header = header_end)"

text \<open>The header loop: \<open>None\<close> is a clean end of the stream between messages.\<close>

fun read_header :: "string \<Rightarrow> string \<Rightarrow> (exn + string option) \<times> string" where
  "read_header header [] =
     (if header = [] then (Inr None, [])
      else (Inl (Runtime_Error ''Unexpected end of stream while reading DAP headers.''), []))"
| "read_header header (next # input) =
     (if ends_header (header @ [next]) then (Inr (Some (header @ [next])), input)
      else read_header (header @ [next]) input)"

definition read_message :: "(string \<Rightarrow> exn + json) \<Rightarrow> string \<Rightarrow> (exn + json option) \<times> string" where
  "read_message parse input =
     (case read_header [] input of
        (Inl e, rest) \<Rightarrow> (Inl e, rest)
      | (Inr None, rest) \<Rightarrow> (Inr None, rest)
      | (Inr (Some header), rest) \<Rightarrow>
          (case parse_content_length header of
             Inl e \<Rightarrow> (Inl e, rest)
           | Inr content_length \<Rightarrow>
               if length rest < content_length
               then (Inl (Runtime_Error ''Unexpected end of stream while reading a DAP payload.''), [])
               else (case parse (take content_length rest) of
                       Inl e \<Rightarrow> (Inl e, drop content_length rest)
                     | Inr m \<Rightarrow> (Inr (Some m), drop content_length rest))))"

section \<open>The writer thread\<close>

record io_stream_server =
  outbound :: "json channel"
  next_sequence :: int
  out :: string
  trace :: "recorder option"

definition new_server :: "recorder option \<Rightarrow> io_stream_server" where
  "new_server r = \<lparr>outbound = new_channel, next_sequence = 1, out = [], trace = r\<rparr>"

definition send :: "json \<Rightarrow> io_stream_server \<Rightarrow> io_stream_server" where
  "send m s = s\<lparr>outbound := snd (push m (outbound s))\<rparr>"

definition needs_sequence :: "json \<Rightarrow> bool" where
  "needs_sequence m = (case find_key m ''seq'' of Some (J_Int n) \<Rightarrow> n \<le> 0 | _ \<Rightarrow> True)"

text \<open>An exception in the writer thread ends the process; the state is the one it leaves.\<close>

definition write_one :: "(json \<Rightarrow> exn + string) \<Rightarrow> json \<Rightarrow> io_stream_server \<Rightarrow> exn option \<times> io_stream_server" where
  "write_one dump m s =
     (case (if needs_sequence m then assign_key m ''seq'' (J_Int (next_sequence s)) else Inr m) of
        Inl e \<Rightarrow> (Some e, s)
      | Inr numbered \<Rightarrow>
          (let s = (if needs_sequence m then s\<lparr>next_sequence := next_sequence s + 1\<rparr> else s);
               s = s\<lparr>trace := map_option (record_output numbered) (trace s)\<rparr>
           in case frame_message dump numbered of
                Inl e \<Rightarrow> (Some e, s)
              | Inr framed \<Rightarrow> (None, s\<lparr>out := out s @ framed\<rparr>)))"

datatype writer_end = Writer_Done | Writer_Waits | Writer_Dead exn

lemma write_one_outbound: "write_one dump m s = (e, s') \<Longrightarrow> outbound s' = outbound s"
  by (auto simp: write_one_def Let_def split: sum.splits if_splits)

lemma pop_shorter: "pop c = (Pop_Item m, c') \<Longrightarrow> length (queue c') < length (queue c)"
  by (cases "queue c") (auto simp: pop_def split: if_splits)

function writer_loop :: "(json \<Rightarrow> exn + string) \<Rightarrow> io_stream_server \<Rightarrow> writer_end \<times> io_stream_server" where
  "writer_loop dump s =
     (case pop (outbound s) of
        (Pop_Waits, _) \<Rightarrow> (Writer_Waits, s)
      | (Pop_None, _) \<Rightarrow> (Writer_Done, s)
      | (Pop_Item m, c) \<Rightarrow>
          (case write_one dump m (s\<lparr>outbound := c\<rparr>) of
             (Some e, s') \<Rightarrow> (Writer_Dead e, s')
           | (None, s') \<Rightarrow> writer_loop dump s'))"
  by pat_completeness auto

termination
  by (relation "measure (\<lambda>(dump, s). length (queue (outbound s)))")
    (auto dest!: pop_shorter [OF sym] write_one_outbound [OF sym])

declare writer_loop.simps [simp del]

section \<open>The inbound loop\<close>

text \<open>\<open>message->value("type", std::string{})\<close> raises on a value that is not an object and on a
  \<open>type\<close> that is not a string.\<close>

definition value_string :: "json \<Rightarrow> string \<Rightarrow> exn + string" where
  "value_string m key =
     (if \<not> is_object m then Inl (Json_Error ''cannot use value()'')
      else (case find_key m key of
              None \<Rightarrow> Inr []
            | Some (J_String s) \<Rightarrow> Inr s
            | Some _ \<Rightarrow> Inl (Json_Error ''type must be string'')))"

lemma read_header_shorter:
  "read_header header input = (Inr (Some h), rest) \<Longrightarrow> length rest < length input"
  by (induction input arbitrary: header) (auto split: if_splits intro: less_SucI)

lemma read_message_shorter:
  "read_message parse input = (Inr (Some m), rest) \<Longrightarrow> length rest < length input"
  by (auto simp: read_message_def split: prod.splits sum.splits option.splits if_splits
      dest!: read_header_shorter)

text \<open>
  The request loop over a server given by its \<open>handle_request\<close>, which returns whether to exit
  and the messages it sent, or \<open>None\<close> when it waits forever, and the loop with it.  The exception
  that ends the loop, if one does, propagates out of \<open>run\<close>.
\<close>

function request_loop ::
    "(string \<Rightarrow> exn + json) \<Rightarrow> file_system \<Rightarrow> (json \<Rightarrow> 's \<Rightarrow> ((exn + bool) \<times> json list \<times> 's) option)
     \<Rightarrow> string \<Rightarrow> 's \<Rightarrow> io_stream_server \<Rightarrow> (exn option \<times> 's \<times> io_stream_server) option" where
  "request_loop parse fs handle_request input server s =
     (case read_message parse input of
        (Inl e, _) \<Rightarrow> Some (Some e, server, s)
      | (Inr None, _) \<Rightarrow> Some (None, server, s)
      | (Inr (Some m), rest) \<Rightarrow>
          (let s = s\<lparr>trace := map_option (record_input fs m) (trace s)\<rparr>
           in case value_string m ''type'' of
                Inl e \<Rightarrow> Some (Some e, server, s)
              | Inr type \<Rightarrow>
                  if type \<noteq> ''request'' then request_loop parse fs handle_request rest server s
                  else (case handle_request m server of
                          None \<Rightarrow> None
                        | Some (result, sent, server') \<Rightarrow>
                          (let s' = fold send sent s
                           in case result of
                                Inl e \<Rightarrow> Some (Some e, server', s')
                              | Inr True \<Rightarrow> Some (None, server', s')
                              | Inr False \<Rightarrow> request_loop parse fs handle_request rest server' s'))))"
  by pat_completeness auto
termination
  by (relation "measure (\<lambda>(parse, fs, handle_request, input, server, s). length input)")
    (auto dest!: read_message_shorter [OF sym])

declare request_loop.simps [simp del]

text \<open>
  \<open>run\<close>: the inbound loop, then the outbound queue is closed and the writer drains it.  The
  writer thread runs concurrently; that it may write earlier what it writes here at the end
  does not change the bytes it writes, as the properties below show.
\<close>

definition run_server ::
    "(string \<Rightarrow> exn + json) \<Rightarrow> (json \<Rightarrow> exn + string) \<Rightarrow> file_system
     \<Rightarrow> (json \<Rightarrow> 's \<Rightarrow> ((exn + bool) \<times> json list \<times> 's) option)
     \<Rightarrow> string \<Rightarrow> 's \<Rightarrow> io_stream_server \<Rightarrow> (exn option \<times> writer_end \<times> 's \<times> io_stream_server) option" where
  "run_server parse dump fs handle_request input server s =
     (case request_loop parse fs handle_request input server s of
        None \<Rightarrow> None
      | Some (e, server', s') \<Rightarrow>
          (case writer_loop dump (s'\<lparr>outbound := close (outbound s')\<rparr>) of (w, s'') \<Rightarrow> Some (e, w, server', s'')))"

section \<open>The client's side of the wire\<close>

text \<open>Everything a reader of the stream gets: the messages, and the exception if one stops it.\<close>

function read_all :: "(string \<Rightarrow> exn + json) \<Rightarrow> string \<Rightarrow> json list \<times> exn option" where
  "read_all parse input =
     (case read_message parse input of
        (Inl e, _) \<Rightarrow> ([], Some e)
      | (Inr None, _) \<Rightarrow> ([], None)
      | (Inr (Some m), rest) \<Rightarrow> (case read_all parse rest of (ms, e) \<Rightarrow> (m # ms, e)))"
  by pat_completeness auto
termination
  by (relation "measure (\<lambda>(parse, input). length input)") (auto dest!: read_message_shorter [OF sym])

declare read_all.simps [simp del]

text \<open>A value the library can write and read back.\<close>

definition faithful :: "(json \<Rightarrow> exn + string) \<Rightarrow> (string \<Rightarrow> exn + json) \<Rightarrow> json \<Rightarrow> bool" where
  "faithful dump parse m = (case dump m of
       Inl e \<Rightarrow> False | Inr body \<Rightarrow> length body < 2 ^ 63 \<and> parse body = Inr m)"

text \<open>The messages with the sequence numbers they get on the wire.\<close>

definition wire_form :: "int \<Rightarrow> json \<Rightarrow> json" where
  "wire_form n m = (case m of
       J_Object flds \<Rightarrow> if needs_sequence m then J_Object (put_field ''seq'' (J_Int n) flds) else m
     | _ \<Rightarrow> m)"

definition following :: "json \<Rightarrow> int \<Rightarrow> int" where
  "following m n = (if needs_sequence m then n + 1 else n)"

fun numbered :: "int \<Rightarrow> json list \<Rightarrow> json list" where
  "numbered n [] = []"
| "numbered n (m # ms) = wire_form n m # numbered (following m n) ms"

text \<open>The bytes of a sequence of framed messages.\<close>

fun frames :: "(json \<Rightarrow> exn + string) \<Rightarrow> json list \<Rightarrow> string" where
  "frames dump [] = []"
| "frames dump (m # ms) = (case frame_message dump m of Inl e \<Rightarrow> [] | Inr framed \<Rightarrow> framed @ frames dump ms)"

text \<open>The inbound loop over the messages themselves, without the framing.\<close>

fun serve ::
    "file_system \<Rightarrow> (json \<Rightarrow> 's \<Rightarrow> ((exn + bool) \<times> json list \<times> 's) option)
     \<Rightarrow> json list \<Rightarrow> 's \<Rightarrow> io_stream_server \<Rightarrow> (exn option \<times> 's \<times> io_stream_server) option" where
  "serve fs handle [] server s = Some (None, server, s)"
| "serve fs handle (m # ms) server s =
     (let s = s\<lparr>trace := map_option (record_input fs m) (trace s)\<rparr>
      in case value_string m ''type'' of
           Inl e \<Rightarrow> Some (Some e, server, s)
         | Inr type \<Rightarrow>
             if type \<noteq> ''request'' then serve fs handle ms server s
             else (case handle m server of
                     None \<Rightarrow> None
                   | Some (result, sent, server') \<Rightarrow>
                     (case result of
                        Inl e \<Rightarrow> Some (Some e, server', fold send sent s)
                      | Inr True \<Rightarrow> Some (None, server', fold send sent s)
                      | Inr False \<Rightarrow> serve fs handle ms server' (fold send sent s))))"

text \<open>Any interleaving of senders with the writer thread, one message at a time.\<close>

datatype wire_step = Send json | Write

fun wire_exec :: "(json \<Rightarrow> exn + string) \<Rightarrow> wire_step \<Rightarrow> io_stream_server \<Rightarrow> io_stream_server" where
  "wire_exec dump (Send m) s = send m s"
| "wire_exec dump Write s =
     (case pop (outbound s) of
        (Pop_Item m, c) \<Rightarrow> snd (write_one dump m (s\<lparr>outbound := c\<rparr>))
      | _ \<Rightarrow> s)"

fun sent_by :: "wire_step list \<Rightarrow> json list" where
  "sent_by [] = []"
| "sent_by (Send m # ws) = m # sent_by ws"
| "sent_by (Write # ws) = sent_by ws"

section \<open>Lemmas\<close>

lemma ends_header_iff: "ends_header h \<longleftrightarrow> (\<exists>p. h = p @ header_end)"
proof
  assume "ends_header h"
  then have "h = take (length h - 4) h @ header_end" unfolding ends_header_def by (metis append_take_drop_id)
  then show "\<exists>p. h = p @ header_end" ..
qed (auto simp: ends_header_def header_end_def)

lemma not_ends_header: "last h \<noteq> LF \<Longrightarrow> \<not> ends_header h"
  by (auto simp: ends_header_iff header_end_def)

lemma read_header_plain:
  "LF \<notin> set h \<Longrightarrow> read_header acc (h @ s) = read_header (acc @ h) s"
proof (induction h arbitrary: acc)
  case Nil
  then show ?case by simp
next
  case (Cons c h)
  then have "\<not> ends_header (acc @ [c])" by (intro not_ends_header) auto
  then show ?case using Cons by simp
qed

lemma read_header_frame:
  assumes "LF \<notin> set h"
  shows "read_header [] (h @ header_end @ rest) = (Inr (Some (h @ header_end)), rest)"
proof -
  have "\<not> ends_header (h @ [CR])" by (intro not_ends_header) simp
  moreover have "\<not> ends_header (h @ [CR, LF])"
  proof
    assume "ends_header (h @ [CR, LF])"
    then obtain p where "h @ [CR, LF] = (p @ [CR, LF]) @ [CR, LF]" by (auto simp: ends_header_iff header_end_def)
    then have "h = p @ [CR, LF]" by (simp only: append_same_eq)
    then show False using assms by simp
  qed
  moreover have "\<not> ends_header (h @ [CR, LF, CR])" by (intro not_ends_header) simp
  moreover have "ends_header (h @ [CR, LF, CR, LF])" by (auto simp: ends_header_iff header_end_def)
  ultimately show ?thesis
    using read_header_plain [OF assms, of "[]" "header_end @ rest"] by (simp add: header_end_def)
qed

lemma break_crlf_line: "CR \<notin> set l \<Longrightarrow> break_crlf (l @ CR # LF # r) = (l, Some r)"
proof (induction l rule: break_crlf.induct)
  case (3 c d s)
  then show ?case by (cases s) auto
qed auto

lemma dec_no_space: "c \<in> set (dec n) \<Longrightarrow> \<not> isspace c"
  using dec_digits [of c n] digit_of_not_space [of 10 c] by simp

lemma content_length_of_frame:
  assumes "n < 2 ^ 63"
  shows "content_length_of_line (''Content-Length: '' @ dec n) = Some n"
proof -
  have d: "dropWhile isspace (dec n) = dec n"
    using dec_no_space [of "hd (dec n)" n] by (cases "dec n") auto
  have "\<not> isspace (last (dec n))" by (rule dec_no_space [of _ n]) simp
  then have "trim_both (CHR '' '' # dec n) = dec n"
    by (simp add: trim_both_def d drop_end_id isspace_def [of "CHR '' ''"])
  moreover have "tolower (CHR ''C'') = CHR ''c''" "tolower (CHR ''L'') = CHR ''l''" by code_simp+
  ultimately show ?thesis
    using stoll_dec [of n] assms by (simp add: content_length_of_line_def length_prefix_def tolower_def)
qed

lemma parse_content_length_frame:
  assumes "n < 2 ^ 63"
  shows "parse_content_length (''Content-Length: '' @ dec n @ header_end) = Inr n"
proof -
  have "CR \<notin> set (''Content-Length: '' @ dec n)" using dec_no_space [of CR n] by (auto simp: isspace_def)
  from break_crlf_line [OF this, of "[CR, LF]"] show ?thesis
    using content_length_of_frame [OF assms]
    by (simp add: parse_content_length.simps [of "CHR ''C'' # _"] header_end_def)
qed

lemma read_message_frame:
  assumes "dump m = Inr body" "length body < 2 ^ 63" "parse body = Inr m'" "frame_message dump m = Inr framed"
  shows "read_message parse (framed @ rest) = (Inr (Some m'), rest)"
proof -
  have f: "framed @ rest = (''Content-Length: '' @ dec (length body)) @ header_end @ body @ rest"
    using assms(1,4) by (simp add: frame_message_def)
  have "LF \<notin> set (''Content-Length: '' @ dec (length body))"
    using dec_no_space [of LF "length body"] by (auto simp: isspace_def)
  from read_header_frame [OF this, of "body @ rest"] show ?thesis
    unfolding f read_message_def using parse_content_length_frame [OF assms(2)] assms(3) by simp
qed

lemma read_message_frames:
  assumes "faithful dump parse m"
  shows "read_message parse (frames dump (m # ms)) = (Inr (Some m), frames dump ms)"
proof -
  obtain body where b: "dump m = Inr body" "length body < 2 ^ 63" "parse body = Inr m"
    using assms by (auto simp: faithful_def split: sum.splits)
  obtain framed where f: "frame_message dump m = Inr framed" using b by (simp add: frame_message_def)
  show ?thesis using read_message_frame [of dump m body parse m framed "frames dump ms", OF b f] f by simp
qed

lemma read_message_eof: "read_message parse [] = (Inr None, [])"
  by (simp add: read_message_def)

lemma read_all_frames: "\<forall>m \<in> set ms. faithful dump parse m \<Longrightarrow> read_all parse (frames dump ms) = (ms, None)"
proof (induction ms)
  case Nil
  then show ?case by (simp add: read_all.simps [of parse "[]"] read_message_eof)
next
  case (Cons m ms)
  then show ?case
    using read_message_frames [of dump parse m ms]
    by (simp add: read_all.simps [of parse "frames dump (m # ms)"] del: frames.simps)
qed

lemma frames_append: "\<forall>m \<in> set ms. faithful dump parse m \<Longrightarrow> frames dump (ms @ ns) = frames dump ms @ frames dump ns"
  by (induction ms) (auto simp: faithful_def frame_message_def split: sum.splits)

lemma numbered_append: "numbered n (ms @ ns) = numbered n ms @ numbered (fold following ms n) ns"
  by (induction ms arbitrary: n) simp_all

text \<open>
  The invariant of the wire: the messages sent are those written, numbered and framed in
  order, followed by the queue, and the counter is the number that comes next.
\<close>

definition wire_inv :: "(json \<Rightarrow> exn + string) \<Rightarrow> io_stream_server \<Rightarrow> json list \<Rightarrow> bool" where
  "wire_inv dump s sent \<longleftrightarrow> (\<exists>past. sent = past @ queue (outbound s)
     \<and> out s = frames dump (numbered 1 past) \<and> next_sequence s = fold following past 1)"

definition sendable :: "(json \<Rightarrow> exn + string) \<Rightarrow> (string \<Rightarrow> exn + json) \<Rightarrow> json list \<Rightarrow> bool" where
  "sendable dump parse ms \<longleftrightarrow> (\<forall>m \<in> set ms. is_object m) \<and> (\<forall>m \<in> set (numbered 1 ms). faithful dump parse m)"

lemma sendable_append: "sendable dump parse (ms @ ns) \<Longrightarrow> sendable dump parse ms"
  by (simp add: sendable_def numbered_append)

lemma wire_inv_new: "wire_inv dump (new_server r) []"
  by (simp add: wire_inv_def new_server_def new_channel_def)

lemma wire_inv_send:
  "wire_inv dump s sent \<Longrightarrow> \<not> closed (outbound s) \<Longrightarrow> wire_inv dump (send m s) (sent @ [m])"
  by (auto simp: wire_inv_def send_def push_def)

text \<open>One message taken by the writer.\<close>

lemma write_one_ok:
  assumes "is_object m" "faithful dump parse (wire_form (next_sequence s) m)"
  shows "\<exists>s'. write_one dump m s = (None, s') \<and> out s' = out s @ frames dump [wire_form (next_sequence s) m]
    \<and> next_sequence s' = following m (next_sequence s) \<and> outbound s' = outbound s"
proof -
  obtain fl where m: "m = J_Object fl" using assms(1) by (cases m) auto
  show ?thesis
    using assms(2) unfolding m
    by (cases "needs_sequence (J_Object fl)")
      (auto simp: write_one_def wire_form_def following_def faithful_def frame_message_def Let_def split: sum.splits)
qed

lemma wire_inv_write:
  assumes inv: "wire_inv dump s sent" and q: "queue (outbound s) = m # ms"
    and ok: "sendable dump parse sent" and c: "queue c = ms"
  shows "\<exists>s'. write_one dump m (s\<lparr>outbound := c\<rparr>) = (None, s') \<and> wire_inv dump s' sent \<and> outbound s' = c"
proof -
  obtain past where i: "sent = past @ m # ms" "out s = frames dump (numbered 1 past)"
      "next_sequence s = fold following past 1"
    using inv q unfolding wire_inv_def by auto
  have f: "\<forall>x \<in> set (numbered 1 past). faithful dump parse x" "is_object m"
      "faithful dump parse (wire_form (next_sequence s) m)"
    using ok i(1,3) by (auto simp: sendable_def numbered_append)
  obtain s' where s': "write_one dump m (s\<lparr>outbound := c\<rparr>) = (None, s')"
      "out s' = out s @ frames dump [wire_form (next_sequence s) m]"
      "next_sequence s' = following m (next_sequence s)" "outbound s' = c"
    using write_one_ok [OF f(2), of dump parse "s\<lparr>outbound := c\<rparr>"] f(3) by auto
  have "out s' = frames dump (numbered 1 (past @ [m]))"
    unfolding s'(2) i(2,3) numbered_append using frames_append [OF f(1)] by simp
  then have "wire_inv dump s' sent"
    unfolding wire_inv_def using i(1,3) s'(3,4) c by (intro exI [of _ "past @ [m]"]) simp
  then show ?thesis using s' by blast
qed

lemma wire_exec_inv:
  assumes "sendable dump parse (sent @ sent_by ws)" "wire_inv dump s sent" "\<not> closed (outbound s)"
  shows "wire_inv dump (fold (wire_exec dump) ws s) (sent @ sent_by ws)
    \<and> \<not> closed (outbound (fold (wire_exec dump) ws s))"
  using assms
proof (induction ws arbitrary: s sent)
  case Nil
  then show ?case by simp
next
  case (Cons w ws)
  show ?case
  proof (cases w)
    case (Send m)
    then show ?thesis
      using Cons.IH [of "sent @ [m]" "send m s"] Cons.prems wire_inv_send [OF Cons.prems(2,3), of m]
      by (simp add: send_def push_def)
  next
    case Write
    show ?thesis
    proof (cases "queue (outbound s)")
      case Nil
      then show ?thesis using Write Cons by (simp add: pop_def)
    next
      case q: (Cons m ms)
      obtain s' where "write_one dump m (s\<lparr>outbound := (outbound s)\<lparr>queue := ms\<rparr>\<rparr>) = (None, s')"
          "wire_inv dump s' sent" "outbound s' = (outbound s)\<lparr>queue := ms\<rparr>"
        using wire_inv_write [OF Cons.prems(2) q sendable_append [OF Cons.prems(1)], of "(outbound s)\<lparr>queue := ms\<rparr>"]
        by auto
      then show ?thesis using Cons Write q by (simp add: pop_def)
    qed
  qed
qed

lemma writer_loop_drains:
  assumes "sendable dump parse sent" "wire_inv dump s sent" "closed (outbound s)"
  shows "\<exists>s'. writer_loop dump s = (Writer_Done, s') \<and> out s' = frames dump (numbered 1 sent)"
  using assms
proof (induction "queue (outbound s)" arbitrary: s)
  case Nil
  then show ?case by (auto simp: writer_loop.simps [of dump s] pop_def wire_inv_def)
next
  case (Cons m ms)
  obtain s' where s': "write_one dump m (s\<lparr>outbound := (outbound s)\<lparr>queue := ms\<rparr>\<rparr>) = (None, s')"
      "wire_inv dump s' sent" "outbound s' = (outbound s)\<lparr>queue := ms\<rparr>"
    using wire_inv_write [OF Cons.prems(2) Cons.hyps(2) [symmetric] Cons.prems(1), of "(outbound s)\<lparr>queue := ms\<rparr>"]
    by auto
  have "pop (outbound s) = (Pop_Item m, (outbound s)\<lparr>queue := ms\<rparr>)" using Cons.hyps(2) by (simp add: pop_def flip: Cons.hyps(2))
  then have "writer_loop dump s = writer_loop dump s'" using s'(1) by (simp add: writer_loop.simps [of dump s])
  then show ?case using Cons.hyps(1) [of s'] s' Cons.prems by simp
qed

lemma sent_messages_read:
  assumes "sendable dump parse (sent_by ws)" "s = fold (wire_exec dump) ws (new_server r)"
  shows "\<exists>s'. writer_loop dump (s\<lparr>outbound := close (outbound s)\<rparr>) = (Writer_Done, s')
    \<and> read_all parse (out s') = (numbered 1 (sent_by ws), None)"
proof -
  have inv: "wire_inv dump s (sent_by ws)"
    using wire_exec_inv [of dump parse "[]" ws "new_server r"] assms wire_inv_new [of dump r]
    by (simp add: new_server_def new_channel_def)
  then have "wire_inv dump (s\<lparr>outbound := close (outbound s)\<rparr>) (sent_by ws)"
    by (simp add: wire_inv_def close_def)
  from writer_loop_drains [OF assms(1) this] show ?thesis
    using read_all_frames [of "numbered 1 (sent_by ws)" dump parse] assms(1)
    by (auto simp: close_def sendable_def)
qed

lemma numbered_sequence:
  "\<forall>m \<in> set ms. is_object m \<and> needs_sequence m \<Longrightarrow>
   map (\<lambda>m. find_key m ''seq'') (numbered n ms) = map (\<lambda>i. Some (J_Int (n + int i))) [0..<length ms]"
proof (induction ms arbitrary: n)
  case Nil
  then show ?case by simp
next
  case (Cons m ms)
  obtain fl where "m = J_Object fl" using Cons.prems by (cases m) auto
  then show ?case
    using Cons.IH [of "n + 1"] Cons.prems
    by (simp add: wire_form_def following_def upt_conv_Cons map_Suc_upt [symmetric] del: upt_Suc)
qed

lemma request_loop_frames:
  assumes "\<forall>m \<in> set ms. faithful dump parse m"
  shows "request_loop parse fs handle_request (frames dump ms) server s = serve fs handle_request ms server s"
  using assms
proof (induction ms arbitrary: server s)
  case Nil
  then show ?case by (simp add: request_loop.simps [of parse] read_message_eof)
next
  case (Cons m ms)
  then show ?case
    using read_message_frames [of dump parse m ms]
    by (auto simp: request_loop.simps [of parse fs handle_request "frames dump (m # ms)"] Let_def
        simp del: frames.simps split: sum.splits option.splits prod.splits bool.splits)
qed

lemma read_header_split: "read_header acc i = (Inr (Some h), r) \<Longrightarrow> ends_header h \<and> acc @ i = h @ r"
proof (induction i arbitrary: acc)
  case Nil
  then show ?case by (auto split: if_splits)
next
  case (Cons a i)
  then show ?case using Cons.IH [of "acc @ [a]"] by (auto split: if_splits)
qed

text \<open>A serialization of two values, for the witnesses.\<close>

definition numbered_object :: "int \<Rightarrow> json" where
  "numbered_object n = J_Object [(''seq'', J_Int n)]"

definition two_dump :: "json \<Rightarrow> exn + string" where
  "two_dump m = (if m = numbered_object 1 then Inr ''{1}'' else if m = numbered_object 2 then Inr ''{22}''
     else Inl (Json_Error ''other''))"

definition two_parse :: "string \<Rightarrow> exn + json" where
  "two_parse s = (if s = ''{1}'' then Inr (numbered_object 1) else if s = ''{22}'' then Inr (numbered_object 2)
     else Inl (Json_Error ''other''))"

section \<open>Properties\<close>

text \<open>
  C14. Every interleaving of the threads that send with the writer thread puts the same bytes
  on the wire: once the queue is closed and drained, a client that reads the stream gets
  exactly the messages sent, complete and in the order they were sent, and messages sent
  without a sequence number carry the numbers 1, 2, 3 and so on.
\<close>

theorem wire_order:
  assumes "sendable dump parse (sent_by ws)"
    and "s = fold (wire_exec dump) ws (new_server r)"
  shows "\<exists>s'. writer_loop dump (s\<lparr>outbound := close (outbound s)\<rparr>) = (Writer_Done, s')
    \<and> read_all parse (out s') = (numbered 1 (sent_by ws), None)
    \<and> ((\<forall>m \<in> set (sent_by ws). needs_sequence m) \<longrightarrow>
       map (\<lambda>m. find_key m ''seq'') (numbered 1 (sent_by ws))
         = map (\<lambda>i. Some (J_Int (1 + int i))) [0..<length (sent_by ws)])"
  using sent_messages_read [OF assms] numbered_sequence [of "sent_by ws" 1] assms(1)
  by (auto simp: sendable_def)

theorem wire_order_witness:
  "\<exists>s'. writer_loop two_dump
       ((fold (wire_exec two_dump) [Send (J_Object []), Write, Write, Send (numbered_object 0)] (new_server None))
          \<lparr>outbound := close (outbound (fold (wire_exec two_dump)
             [Send (J_Object []), Write, Write, Send (numbered_object 0)] (new_server None)))\<rparr>) = (Writer_Done, s')
    \<and> read_all two_parse (out s') = ([numbered_object 1, numbered_object 2], None)"
  using wire_order [OF _ refl, of two_dump two_parse "[Send (J_Object []), Write, Write, Send (numbered_object 0)]" None]
  by (auto simp: sendable_def wire_form_def following_def needs_sequence_def numbered_object_def faithful_def
      two_dump_def two_parse_def simp del: wire_exec.simps fold_simps)

text \<open>
  Framing is transparent to the inbound loop: on the framed bytes of any messages the
  loop records and dispatches exactly these messages, in order, ignoring what is not a
  request and stopping after the request whose handler asks to exit.
\<close>

theorem inbound_loop_transparent:
  assumes "\<forall>m \<in> set ms. faithful dump parse m"
  shows "request_loop parse fs handle_request (frames dump ms) server s = serve fs handle_request ms server s"
  using assms by (rule request_loop_frames)

theorem inbound_loop_transparent_witness:
  "request_loop two_parse plain_fs (\<lambda>m n. Some (Inr True, [m], n + 1)) (frames two_dump [numbered_object 1, numbered_object 2])
     (0 :: nat) (new_server None)
   = serve plain_fs (\<lambda>m n. Some (Inr True, [m], n + 1)) [numbered_object 1, numbered_object 2] 0 (new_server None)"
  by (rule inbound_loop_transparent) (simp add: faithful_def two_dump_def two_parse_def numbered_object_def)

text \<open>
  C35. Reading never runs past a message: a message that is read comes from a header block
  that ends in an empty line and announces the length of the payload, exactly that
  many bytes are parsed, and everything behind them is left for the next message.
\<close>

theorem read_message_exact:
  assumes "read_message parse input = (Inr (Some m), rest)"
  shows "\<exists>header body. input = header @ body @ rest \<and> ends_header header
    \<and> parse_content_length header = Inr (length body) \<and> parse body = Inr m"
proof -
  obtain h r n where "read_header [] input = (Inr (Some h), r)" "parse_content_length h = Inr n"
      "n \<le> length r" "parse (take n r) = Inr m" "rest = drop n r"
    using assms by (auto simp: read_message_def split: prod.splits sum.splits option.splits if_splits)
  then show ?thesis using read_header_split [of "[]" input h r] by (intro exI [of _ h] exI [of _ "take n r"]) auto
qed

theorem read_message_exact_witness:
  "\<exists>header body. ''Content-Length: 3'' @ header_end @ ''{1}rest'' = header @ body @ ''rest'' \<and> ends_header header
    \<and> parse_content_length header = Inr (length body) \<and> two_parse body = Inr (numbered_object 1)"
proof (rule read_message_exact)
  have "dec (Suc (Suc (Suc 0))) = ''3''" by code_simp
  then show "read_message two_parse (''Content-Length: 3'' @ header_end @ ''{1}rest'') = (Inr (Some (numbered_object 1)), ''rest'')"
    using read_message_frame [of two_dump "numbered_object 1" "''{1}''" two_parse "numbered_object 1" _ "''rest''"]
    by (simp add: two_dump_def two_parse_def frame_message_def)
qed

end
