(* ===== verification/Enumerations.thy ===== *)
theory Enumerations
  imports Server_State
begin

text \<open>
  The enumerations of the protocol that have a name on the wire
  (src/src/protocol/protocol.h) as instances of the class \<open>enum\<close>: a statement about all values
  of a type is then checked on the list of them.
\<close>

lemma all_values: "list_all P (enum_class.enum :: 'a :: enum list) \<Longrightarrow> P v"
  by (simp add: list_all_iff enum_UNIV)

section \<open>Instances\<close>

lemma UNIV_source_hint: "(UNIV :: source_hint set) = {Normal_Source, Emphasize_Source, Deemphasize_Source}"
  using source_hint.exhaust by blast

instantiation source_hint :: enum
begin

definition enum_source_hint :: "source_hint list" where
  "enum_source_hint = [Normal_Source, Emphasize_Source, Deemphasize_Source]"

definition enum_all_source_hint :: "(source_hint \<Rightarrow> bool) \<Rightarrow> bool" where
  "enum_all_source_hint P = list_all P [Normal_Source, Emphasize_Source, Deemphasize_Source]"

definition enum_ex_source_hint :: "(source_hint \<Rightarrow> bool) \<Rightarrow> bool" where
  "enum_ex_source_hint P = list_ex P [Normal_Source, Emphasize_Source, Deemphasize_Source]"

instance
  by standard (unfold UNIV_source_hint enum_source_hint_def enum_all_source_hint_def enum_ex_source_hint_def, simp_all)

end

lemma UNIV_checksum_algorithm: "(UNIV :: checksum_algorithm set) = {MD5_Checksum, SHA1_Checksum, SHA256_Checksum, Timestamp_Checksum}"
  using checksum_algorithm.exhaust by blast

instantiation checksum_algorithm :: enum
begin

definition enum_checksum_algorithm :: "checksum_algorithm list" where
  "enum_checksum_algorithm = [MD5_Checksum, SHA1_Checksum, SHA256_Checksum, Timestamp_Checksum]"

definition enum_all_checksum_algorithm :: "(checksum_algorithm \<Rightarrow> bool) \<Rightarrow> bool" where
  "enum_all_checksum_algorithm P = list_all P [MD5_Checksum, SHA1_Checksum, SHA256_Checksum, Timestamp_Checksum]"

definition enum_ex_checksum_algorithm :: "(checksum_algorithm \<Rightarrow> bool) \<Rightarrow> bool" where
  "enum_ex_checksum_algorithm P = list_ex P [MD5_Checksum, SHA1_Checksum, SHA256_Checksum, Timestamp_Checksum]"

instance
  by standard (unfold UNIV_checksum_algorithm enum_checksum_algorithm_def enum_all_checksum_algorithm_def enum_ex_checksum_algorithm_def, simp_all)

end

lemma UNIV_stop_reason: "(UNIV :: stop_reason set) = {Stop_Step, Stop_Breakpoint, Stop_Exception, Stop_Pause, Stop_Entry}"
  using stop_reason.exhaust by blast

instantiation stop_reason :: enum
begin

definition enum_stop_reason :: "stop_reason list" where
  "enum_stop_reason = [Stop_Step, Stop_Breakpoint, Stop_Exception, Stop_Pause, Stop_Entry]"

definition enum_all_stop_reason :: "(stop_reason \<Rightarrow> bool) \<Rightarrow> bool" where
  "enum_all_stop_reason P = list_all P [Stop_Step, Stop_Breakpoint, Stop_Exception, Stop_Pause, Stop_Entry]"

definition enum_ex_stop_reason :: "(stop_reason \<Rightarrow> bool) \<Rightarrow> bool" where
  "enum_ex_stop_reason P = list_ex P [Stop_Step, Stop_Breakpoint, Stop_Exception, Stop_Pause, Stop_Entry]"

instance
  by standard (unfold UNIV_stop_reason enum_stop_reason_def enum_all_stop_reason_def enum_ex_stop_reason_def, simp_all)

end

lemma UNIV_thread_reason: "(UNIV :: thread_reason set) = {Thread_Started, Thread_Exited}"
  using thread_reason.exhaust by blast

instantiation thread_reason :: enum
begin

definition enum_thread_reason :: "thread_reason list" where
  "enum_thread_reason = [Thread_Started, Thread_Exited]"

definition enum_all_thread_reason :: "(thread_reason \<Rightarrow> bool) \<Rightarrow> bool" where
  "enum_all_thread_reason P = list_all P [Thread_Started, Thread_Exited]"

definition enum_ex_thread_reason :: "(thread_reason \<Rightarrow> bool) \<Rightarrow> bool" where
  "enum_ex_thread_reason P = list_ex P [Thread_Started, Thread_Exited]"

instance
  by standard (unfold UNIV_thread_reason enum_thread_reason_def enum_all_thread_reason_def enum_ex_thread_reason_def, simp_all)

end

lemma UNIV_start_method: "(UNIV :: start_method set) = {Start_Launch, Start_Attach}"
  using start_method.exhaust by blast

instantiation start_method :: enum
begin

definition enum_start_method :: "start_method list" where
  "enum_start_method = [Start_Launch, Start_Attach]"

definition enum_all_start_method :: "(start_method \<Rightarrow> bool) \<Rightarrow> bool" where
  "enum_all_start_method P = list_all P [Start_Launch, Start_Attach]"

definition enum_ex_start_method :: "(start_method \<Rightarrow> bool) \<Rightarrow> bool" where
  "enum_ex_start_method P = list_ex P [Start_Launch, Start_Attach]"

instance
  by standard (unfold UNIV_start_method enum_start_method_def enum_all_start_method_def enum_ex_start_method_def, simp_all)

end

lemma UNIV_output_category: "(UNIV :: output_category set) = {Console, Important}"
  using output_category.exhaust by blast

instantiation output_category :: enum
begin

definition enum_output_category :: "output_category list" where
  "enum_output_category = [Console, Important]"

definition enum_all_output_category :: "(output_category \<Rightarrow> bool) \<Rightarrow> bool" where
  "enum_all_output_category P = list_all P [Console, Important]"

definition enum_ex_output_category :: "(output_category \<Rightarrow> bool) \<Rightarrow> bool" where
  "enum_ex_output_category P = list_ex P [Console, Important]"

instance
  by standard (unfold UNIV_output_category enum_output_category_def enum_all_output_category_def enum_ex_output_category_def, simp_all)

end

lemma UNIV_scope_hint: "(UNIV :: scope_hint set) = {Locals_Hint, Registers_Hint}"
  using scope_hint.exhaust by blast

instantiation scope_hint :: enum
begin

definition enum_scope_hint :: "scope_hint list" where
  "enum_scope_hint = [Locals_Hint, Registers_Hint]"

definition enum_all_scope_hint :: "(scope_hint \<Rightarrow> bool) \<Rightarrow> bool" where
  "enum_all_scope_hint P = list_all P [Locals_Hint, Registers_Hint]"

definition enum_ex_scope_hint :: "(scope_hint \<Rightarrow> bool) \<Rightarrow> bool" where
  "enum_ex_scope_hint P = list_ex P [Locals_Hint, Registers_Hint]"

instance
  by standard (unfold UNIV_scope_hint enum_scope_hint_def enum_all_scope_hint_def enum_ex_scope_hint_def, simp_all)

end

lemmas enumerations =
  enum_source_hint_def enum_checksum_algorithm_def enum_stop_reason_def enum_thread_reason_def
  enum_start_method_def enum_output_category_def enum_scope_hint_def

end
