(* ===== verification/Json_Writing.thy ===== *)
theory Json_Writing
  imports Protocol
begin

text \<open>
  What the \<open>to_json\<close> functions of src/src/protocol/protocol.h share.  An optional field without a
  value is not written.  An object none of whose fields is written stays null, since the functions
  assign fields to a JSON value that starts as null.
\<close>

section \<open>Fields\<close>

definition optional :: "string \<Rightarrow> ('a \<Rightarrow> json) \<Rightarrow> 'a option \<Rightarrow> (string \<times> json) list" where
  "optional key f v = (case v of None \<Rightarrow> [] | Some x \<Rightarrow> [(key, f x)])"

lemma optional_cong [fundef_cong]:
  "k = k' \<Longrightarrow> v = v' \<Longrightarrow> (\<And>x. v' = Some x \<Longrightarrow> f x = g x) \<Longrightarrow> optional k f v = optional k' g v'"
  by (simp add: optional_def split: option.split)

definition object_of :: "(string \<times> json) list \<Rightarrow> json" where
  "object_of flds = (if flds = [] then J_Null else J_Object flds)"

definition json_list :: "('a \<Rightarrow> json) \<Rightarrow> 'a list \<Rightarrow> json" where
  "json_list f xs = J_Array (map f xs)"

lemma json_list_cong [fundef_cong]:
  "xs = ys \<Longrightarrow> (\<And>x. x \<in> set ys \<Longrightarrow> f x = g x) \<Longrightarrow> json_list f xs = json_list g ys"
  by (simp add: json_list_def)

text \<open>The name of a value of an enumeration; every value of the model's types has an entry in its table.\<close>

definition enum_to_json :: "(string \<times> 'a) list \<Rightarrow> 'a \<Rightarrow> json" where
  "enum_to_json table v = (case find (\<lambda>e. snd e = v) table of None \<Rightarrow> J_Null | Some e \<Rightarrow> J_String (fst e))"

section \<open>Sources\<close>

definition checksum_to_json :: "checksum_algorithm \<times> string \<Rightarrow> json" where
  "checksum_to_json c =
     J_Object [(''algorithm'', enum_to_json checksum_algorithms (fst c)), (''checksum'', J_String (snd c))]"

lemma nested_source_size: "rs_sources s = Some ss \<Longrightarrow> x \<in> set ss \<Longrightarrow> size x < size s"
proof (cases s)
  case (Source n p r h origin sources d cs)
  assume ss: "rs_sources s = Some ss" and x: "x \<in> set ss"
  have "size x < Suc (size_list size ss)" using x by (induction ss) auto
  then show ?thesis using ss Source by simp
qed

function source_to_json :: "requested_source \<Rightarrow> json" where
  "source_to_json s =
     object_of
       (optional ''name'' J_String (rs_name s) @ optional ''path'' J_String (rs_path s)
        @ optional ''sourceReference'' J_Int (rs_source_reference s)
        @ optional ''presentationHint'' (enum_to_json source_hints) (rs_presentation_hint s)
        @ optional ''origin'' J_String (rs_origin s)
        @ optional ''sources'' (json_list source_to_json) (rs_sources s)
        @ (if rs_adapter_data s = J_Null then [] else [(''adapterData'', rs_adapter_data s)])
        @ optional ''checksums'' (json_list checksum_to_json) (rs_checksums s))"
  by pat_completeness auto

termination
  by (relation "measure size") (auto intro: nested_source_size)

declare source_to_json.simps [simp del]

text \<open>The references in a source fit the 32 bits of their type.\<close>

function int32_references :: "requested_source \<Rightarrow> bool" where
  "int32_references s \<longleftrightarrow>
     (case rs_source_reference s of None \<Rightarrow> True | Some r \<Rightarrow> wrap_int32 r = r)
     \<and> (case rs_sources s of None \<Rightarrow> True | Some ss \<Rightarrow> list_all int32_references ss)"
  by pat_completeness auto
termination
  by (relation "measure size") (auto intro: nested_source_size)

declare int32_references.simps [simp del]

end
