(* ===== verification/Messages.thy ===== *)
theory Messages
  imports Server Transport Enumerations Json_Writing
begin

text \<open>
  The JSON form of what the service sends: the \<open>to_json\<close> functions of src/src/protocol/protocol.h for
  its responses and events.  An optional field without a value is not written; fields that
  the service never sets have no place in the model's responses and are not written, either.
\<close>

section \<open>The protocol's objects\<close>

definition known_source :: "dap_source \<Rightarrow> requested_source" where
  "known_source s = Source (Some (ds_name s)) (Some (ds_path s)) None None None None J_Null None"

definition breakpoint_to_json :: "dap_breakpoint \<Rightarrow> json" where
  "breakpoint_to_json b =
     J_Object
       (optional ''id'' J_Int (db_id b) @ [(''verified'', J_Bool (db_verified b))]
        @ optional ''message'' J_String (db_message b) @ optional ''source'' source_to_json (db_source b)
        @ optional ''line'' J_Int (db_line b) @ optional ''column'' J_Int (db_column b)
        @ optional ''instructionReference'' J_String (db_instruction_reference b)
        @ (if db_failed b then [(''reason'', J_String ''failed'')] else []))"

definition stack_frame_to_json :: "dap_stack_frame \<Rightarrow> json" where
  "stack_frame_to_json f =
     J_Object
       ([(''id'', J_Int (df_id f)), (''name'', J_String (df_name f))]
        @ optional ''source'' (source_to_json \<circ> known_source) (df_source f)
        @ [(''line'', J_Int (df_line f)), (''column'', J_Int (df_column f)),
           (''instructionPointerReference'', J_String (df_instruction_pointer_reference f))])"

fun scope_hint_to_json :: "scope_hint \<Rightarrow> json" where
  "scope_hint_to_json Locals_Hint = J_String ''locals''"
| "scope_hint_to_json Registers_Hint = J_String ''registers''"

definition scope_to_json :: "dap_scope \<Rightarrow> json" where
  "scope_to_json s =
     J_Object
       ([(''name'', J_String (sc_name s)), (''presentationHint'', scope_hint_to_json (sc_hint s)),
         (''variablesReference'', J_Int (sc_variables_reference s)), (''namedVariables'', J_Int (sc_named_variables s)),
         (''expensive'', J_Bool (sc_expensive s))]
        @ optional ''source'' (source_to_json \<circ> known_source) (sc_source s)
        @ optional ''line'' J_Int (sc_line s) @ optional ''column'' J_Int (sc_column s))"

definition variable_to_json :: "dap_variable \<Rightarrow> json" where
  "variable_to_json v =
     J_Object
       ([(''name'', J_String (var_name v)), (''value'', J_String (var_value v))]
        @ optional ''type'' J_String (var_type v) @ optional ''evaluateName'' J_String (var_evaluate_name v)
        @ [(''variablesReference'', J_Int (var_variables_reference v))]
        @ optional ''namedVariables'' J_Int (var_named_variables v)
        @ optional ''memoryReference'' J_String (var_memory_reference v))"

definition module_to_json :: "dap_module \<Rightarrow> json" where
  "module_to_json m =
     J_Object
       [(''id'', J_String (mod_id m)), (''name'', J_String (mod_name m)), (''path'', J_String (mod_path m)),
        (''symbolStatus'', J_String (mod_symbol_status m)), (''addressRange'', J_String (mod_address_range m))]"

definition thread_to_json :: "dap_thread \<Rightarrow> json" where
  "thread_to_json t = J_Object [(''id'', J_Int (dt_id t)), (''name'', J_String (dt_name t))]"

definition instruction_to_json :: "dap_instruction \<Rightarrow> json" where
  "instruction_to_json i =
     J_Object
       ([(''address'', J_String (dx_address i))] @ optional ''instructionBytes'' J_String (dx_bytes i)
        @ [(''instruction'', J_String (dx_instruction i))] @ optional ''symbol'' J_String (dx_symbol i)
        @ optional ''location'' (source_to_json \<circ> known_source) (dx_location i)
        @ optional ''line'' J_Int (dx_line i) @ optional ''column'' J_Int (dx_column i)
        @ (if dx_invalid i then [(''presentationHint'', J_String ''invalid'')] else []))"

text \<open>The one exception filter that the service offers.\<close>

definition filter_to_json :: "string \<Rightarrow> json" where
  "filter_to_json name =
     J_Object
       [(''filter'', J_String name), (''label'', J_String ''C++ exceptions''),
        (''description'', J_String ''Break when a C++ exception is thrown (first chance).''),
        (''default'', J_Bool False)]"

section \<open>Bodies of responses\<close>

definition capabilities_to_json :: "string list \<Rightarrow> string list \<Rightarrow> string list \<Rightarrow> json" where
  "capabilities_to_json supported unsupported filters =
     J_Object
       (map (\<lambda>k. (k, J_Bool True)) supported @ map (\<lambda>k. (k, J_Bool False)) unsupported
        @ [(''exceptionBreakpointFilters'', json_list filter_to_json filters)])"

definition set_variable_body_to_json ::
    "string \<Rightarrow> string option \<Rightarrow> int option \<Rightarrow> int option \<Rightarrow> string option \<Rightarrow> json" where
  "set_variable_body_to_json v t r n m =
     J_Object
       ([(''value'', J_String v)] @ optional ''type'' J_String t @ optional ''variablesReference'' J_Int r
        @ optional ''namedVariables'' J_Int n @ optional ''memoryReference'' J_String m)"

definition memory_body_to_json :: "string \<Rightarrow> string \<Rightarrow> int option \<Rightarrow> json" where
  "memory_body_to_json address d unreadable =
     J_Object
       ([(''address'', J_String address)] @ optional ''unreadableBytes'' J_Int unreadable @ [(''data'', J_String d)])"

definition exception_body_to_json :: "string \<Rightarrow> string \<Rightarrow> bool \<Rightarrow> string \<Rightarrow> json" where
  "exception_body_to_json i d first_chance m =
     J_Object
       [(''exceptionId'', J_String i), (''description'', J_String d),
        (''breakMode'', J_String (if first_chance then ''always'' else ''unhandled'')),
        (''details'', J_Object [(''message'', J_String m)])]"

definition data_info_body_to_json :: "string \<Rightarrow> string \<Rightarrow> json" where
  "data_info_body_to_json i d =
     J_Object
       [(''dataId'', J_String i), (''description'', J_String d),
        (''accessTypes'', json_list J_String [''write'', ''readWrite'']), (''canPersist'', J_Bool False)]"

fun body_to_json :: "response_body \<Rightarrow> json option" where
  "body_to_json No_Body = None"
| "body_to_json (Capabilities_Body supported unsupported filters) = Some (capabilities_to_json supported unsupported filters)"
| "body_to_json (Continue_Body all) = Some (J_Object [(''allThreadsContinued'', J_Bool all)])"
| "body_to_json (Threads_Body ts) = Some (J_Object [(''threads'', json_list thread_to_json ts)])"
| "body_to_json (Stack_Trace_Body fs n) =
     Some (J_Object [(''stackFrames'', json_list stack_frame_to_json fs), (''totalFrames'', J_Int n)])"
| "body_to_json (Scopes_Body ss) = Some (J_Object [(''scopes'', json_list scope_to_json ss)])"
| "body_to_json (Variables_Body vs) = Some (J_Object [(''variables'', json_list variable_to_json vs)])"
| "body_to_json (Breakpoints_Body bs) = Some (J_Object [(''breakpoints'', json_list breakpoint_to_json bs)])"
| "body_to_json (Evaluate_Body result r) =
     Some (J_Object [(''result'', J_String result), (''variablesReference'', J_Int r)])"
| "body_to_json (Set_Variable_Body v t r n m) = Some (set_variable_body_to_json v t r n m)"
| "body_to_json (Set_Expression_Body v t) = Some (J_Object ([(''value'', J_String v)] @ optional ''type'' J_String t))"
| "body_to_json (Memory_Body address d unreadable) = Some (memory_body_to_json address d unreadable)"
| "body_to_json (Write_Body n) = Some (J_Object [(''bytesWritten'', J_Int n)])"
| "body_to_json (Disassemble_Body xs) = Some (J_Object [(''instructions'', json_list instruction_to_json xs)])"
| "body_to_json (Modules_Body ms n) =
     Some (J_Object [(''modules'', json_list module_to_json ms), (''totalModules'', J_Int n)])"
| "body_to_json (Exception_Body i d first_chance m) = Some (exception_body_to_json i d first_chance m)"
| "body_to_json (Data_Info_Body i d) = Some (data_info_body_to_json i d)"
| "body_to_json (Source_Body t) = Some (J_Object [(''content'', J_String t)])"

section \<open>Events\<close>

definition stop_reasons :: "(string \<times> stop_reason) list" where
  "stop_reasons =
     [(''step'', Stop_Step), (''breakpoint'', Stop_Breakpoint), (''exception'', Stop_Exception), (''pause'', Stop_Pause),
      (''entry'', Stop_Entry)]"

fun thread_reason_to_json :: "thread_reason \<Rightarrow> json" where
  "thread_reason_to_json Thread_Started = J_String ''started''"
| "thread_reason_to_json Thread_Exited = J_String ''exited''"

fun start_method_to_json :: "start_method \<Rightarrow> json" where
  "start_method_to_json Start_Launch = J_String ''launch''"
| "start_method_to_json Start_Attach = J_String ''attach''"

fun category_to_json :: "output_category \<Rightarrow> json" where
  "category_to_json Console = J_String ''console''"
| "category_to_json Important = J_String ''important''"

definition stopped_body_to_json :: "stop_reason \<Rightarrow> string option \<Rightarrow> int option \<Rightarrow> int list option \<Rightarrow> json" where
  "stopped_body_to_json reason description thread_id ids =
     J_Object
       ([(''reason'', enum_to_json stop_reasons reason)] @ optional ''description'' J_String description
        @ optional ''threadId'' J_Int thread_id @ [(''allThreadsStopped'', J_Bool True)]
        @ optional ''hitBreakpointIds'' (json_list J_Int) ids)"

definition process_body_to_json :: "string \<Rightarrow> int option \<Rightarrow> start_method \<Rightarrow> json" where
  "process_body_to_json name process_id method =
     J_Object
       ([(''name'', J_String name)] @ optional ''systemProcessId'' J_Int process_id
        @ [(''isLocalProcess'', J_Bool True), (''startMethod'', start_method_to_json method)])"

fun event_name :: "dap_event \<Rightarrow> string" where
  "event_name (Process_Event name process_id method) = ''process''"
| "event_name (Stopped_Event reason description thread_id ids) = ''stopped''"
| "event_name (Continued_Event thread_id all) = ''continued''"
| "event_name (Output_Event t category) = ''output''"
| "event_name (Exited_Event code) = ''exited''"
| "event_name (Thread_Event reason thread_id) = ''thread''"
| "event_name Initialized_Event = ''initialized''"
| "event_name Terminated_Event = ''terminated''"

fun event_body_to_json :: "dap_event \<Rightarrow> json option" where
  "event_body_to_json (Process_Event name process_id method) = Some (process_body_to_json name process_id method)"
| "event_body_to_json (Stopped_Event reason description thread_id ids) =
     Some (stopped_body_to_json reason description thread_id ids)"
| "event_body_to_json (Continued_Event thread_id all) =
     Some (J_Object [(''threadId'', J_Int thread_id), (''allThreadsContinued'', J_Bool all)])"
| "event_body_to_json (Output_Event t category) =
     Some (J_Object [(''category'', category_to_json category), (''output'', J_String t)])"
| "event_body_to_json (Exited_Event code) = Some (J_Object [(''exitCode'', J_Int code)])"
| "event_body_to_json (Thread_Event reason thread_id) =
     Some (J_Object [(''reason'', thread_reason_to_json reason), (''threadId'', J_Int thread_id)])"
| "event_body_to_json Initialized_Event = None"
| "event_body_to_json Terminated_Event = None"

section \<open>Messages\<close>

text \<open>A message starts with the sequence number 0; the writer thread replaces it.\<close>

definition response_to_json :: "int \<Rightarrow> bool \<Rightarrow> string \<Rightarrow> json option \<Rightarrow> json" where
  "response_to_json request_seq success command b =
     J_Object
       ([(''seq'', J_Int 0), (''type'', J_String ''response''), (''request_seq'', J_Int request_seq),
         (''success'', J_Bool success), (''command'', J_String command)] @ optional ''body'' id b)"

definition error_body :: "string \<Rightarrow> json" where
  "error_body m =
     J_Object
       [(''error'', J_Object [(''id'', J_Int 1), (''format'', J_String m), (''showUser'', J_Bool True)])]"

definition event_to_json :: "dap_event \<Rightarrow> json" where
  "event_to_json e =
     J_Object
       ([(''seq'', J_Int 0), (''type'', J_String ''event''), (''event'', J_String (event_name e))]
        @ optional ''body'' id (event_body_to_json e))"

fun message_to_json :: "message \<Rightarrow> json" where
  "message_to_json (Response request_seq command b) = response_to_json request_seq True command (body_to_json b)"
| "message_to_json (Error_Response request_seq command m) =
     response_to_json request_seq False command (Some (error_body m))"
| "message_to_json (Event e) = event_to_json e"

section \<open>A source sent back to its client\<close>

lemma find_key_object_of [simp]: "find_key (object_of flds) key = map_of flds key"
  by (simp add: object_of_def)

lemma map_of_optional [simp]:
  "map_of (optional k f v) key = (if key = k then map_option f v else None)"
  by (auto simp: optional_def split: option.split)

text \<open>A field that was written is read back, if its value is.\<close>

definition reads_back :: "('a \<Rightarrow> json) \<Rightarrow> (json \<Rightarrow> string + 'a) \<Rightarrow> 'a option \<Rightarrow> bool" where
  "reads_back write read v \<longleftrightarrow> (\<forall>x. v = Some x \<longrightarrow> write x \<noteq> J_Null \<and> read (write x) = Inr x)"

lemma field_reads_back:
  "find_key j key = map_option f v \<Longrightarrow> reads_back f g v \<Longrightarrow> field j key g = Inr v"
  by (auto simp: field_def reads_back_def r_bind_def split: option.split)

lemma reads_back_string: "reads_back J_String get_string v"
  by (simp add: reads_back_def)

text \<open>A table of names that is read by \<open>read\<close>: every value has a name in it, and is read from that name.\<close>

definition named_by :: "(string \<times> 'a :: enum) list \<Rightarrow> (json \<Rightarrow> string + 'a) \<Rightarrow> bool" where
  "named_by table read \<longleftrightarrow>
     list_all (\<lambda>v. enum_to_json table v \<noteq> J_Null \<and> read (enum_to_json table v) = Inr v) enum_class.enum"

lemma reads_back_name: "named_by table read \<Longrightarrow> reads_back (enum_to_json table) read v"
  unfolding named_by_def reads_back_def by (blast dest: all_values)

lemma names_read:
  "named_by source_hints source_hint_from_json" "named_by checksum_algorithms checksum_algorithm_from_json"
  by (simp_all add: named_by_def enumerations enum_to_json_def source_hints_def checksum_algorithms_def
      source_hint_from_json_def checksum_algorithm_from_json_def get_enum_def r_bind_def)

lemmas reads_back_hint = reads_back_name [OF names_read(1)]

lemma checksum_reads_back: "checksum_from_json (checksum_to_json c) = Inr c"
  using reads_back_name [OF names_read(2), of "Some (fst c)"]
  by (cases c) (simp add: reads_back_def checksum_to_json_def checksum_from_json_def r_bind_def field_or_def field_def)

lemma vector_reads_back: "(\<And>x. x \<in> set xs \<Longrightarrow> g (f x) = Inr x) \<Longrightarrow> get_vector g (json_list f xs) = Inr xs"
proof -
  assume "\<And>x. x \<in> set xs \<Longrightarrow> g (f x) = Inr x"
  then have "read_all_of g (map f xs) = Inr xs" by (induction xs) (simp_all add: r_bind_def)
  then show ?thesis by (simp add: json_list_def)
qed

lemma reads_back_vector:
  "(\<And>xs x. v = Some xs \<Longrightarrow> x \<in> set xs \<Longrightarrow> g (f x) = Inr x) \<Longrightarrow> reads_back (json_list f) (get_vector g) v"
  unfolding reads_back_def by (simp add: vector_reads_back) (simp add: json_list_def)

lemma source_reads_back: "int32_references s \<Longrightarrow> source_from_json tr (source_to_json s) = Inr s"
proof (induction s rule: source_to_json.induct)
  case (1 s)
  let ?j = "source_to_json s"
  have ref: "reads_back J_Int (get_int tr) (rs_source_reference s)"
    and "rs_sources s = Some ss \<Longrightarrow> x \<in> set ss \<Longrightarrow> int32_references x" for ss x
    using 1(2) by (auto simp: int32_references.simps [of s] reads_back_def list_all_iff)
  then have sources: "reads_back (json_list source_to_json) (get_vector (source_from_json tr)) (rs_sources s)"
    using 1(1) by (intro reads_back_vector) blast
  have checksums: "reads_back (json_list checksum_to_json) (get_vector checksum_from_json) (rs_checksums s)"
    by (intro reads_back_vector checksum_reads_back)
  have k: "find_key ?j ''name'' = map_option J_String (rs_name s)"
    "find_key ?j ''path'' = map_option J_String (rs_path s)"
    "find_key ?j ''sourceReference'' = map_option J_Int (rs_source_reference s)"
    "find_key ?j ''presentationHint'' = map_option (enum_to_json source_hints) (rs_presentation_hint s)"
    "find_key ?j ''origin'' = map_option J_String (rs_origin s)"
    "find_key ?j ''sources'' = map_option (json_list source_to_json) (rs_sources s)"
    "find_key ?j ''checksums'' = map_option (json_list checksum_to_json) (rs_checksums s)"
    "find_key ?j ''adapterData'' = (if rs_adapter_data s = J_Null then None else Some (rs_adapter_data s))"
    by (simp_all add: source_to_json.simps [of s] map_add_def split: option.split)
  show ?case
    by (simp add: source_from_json.simps [of tr ?j] r_bind_def field_reads_back [OF k(1) reads_back_string]
        field_reads_back [OF k(2) reads_back_string] field_reads_back [OF k(3) ref]
        field_reads_back [OF k(4) reads_back_hint] field_reads_back [OF k(5) reads_back_string]
        field_reads_back [OF k(6) sources] field_reads_back [OF k(7) checksums] k(8)) (cases s, simp)
qed

lemma read_all_ofD: "read_all_of f xs = Inr ys \<Longrightarrow> y \<in> set ys \<Longrightarrow> \<exists>x \<in> set xs. f x = Inr y"
  by (induction xs arbitrary: ys) (auto simp: r_bind_def split: sum.splits)

lemma get_vectorD: "get_vector f j = Inr ys \<Longrightarrow> y \<in> set ys \<Longrightarrow> \<exists>xs x. j = J_Array xs \<and> x \<in> set xs \<and> f x = Inr y"
  by (cases j) (auto dest: read_all_ofD)

lemma fieldD: "field j key f = Inr (Some v) \<Longrightarrow> \<exists>x. find_key j key = Some x \<and> f x = Inr v"
  by (auto simp: field_def r_bind_def split: option.splits if_splits sum.splits)

lemma wrap_int32_idem [simp]: "wrap_int32 (wrap_int32 n) = wrap_int32 n"
  by (simp add: wrap_int32_def)

lemma read_source_references:
  assumes "\<And>f. wrap_int32 (tr f) = tr f"
  shows "source_from_json tr j = Inr s \<Longrightarrow> int32_references s"
proof (induction "size j" arbitrary: j s rule: less_induct)
  case less
  have parts: "field j ''sourceReference'' (get_int tr) = Inr (rs_source_reference s)"
    "field j ''sources'' (get_vector (source_from_json tr)) = Inr (rs_sources s)"
    using less(2) by (auto simp: source_from_json.simps [of tr j] r_bind_def split: sum.splits)
  have "wrap_int32 r = r" if r: "rs_source_reference s = Some r" for r
  proof -
    obtain x where "get_int tr x = Inr r" using fieldD [OF parts(1) [unfolded r]] by blast
    then show ?thesis using assms by (cases x) auto
  qed
  moreover have "int32_references x" if ss: "rs_sources s = Some ss" and x: "x \<in> set ss" for ss x
  proof -
    obtain v where v: "find_key j ''sources'' = Some v" "get_vector (source_from_json tr) v = Inr ss"
      using fieldD [OF parts(2) [unfolded ss]] by blast
    obtain xs y where y: "v = J_Array xs" "y \<in> set xs" "source_from_json tr y = Inr x"
      using get_vectorD [OF v(2) x] by blast
    have "size y < size j" using find_key_size [OF v(1)] array_size [OF y(2)] y(1) by simp
    then show ?thesis using less(1) y(3) by blast
  qed
  ultimately show ?case by (simp add: int32_references.simps [of s] list_all_iff split: option.split)
qed

section \<open>A session as the client reads it\<close>

text \<open>What a client makes of a message: the request that it answers, if it is a response.\<close>

definition answer_of :: "json \<Rightarrow> (int \<times> string) option" where
  "answer_of j =
     (case (find_key j ''type'', find_key j ''request_seq'', find_key j ''command'') of
        (Some (J_String t), Some (J_Int n), Some (J_String c)) \<Rightarrow> if t = ''response'' then Some (n, c) else None
      | _ \<Rightarrow> None)"

definition request_of :: "json \<Rightarrow> (int \<times> string) option" where
  "request_of root =
     (case (find_key root ''seq'', find_key root ''command'') of
        (Some (J_Int n), Some (J_String c)) \<Rightarrow> Some (wrap_int32 n, c) | _ \<Rightarrow> None)"

definition proper_request :: "json \<Rightarrow> bool" where
  "proper_request root \<longleftrightarrow>
     find_key root ''type'' = Some (J_String ''request'')
     \<and> (case request_of root of None \<Rightarrow> False | Some (q, c) \<Rightarrow> c \<noteq> [] \<and> c \<noteq> ''<unknown>'')"

text \<open>Requests are handled one after the other, with steps of the wait loop's thread between them.\<close>

inductive conversation ::
    "'e target \<Rightarrow> (json \<Rightarrow> string) \<Rightarrow> (string \<Rightarrow> int) \<Rightarrow> json list \<Rightarrow> 'e server \<Rightarrow> bool"
  for L dump tr where
  opened: "conversation L dump tr [] Server_State.new_server"
| request_handled: "conversation L dump tr rs s \<Longrightarrow>
     handle_request L dump tr root s = Some (r, s') \<Longrightarrow> conversation L dump tr (rs @ [root]) s'"
| wait_loop_stepped: "conversation L dump tr rs s \<Longrightarrow> loop_step L s = Some (r, s') \<Longrightarrow>
     conversation L dump tr rs s'"

lemma answer_of_message: "answer_of (message_to_json m) = (if is_response m then answered m else None)"
  by (cases m) (simp_all add: answer_of_def response_to_json_def event_to_json_def map_add_def)

lemma message_is_object: "is_object (message_to_json m)"
  by (cases m) (simp_all add: response_to_json_def event_to_json_def)

lemma map_of_put_field: "map_of (put_field k v flds) key = (if key = k then Some v else map_of flds key)"
  by (induction flds) auto

lemma find_key_wire_form: "key \<noteq> ''seq'' \<Longrightarrow> find_key (wire_form n m) key = find_key m key"
  by (cases m) (simp_all add: wire_form_def map_of_put_field)

lemma answer_of_wire_form [simp]: "answer_of (wire_form n m) = answer_of m"
  by (simp add: answer_of_def find_key_wire_form)

lemma answers_numbered: "map answer_of (numbered n ms) = map answer_of ms"
  by (induction ms arbitrary: n) simp_all

lemma answered_response: "is_response m \<longleftrightarrow> answered m \<noteq> None"
  by (cases m) simp_all

lemma answers_of_messages:
  "filter (\<lambda>a. a \<noteq> None) (map (answer_of \<circ> message_to_json) ms) = map answered (filter is_response ms)"
  by (induction ms) (simp_all add: answer_of_message answered_response)

lemma messages_read:
  assumes "\<forall>m \<in> set (numbered 1 (map message_to_json (server.outbound s))). faithful serialize parse m"
  shows "filter (\<lambda>a. a \<noteq> None)
      (map answer_of (fst (read_all parse (frames serialize (numbered 1 (map message_to_json (server.outbound s)))))))
    = map answered (responses s)"
  unfolding read_all_frames [OF assms] fst_conv answers_numbered map_map responses_def by (rule answers_of_messages)

lemma conversation_answered:
  assumes "conversation L dump tr rs s" "\<forall>root \<in> set rs. proper_request root"
  shows "map answered (responses s) = map request_of rs"
  using assms
proof (induction rule: conversation.induct)
  case opened
  then show ?case by (simp add: responses_def Server_State.new_server_def)
next
  case (request_handled rs s root r s')
  from request_handled.prems have "proper_request root" by simp
  then obtain n c where root: "find_key root ''type'' = Some (J_String ''request'')"
      "find_key root ''seq'' = Some (J_Int n)" "find_key root ''command'' = Some (J_String c)"
      "c \<noteq> []" "c \<noteq> ''<unknown>''" "request_of root = Some (wrap_int32 n, c)"
    by (auto simp: proper_request_def request_of_def split: option.splits json.splits)
  show ?case
    using request_answered [OF root(1-5) request_handled(2)] request_handled.IH request_handled.prems root(6) by auto
next
  case (wait_loop_stepped rs s r s')
  have "responses s' = responses s"
    using maintainsD [OF quiet.loop_step_maintains [of "responses s" L] refl wait_loop_stepped(2)] .
  then show ?case using wait_loop_stepped by simp
qed

section \<open>Properties\<close>

text \<open>
  C2. A session as the client reads it: whatever requests a client sends, with steps of the wait loop's
  thread between them and whatever interleaving of senders and writer thread puts the
  service's messages on the wire, the client reads, among the messages it gets, exactly
  one response to each request, in the order of the requests.
\<close>

theorem every_request_answered_on_the_wire:
  assumes "conversation L dump tr rs s" "\<forall>root \<in> set rs. proper_request root"
    and "sent_by ws = map message_to_json (server.outbound s)"
    and "\<forall>m \<in> set (numbered 1 (sent_by ws)). faithful serialize parse m"
    and "t = fold (wire_exec serialize) ws (Transport.new_server recorder)"
  shows "\<exists>t'. writer_loop serialize (t\<lparr>io_stream_server.outbound := close (io_stream_server.outbound t)\<rparr>) = (Writer_Done, t')
    \<and> filter (\<lambda>a. a \<noteq> None) (map answer_of (fst (read_all parse (out t')))) = map request_of rs"
proof -
  have ok: "sendable serialize parse (sent_by ws)"
    using assms(3,4) by (simp add: sendable_def message_is_object)
  obtain t' where t': "writer_loop serialize (t\<lparr>io_stream_server.outbound := close (io_stream_server.outbound t)\<rparr>) = (Writer_Done, t')"
      "read_all parse (out t') = (numbered 1 (sent_by ws), None)"
    using sent_messages_read [OF ok assms(5)] by blast
  have "filter (\<lambda>a. a \<noteq> None) (map answer_of (numbered 1 (sent_by ws))) = map answered (responses s)"
    unfolding answers_numbered assms(3) map_map responses_def by (rule answers_of_messages)
  then show ?thesis using t' conversation_answered [OF assms(1,2)] by auto
qed

definition done_response :: json where
  "done_response = message_to_json (Response 7 ''configurationDone'' No_Body)"

theorem every_request_answered_on_the_wire_witness:
  "\<exists>s t'. conversation script_target (\<lambda>j. []) (\<lambda>f. 0) [done_request] s
     \<and> map message_to_json (server.outbound s) = [done_response]
     \<and> writer_loop (\<lambda>m. Inr ''{}'')
         ((fold (wire_exec (\<lambda>m. Inr ''{}'')) [Write, Send done_response] (Transport.new_server None))
            \<lparr>io_stream_server.outbound := close (io_stream_server.outbound
               (fold (wire_exec (\<lambda>m. Inr ''{}'')) [Write, Send done_response] (Transport.new_server None)))\<rparr>)
         = (Writer_Done, t')
     \<and> filter (\<lambda>a. a \<noteq> None) (map answer_of (fst (read_all (\<lambda>b. Inr (wire_form 1 done_response)) (out t'))))
         = [Some (7, ''configurationDone'')]"
proof -
  obtain r s' where h: "handle_request script_target (\<lambda>j. []) (\<lambda>f. 0) done_request Server_State.new_server
      = Some (r, s')" "server.outbound s' = [Response 7 ''configurationDone'' No_Body]"
    using done_request_answered by blast
  have c: "conversation script_target (\<lambda>j. []) (\<lambda>f. 0) [done_request] s'"
    using request_handled [OF opened h(1)] by simp
  show ?thesis
    using every_request_answered_on_the_wire [OF c, of "[Write, Send done_response]" "\<lambda>m. Inr ''{}''"
        "\<lambda>b. Inr (wire_form 1 done_response)", OF _ _ _ refl, of None] c h(2)
    by (auto simp: proper_request_def request_of_def done_request_def done_response_def faithful_def
        simp del: wire_exec.simps fold_simps)
qed

text \<open>
  C26. The adapter sends a client's sources back unchanged: a source that was read from a
  request, with all its fields and nested sources, is written to JSON that reads as the same
  source, provided floating-point numbers are truncated to the range of an int.
\<close>

theorem source_round_trip:
  assumes "source_from_json tr j = Inr s" "\<And>f. wrap_int32 (tr f) = tr f"
  shows "source_from_json tr (source_to_json s) = Inr s"
  by (rule source_reads_back [OF read_source_references [OF assms(2,1)]])

theorem source_round_trip_witness:
  "\<exists>s. source_from_json (\<lambda>f. 0)
         (J_Object [(''path'', J_String ''a.c''), (''sourceReference'', J_Int 4294967298),
                    (''sources'', J_Array [J_Object [(''name'', J_String ''b.h'')]]), (''extra'', J_Bool True)]) = Inr s
     \<and> rs_source_reference s = Some 2 \<and> source_from_json (\<lambda>f. 0) (source_to_json s) = Inr s"
proof -
  let ?j = "J_Object [(''path'', J_String ''a.c''), (''sourceReference'', J_Int 4294967298),
                      (''sources'', J_Array [J_Object [(''name'', J_String ''b.h'')]]), (''extra'', J_Bool True)]"
  let ?s = "Source None (Some ''a.c'') (Some 2) None None
              (Some [Source (Some ''b.h'') None None None None None J_Null None]) J_Null None"
  have "source_from_json (\<lambda>f. 0) ?j = Inr ?s"
    by (simp add: source_from_json.simps field_def r_bind_def wrap_int32_def)
  then show ?thesis using source_round_trip [of "\<lambda>f. 0" ?j ?s] by (simp add: wrap_int32_def)
qed

end
