(* ===== verification/Message_Log.thy ===== *)
theory Message_Log
  imports Server
begin

text \<open>
  What a handler sends: on every path it only adds to the messages that the service has pushed to the
  writer, and a response that it adds has the body that its command prescribes.  So the
  messages of a request are those that stand behind the earlier ones when its handler
  returns.
\<close>

section \<open>Bodies and commands\<close>

text \<open>The capabilities that are not flags.\<close>

definition structured_capabilities :: "string list" where
  "structured_capabilities =
     [''exceptionBreakpointFilters'', ''completionTriggerCharacters'', ''additionalModuleColumns'',
      ''supportedChecksumAlgorithms'', ''breakpointModes'']"

fun suits :: "string \<Rightarrow> response_body \<Rightarrow> bool" where
  "suits c No_Body = True"
| "suits c (Capabilities_Body supported unsupported filters) =
     (c = ''initialize'' \<and> (\<forall>k \<in> set (supported @ unsupported). k \<notin> set structured_capabilities))"
| "suits c (Continue_Body b) = (c = ''continue'')"
| "suits c (Threads_Body ts) = (c = ''threads'')"
| "suits c (Stack_Trace_Body fs n) = (c = ''stackTrace'')"
| "suits c (Scopes_Body ss) = (c = ''scopes'')"
| "suits c (Variables_Body vs) = (c = ''variables'')"
| "suits c (Breakpoints_Body bs) =
     (c \<in> {''setBreakpoints'', ''setFunctionBreakpoints'', ''setInstructionBreakpoints'', ''setDataBreakpoints'',
           ''setExceptionBreakpoints''})"
| "suits c (Evaluate_Body r n) = (c = ''evaluate'')"
| "suits c (Set_Variable_Body v t r n m) = (c = ''setVariable'')"
| "suits c (Set_Expression_Body v t) = (c = ''setExpression'')"
| "suits c (Memory_Body a d n) = (c = ''readMemory'')"
| "suits c (Write_Body n) = (c = ''writeMemory'')"
| "suits c (Disassemble_Body xs) = (c = ''disassemble'')"
| "suits c (Modules_Body ms n) = (c = ''modules'')"
| "suits c (Exception_Body i d b m) = (c = ''exceptionInfo'')"
| "suits c (Data_Info_Body i d) = (c = ''dataBreakpointInfo'')"
| "suits c (Source_Body t) = (c = ''source'')"

fun fits :: "message \<Rightarrow> bool" where
  "fits (Response q c b) = suits c b"
| "fits m = True"

text \<open>The messages of a state are those of an earlier one and fitting ones behind them.\<close>

definition emitted :: "message list \<Rightarrow> 'e server \<Rightarrow> bool" where
  "emitted ms s \<longleftrightarrow> (\<exists>zs. outbound s = ms @ zs \<and> list_all fits zs)"

lemma emitted_refl: "outbound s' = outbound s \<Longrightarrow> emitted (outbound s) s'"
  by (simp add: emitted_def)

lemma emitted_trans: "emitted ms s \<Longrightarrow> emitted (outbound s) s' \<Longrightarrow> emitted ms s'"
  by (auto simp: emitted_def)

lemma bodies_suit [simp]:
  "suits ''setVariable'' (set_variable_body x b)" "suits ''evaluate'' (evaluate_body t)"
  "suits ''exceptionInfo'' (exception_body i)" "suits ''dataBreakpointInfo'' (data_info_body e l)"
  "suits ''readMemory'' (memory_body a n bs)"
  by (simp_all add: set_variable_body_def evaluate_body_def exception_body_def data_info_body_def memory_body_def Let_def)

section \<open>Updates that send nothing\<close>

interpretation log: server_invariant "emitted ms" for ms
  by unfold_locales (auto simp: emitted_def state_updates)

lemma outbound_updates [simp]:
  "outbound (set_running b s) = outbound s" "outbound (reset_suspended_state s) = outbound s"
  "outbound (start_waiting_for_session_event s) = outbound s"
  "outbound (reset_launch_configuration_state s) = outbound s"
  "outbound (set_pending_stopped_event r d i s) = outbound s"
  "outbound (clear_pending_stopped_event s) = outbound s" "outbound (put_session x s) = outbound s"
  "outbound (install_session y s) = outbound s" "outbound (set_disconnect_policy b b' s) = outbound s"
  "outbound (store_container c k s) = outbound s"
  by (simp_all add: set_running_def start_waiting_for_session_event_def state_updates install_session_def
      set_disconnect_policy_def put_session_def store_container_def)

lemma outbound_conditions [simp]:
  fixes s :: "'e server"
  shows "outbound (update_conditional_breakpoint_state p configured requested s) = outbound s"
proof -
  have "outbound (clear_conditional_breakpoint_state p s) = outbound s"
    by (simp add: clear_conditional_breakpoint_state_def split: option.split)
  moreover have "outbound (fold (record_condition p) rbs t) = outbound t" for rbs and t :: "'e server"
    by (induction rbs arbitrary: t) (simp_all add: record_condition_def split: option.split)
  ultimately show ?thesis by (simp add: update_conditional_breakpoint_state_def)
qed

lemma outbound_frames [simp]: "outbound (register_frames t fs s) = outbound s"
  unfolding register_frames_def by (induction fs arbitrary: s) simp_all

lemma outbound_reference [simp]: "outbound (snd (create_variables_reference c k vs s)) = outbound s"
  by (simp add: create_variables_reference_def)

lemma outbound_trees [simp]:
  "outbound (snd (build_variable_tree n c p s)) = outbound s"
  "outbound (snd (build_variable_trees ns c p s)) = outbound s"
proof (induction n c p s and ns c p s rule: build_variable_tree_build_variable_trees.induct)
  case (1 name v t x a b children ctx parent s)
  then show ?case
    using outbound_reference [of ctx Structure_Kind] by (auto simp: Let_def case_prod_beta)
next
  case (3 n ns ctx parent s)
  then show ?case by (simp add: case_prod_beta) (metis prod.collapse)
qed simp

lemma outbound_scopes [simp]: "outbound (snd (create_scopes c locals registers s)) = outbound s"
  by (simp add: create_scopes_def case_prod_beta)

section \<open>Rules\<close>

definition grows :: "('e server, 'a) wact \<Rightarrow> bool" where
  "grows m \<longleftrightarrow> (\<forall>ms. maintains (emitted ms) m)"

named_theorems grow_rules \<open>rules for actions that only add messages\<close>

lemma grows_now: "(\<And>s r s'. f s = (r, s') \<Longrightarrow> emitted (outbound s) s') \<Longrightarrow> grows (now f)"
  unfolding grows_def now_def by (intro allI maintainsI) (auto intro: emitted_trans)

lemma grows_basic [grow_rules]:
  "grows (w_ret v)" "grows (w_get g)" "grows (w_raise e)" "grows (now (send_event ev))"
  "grows (now (send_error_response q c m))"
  by (rule grows_now; auto simp: emitted_def ret_def get_state_def raise_def update_state_def send_event_def
      send_error_response_def post_message_def)+

lemma grows_response [grow_rules]: "suits c b \<Longrightarrow> grows (now (send_response q c b))"
  by (rule grows_now) (auto simp: emitted_def update_state_def send_response_def post_message_def)

lemma grows_set [grow_rules]: "(\<And>s. outbound (f s) = outbound s) \<Longrightarrow> grows (w_set f)"
  by (rule grows_now) (auto simp: update_state_def emitted_refl)

lemma grows_bind [grow_rules]: "grows m \<Longrightarrow> (\<And>v. grows (f v)) \<Longrightarrow> grows (w_bind m f)"
  by (simp add: grows_def maintains_bind)

lemma grows_then [grow_rules]: "grows m \<Longrightarrow> grows n \<Longrightarrow> grows (w_then m n)"
  by (simp add: grows_def maintains_then)

lemma grows_catch [grow_rules]: "grows m \<Longrightarrow> (\<And>e. grows (h e)) \<Longrightarrow> grows (w_catch m h)"
  by (simp add: grows_def maintains_catch)

lemma grows_if [grow_rules]: "(b \<Longrightarrow> grows m) \<Longrightarrow> (\<not> b \<Longrightarrow> grows n) \<Longrightarrow> grows (if b then m else n)"
  by simp

lemma grows_blocks [grow_rules]:
  "grows (invoke_session L f)" "grows (try_get_current_thread_id L)" "grows (now (on_session g))"
  "grows (restore_source_line_stepping_if_needed L)" "grows (dispose_debugger_session L)"
  "grows (join_wait_loop L)" "grows (wait_for_event L)" "grows (invoke_session_w L k)" "grows (free_worker L)"
  "grows (now (session_task L f))" "grows (loop_step L)"
  unfolding grows_def
  by (intro allI log.invoke_session_maintains log.try_get_current_thread_id_maintains
      maintains_now log.on_session_keeps log.restore_stepping_maintains log.dispose_maintains
      log.join_wait_loop_maintains log.wait_for_event_maintains log.invoke_session_w_maintains
      log.free_worker_maintains log.session_task_keeps log.loop_step_maintains)+

lemma grows_invoke [grow_rules]:
  "(\<And>ms. keeps (emitted ms) f) \<Longrightarrow> grows (invoke L f)"
  by (simp add: grows_def log.invoke_maintains)

section \<open>Handlers\<close>

lemma grows_guard [grow_rules]:
  "grows m \<Longrightarrow> grows (w_guard (require_positive_thread_id q c t) m)"
  "grows m \<Longrightarrow> grows (w_guard (reject_single_thread q c b) m)"
  "grows m \<Longrightarrow> grows (w_guard (reject_target_id q c b) m)"
  unfolding w_guard_def
  by (intro grow_rules grows_now; auto simp: require_positive_thread_id_def reject_single_thread_def
      reject_target_id_def send_error_response_def post_message_def act_defs emitted_def split: if_splits)+

lemma grows_rethrow [grow_rules]: "grows m \<Longrightarrow> grows n \<Longrightarrow> grows (w_rethrow m n)"
  unfolding w_rethrow_def by (intro grow_rules)

lemma grows_read [grow_rules]: "grows m \<Longrightarrow> grows (read_session_data_or_default m d)"
  unfolding read_session_data_or_default_def by (intro grow_rules)

lemma grows_report [grow_rules]: "grows m \<Longrightarrow> (\<And>v. suits c (body v)) \<Longrightarrow> grows (respond_or_report q c m body)"
  unfolding respond_or_report_def by (intro grow_rules) simp

lemma grows_wrappers [grow_rules]:
  "grows m \<Longrightarrow> grows (with_session q c k m)" "grows m \<Longrightarrow> grows (unless_running q c e m)"
  unfolding with_session_def unless_running_def by (intro grow_rules; assumption)+

lemma grows_require [grow_rules]: "grows (now require_debugger_session)"
  by (rule grows_now) (auto simp: require_debugger_session_def emitted_refl split: if_splits)

lemma grows_suppressed [grow_rules]: "grows m \<Longrightarrow> grows (run_with_suppressed_session_events m)"
  unfolding run_with_suppressed_session_events_def by (intro grow_rules) simp_all

lemma grows_transient [grow_rules]: "grows m \<Longrightarrow> grows (apply_breakpoint_update_while_running L m)"
  unfolding apply_breakpoint_update_while_running_def by (intro grow_rules) simp_all

lemma grows_updates [grow_rules]:
  "grows (update_breakpoints L f)" "grows (set_breakpoints_while_running L p specs)"
  unfolding update_breakpoints_def set_breakpoints_while_running_def by (intro grow_rules)+

lemma grows_life [grow_rules]:
  "grows (handle_initialize_request q ''initialize'')" "grows (continue_after_configuration_done L)"
  "grows (handle_threads_request L q ''threads'')" "grows (handle_pause_request L q c t)" "grows (handle_terminate_request L q c)"
  "grows (disconnect_debugger_session L b)" "grows (prepare_stepping_granularity L g)"
  unfolding handle_initialize_request_def continue_after_configuration_done_def handle_threads_request_def
    get_threads_def handle_pause_request_def handle_terminate_request_def disconnect_debugger_session_def
    disconnect_kernel_leaving_machine_running_def interrupt_best_effort_def prepare_stepping_granularity_def
  by (auto split: option.split sum.split simp: structured_capabilities_def intro!: grow_rules)

lemma grows_execution [grow_rules]:
  "grows (handle_configuration_done_request L q c)" "grows (handle_continue_request L q ''continue'' t b)"
  "grows (handle_disconnect_request L q c dt)" "grows (run_step L q c t g d f)"
  unfolding handle_configuration_done_request_def handle_continue_request_def handle_disconnect_request_def run_step_def
  by (intro grow_rules; simp)+

lemma grows_steps [grow_rules]:
  "grows (handle_next_request L q c t b g)" "grows (handle_step_in_request L q c t b i g)"
  "grows (handle_step_out_request L q c t b g)"
  unfolding handle_next_request_def handle_step_in_request_def handle_step_out_request_def
  by (intro grow_rules)+

lemma grows_breakpoints [grow_rules]:
  "grows (handle_set_breakpoints_request L q ''setBreakpoints'' a)" "grows (handle_set_function_breakpoints_request L q ''setFunctionBreakpoints'' ns)"
  "grows (handle_set_instruction_breakpoints_request L q ''setInstructionBreakpoints'' rs)" "grows (handle_set_data_breakpoints_request L q ''setDataBreakpoints'' ds)"
  "grows (handle_set_exception_breakpoints_request L q ''setExceptionBreakpoints'' fs)" "grows (handle_exception_info_request L q ''exceptionInfo'')"
  unfolding handle_set_breakpoints_request_def handle_set_function_breakpoints_request_def
    handle_set_instruction_breakpoints_request_def handle_set_data_breakpoints_request_def
    handle_set_exception_breakpoints_request_def handle_exception_info_request_def Let_def
  by (auto split: option.split sum.split intro!: grow_rules)

lemma grows_inspection [grow_rules]:
  "grows (handle_stack_trace_request L q ''stackTrace'' t a b)" "grows (handle_variables_request q ''variables'' r x i n)"
  "grows (handle_set_expression_request L q ''setExpression'' e w f)" "grows (handle_set_variable_request L q ''setVariable'' r name w)"
  unfolding handle_stack_trace_request_def Let_def handle_variables_request_def handle_set_expression_request_def
    handle_set_variable_request_def handle_set_struct_field_def
  by (auto split: option.split intro!: grow_rules)

lemma grows_scopes [grow_rules]: "grows (handle_scopes_request L q ''scopes'' f)"
proof -
  have "grows (now (\<lambda>s. case create_scopes x ls rs s of (scopes, s') \<Rightarrow> (Inr scopes, s')))" for x ls rs
    by (rule grows_now) (auto simp: case_prod_beta emitted_refl)
  then show ?thesis
    unfolding handle_scopes_request_def by (auto split: option.split intro!: grow_rules)
qed

lemma grows_evaluate [grow_rules]: "grows (handle_evaluate_request L q ''evaluate'' a)"
proof -
  have "grows (evaluate_checked L q ''evaluate'' a x)" for x
    unfolding evaluate_checked_def by (intro grow_rules) simp_all
  then show ?thesis
    unfolding handle_evaluate_request_def by (auto split: option.split intro!: grow_rules)
qed

lemma grows_memory [grow_rules]:
  "grows (handle_data_breakpoint_info_request L q ''dataBreakpointInfo'' name r f)"
  "grows (handle_read_memory_request L q ''readMemory'' x n i)" "grows (handle_write_memory_request L q ''writeMemory'' x d i)"
  "grows (handle_disassemble_request L q ''disassemble'' a)" "grows (handle_modules_request L q ''modules'' sm mc)"
  "grows (handle_source_request L q ''source'' p)"
  unfolding handle_data_breakpoint_info_request_def handle_read_memory_request_def handle_write_memory_request_def
    handle_disassemble_request_def handle_modules_request_def handle_source_request_def Let_def
  by (auto split: option.split sum.split intro!: grow_rules)

lemma grows_sessions [grow_rules]:
  "grows (create_debugger_session L p)" "grows (apply_session_configuration L a b)" "grows (await_configuration L e)"
  "grows (connect_target L f)" "grows (announce_target L q c n i m en)"
  unfolding create_debugger_session_def apply_session_configuration_def await_configuration_def connect_target_def
    invoke_and_wait_def announce_target_def send_process_event_def send_stopped_event_def
  by (auto split: option.split simp: keeps_def intro!: grow_rules)

lemma grows_launch [grow_rules]: "grows (handle_launch_request L dump root q c)"
  unfolding handle_launch_request_def Let_def by (simp add: grow_rules split: option.split)

lemma grows_poll [grow_rules]: "grows (poll_for_process_id L n p)"
proof (induction n)
  case 0
  show ?case by (subst poll_for_process_id.simps) (auto intro!: grow_rules)
next
  case (Suc n)
  then show ?case by (subst poll_for_process_id.simps) (auto split: option.split intro!: grow_rules)
qed

lemma grows_attach_process [grow_rules]:
  "grows (finish_attach L q c i b)" "grows (attach_process_request L q c a cs b p sy so)"
  unfolding attach_process_request_def finish_attach_def find_process_def Let_def
  by (intro grow_rules; auto split: option.split intro!: grow_rules)+

lemma grows_attach [grow_rules]: "grows (handle_attach_request L root q c)"
  unfolding handle_attach_request_def attach_kernel_request_def open_dump_request_def Let_def
  by (simp add: grow_rules split: option.split)

section \<open>Requests\<close>

text \<open>A handler is chosen by the command that the converted request has.\<close>

lemma request_command:
  "request_from_json tr m name f = Inr (q, c, a) \<Longrightarrow> string_value m ''command'' = Inr name \<Longrightarrow> name \<noteq> [] \<Longrightarrow> c = name"
  by (auto simp: request_from_json_def string_value_def field_or_def field_def r_bind_def
      split: sum.splits option.splits if_splits)

lemma grows_serve:
  "string_value m ''command'' = Inr name \<Longrightarrow> name \<noteq> [] \<Longrightarrow> (\<And>q a. grows (h (q, name, a))) \<Longrightarrow>
   grows (serve_request (request_from_json tr m name f) h)"
  by (auto simp: serve_request_def grow_rules dest: request_command split: sum.split)

lemma grows_served: "(\<And>r. grows (h r)) \<Longrightarrow> grows (serve_request parsed h)"
  by (simp add: serve_request_def grow_rules split: sum.split)

lemma handlers_grow:
  assumes "map_of (request_handlers L dump tr m) command = Some h" "string_value m ''command'' = Inr command"
  shows "grows h"
proof -
  have "list_all (\<lambda>(name, h). string_value m ''command'' = Inr name \<longrightarrow> grows h) (request_handlers L dump tr m)"
    unfolding request_handlers_def list.pred_inject case_prod_conv
    by (intro conjI TrueI impI grows_serve; (assumption | simp add: grow_rules case_prod_beta))
  then show ?thesis using assms map_of_SomeD [OF assms(1)] by (auto simp: list_all_iff)
qed

lemma grows_dispatch: "grows (dispatch_request L dump tr root)"
proof (cases "string_value root ''command''")
  case (Inl e)
  then show ?thesis by (simp add: dispatch_request_def serve_request_def grow_rules)
next
  case (Inr command)
  then show ?thesis
    using handlers_grow [of L dump tr root command]
    by (auto simp: dispatch_request_def serve_request_def [of "Inr command"] split: option.split
        intro!: grows_served grow_rules)
qed

lemma grows_handle_request: "grows (handle_request L dump tr root)"
proof -
  have "grows (now (report_failure root e))" for e
    by (cases e) (auto simp: report_failure_def split: option.split intro!: grow_rules)
  moreover have "grows (dispatch_event root)" "grows (dispatch_response root)"
    using dispatch_ignores [of root] grows_basic(1,3) by metis+
  ultimately show ?thesis
    unfolding handle_request_def handle_def
    by (intro grow_rules grows_served grows_dispatch) (auto intro!: grow_rules)
qed

text \<open>The messages of a step are those behind the ones sent before.\<close>

lemma grows_messages:
  assumes "grows m" "m s = Some (r, s')"
  shows "outbound s' = outbound s @ drop (length (outbound s)) (outbound s')
    \<and> list_all fits (drop (length (outbound s)) (outbound s'))"
proof -
  have "emitted (outbound s) s'"
    using assms maintainsD [of "emitted (outbound s)" m s r s'] by (simp add: grows_def emitted_refl)
  then show ?thesis by (auto simp: emitted_def)
qed

lemma grows_fitting: "grows m \<Longrightarrow> m s = Some (r, s') \<Longrightarrow> list_all fits (outbound s) \<Longrightarrow> list_all fits (outbound s')"
  using grows_messages [of m s r s'] by (metis list_all_append)

end
