(* ===== verification/Conformance.thy ===== *)
theory Conformance
  imports Messages Message_Log
begin

text \<open>
  What the service sends conforms to the protocol: the JSON of every message converts back, by the
  conversion that the protocol has for the event or for the response to the command,
  without an error.
\<close>

section \<open>Values that are accepted\<close>

lemma checks_accept [simp]:
  "check_int (J_Int n) = Inr ()" "check_long (J_Int n) = Inr ()" "check_string (J_String t) = Inr ()"
  "check_bool (J_Bool b) = Inr ()" "any_value j = Inr ()"
  by (simp_all add: check_int_def check_long_def check_string_def check_bool_def only_check_def r_bind_def any_value_def)

lemma list_accepted [simp]: "(\<And>x. f (g x) = Inr ()) \<Longrightarrow> check_list f (json_list g xs) = Inr ()"
proof -
  assume "\<And>x. f (g x) = Inr ()"
  then have "read_all_of f (map g xs) = Inr (map (\<lambda>x. ()) xs)" by (induction xs) (simp_all add: r_bind_def)
  then show "check_list f (json_list g xs) = Inr ()" by (simp add: check_list_def only_check_def r_bind_def json_list_def)
qed

lemma fields_accepted:
  "list_all (\<lambda>(key, f). \<forall>v. find_key j key = Some v \<longrightarrow> f v = Inr ()) fs \<Longrightarrow> check_fields j fs = Inr ()"
proof (induction fs)
  case Nil
  show ?case by simp
next
  case (Cons e fs)
  then show ?case by (cases e) (auto simp: r_bind_def field_def split: option.split)
qed

lemma name_accepted: "t \<in> set ns \<Longrightarrow> get_enum e (enum_names ns) (J_String t) = Inr ()"
proof -
  assume "t \<in> set ns"
  then have "map_of (enum_names ns) t = Some ()" by (induction ns) (auto simp: enum_names_def)
  then show "get_enum e (enum_names ns) (J_String t) = Inr ()" by (simp add: get_enum_def r_bind_def)
qed

section \<open>Objects\<close>

text \<open>A source is read without an error, whatever its references; those out of range are wrapped.\<close>

lemma field_read:
  "find_key j key = map_option f v \<Longrightarrow> (\<And>x. v = Some x \<Longrightarrow> \<exists>y. g (f x) = Inr y) \<Longrightarrow> \<exists>y. field j key g = Inr y"
  by (cases v) (auto simp: field_def r_bind_def)

lemma vector_read: "\<forall>x \<in> set xs. \<exists>y. g (f x) = Inr y \<Longrightarrow> \<exists>ys. get_vector g (json_list f xs) = Inr ys"
proof -
  assume "\<forall>x \<in> set xs. \<exists>y. g (f x) = Inr y"
  then have "\<exists>ys. read_all_of g (map f xs) = Inr ys" by (induction xs) (force simp: r_bind_def)+
  then show "\<exists>ys. get_vector g (json_list f xs) = Inr ys" by (simp add: json_list_def)
qed

lemma source_read: "\<exists>y. source_from_json tr (source_to_json s) = Inr y"
proof (induction s rule: source_to_json.induct)
  case (1 s)
  let ?j = "source_to_json s"
  have k: "find_key ?j ''name'' = map_option J_String (rs_name s)"
    "find_key ?j ''path'' = map_option J_String (rs_path s)"
    "find_key ?j ''sourceReference'' = map_option J_Int (rs_source_reference s)"
    "find_key ?j ''presentationHint'' = map_option (enum_to_json source_hints) (rs_presentation_hint s)"
    "find_key ?j ''origin'' = map_option J_String (rs_origin s)"
    "find_key ?j ''sources'' = map_option (json_list source_to_json) (rs_sources s)"
    "find_key ?j ''checksums'' = map_option (json_list checksum_to_json) (rs_checksums s)"
    by (simp_all add: source_to_json.simps [of s] map_add_def split: option.split)
  have "\<exists>y. field ?j ''sources'' (get_vector (source_from_json tr)) = Inr y"
    by (rule field_read [OF k(6)], rule vector_read) (use 1 in blast)
  moreover have "\<exists>y. field ?j ''checksums'' (get_vector checksum_from_json) = Inr y"
    by (rule field_read [OF k(7)], rule vector_read) (use checksum_reads_back in blast)
  moreover have "\<exists>y. field ?j ''name'' get_string = Inr y" "\<exists>y. field ?j ''path'' get_string = Inr y"
    "\<exists>y. field ?j ''sourceReference'' (get_int tr) = Inr y" "\<exists>y. field ?j ''origin'' get_string = Inr y"
    "\<exists>y. field ?j ''presentationHint'' source_hint_from_json = Inr y"
    using field_reads_back [OF k(4) reads_back_hint]
    by (auto intro!: field_read [OF k(1)] field_read [OF k(2)] field_read [OF k(3)] field_read [OF k(5)])
  ultimately show ?case by (auto simp: source_from_json.simps [of tr ?j] r_bind_def)
qed

lemma sources_accepted [simp]:
  "only_check (source_from_json tr) (source_to_json s) = Inr ()"
  "only_check (source_from_json tr) ((source_to_json \<circ> known_source) s') = Inr ()"
  using source_read [of tr s] source_read [of tr "known_source s'"] by (auto simp: only_check_def r_bind_def)

lemma breakpoint_accepted [simp]: "breakpoint_from_json (breakpoint_to_json b) = Inr ()"
  unfolding breakpoint_from_json_def
  by (rule fields_accepted) (auto simp: breakpoint_to_json_def map_add_def name_accepted
      breakpoint_reason_from_json_def split: option.splits if_splits)

lemma stack_frame_accepted [simp]: "stack_frame_from_json (stack_frame_to_json f) = Inr ()"
  unfolding stack_frame_from_json_def
  by (rule fields_accepted) (auto simp: stack_frame_to_json_def map_add_def split: option.splits if_splits)

lemma hint_accepted [simp]: "scope_presentation_hint_from_json (scope_hint_to_json h) = Inr ()"
  by (rule all_values [of _ h]) (simp add: enumerations scope_presentation_hint_from_json_def name_accepted)

lemma scope_accepted [simp]: "scope_from_json (scope_to_json sc) = Inr ()"
  unfolding scope_from_json_def
  by (rule fields_accepted) (auto simp: scope_to_json_def map_add_def split: option.splits if_splits)

lemma variable_accepted [simp]: "variable_from_json (variable_to_json x) = Inr ()"
  unfolding variable_from_json_def
  by (rule fields_accepted) (auto simp: variable_to_json_def map_add_def split: option.splits if_splits)

lemma module_accepted [simp]: "module_from_json (module_to_json m) = Inr ()"
  unfolding module_from_json_def
  by (rule fields_accepted) (auto simp: module_to_json_def split: if_splits)

lemma thread_accepted [simp]: "thread_from_json (thread_to_json t) = Inr ()"
  unfolding thread_from_json_def
  by (rule fields_accepted) (auto simp: thread_to_json_def split: if_splits)

lemma instruction_accepted [simp]: "disassembled_instruction_from_json (instruction_to_json i) = Inr ()"
  unfolding disassembled_instruction_from_json_def
  by (rule fields_accepted) (auto simp: instruction_to_json_def map_add_def name_accepted
      disassembled_instruction_presentation_hint_from_json_def split: option.splits if_splits)

lemma filter_accepted [simp]: "exception_breakpoints_filter_from_json (filter_to_json name) = Inr ()"
  unfolding exception_breakpoints_filter_from_json_def
  by (rule fields_accepted) (auto simp: filter_to_json_def split: if_splits)

section \<open>Bodies\<close>

lemma flag_read: "map_of (map (\<lambda>k. (k, x)) ks) key = Some v \<Longrightarrow> v = x \<and> key \<in> set ks"
  by (induction ks) (auto split: if_splits)

lemma capabilities_accepted:
  assumes "\<forall>k \<in> set (supported @ unsupported). k \<notin> set structured_capabilities"
  shows "capabilities_from_json (capabilities_to_json supported unsupported filters) = Inr ()"
proof -
  have "check_bool v = Inr ()" if "find_key (capabilities_to_json supported unsupported filters) key = Some v"
    "key \<noteq> ''exceptionBreakpointFilters''" for key v
    using that by (auto simp: capabilities_to_json_def map_add_def dest!: flag_read split: option.splits)
  moreover have "find_key (capabilities_to_json supported unsupported filters) ''exceptionBreakpointFilters''
      = Some (json_list filter_to_json filters)"
    using assms by (auto simp: capabilities_to_json_def map_add_def structured_capabilities_def
        dest!: flag_read split: option.splits)
  moreover have "find_key (capabilities_to_json supported unsupported filters) key = None"
    if "key \<in> set structured_capabilities" "key \<noteq> ''exceptionBreakpointFilters''" for key
    using assms that by (auto simp: capabilities_to_json_def map_add_def
        dest!: flag_read split: option.splits)
  ultimately show ?thesis
    unfolding capabilities_from_json_def by (intro fields_accepted) (simp add: structured_capabilities_def)
qed

lemma response_accepted:
  "(\<And>v. b = Some v \<Longrightarrow> f v = Inr ()) \<Longrightarrow> check_fields (response_to_json q ok c b) (response_fields f) = Inr ()"
  by (rule fields_accepted) (auto simp: response_to_json_def response_fields_def map_add_def name_accepted
      protocol_message_type_from_json_def split: if_splits option.splits)

lemma absent_body_accepted: "check_fields (response_to_json q ok c None) (response_fields f) = Inr ()"
  by (rule response_accepted) simp

lemma body_accepted: "f v = Inr () \<Longrightarrow> check_fields (response_to_json q ok c (Some v)) (response_fields f) = Inr ()"
  by (rule response_accepted) simp

lemmas response_conversion_defs =
  attach_response_from_json_def breakpoint_locations_response_from_json_def
  cancel_response_from_json_def completions_response_from_json_def
  configuration_done_response_from_json_def continue_response_from_json_def
  data_breakpoint_info_response_from_json_def disassemble_response_from_json_def
  disconnect_response_from_json_def evaluate_response_from_json_def
  exception_info_response_from_json_def goto_response_from_json_def
  goto_targets_response_from_json_def initialize_response_from_json_def
  launch_response_from_json_def loaded_sources_response_from_json_def
  locations_response_from_json_def modules_response_from_json_def next_response_from_json_def
  pause_response_from_json_def read_memory_response_from_json_def restart_response_from_json_def
  restart_frame_response_from_json_def reverse_continue_response_from_json_def
  run_in_terminal_response_from_json_def scopes_response_from_json_def
  set_breakpoints_response_from_json_def set_data_breakpoints_response_from_json_def
  set_exception_breakpoints_response_from_json_def set_expression_response_from_json_def
  set_function_breakpoints_response_from_json_def
  set_instruction_breakpoints_response_from_json_def set_variable_response_from_json_def
  source_response_from_json_def stack_trace_response_from_json_def
  start_debugging_response_from_json_def step_back_response_from_json_def
  step_in_response_from_json_def step_in_targets_response_from_json_def
  step_out_response_from_json_def terminate_response_from_json_def
  terminate_threads_response_from_json_def threads_response_from_json_def
  variables_response_from_json_def write_memory_response_from_json_def

lemmas response_body_defs =
  breakpoint_locations_response_body_from_json_def completions_response_body_from_json_def
  continue_response_body_from_json_def data_breakpoint_info_response_body_from_json_def
  disassemble_response_body_from_json_def evaluate_response_body_from_json_def
  exception_info_response_body_from_json_def goto_targets_response_body_from_json_def
  loaded_sources_response_body_from_json_def locations_response_body_from_json_def
  modules_response_body_from_json_def read_memory_response_body_from_json_def
  run_in_terminal_response_body_from_json_def scopes_response_body_from_json_def
  set_breakpoints_response_body_from_json_def set_data_breakpoints_response_body_from_json_def
  set_exception_breakpoints_response_body_from_json_def set_expression_response_body_from_json_def
  set_function_breakpoints_response_body_from_json_def
  set_instruction_breakpoints_response_body_from_json_def set_variable_response_body_from_json_def
  source_response_body_from_json_def stack_trace_response_body_from_json_def
  step_in_targets_response_body_from_json_def threads_response_body_from_json_def
  variables_response_body_from_json_def write_memory_response_body_from_json_def
  capabilities_from_json_def

lemma conversion_accepts_absent:
  "list_all (\<lambda>(name, conversion). \<forall>q ok c. conversion (response_to_json q ok c None) = Inr ()) response_conversions"
  by (simp add: response_conversions_def response_conversion_defs absent_body_accepted)

lemma conversion_accepts_error:
  "list_all (\<lambda>(name, conversion). \<forall>q ok c m. conversion (response_to_json q ok c (Some (error_body m))) = Inr ())
     response_conversions"
proof -
  have "find_key (error_body m) key = None" if "key \<noteq> ''error''" for m key
    using that by (simp add: error_body_def)
  then show ?thesis
    by (simp add: response_conversions_def response_conversion_defs body_accepted response_body_defs
        field_def r_bind_def)
qed

definition accepts :: "(json \<Rightarrow> string + unit) \<Rightarrow> response_body \<Rightarrow> bool" where
  "accepts f b \<longleftrightarrow> (\<forall>v. body_to_json b = Some v \<longrightarrow> f v = Inr ())"

lemma conversion_accepts:
  "accepts f b \<Longrightarrow> check_fields (response_to_json q ok c (body_to_json b)) (response_fields f) = Inr ()"
  by (rule response_accepted) (simp add: accepts_def)

lemma accepts_fields:
  "(\<And>j. f j = check_fields j fs) \<Longrightarrow> body_to_json b = Some v
   \<Longrightarrow> list_all (\<lambda>(key, g). \<forall>x. find_key v key = Some x \<longrightarrow> g x = Inr ()) fs \<Longrightarrow> accepts f b"
  using fields_accepted by (simp add: accepts_def)

lemma list_bodies_accepted:
  "accepts threads_response_body_from_json (Threads_Body ts)"
  "accepts stack_trace_response_body_from_json (Stack_Trace_Body fs n)"
  "accepts scopes_response_body_from_json (Scopes_Body ss)"
  "accepts variables_response_body_from_json (Variables_Body vs)"
  "accepts disassemble_response_body_from_json (Disassemble_Body xs)"
  "accepts modules_response_body_from_json (Modules_Body ms n)"
  "accepts set_breakpoints_response_body_from_json (Breakpoints_Body bs)"
  "accepts set_function_breakpoints_response_body_from_json (Breakpoints_Body bs)"
  "accepts set_instruction_breakpoints_response_body_from_json (Breakpoints_Body bs)"
  "accepts set_data_breakpoints_response_body_from_json (Breakpoints_Body bs)"
  "accepts set_exception_breakpoints_response_body_from_json (Breakpoints_Body bs)"
  by (rule accepts_fields, rule response_body_defs, auto split: if_splits)+

lemma value_bodies_accepted:
  "accepts continue_response_body_from_json (Continue_Body b)"
  "accepts evaluate_response_body_from_json (Evaluate_Body result r)"
  "accepts write_memory_response_body_from_json (Write_Body n)"
  "accepts source_response_body_from_json (Source_Body t)"
  "accepts set_expression_response_body_from_json (Set_Expression_Body v ty)"
  "accepts set_variable_response_body_from_json (Set_Variable_Body v ty r' n' m)"
  "accepts read_memory_response_body_from_json (Memory_Body address d unreadable)"
  by (rule accepts_fields, rule response_body_defs,
      auto simp: map_add_def set_variable_body_to_json_def memory_body_to_json_def split: if_splits option.splits)+

lemma data_info_accepted:
  "accepts data_breakpoint_info_response_body_from_json (Data_Info_Body i d)"
proof -
  have "check_list data_breakpoint_access_type_from_json (json_list J_String [''write'', ''readWrite'']) = Inr ()"
    by (simp add: data_breakpoint_access_type_from_json_def json_list_def check_list_def only_check_def
        name_accepted r_bind_def)
  then show ?thesis
    by (rule_tac accepts_fields, rule_tac response_body_defs) (auto simp: data_info_body_to_json_def split: if_splits)
qed

lemma exception_accepted: "accepts exception_info_response_body_from_json (Exception_Body i d b m)"
proof -
  have "exception_details_from_json (J_Object [(''message'', J_String m)]) = Inr ()"
    by (simp add: exception_details_from_json.simps strings_def only_check_def field_def r_bind_def)
  then show ?thesis
    by (rule_tac accepts_fields, rule_tac response_body_defs)
      (auto simp: exception_body_to_json_def exception_break_mode_from_json_def name_accepted split: if_splits)
qed

lemma capabilities_body_accepted:
  "suits c (Capabilities_Body supported unsupported filters)
   \<Longrightarrow> accepts capabilities_from_json (Capabilities_Body supported unsupported filters)"
  by (simp add: accepts_def capabilities_accepted)

lemmas bodies_accepted =
  list_bodies_accepted value_bodies_accepted data_info_accepted exception_accepted capabilities_body_accepted

text \<open>Whatever a command is, its conversion accepts the bodies that suit it.\<close>

lemma suited_response_accepted:
  assumes "suits c b" "map_of response_conversions c = Some conversion"
  shows "conversion (response_to_json q ok c (body_to_json b)) = Inr ()"
proof (cases b)
  case No_Body
  then show ?thesis using conversion_accepts_absent map_of_SomeD [OF assms(2)] by (auto simp: list_all_iff)
next
  case (Capabilities_Body supported unsupported filters)
  then show ?thesis
    using assms conversion_accepts [OF capabilities_body_accepted [of c]]
    by (auto simp: response_conversions_def response_conversion_defs)
qed (use assms in \<open>auto simp: response_conversions_def response_conversion_defs conversion_accepts
        bodies_accepted simp del: body_to_json.simps\<close>)

section \<open>Messages\<close>

lemma table_accepts:
  "(\<And>conversion. map_of table name = Some conversion \<Longrightarrow> conversion m = Inr ()) \<Longrightarrow>
   (case map_of table name of None \<Rightarrow> w_ret ()
    | Some conversion \<Rightarrow> serve_request (conversion m) (\<lambda>u. w_ret ())) = w_ret ()"
  by (cases "map_of table name") (simp_all add: serve_request_def)

lemma handles_response:
  assumes "\<And>conversion. map_of response_conversions c = Some conversion \<Longrightarrow> conversion (response_to_json q ok c b) = Inr ()"
  shows "handle L dump tr (response_to_json q ok c b) = w_ret ()"
proof -
  let ?j = "response_to_json q ok c b"
  have "string_value ?j ''type'' = Inr ''response''" "string_value ?j ''command'' = Inr c"
    by (simp_all add: response_to_json_def string_value_def)
  then show ?thesis
    using table_accepts [of response_conversions c ?j] assms
    unfolding handle_def dispatch_response_def default_response_handler_def by (simp add: serve_request_def)
qed

lemma stop_reason_accepted [simp]: "stopped_event_body_reason_from_json (enum_to_json stop_reasons r) = Inr ()"
  by (rule all_values [of _ r])
    (simp add: enumerations enum_to_json_def stop_reasons_def stopped_event_body_reason_from_json_def name_accepted)

lemma thread_reason_accepted [simp]: "thread_event_body_reason_from_json (thread_reason_to_json r) = Inr ()"
  by (rule all_values [of _ r]) (simp add: enumerations thread_event_body_reason_from_json_def name_accepted)

lemma start_method_accepted [simp]: "process_event_body_start_method_from_json (start_method_to_json m) = Inr ()"
  by (rule all_values [of _ m]) (simp add: enumerations process_event_body_start_method_from_json_def name_accepted)

lemma category_accepted [simp]: "output_event_body_category_from_json (category_to_json c) = Inr ()"
  by (rule all_values [of _ c]) (simp add: enumerations output_event_body_category_from_json_def name_accepted)

lemmas event_conversion_defs =
  process_event_from_json_def stopped_event_from_json_def continued_event_from_json_def
  output_event_from_json_def exited_event_from_json_def thread_event_from_json_def
  initialized_event_from_json_def terminated_event_from_json_def

lemmas event_body_defs =
  process_event_body_from_json_def stopped_event_body_from_json_def continued_event_body_from_json_def
  output_event_body_from_json_def exited_event_body_from_json_def thread_event_body_from_json_def
  terminated_event_body_from_json_def

definition accepts_event :: "(json \<Rightarrow> string + unit) \<Rightarrow> dap_event \<Rightarrow> bool" where
  "accepts_event f e \<longleftrightarrow> (\<forall>v. event_body_to_json e = Some v \<longrightarrow> f v = Inr ())"

lemma event_accepts_fields:
  "(\<And>j. f j = check_fields j fs) \<Longrightarrow> event_body_to_json e = Some v
   \<Longrightarrow> list_all (\<lambda>(key, g). \<forall>x. find_key v key = Some x \<longrightarrow> g x = Inr ()) fs \<Longrightarrow> accepts_event f e"
  using fields_accepted by (simp add: accepts_event_def)

lemma event_bodies_accepted:
  "accepts_event process_event_body_from_json (Process_Event name process_id method)"
  "accepts_event stopped_event_body_from_json (Stopped_Event reason description thread_id ids)"
  "accepts_event continued_event_body_from_json (Continued_Event t all)"
  "accepts_event output_event_body_from_json (Output_Event m category)"
  "accepts_event exited_event_body_from_json (Exited_Event code)"
  "accepts_event thread_event_body_from_json (Thread_Event thread_reason t)"
  by (rule event_accepts_fields, rule event_body_defs,
      auto simp: map_add_def process_body_to_json_def stopped_body_to_json_def split: if_splits option.splits)+

lemma bodiless_events_accepted:
  "accepts_event any_value Initialized_Event" "accepts_event terminated_event_body_from_json Terminated_Event"
  by (simp_all add: accepts_event_def)

lemma event_accepted:
  "accepts_event f e \<Longrightarrow> check_fields (event_to_json e) (event_fields f) = Inr ()"
  by (rule fields_accepted) (auto simp: accepts_event_def event_to_json_def event_fields_def map_add_def
      name_accepted protocol_message_type_from_json_def split: if_splits option.splits)

lemma event_conversion_accepts:
  assumes "map_of event_conversions (event_name e) = Some conversion"
  shows "conversion (event_to_json e) = Inr ()"
  using assms by (cases e) (auto simp: event_conversions_def event_conversion_defs event_accepted
      event_bodies_accepted bodiless_events_accepted)

lemma handles_event: "handle L dump tr (event_to_json e) = w_ret ()"
proof -
  have "string_value (event_to_json e) ''type'' = Inr ''event''"
    "string_value (event_to_json e) ''event'' = Inr (event_name e)"
    by (simp_all add: event_to_json_def string_value_def)
  then show ?thesis
    using table_accepts [of event_conversions "event_name e" "event_to_json e"] event_conversion_accepts [of e]
    unfolding handle_def dispatch_event_def default_event_handler_def by (simp add: serve_request_def)
qed

lemma fitting_message_accepted: "fits m \<Longrightarrow> handle L dump tr (message_to_json m) = w_ret ()"
proof (cases m)
  case (Error_Response q c e)
  then show ?thesis
    using conversion_accepts_error by (auto simp: list_all_iff intro!: handles_response dest!: map_of_SomeD)
qed (auto intro!: handles_response handles_event suited_response_accepted)

lemma conversation_fits: "conversation L dump tr rs s \<Longrightarrow> list_all fits (server.outbound s)"
proof (induction rule: conversation.induct)
  case opened
  then show ?case by (simp add: Server_State.new_server_def)
next
  case (request_handled rs s root r s')
  then show ?case using grows_fitting [OF grows_handle_request] by blast
next
  case (wait_loop_stepped rs s r s')
  then show ?case using grows_fitting [OF grows_blocks(11)] by blast
qed

section \<open>Property\<close>

text \<open>
  C4. What the service sends is well typed: whatever requests a client sends, with steps of the wait
  loop's thread between them, every message that the service has sent converts back without
  an error when the dispatcher of the receiving side handles its JSON: an event by the conversion
  of its name, and a response by the one of its command.
\<close>

theorem sent_messages_conform:
  assumes "conversation L dump tr rs s" "m \<in> set (server.outbound s)"
  shows "handle L' dump' tr' (message_to_json m) = w_ret ()"
  using conversation_fits [OF assms(1)] assms(2)
  by (auto simp: list_all_iff intro: fitting_message_accepted)

theorem sent_messages_conform_witness:
  "\<exists>s. conversation script_target (\<lambda>j. []) (\<lambda>f. 0) [done_request] s
     \<and> server.outbound s = [Response 7 ''configurationDone'' No_Body]
     \<and> handle script_target (\<lambda>j. []) (\<lambda>f. 0) done_response = w_ret ()"
proof -
  obtain r s' where h: "handle_request script_target (\<lambda>j. []) (\<lambda>f. 0) done_request Server_State.new_server
      = Some (r, s')" "server.outbound s' = [Response 7 ''configurationDone'' No_Body]"
    using done_request_answered by blast
  have c: "conversation script_target (\<lambda>j. []) (\<lambda>f. 0) [done_request] s'"
    using request_handled [OF opened h(1)] by simp
  show ?thesis
    using sent_messages_conform [OF c, of "Response 7 ''configurationDone'' No_Body"] c h(2)
    unfolding done_response_def by auto
qed

end
