(* ===== verification/Program.thy ===== *)
theory Program
  imports Conformance "HOL-Library.Sublist"
begin

text \<open>
  The process (src/src/main.cpp): the listing of processes for a picker, and the adapter, which
  joins the parts: the transport's loop hands every request to the service, and what the
  service sends goes out through the transport's writer.  The steps that the wait loop's
  thread takes between two requests are a parameter, the number of steps before each
  request (\<open>schedule\<close>).  Logging and the mode of the standard streams are left out.
\<close>

section \<open>Listing processes\<close>

fun flag_value :: "string list \<Rightarrow> string \<Rightarrow> string option" where
  "flag_value (a # b # args) name = (if a = name then Some b else flag_value (b # args) name)"
| "flag_value args name = None"

definition process_to_json :: "u32 \<times> string \<Rightarrow> json" where
  "process_to_json p =
     J_Object [(''systemId'', J_Int (uint (fst p))), (''name'', J_String (snd p)), (''description'', J_String [])]"

definition failure_to_json :: "string \<Rightarrow> json" where
  "failure_to_json m = J_Object [(''error'', J_String m)]"

definition locating_failure :: string where
  "locating_failure =
     ''Could not locate dbgeng.dll. Pass --dbgeng or install the Windows SDK Debugging Tools.''"

text \<open>How the process ends: with an exit code and what it has printed, or by an exception that nothing catches.\<close>

datatype process_end = Exits int string | Dies exn

definition print_line :: "(json \<Rightarrow> exn + string) \<Rightarrow> json \<Rightarrow> int \<Rightarrow> exn + process_end" where
  "print_line serialize j code = (case serialize j of Inl e \<Rightarrow> Inl e | Inr t \<Rightarrow> Inr (Exits code (t @ [LF])))"

definition listed_processes :: "'e connector \<Rightarrow> string option \<Rightarrow> string \<Rightarrow> exn + (u32 \<times> string) list" where
  "listed_processes C connection engine_path =
     (case open_session C engine_path of
        Inl e \<Rightarrow> Inl e
      | Inr x \<Rightarrow>
          fst (act_then
                 (case connection of None \<Rightarrow> ret () | Some c \<Rightarrow> if c = [] then ret () else connect_process_server C c)
                 (list_processes C) x))"

definition run_list_processes :: "'e connector \<Rightarrow> (json \<Rightarrow> exn + string) \<Rightarrow> string list \<Rightarrow> process_end" where
  "run_list_processes C serialize args =
     (let attempt =
        (case try_resolve_debugger_engine_path C (flag_value args ''--dbgeng'') of
           None \<Rightarrow> print_line serialize (failure_to_json locating_failure) 1
         | Some engine_path \<Rightarrow>
             (case listed_processes C (flag_value args ''--connection'') engine_path of
                Inl e \<Rightarrow> Inl e
              | Inr ps \<Rightarrow> print_line serialize (J_Array (map process_to_json ps)) 0))
      in case attempt of
           Inr ended \<Rightarrow> ended
         | Inl e \<Rightarrow>
             (case print_line serialize (failure_to_json (what e)) 1 of Inr ended \<Rightarrow> ended | Inl e' \<Rightarrow> Dies e'))"

section \<open>The adapter\<close>

text \<open>Steps of the wait loop's thread; a thread that waits forever takes no further one.\<close>

fun worker_steps :: "'e target \<Rightarrow> nat \<Rightarrow> 'e server \<Rightarrow> 'e server" where
  "worker_steps L 0 s = s"
| "worker_steps L (Suc n) s = (case loop_step L s of None \<Rightarrow> s | Some (r, s') \<Rightarrow> worker_steps L n s')"

text \<open>What was sent since an earlier state.\<close>

definition sent_since :: "'e server \<Rightarrow> 'e server \<Rightarrow> json list" where
  "sent_since s s' = map message_to_json (drop (length (server.outbound s)) (server.outbound s'))"

definition next_steps :: "nat list \<Rightarrow> nat" where
  "next_steps schedule = (case schedule of [] \<Rightarrow> 0 | n # rest \<Rightarrow> n)"

definition serve_message ::
    "'e target \<Rightarrow> (json \<Rightarrow> string) \<Rightarrow> (string \<Rightarrow> int) \<Rightarrow> json \<Rightarrow> 'e server \<times> nat list
     \<Rightarrow> ((exn + bool) \<times> json list \<times> 'e server \<times> nat list) option" where
  "serve_message L dump tr m st =
     (case st of (s, schedule) \<Rightarrow>
        (case handle_request L dump tr m (worker_steps L (next_steps schedule) s) of
           None \<Rightarrow> None
         | Some (r, s') \<Rightarrow> Some (r, sent_since s s', s', tl schedule)))"

text \<open>
  \<open>io_stream_server::run\<close> on the service: the loop's thread may still send while the last read waits,
  until the queue is closed.
\<close>

definition run_adapter ::
    "(string \<Rightarrow> exn + json) \<Rightarrow> (json \<Rightarrow> exn + string) \<Rightarrow> file_system \<Rightarrow> 'e target \<Rightarrow> (json \<Rightarrow> string) \<Rightarrow> (string \<Rightarrow> int)
     \<Rightarrow> nat list \<Rightarrow> string
     \<Rightarrow> (exn option \<times> writer_end \<times> 'e server \<times> io_stream_server) option" where
  "run_adapter parse serialize fs L dump tr schedule input =
     (case request_loop parse fs (serve_message L dump tr) input (Server_State.new_server, schedule)
             (Transport.new_server (Some new_recorder)) of
        None \<Rightarrow> None
      | Some (e, (s, rest), io) \<Rightarrow>
          (let s' = worker_steps L (next_steps rest) s;
               io' = fold send (sent_since s s') io
           in case writer_loop serialize (io'\<lparr>io_stream_server.outbound := close (io_stream_server.outbound io')\<rparr>) of
                (w, io'') \<Rightarrow> Some (e, w, s', io'')))"

text \<open>\<open>dap_server::~dap_server\<close>; what it still sends meets a closed queue.\<close>

definition destroy_server :: "'e target \<Rightarrow> ('e server, unit) wact" where
  "destroy_server L = w_then (dispose_debugger_session L) (join_wait_loop L)"

text \<open>
  The end of the process and the trace file; \<open>None\<close> is a process that never ends.  An exception in
  the loop or in the writer's thread ends it at once.
\<close>

definition run_dap_server ::
    "(string \<Rightarrow> exn + json) \<Rightarrow> (json \<Rightarrow> exn + string) \<Rightarrow> (json \<Rightarrow> exn + string) \<Rightarrow> file_system \<Rightarrow> 'e target
     \<Rightarrow> (json \<Rightarrow> string) \<Rightarrow> (string \<Rightarrow> int) \<Rightarrow> nat list \<Rightarrow> string
     \<Rightarrow> (process_end \<times> (string \<times> string) option) option" where
  "run_dap_server parse serialize serialize2 fs L dump tr schedule input =
     (case run_adapter parse serialize fs L dump tr schedule input of
        None \<Rightarrow> None
      | Some (Some e, w, s, io) \<Rightarrow> Some (Dies e, None)
      | Some (None, Writer_Dead e, s, io) \<Rightarrow> Some (Dies e, None)
      | Some (None, w, s, io) \<Rightarrow>
          (case destroy_server L s of
             None \<Rightarrow> None
           | Some (Inl e, s') \<Rightarrow> Some (Dies e, None)
           | Some (Inr u, s') \<Rightarrow>
               Some (Exits 0 (out io),
                 case trace io of None \<Rightarrow> None | Some r \<Rightarrow> fst (destroy_recorder fs serialize2 r))))"

definition main_program ::
    "(string \<Rightarrow> exn + json) \<Rightarrow> (json \<Rightarrow> exn + string) \<Rightarrow> (json \<Rightarrow> exn + string) \<Rightarrow> file_system \<Rightarrow> 'e target
     \<Rightarrow> (json \<Rightarrow> string) \<Rightarrow> (string \<Rightarrow> int) \<Rightarrow> nat list \<Rightarrow> string list \<Rightarrow> string
     \<Rightarrow> (process_end \<times> (string \<times> string) option) option" where
  "main_program parse serialize serialize2 fs L dump tr schedule args input =
     (if ''--list-processes'' \<in> set args then Some (run_list_processes (connector_of L) serialize args, None)
      else run_dap_server parse serialize serialize2 fs L dump tr schedule input)"

section \<open>Requests in, answers out\<close>

lemma conversation_steps:
  "conversation L dump tr rs s \<Longrightarrow> conversation L dump tr rs (worker_steps L n s)"
  by (induction n arbitrary: s) (auto split: option.split dest: wait_loop_stepped)

lemma grows_prefix: "grows m \<Longrightarrow> m s = Some (r, s') \<Longrightarrow> prefix (server.outbound s) (server.outbound s')"
  by (metis grows_messages prefixI)

lemma worker_steps_prefix: "prefix (server.outbound s) (server.outbound (worker_steps L n s))"
proof (induction n arbitrary: s)
  case 0
  show ?case by simp
next
  case (Suc n)
  show ?case
  proof (cases "loop_step L s")
    case None
    then show ?thesis by simp
  next
    case (Some y)
    then have "prefix (server.outbound s) (server.outbound (snd y))"
      using grows_prefix [OF grows_blocks(11), of L s "fst y" "snd y"] by simp
    then show ?thesis using Suc Some by (cases y) (auto intro: prefix_order.order_trans)
  qed
qed

lemma sent_since_prefix:
  "prefix (server.outbound s) (server.outbound s') \<Longrightarrow>
   map message_to_json (server.outbound s') = map message_to_json (server.outbound s) @ sent_since s s'"
  by (auto simp: sent_since_def prefix_def)

text \<open>The queue of the transport follows the service.\<close>

definition in_step :: "(json \<Rightarrow> exn + string) \<Rightarrow> 'e server \<Rightarrow> io_stream_server \<Rightarrow> bool" where
  "in_step serialize s io \<longleftrightarrow>
     wire_inv serialize io (map message_to_json (server.outbound s)) \<and> \<not> closed (io_stream_server.outbound io)"

lemma wire_inv_sends:
  "wire_inv serialize io xs \<Longrightarrow> \<not> closed (io_stream_server.outbound io) \<Longrightarrow>
   wire_inv serialize (fold send ys io) (xs @ ys) \<and> \<not> closed (io_stream_server.outbound (fold send ys io))"
proof (induction ys arbitrary: io xs)
  case Nil
  then show ?case by simp
next
  case (Cons y ys)
  then show ?case
    using Cons.IH [of "send y io" "xs @ [y]"] wire_inv_send [OF Cons.prems, of y] by (simp add: send_def push_def)
qed

lemma in_step_sends:
  "in_step serialize s io \<Longrightarrow> prefix (server.outbound s) (server.outbound s') \<Longrightarrow>
   in_step serialize s' (fold send (sent_since s s') io)"
  using wire_inv_sends [of serialize io "map message_to_json (server.outbound s)" "sent_since s s'"]
  by (simp add: in_step_def sent_since_prefix)

lemma in_step_traced [simp]: "in_step serialize s (io\<lparr>trace := r\<rparr>) = in_step serialize s io"
  by (simp add: in_step_def wire_inv_def)

lemma serve_message_step:
  assumes "conversation L dump tr past s" "proper_request m"
    and "serve_message L dump tr m (s, schedule) = Some (r, sent, s', rest)"
  shows "conversation L dump tr (past @ [m]) s' \<and> r = Inr (should_exit s')
    \<and> sent = sent_since s s' \<and> prefix (server.outbound s) (server.outbound s')"
proof -
  let ?t = "worker_steps L (next_steps schedule) s"
  have h: "handle_request L dump tr m ?t = Some (r, s')" "sent = sent_since s s'"
    using assms(3) by (auto simp: serve_message_def split: option.splits)
  have c: "conversation L dump tr (past @ [m]) s'"
    by (rule request_handled [OF conversation_steps [OF assms(1)] h(1)])
  obtain n c where root: "find_key m ''type'' = Some (J_String ''request'')" "find_key m ''seq'' = Some (J_Int n)"
      "find_key m ''command'' = Some (J_String c)" "c \<noteq> []" "c \<noteq> ''<unknown>''"
    using assms(2) by (auto simp: proper_request_def request_of_def split: option.splits json.splits)
  have "prefix (server.outbound ?t) (server.outbound s')"
    by (rule grows_prefix [OF grows_handle_request h(1)])
  then have "prefix (server.outbound s) (server.outbound s')"
    using worker_steps_prefix prefix_order.order_trans by blast
  then show ?thesis using c h(2) request_answered [OF root h(1)] by blast
qed

lemma requests_served:
  assumes "serve fs (serve_message L dump tr) ms (s, schedule) io = Some (e, (s', rest), io')"
    and "\<forall>m \<in> set ms. proper_request m" "conversation L dump tr past s" "in_step serialize s io"
  shows "e = None \<and> in_step serialize s' io'
    \<and> (\<exists>served left. ms = served @ left \<and> conversation L dump tr (past @ served) s' \<and> (left = [] \<or> served \<noteq> [] \<and> should_exit s'))"
  using assms
proof (induction ms arbitrary: s schedule io past)
  case Nil
  then show ?case by auto
next
  case (Cons m ms)
  have t: "value_string m ''type'' = Inr ''request''"
    using Cons.prems(2) by (cases m) (auto simp: value_string_def proper_request_def)
  let ?io = "io\<lparr>trace := map_option (record_input fs m) (trace io)\<rparr>"
  obtain r sent t rest' where h: "serve_message L dump tr m (s, schedule) = Some (r, sent, t, rest')"
    using Cons.prems(1) t by (auto simp: Let_def split: option.splits)
  note step = serve_message_step [OF Cons.prems(3) _ h]
  have p: "proper_request m" using Cons.prems(2) by simp
  have io: "in_step serialize t (fold send sent ?io)"
    using in_step_sends [of serialize s ?io t] step [OF p] Cons.prems(4) by simp
  show ?case
  proof (cases "should_exit t")
    case True
    then have "e = None" "s' = t" "io' = fold send sent ?io"
      using Cons.prems(1) t h step [OF p] by (auto simp: Let_def)
    then show ?thesis using True io step [OF p] by (intro conjI exI [of _ "[m]"] exI [of _ ms]) auto
  next
    case False
    then have "serve fs (serve_message L dump tr) ms (t, rest') (fold send sent ?io) = Some (e, (s', rest), io')"
      using Cons.prems(1) t h step [OF p] by (auto simp: Let_def)
    from Cons.IH [OF this _ conjunct1 [OF step [OF p]] io] Cons.prems(2)
    obtain served left where "e = None" "in_step serialize s' io'" "ms = served @ left"
        "conversation L dump tr (past @ [m] @ served) s'" "left = [] \<or> served \<noteq> [] \<and> should_exit s'" by auto
    then show ?thesis by (intro conjI exI [of _ "m # served"] exI [of _ left]) auto
  qed
qed

section \<open>Properties\<close>

text \<open>
  C1. The adapter from its input to its output: on the framed bytes of any requests, whatever steps the
  wait loop's thread takes between them, a run of the adapter that comes to its end ends
  without an exception, has written everything, and a client that reads the bytes
  finds, among the messages, exactly one response to each request that was served, in
  order; these are all requests, or those up to one that ends the session.
\<close>

theorem adapter_answers_requests:
  assumes "run_adapter parse serialize fs L dump tr schedule (frames client rs) = Some (e, w, s, io)"
    and "\<forall>m \<in> set rs. proper_request m \<and> faithful client parse m"
    and "\<forall>m \<in> set (numbered 1 (map message_to_json (server.outbound s))). faithful serialize client_parse m"
  shows "e = None \<and> w = Writer_Done
    \<and> (\<exists>served left. rs = served @ left
        \<and> filter (\<lambda>a. a \<noteq> None) (map answer_of (fst (read_all client_parse (out io)))) = map request_of served
        \<and> (left = [] \<or> served \<noteq> [] \<and> (\<exists>t n. should_exit t \<and> s = worker_steps L n t)))"
proof -
  let ?serve = "serve_message L dump tr"
  have loop: "request_loop parse fs ?serve (frames client rs) st i = serve fs ?serve rs st i" for st i
    by (rule request_loop_frames) (use assms(2) in blast)
  obtain t rest i where t: "serve fs ?serve rs (Server_State.new_server, schedule) (Transport.new_server (Some new_recorder))
      = Some (e, (t, rest), i)" "s = worker_steps L (next_steps rest) t"
    and w: "writer_loop serialize ((fold send (sent_since t s) i)\<lparr>io_stream_server.outbound :=
        close (io_stream_server.outbound (fold send (sent_since t s) i))\<rparr>) = (w, io)"
    using assms(1) unfolding run_adapter_def loop by (auto simp: Let_def split: option.splits prod.splits)
  have "in_step serialize Server_State.new_server (Transport.new_server (Some new_recorder))"
    using wire_inv_new [of serialize "Some new_recorder"]
    by (simp add: in_step_def Server_State.new_server_def Transport.new_server_def new_channel_def)
  from requests_served [OF t(1) _ opened this] assms(2)
  obtain served left where served: "e = None" "in_step serialize t i" "rs = served @ left"
      "conversation L dump tr served t" "left = [] \<or> served \<noteq> [] \<and> should_exit t" by auto
  have c: "conversation L dump tr served s" unfolding t(2) by (rule conversation_steps [OF served(4)])
  have "in_step serialize s (fold send (sent_since t s) i)"
    unfolding t(2) by (rule in_step_sends [OF served(2) worker_steps_prefix])
  then have sent: "wire_inv serialize ((fold send (sent_since t s) i)\<lparr>io_stream_server.outbound :=
      close (io_stream_server.outbound (fold send (sent_since t s) i))\<rparr>) (map message_to_json (server.outbound s))"
    by (simp add: in_step_def wire_inv_def close_def)
  have ok: "sendable serialize client_parse (map message_to_json (server.outbound s))"
    using assms(3) by (simp add: sendable_def message_is_object)
  have "w = Writer_Done" and "out io = frames serialize (numbered 1 (map message_to_json (server.outbound s)))"
    using writer_loop_drains [OF ok sent] w by (auto simp: close_def)
  moreover have "map answered (responses s) = map request_of served"
    using conversation_answered [OF c] assms(2) served(3) by auto
  ultimately show ?thesis
    using served(1,3,5) t(2) messages_read [OF assms(3)] by auto
qed

theorem adapter_answers_requests_witness:
  "\<exists>e w s io. run_adapter (\<lambda>b. Inr done_request) (\<lambda>m. Inr ''{}'') plain_fs script_target (\<lambda>j. []) (\<lambda>f. 0)
       [] (frames (\<lambda>m. Inr ''{}'') [done_request]) = Some (e, w, s, io)
     \<and> filter (\<lambda>a. a \<noteq> None) (map answer_of (fst (read_all (\<lambda>b. Inr (wire_form 1 done_response)) (out io))))
         = [Some (7, ''configurationDone'')]"
proof -
  let ?dump = "\<lambda>m. Inr ''{}''" and ?io = "Transport.new_server (Some new_recorder)"
  let ?serve = "serve_message script_target (\<lambda>j. []) (\<lambda>f. 0)"
  obtain r s' where h: "handle_request script_target (\<lambda>j. []) (\<lambda>f. 0) done_request Server_State.new_server
      = Some (r, s')" "server.outbound s' = [Response 7 ''configurationDone'' No_Body]"
    using done_request_answered by blast
  have "?serve done_request (Server_State.new_server, []) = Some (r, [done_response], s', [])"
    using h by (simp add: serve_message_def next_steps_def sent_since_def Server_State.new_server_def done_response_def)
  moreover have "r = Inr (should_exit s')"
    using request_answered [of done_request 7 "''configurationDone''", OF _ _ _ _ _ h(1)] by (simp add: done_request_def)
  moreover have "value_string done_request ''type'' = Inr ''request''"
    by (simp add: value_string_def done_request_def)
  ultimately have "\<exists>i. serve plain_fs ?serve [done_request] (Server_State.new_server, []) ?io = Some (None, (s', []), i)"
    by (cases "should_exit s'") (simp_all add: Let_def)
  moreover have "request_loop (\<lambda>b. Inr done_request) plain_fs ?serve (frames ?dump [done_request])
      (Server_State.new_server, []) ?io = serve plain_fs ?serve [done_request] (Server_State.new_server, []) ?io"
    by (rule request_loop_frames) (simp add: faithful_def)
  ultimately obtain e w io where run: "run_adapter (\<lambda>b. Inr done_request) ?dump plain_fs script_target (\<lambda>j. []) (\<lambda>f. 0)
      [] (frames ?dump [done_request]) = Some (e, w, s', io)"
    by (auto simp: run_adapter_def next_steps_def Let_def case_prod_beta simp del: frames.simps serve.simps)
  then show ?thesis
    using adapter_answers_requests [OF run, of "\<lambda>b. Inr (wire_form 1 done_response)"] h(2)
    by (auto simp: Cons_eq_append_conv proper_request_def request_of_def done_request_def done_response_def
        faithful_def simp del: frames.simps)
qed

end
