(* ===== verification/Request_Structs.thy ===== *)
theory Request_Structs
  imports Json_Writing
begin

text \<open>
  The requests as structs of src/src/protocol/protocol.h, with all their fields, and their conversion
  to JSON (the \<open>to_json\<close> functions), as a client uses them.  A field of type \<open>int\<close> or
  \<open>std::int64_t\<close> is an integer in the range of its type, which the predicates
  \<open>..._ok\<close> state; a map is the list of its entries in the order of the keys.
\<close>

section \<open>Fields\<close>

definition in_int32 :: "int \<Rightarrow> bool" where
  "in_int32 n \<longleftrightarrow> - 2147483648 \<le> n \<and> n < 2147483648"

definition in_int64 :: "int \<Rightarrow> bool" where
  "in_int64 n \<longleftrightarrow> - 9223372036854775808 \<le> n \<and> n < 9223372036854775808"

definition optional_json :: "string \<Rightarrow> json \<Rightarrow> (string \<times> json) list" where
  "optional_json key j = (if j = J_Null then [] else [(key, j)])"

definition string_map_to_json :: "(string \<times> string) list \<Rightarrow> json" where
  "string_map_to_json kvs = J_Object (map (\<lambda>(k, v). (k, J_String v)) kvs)"

section \<open>Enumerations\<close>

fun evaluate_context_to_json :: "evaluate_context \<Rightarrow> json" where
  "evaluate_context_to_json Watch_Context = J_String ''watch''"
| "evaluate_context_to_json Repl_Context = J_String ''repl''"
| "evaluate_context_to_json Hover_Context = J_String ''hover''"
| "evaluate_context_to_json Clipboard_Context = J_String ''clipboard''"
| "evaluate_context_to_json Variables_Context = J_String ''variables''"

datatype path_format = Path_Format | Uri_Format

fun path_format_to_json :: "path_format \<Rightarrow> json" where
  "path_format_to_json Path_Format = J_String ''path''"
| "path_format_to_json Uri_Format = J_String ''uri''"

fun stepping_granularity_to_json :: "stepping_granularity \<Rightarrow> json" where
  "stepping_granularity_to_json Statement_Granularity = J_String ''statement''"
| "stepping_granularity_to_json Line_Granularity = J_String ''line''"
| "stepping_granularity_to_json Instruction_Granularity = J_String ''instruction''"

datatype terminal_kind = Integrated_Terminal | External_Terminal

fun terminal_kind_to_json :: "terminal_kind \<Rightarrow> json" where
  "terminal_kind_to_json Integrated_Terminal = J_String ''integrated''"
| "terminal_kind_to_json External_Terminal = J_String ''external''"

fun data_access_to_json :: "data_access \<Rightarrow> json" where
  "data_access_to_json Read_Access = J_String ''read''"
| "data_access_to_json Write_Access = J_String ''write''"
| "data_access_to_json Read_Write_Access = J_String ''readWrite''"

datatype exception_break_mode = Never_Break | Always_Break | Unhandled_Break | User_Unhandled_Break

fun exception_break_mode_to_json :: "exception_break_mode \<Rightarrow> json" where
  "exception_break_mode_to_json Never_Break = J_String ''never''"
| "exception_break_mode_to_json Always_Break = J_String ''always''"
| "exception_break_mode_to_json Unhandled_Break = J_String ''unhandled''"
| "exception_break_mode_to_json User_Unhandled_Break = J_String ''userUnhandled''"

datatype output_presentation = Separate_Output | Merged_Output

fun output_presentation_to_json :: "output_presentation \<Rightarrow> json" where
  "output_presentation_to_json Separate_Output = J_String ''separate''"
| "output_presentation_to_json Merged_Output = J_String ''mergeWithParent''"

datatype debugging_request = Launch_Debugging | Attach_Debugging

fun debugging_request_to_json :: "debugging_request \<Rightarrow> json" where
  "debugging_request_to_json Launch_Debugging = J_String ''launch''"
| "debugging_request_to_json Attach_Debugging = J_String ''attach''"

datatype variables_filter = Indexed_Filter | Named_Filter

fun variables_filter_to_json :: "variables_filter \<Rightarrow> json" where
  "variables_filter_to_json Indexed_Filter = J_String ''indexed''"
| "variables_filter_to_json Named_Filter = J_String ''named''"

section \<open>Arguments\<close>

record attach_request_arguments_struct =
  attach_restart :: json

definition attach_request_arguments_to_json :: "attach_request_arguments_struct \<Rightarrow> json" where
  "attach_request_arguments_to_json a = object_of (optional_json ''__restart'' (attach_restart a))"

record breakpoint_locations_arguments_struct =
  breakpoint_locations_source :: requested_source
  breakpoint_locations_line :: int
  breakpoint_locations_column :: "int option"
  breakpoint_locations_end_line :: "int option"
  breakpoint_locations_end_column :: "int option"

definition breakpoint_locations_arguments_to_json :: "breakpoint_locations_arguments_struct \<Rightarrow> json" where
  "breakpoint_locations_arguments_to_json a =
     J_Object
       ([(''source'', source_to_json (breakpoint_locations_source a)),
         (''line'', J_Int (breakpoint_locations_line a))]
        @ optional ''column'' J_Int (breakpoint_locations_column a)
        @ optional ''endLine'' J_Int (breakpoint_locations_end_line a)
        @ optional ''endColumn'' J_Int (breakpoint_locations_end_column a))"

definition breakpoint_locations_arguments_ok :: "breakpoint_locations_arguments_struct \<Rightarrow> bool" where
  "breakpoint_locations_arguments_ok a \<longleftrightarrow>
     int32_references (breakpoint_locations_source a) \<and> in_int64 (breakpoint_locations_line a)
     \<and> pred_option in_int64 (breakpoint_locations_column a)
     \<and> pred_option in_int64 (breakpoint_locations_end_line a)
     \<and> pred_option in_int64 (breakpoint_locations_end_column a)"

record cancel_arguments_struct =
  cancel_request_id :: "int option"
  cancel_progress_id :: "string option"

definition cancel_arguments_to_json :: "cancel_arguments_struct \<Rightarrow> json" where
  "cancel_arguments_to_json a =
     object_of
       (optional ''requestId'' J_Int (cancel_request_id a)
        @ optional ''progressId'' J_String (cancel_progress_id a))"

definition cancel_arguments_ok :: "cancel_arguments_struct \<Rightarrow> bool" where
  "cancel_arguments_ok a \<longleftrightarrow>
     pred_option in_int32 (cancel_request_id a)"

record completions_arguments_struct =
  completions_frame_id :: "int option"
  completions_text :: string
  completions_column :: int
  completions_line :: "int option"

definition completions_arguments_to_json :: "completions_arguments_struct \<Rightarrow> json" where
  "completions_arguments_to_json a =
     J_Object
       (optional ''frameId'' J_Int (completions_frame_id a)
        @ [(''text'', J_String (completions_text a)), (''column'', J_Int (completions_column a))]
        @ optional ''line'' J_Int (completions_line a))"

definition completions_arguments_ok :: "completions_arguments_struct \<Rightarrow> bool" where
  "completions_arguments_ok a \<longleftrightarrow>
     pred_option in_int32 (completions_frame_id a) \<and> in_int64 (completions_column a)
     \<and> pred_option in_int64 (completions_line a)"

definition configuration_done_arguments_to_json :: "unit \<Rightarrow> json" where
  "configuration_done_arguments_to_json a = J_Null"

record continue_arguments_struct =
  continue_thread_id :: int
  continue_single_thread :: "bool option"

definition continue_arguments_to_json :: "continue_arguments_struct \<Rightarrow> json" where
  "continue_arguments_to_json a =
     J_Object
       ([(''threadId'', J_Int (continue_thread_id a))]
        @ optional ''singleThread'' J_Bool (continue_single_thread a))"

definition continue_arguments_ok :: "continue_arguments_struct \<Rightarrow> bool" where
  "continue_arguments_ok a \<longleftrightarrow>
     in_int32 (continue_thread_id a)"

record data_breakpoint_info_arguments_struct =
  data_breakpoint_info_variables_reference :: "int option"
  data_breakpoint_info_name :: string
  data_breakpoint_info_frame_id :: "int option"
  data_breakpoint_info_bytes :: "int option"
  data_breakpoint_info_as_address :: "bool option"
  data_breakpoint_info_mode :: "string option"

definition data_breakpoint_info_arguments_to_json :: "data_breakpoint_info_arguments_struct \<Rightarrow> json" where
  "data_breakpoint_info_arguments_to_json a =
     J_Object
       (optional ''variablesReference'' J_Int (data_breakpoint_info_variables_reference a)
        @ [(''name'', J_String (data_breakpoint_info_name a))]
        @ optional ''frameId'' J_Int (data_breakpoint_info_frame_id a)
        @ optional ''bytes'' J_Int (data_breakpoint_info_bytes a)
        @ optional ''asAddress'' J_Bool (data_breakpoint_info_as_address a)
        @ optional ''mode'' J_String (data_breakpoint_info_mode a))"

definition data_breakpoint_info_arguments_ok :: "data_breakpoint_info_arguments_struct \<Rightarrow> bool" where
  "data_breakpoint_info_arguments_ok a \<longleftrightarrow>
     pred_option in_int32 (data_breakpoint_info_variables_reference a)
     \<and> pred_option in_int32 (data_breakpoint_info_frame_id a)
     \<and> pred_option in_int64 (data_breakpoint_info_bytes a)"

record disassemble_arguments_struct =
  disassemble_memory_reference :: string
  disassemble_offset :: "int option"
  disassemble_instruction_offset :: "int option"
  disassemble_instruction_count :: int
  disassemble_resolve_symbols :: "bool option"

definition disassemble_arguments_to_json :: "disassemble_arguments_struct \<Rightarrow> json" where
  "disassemble_arguments_to_json a =
     J_Object
       ([(''memoryReference'', J_String (disassemble_memory_reference a))]
        @ optional ''offset'' J_Int (disassemble_offset a)
        @ optional ''instructionOffset'' J_Int (disassemble_instruction_offset a)
        @ [(''instructionCount'', J_Int (disassemble_instruction_count a))]
        @ optional ''resolveSymbols'' J_Bool (disassemble_resolve_symbols a))"

definition disassemble_arguments_ok :: "disassemble_arguments_struct \<Rightarrow> bool" where
  "disassemble_arguments_ok a \<longleftrightarrow>
     pred_option in_int64 (disassemble_offset a)
     \<and> pred_option in_int64 (disassemble_instruction_offset a)
     \<and> in_int64 (disassemble_instruction_count a)"

record disconnect_arguments_struct =
  disconnect_restart :: "bool option"
  disconnect_terminate_debuggee :: "bool option"
  disconnect_suspend_debuggee :: "bool option"

definition disconnect_arguments_to_json :: "disconnect_arguments_struct \<Rightarrow> json" where
  "disconnect_arguments_to_json a =
     object_of
       (optional ''restart'' J_Bool (disconnect_restart a)
        @ optional ''terminateDebuggee'' J_Bool (disconnect_terminate_debuggee a)
        @ optional ''suspendDebuggee'' J_Bool (disconnect_suspend_debuggee a))"

record value_format_struct =
  value_format_hex :: "bool option"

definition value_format_to_json :: "value_format_struct \<Rightarrow> json" where
  "value_format_to_json a = object_of (optional ''hex'' J_Bool (value_format_hex a))"

record evaluate_arguments_struct =
  evaluate_expression :: string
  evaluate_frame_id :: "int option"
  evaluate_line :: "int option"
  evaluate_column :: "int option"
  evaluate_source :: "requested_source option"
  evaluate_context :: "evaluate_context option"
  evaluate_format :: "value_format_struct option"

definition evaluate_arguments_to_json :: "evaluate_arguments_struct \<Rightarrow> json" where
  "evaluate_arguments_to_json a =
     J_Object
       ([(''expression'', J_String (evaluate_expression a))]
        @ optional ''frameId'' J_Int (evaluate_frame_id a) @ optional ''line'' J_Int (evaluate_line a)
        @ optional ''column'' J_Int (evaluate_column a)
        @ optional ''source'' source_to_json (evaluate_source a)
        @ optional ''context'' evaluate_context_to_json (evaluate_context a)
        @ optional ''format'' value_format_to_json (evaluate_format a))"

definition evaluate_arguments_ok :: "evaluate_arguments_struct \<Rightarrow> bool" where
  "evaluate_arguments_ok a \<longleftrightarrow>
     pred_option in_int32 (evaluate_frame_id a) \<and> pred_option in_int64 (evaluate_line a)
     \<and> pred_option in_int64 (evaluate_column a)
     \<and> pred_option int32_references (evaluate_source a)"

record exception_info_arguments_struct =
  exception_info_thread_id :: int

definition exception_info_arguments_to_json :: "exception_info_arguments_struct \<Rightarrow> json" where
  "exception_info_arguments_to_json a = J_Object [(''threadId'', J_Int (exception_info_thread_id a))]"

definition exception_info_arguments_ok :: "exception_info_arguments_struct \<Rightarrow> bool" where
  "exception_info_arguments_ok a \<longleftrightarrow>
     in_int32 (exception_info_thread_id a)"

record goto_arguments_struct =
  goto_thread_id :: int
  goto_target_id :: int

definition goto_arguments_to_json :: "goto_arguments_struct \<Rightarrow> json" where
  "goto_arguments_to_json a =
     J_Object
       ([(''threadId'', J_Int (goto_thread_id a)), (''targetId'', J_Int (goto_target_id a))])"

definition goto_arguments_ok :: "goto_arguments_struct \<Rightarrow> bool" where
  "goto_arguments_ok a \<longleftrightarrow>
     in_int32 (goto_thread_id a) \<and> in_int32 (goto_target_id a)"

record goto_targets_arguments_struct =
  goto_targets_source :: requested_source
  goto_targets_line :: int
  goto_targets_column :: "int option"

definition goto_targets_arguments_to_json :: "goto_targets_arguments_struct \<Rightarrow> json" where
  "goto_targets_arguments_to_json a =
     J_Object
       ([(''source'', source_to_json (goto_targets_source a)), (''line'', J_Int (goto_targets_line a))]
        @ optional ''column'' J_Int (goto_targets_column a))"

definition goto_targets_arguments_ok :: "goto_targets_arguments_struct \<Rightarrow> bool" where
  "goto_targets_arguments_ok a \<longleftrightarrow>
     int32_references (goto_targets_source a) \<and> in_int64 (goto_targets_line a)
     \<and> pred_option in_int64 (goto_targets_column a)"

record initialize_request_arguments_struct =
  initialize_client_id :: "string option"
  initialize_client_name :: "string option"
  initialize_adapter_id :: string
  initialize_locale :: "string option"
  initialize_lines_start_at1 :: "bool option"
  initialize_columns_start_at1 :: "bool option"
  initialize_path_format :: "path_format option"
  initialize_supports_variable_type :: "bool option"
  initialize_supports_variable_paging :: "bool option"
  initialize_supports_run_in_terminal_request :: "bool option"
  initialize_supports_memory_references :: "bool option"
  initialize_supports_progress_reporting :: "bool option"
  initialize_supports_invalidated_event :: "bool option"
  initialize_supports_memory_event :: "bool option"
  initialize_supports_args_can_be_interpreted_by_shell :: "bool option"
  initialize_supports_start_debugging_request :: "bool option"
  initialize_supports_ansi_styling :: "bool option"

definition initialize_request_arguments_to_json :: "initialize_request_arguments_struct \<Rightarrow> json" where
  "initialize_request_arguments_to_json a =
     J_Object
       (optional ''clientID'' J_String (initialize_client_id a)
        @ optional ''clientName'' J_String (initialize_client_name a)
        @ [(''adapterID'', J_String (initialize_adapter_id a))]
        @ optional ''locale'' J_String (initialize_locale a)
        @ optional ''linesStartAt1'' J_Bool (initialize_lines_start_at1 a)
        @ optional ''columnsStartAt1'' J_Bool (initialize_columns_start_at1 a)
        @ optional ''pathFormat'' path_format_to_json (initialize_path_format a)
        @ optional ''supportsVariableType'' J_Bool (initialize_supports_variable_type a)
        @ optional ''supportsVariablePaging'' J_Bool (initialize_supports_variable_paging a)
        @ optional ''supportsRunInTerminalRequest'' J_Bool (initialize_supports_run_in_terminal_request a)
        @ optional ''supportsMemoryReferences'' J_Bool (initialize_supports_memory_references a)
        @ optional ''supportsProgressReporting'' J_Bool (initialize_supports_progress_reporting a)
        @ optional ''supportsInvalidatedEvent'' J_Bool (initialize_supports_invalidated_event a)
        @ optional ''supportsMemoryEvent'' J_Bool (initialize_supports_memory_event a)
        @ optional ''supportsArgsCanBeInterpretedByShell'' J_Bool (initialize_supports_args_can_be_interpreted_by_shell a)
        @ optional ''supportsStartDebuggingRequest'' J_Bool (initialize_supports_start_debugging_request a)
        @ optional ''supportsANSIStyling'' J_Bool (initialize_supports_ansi_styling a))"

record launch_request_arguments_struct =
  launch_no_debug :: "bool option"
  launch_restart :: json

definition launch_request_arguments_to_json :: "launch_request_arguments_struct \<Rightarrow> json" where
  "launch_request_arguments_to_json a =
     object_of
       (optional ''noDebug'' J_Bool (launch_no_debug a) @ optional_json ''__restart'' (launch_restart a))"

definition loaded_sources_arguments_to_json :: "unit \<Rightarrow> json" where
  "loaded_sources_arguments_to_json a = J_Null"

record locations_arguments_struct =
  locations_location_reference :: int

definition locations_arguments_to_json :: "locations_arguments_struct \<Rightarrow> json" where
  "locations_arguments_to_json a =
     J_Object
       ([(''locationReference'', J_Int (locations_location_reference a))])"

definition locations_arguments_ok :: "locations_arguments_struct \<Rightarrow> bool" where
  "locations_arguments_ok a \<longleftrightarrow>
     in_int32 (locations_location_reference a)"

record modules_arguments_struct =
  modules_start_module :: "int option"
  modules_module_count :: "int option"

definition modules_arguments_to_json :: "modules_arguments_struct \<Rightarrow> json" where
  "modules_arguments_to_json a =
     object_of
       (optional ''startModule'' J_Int (modules_start_module a)
        @ optional ''moduleCount'' J_Int (modules_module_count a))"

definition modules_arguments_ok :: "modules_arguments_struct \<Rightarrow> bool" where
  "modules_arguments_ok a \<longleftrightarrow>
     pred_option in_int32 (modules_start_module a)
     \<and> pred_option in_int64 (modules_module_count a)"

record next_arguments_struct =
  next_thread_id :: int
  next_single_thread :: "bool option"
  next_granularity :: "stepping_granularity option"

definition next_arguments_to_json :: "next_arguments_struct \<Rightarrow> json" where
  "next_arguments_to_json a =
     J_Object
       ([(''threadId'', J_Int (next_thread_id a))]
        @ optional ''singleThread'' J_Bool (next_single_thread a)
        @ optional ''granularity'' stepping_granularity_to_json (next_granularity a))"

definition next_arguments_ok :: "next_arguments_struct \<Rightarrow> bool" where
  "next_arguments_ok a \<longleftrightarrow>
     in_int32 (next_thread_id a)"

record pause_arguments_struct =
  pause_thread_id :: int

definition pause_arguments_to_json :: "pause_arguments_struct \<Rightarrow> json" where
  "pause_arguments_to_json a = J_Object [(''threadId'', J_Int (pause_thread_id a))]"

definition pause_arguments_ok :: "pause_arguments_struct \<Rightarrow> bool" where
  "pause_arguments_ok a \<longleftrightarrow>
     in_int32 (pause_thread_id a)"

record read_memory_arguments_struct =
  read_memory_memory_reference :: string
  read_memory_offset :: "int option"
  read_memory_count :: int

definition read_memory_arguments_to_json :: "read_memory_arguments_struct \<Rightarrow> json" where
  "read_memory_arguments_to_json a =
     J_Object
       ([(''memoryReference'', J_String (read_memory_memory_reference a))]
        @ optional ''offset'' J_Int (read_memory_offset a) @ [(''count'', J_Int (read_memory_count a))])"

definition read_memory_arguments_ok :: "read_memory_arguments_struct \<Rightarrow> bool" where
  "read_memory_arguments_ok a \<longleftrightarrow>
     pred_option in_int64 (read_memory_offset a) \<and> in_int64 (read_memory_count a)"

record restart_arguments_struct =
  restart_arguments :: json

definition restart_arguments_to_json :: "restart_arguments_struct \<Rightarrow> json" where
  "restart_arguments_to_json a = object_of (optional_json ''arguments'' (restart_arguments a))"

record restart_frame_arguments_struct =
  restart_frame_frame_id :: int

definition restart_frame_arguments_to_json :: "restart_frame_arguments_struct \<Rightarrow> json" where
  "restart_frame_arguments_to_json a = J_Object [(''frameId'', J_Int (restart_frame_frame_id a))]"

definition restart_frame_arguments_ok :: "restart_frame_arguments_struct \<Rightarrow> bool" where
  "restart_frame_arguments_ok a \<longleftrightarrow>
     in_int32 (restart_frame_frame_id a)"

record reverse_continue_arguments_struct =
  reverse_continue_thread_id :: int
  reverse_continue_single_thread :: "bool option"

definition reverse_continue_arguments_to_json :: "reverse_continue_arguments_struct \<Rightarrow> json" where
  "reverse_continue_arguments_to_json a =
     J_Object
       ([(''threadId'', J_Int (reverse_continue_thread_id a))]
        @ optional ''singleThread'' J_Bool (reverse_continue_single_thread a))"

definition reverse_continue_arguments_ok :: "reverse_continue_arguments_struct \<Rightarrow> bool" where
  "reverse_continue_arguments_ok a \<longleftrightarrow>
     in_int32 (reverse_continue_thread_id a)"

record run_in_terminal_request_arguments_struct =
  run_in_terminal_kind :: "terminal_kind option"
  run_in_terminal_title :: "string option"
  run_in_terminal_cwd :: string
  run_in_terminal_args :: "string list"
  run_in_terminal_env :: "(string \<times> string) list option"
  run_in_terminal_args_can_be_interpreted_by_shell :: "bool option"

definition run_in_terminal_request_arguments_to_json :: "run_in_terminal_request_arguments_struct \<Rightarrow> json" where
  "run_in_terminal_request_arguments_to_json a =
     J_Object
       (optional ''kind'' terminal_kind_to_json (run_in_terminal_kind a)
        @ optional ''title'' J_String (run_in_terminal_title a)
        @ [(''cwd'', J_String (run_in_terminal_cwd a)),
         (''args'', json_list J_String (run_in_terminal_args a))]
        @ optional ''env'' string_map_to_json (run_in_terminal_env a)
        @ optional ''argsCanBeInterpretedByShell'' J_Bool (run_in_terminal_args_can_be_interpreted_by_shell a))"

record scopes_arguments_struct =
  scopes_frame_id :: int

definition scopes_arguments_to_json :: "scopes_arguments_struct \<Rightarrow> json" where
  "scopes_arguments_to_json a = J_Object [(''frameId'', J_Int (scopes_frame_id a))]"

definition scopes_arguments_ok :: "scopes_arguments_struct \<Rightarrow> bool" where
  "scopes_arguments_ok a \<longleftrightarrow>
     in_int32 (scopes_frame_id a)"

definition source_breakpoint_to_json :: "source_breakpoint \<Rightarrow> json" where
  "source_breakpoint_to_json a =
     J_Object
       ([(''line'', J_Int (rb_line a))] @ optional ''column'' J_Int (rb_column a)
        @ optional ''condition'' J_String (rb_condition a)
        @ optional ''hitCondition'' J_String (rb_hit_condition a)
        @ optional ''logMessage'' J_String (rb_log_message a) @ optional ''mode'' J_String (rb_mode a))"

definition source_breakpoint_ok :: "source_breakpoint \<Rightarrow> bool" where
  "source_breakpoint_ok a \<longleftrightarrow>
     in_int64 (rb_line a) \<and> pred_option in_int64 (rb_column a)"

record set_breakpoints_arguments_struct =
  set_breakpoints_source :: requested_source
  set_breakpoints_breakpoints :: "source_breakpoint list option"
  set_breakpoints_lines :: "int list option"
  set_breakpoints_source_modified :: "bool option"

definition set_breakpoints_arguments_to_json :: "set_breakpoints_arguments_struct \<Rightarrow> json" where
  "set_breakpoints_arguments_to_json a =
     J_Object
       ([(''source'', source_to_json (set_breakpoints_source a))]
        @ optional ''breakpoints'' (json_list source_breakpoint_to_json) (set_breakpoints_breakpoints a)
        @ optional ''lines'' (json_list J_Int) (set_breakpoints_lines a)
        @ optional ''sourceModified'' J_Bool (set_breakpoints_source_modified a))"

definition set_breakpoints_arguments_ok :: "set_breakpoints_arguments_struct \<Rightarrow> bool" where
  "set_breakpoints_arguments_ok a \<longleftrightarrow>
     int32_references (set_breakpoints_source a)
     \<and> pred_option (list_all source_breakpoint_ok) (set_breakpoints_breakpoints a)
     \<and> pred_option (list_all in_int64) (set_breakpoints_lines a)"

record data_breakpoint_struct =
  data_breakpoint_data_id :: string
  data_breakpoint_access_type :: "data_access option"
  data_breakpoint_condition :: "string option"
  data_breakpoint_hit_condition :: "string option"

definition data_breakpoint_to_json :: "data_breakpoint_struct \<Rightarrow> json" where
  "data_breakpoint_to_json a =
     J_Object
       ([(''dataId'', J_String (data_breakpoint_data_id a))]
        @ optional ''accessType'' data_access_to_json (data_breakpoint_access_type a)
        @ optional ''condition'' J_String (data_breakpoint_condition a)
        @ optional ''hitCondition'' J_String (data_breakpoint_hit_condition a))"

record set_data_breakpoints_arguments_struct =
  set_data_breakpoints_breakpoints :: "data_breakpoint_struct list"

definition set_data_breakpoints_arguments_to_json :: "set_data_breakpoints_arguments_struct \<Rightarrow> json" where
  "set_data_breakpoints_arguments_to_json a =
     J_Object
       ([(''breakpoints'', json_list data_breakpoint_to_json (set_data_breakpoints_breakpoints a))])"

record exception_filter_options_struct =
  exception_filter_options_filter_id :: string
  exception_filter_options_condition :: "string option"
  exception_filter_options_mode :: "string option"

definition exception_filter_options_to_json :: "exception_filter_options_struct \<Rightarrow> json" where
  "exception_filter_options_to_json a =
     J_Object
       ([(''filterId'', J_String (exception_filter_options_filter_id a))]
        @ optional ''condition'' J_String (exception_filter_options_condition a)
        @ optional ''mode'' J_String (exception_filter_options_mode a))"

record exception_path_segment_struct =
  exception_path_segment_negate :: "bool option"
  exception_path_segment_names :: "string list"

definition exception_path_segment_to_json :: "exception_path_segment_struct \<Rightarrow> json" where
  "exception_path_segment_to_json a =
     J_Object
       (optional ''negate'' J_Bool (exception_path_segment_negate a)
        @ [(''names'', json_list J_String (exception_path_segment_names a))])"

record exception_options_struct =
  exception_options_path :: "exception_path_segment_struct list option"
  exception_options_break_mode :: exception_break_mode

definition exception_options_to_json :: "exception_options_struct \<Rightarrow> json" where
  "exception_options_to_json a =
     J_Object
       (optional ''path'' (json_list exception_path_segment_to_json) (exception_options_path a)
        @ [(''breakMode'', exception_break_mode_to_json (exception_options_break_mode a))])"

record set_exception_breakpoints_arguments_struct =
  set_exception_breakpoints_filters :: "string list"
  set_exception_breakpoints_filter_options :: "exception_filter_options_struct list option"
  set_exception_breakpoints_exception_options :: "exception_options_struct list option"

definition set_exception_breakpoints_arguments_to_json :: "set_exception_breakpoints_arguments_struct \<Rightarrow> json" where
  "set_exception_breakpoints_arguments_to_json a =
     J_Object
       ([(''filters'', json_list J_String (set_exception_breakpoints_filters a))]
        @ optional ''filterOptions'' (json_list exception_filter_options_to_json) (set_exception_breakpoints_filter_options a)
        @ optional ''exceptionOptions'' (json_list exception_options_to_json) (set_exception_breakpoints_exception_options a))"

record set_expression_arguments_struct =
  set_expression_expression :: string
  set_expression_value :: string
  set_expression_frame_id :: "int option"
  set_expression_format :: "value_format_struct option"

definition set_expression_arguments_to_json :: "set_expression_arguments_struct \<Rightarrow> json" where
  "set_expression_arguments_to_json a =
     J_Object
       ([(''expression'', J_String (set_expression_expression a)),
         (''value'', J_String (set_expression_value a))]
        @ optional ''frameId'' J_Int (set_expression_frame_id a)
        @ optional ''format'' value_format_to_json (set_expression_format a))"

definition set_expression_arguments_ok :: "set_expression_arguments_struct \<Rightarrow> bool" where
  "set_expression_arguments_ok a \<longleftrightarrow>
     pred_option in_int32 (set_expression_frame_id a)"

record function_breakpoint_struct =
  function_breakpoint_name :: string
  function_breakpoint_condition :: "string option"
  function_breakpoint_hit_condition :: "string option"

definition function_breakpoint_to_json :: "function_breakpoint_struct \<Rightarrow> json" where
  "function_breakpoint_to_json a =
     J_Object
       ([(''name'', J_String (function_breakpoint_name a))]
        @ optional ''condition'' J_String (function_breakpoint_condition a)
        @ optional ''hitCondition'' J_String (function_breakpoint_hit_condition a))"

record set_function_breakpoints_arguments_struct =
  set_function_breakpoints_breakpoints :: "function_breakpoint_struct list"

definition set_function_breakpoints_arguments_to_json :: "set_function_breakpoints_arguments_struct \<Rightarrow> json" where
  "set_function_breakpoints_arguments_to_json a =
     J_Object
       ([(''breakpoints'', json_list function_breakpoint_to_json (set_function_breakpoints_breakpoints a))])"

record instruction_breakpoint_struct =
  instruction_breakpoint_instruction_reference :: string
  instruction_breakpoint_offset :: "int option"
  instruction_breakpoint_condition :: "string option"
  instruction_breakpoint_hit_condition :: "string option"
  instruction_breakpoint_mode :: "string option"

definition instruction_breakpoint_to_json :: "instruction_breakpoint_struct \<Rightarrow> json" where
  "instruction_breakpoint_to_json a =
     J_Object
       ([(''instructionReference'', J_String (instruction_breakpoint_instruction_reference a))]
        @ optional ''offset'' J_Int (instruction_breakpoint_offset a)
        @ optional ''condition'' J_String (instruction_breakpoint_condition a)
        @ optional ''hitCondition'' J_String (instruction_breakpoint_hit_condition a)
        @ optional ''mode'' J_String (instruction_breakpoint_mode a))"

definition instruction_breakpoint_ok :: "instruction_breakpoint_struct \<Rightarrow> bool" where
  "instruction_breakpoint_ok a \<longleftrightarrow>
     pred_option in_int64 (instruction_breakpoint_offset a)"

record set_instruction_breakpoints_arguments_struct =
  set_instruction_breakpoints_breakpoints :: "instruction_breakpoint_struct list"

definition set_instruction_breakpoints_arguments_to_json :: "set_instruction_breakpoints_arguments_struct \<Rightarrow> json" where
  "set_instruction_breakpoints_arguments_to_json a =
     J_Object
       ([(''breakpoints'', json_list instruction_breakpoint_to_json (set_instruction_breakpoints_breakpoints a))])"

definition set_instruction_breakpoints_arguments_ok :: "set_instruction_breakpoints_arguments_struct \<Rightarrow> bool" where
  "set_instruction_breakpoints_arguments_ok a \<longleftrightarrow>
     list_all instruction_breakpoint_ok (set_instruction_breakpoints_breakpoints a)"

record set_variable_arguments_struct =
  set_variable_variables_reference :: int
  set_variable_name :: string
  set_variable_value :: string
  set_variable_format :: "value_format_struct option"

definition set_variable_arguments_to_json :: "set_variable_arguments_struct \<Rightarrow> json" where
  "set_variable_arguments_to_json a =
     J_Object
       ([(''variablesReference'', J_Int (set_variable_variables_reference a)),
         (''name'', J_String (set_variable_name a)), (''value'', J_String (set_variable_value a))]
        @ optional ''format'' value_format_to_json (set_variable_format a))"

definition set_variable_arguments_ok :: "set_variable_arguments_struct \<Rightarrow> bool" where
  "set_variable_arguments_ok a \<longleftrightarrow>
     in_int32 (set_variable_variables_reference a)"

record source_arguments_struct =
  source_source :: "requested_source option"
  source_source_reference :: int

definition source_arguments_to_json :: "source_arguments_struct \<Rightarrow> json" where
  "source_arguments_to_json a =
     J_Object
       (optional ''source'' source_to_json (source_source a)
        @ [(''sourceReference'', J_Int (source_source_reference a))])"

definition source_arguments_ok :: "source_arguments_struct \<Rightarrow> bool" where
  "source_arguments_ok a \<longleftrightarrow>
     pred_option int32_references (source_source a) \<and> in_int32 (source_source_reference a)"

record stack_frame_format_struct =
  stack_frame_format_hex :: "bool option"
  stack_frame_format_parameters :: "bool option"
  stack_frame_format_parameter_types :: "bool option"
  stack_frame_format_parameter_names :: "bool option"
  stack_frame_format_parameter_values :: "bool option"
  stack_frame_format_line :: "bool option"
  stack_frame_format_module :: "bool option"
  stack_frame_format_include_all :: "bool option"

definition stack_frame_format_to_json :: "stack_frame_format_struct \<Rightarrow> json" where
  "stack_frame_format_to_json a =
     object_of
       (optional ''hex'' J_Bool (stack_frame_format_hex a)
        @ optional ''parameters'' J_Bool (stack_frame_format_parameters a)
        @ optional ''parameterTypes'' J_Bool (stack_frame_format_parameter_types a)
        @ optional ''parameterNames'' J_Bool (stack_frame_format_parameter_names a)
        @ optional ''parameterValues'' J_Bool (stack_frame_format_parameter_values a)
        @ optional ''line'' J_Bool (stack_frame_format_line a)
        @ optional ''module'' J_Bool (stack_frame_format_module a)
        @ optional ''includeAll'' J_Bool (stack_frame_format_include_all a))"

record stack_trace_arguments_struct =
  stack_trace_thread_id :: int
  stack_trace_start_frame :: "int option"
  stack_trace_levels :: "int option"
  stack_trace_format :: "stack_frame_format_struct option"

definition stack_trace_arguments_to_json :: "stack_trace_arguments_struct \<Rightarrow> json" where
  "stack_trace_arguments_to_json a =
     J_Object
       ([(''threadId'', J_Int (stack_trace_thread_id a))]
        @ optional ''startFrame'' J_Int (stack_trace_start_frame a)
        @ optional ''levels'' J_Int (stack_trace_levels a)
        @ optional ''format'' stack_frame_format_to_json (stack_trace_format a))"

definition stack_trace_arguments_ok :: "stack_trace_arguments_struct \<Rightarrow> bool" where
  "stack_trace_arguments_ok a \<longleftrightarrow>
     in_int32 (stack_trace_thread_id a) \<and> pred_option in_int64 (stack_trace_start_frame a)
     \<and> pred_option in_int64 (stack_trace_levels a)"

record start_debugging_request_arguments_struct =
  start_debugging_configuration :: "(string \<times> json) list"
  start_debugging_output_presentation :: "output_presentation option"
  start_debugging_request :: debugging_request

definition start_debugging_request_arguments_to_json :: "start_debugging_request_arguments_struct \<Rightarrow> json" where
  "start_debugging_request_arguments_to_json a =
     J_Object
       ([(''configuration'', J_Object (start_debugging_configuration a))]
        @ optional ''outputPresentation'' output_presentation_to_json (start_debugging_output_presentation a)
        @ [(''request'', debugging_request_to_json (start_debugging_request a))])"

record step_back_arguments_struct =
  step_back_thread_id :: int
  step_back_single_thread :: "bool option"
  step_back_granularity :: "stepping_granularity option"

definition step_back_arguments_to_json :: "step_back_arguments_struct \<Rightarrow> json" where
  "step_back_arguments_to_json a =
     J_Object
       ([(''threadId'', J_Int (step_back_thread_id a))]
        @ optional ''singleThread'' J_Bool (step_back_single_thread a)
        @ optional ''granularity'' stepping_granularity_to_json (step_back_granularity a))"

definition step_back_arguments_ok :: "step_back_arguments_struct \<Rightarrow> bool" where
  "step_back_arguments_ok a \<longleftrightarrow>
     in_int32 (step_back_thread_id a)"

record step_in_arguments_struct =
  step_in_thread_id :: int
  step_in_single_thread :: "bool option"
  step_in_target_id :: "int option"
  step_in_granularity :: "stepping_granularity option"

definition step_in_arguments_to_json :: "step_in_arguments_struct \<Rightarrow> json" where
  "step_in_arguments_to_json a =
     J_Object
       ([(''threadId'', J_Int (step_in_thread_id a))]
        @ optional ''singleThread'' J_Bool (step_in_single_thread a)
        @ optional ''targetId'' J_Int (step_in_target_id a)
        @ optional ''granularity'' stepping_granularity_to_json (step_in_granularity a))"

definition step_in_arguments_ok :: "step_in_arguments_struct \<Rightarrow> bool" where
  "step_in_arguments_ok a \<longleftrightarrow>
     in_int32 (step_in_thread_id a) \<and> pred_option in_int32 (step_in_target_id a)"

record step_in_targets_arguments_struct =
  step_in_targets_frame_id :: int

definition step_in_targets_arguments_to_json :: "step_in_targets_arguments_struct \<Rightarrow> json" where
  "step_in_targets_arguments_to_json a = J_Object [(''frameId'', J_Int (step_in_targets_frame_id a))]"

definition step_in_targets_arguments_ok :: "step_in_targets_arguments_struct \<Rightarrow> bool" where
  "step_in_targets_arguments_ok a \<longleftrightarrow>
     in_int32 (step_in_targets_frame_id a)"

record step_out_arguments_struct =
  step_out_thread_id :: int
  step_out_single_thread :: "bool option"
  step_out_granularity :: "stepping_granularity option"

definition step_out_arguments_to_json :: "step_out_arguments_struct \<Rightarrow> json" where
  "step_out_arguments_to_json a =
     J_Object
       ([(''threadId'', J_Int (step_out_thread_id a))]
        @ optional ''singleThread'' J_Bool (step_out_single_thread a)
        @ optional ''granularity'' stepping_granularity_to_json (step_out_granularity a))"

definition step_out_arguments_ok :: "step_out_arguments_struct \<Rightarrow> bool" where
  "step_out_arguments_ok a \<longleftrightarrow>
     in_int32 (step_out_thread_id a)"

record terminate_arguments_struct =
  terminate_restart :: "bool option"

definition terminate_arguments_to_json :: "terminate_arguments_struct \<Rightarrow> json" where
  "terminate_arguments_to_json a = object_of (optional ''restart'' J_Bool (terminate_restart a))"

record terminate_threads_arguments_struct =
  terminate_threads_thread_ids :: "int list option"

definition terminate_threads_arguments_to_json :: "terminate_threads_arguments_struct \<Rightarrow> json" where
  "terminate_threads_arguments_to_json a =
     object_of
       (optional ''threadIds'' (json_list J_Int) (terminate_threads_thread_ids a))"

definition terminate_threads_arguments_ok :: "terminate_threads_arguments_struct \<Rightarrow> bool" where
  "terminate_threads_arguments_ok a \<longleftrightarrow>
     pred_option (list_all in_int32) (terminate_threads_thread_ids a)"

record variables_arguments_struct =
  variables_variables_reference :: int
  variables_filter :: "variables_filter option"
  variables_start :: "int option"
  variables_count :: "int option"
  variables_format :: "value_format_struct option"

definition variables_arguments_to_json :: "variables_arguments_struct \<Rightarrow> json" where
  "variables_arguments_to_json a =
     J_Object
       ([(''variablesReference'', J_Int (variables_variables_reference a))]
        @ optional ''filter'' variables_filter_to_json (variables_filter a)
        @ optional ''start'' J_Int (variables_start a) @ optional ''count'' J_Int (variables_count a)
        @ optional ''format'' value_format_to_json (variables_format a))"

definition variables_arguments_ok :: "variables_arguments_struct \<Rightarrow> bool" where
  "variables_arguments_ok a \<longleftrightarrow>
     in_int32 (variables_variables_reference a) \<and> pred_option in_int64 (variables_start a)
     \<and> pred_option in_int64 (variables_count a)"

record write_memory_arguments_struct =
  write_memory_memory_reference :: string
  write_memory_offset :: "int option"
  write_memory_allow_partial :: "bool option"
  write_memory_data :: string

definition write_memory_arguments_to_json :: "write_memory_arguments_struct \<Rightarrow> json" where
  "write_memory_arguments_to_json a =
     J_Object
       ([(''memoryReference'', J_String (write_memory_memory_reference a))]
        @ optional ''offset'' J_Int (write_memory_offset a)
        @ optional ''allowPartial'' J_Bool (write_memory_allow_partial a)
        @ [(''data'', J_String (write_memory_data a))])"

definition write_memory_arguments_ok :: "write_memory_arguments_struct \<Rightarrow> bool" where
  "write_memory_arguments_ok a \<longleftrightarrow>
     pred_option in_int64 (write_memory_offset a)"

section \<open>Requests\<close>

text \<open>A request carries its number, its kind and its command; all requests have these fields.\<close>

definition request_object :: "int \<Rightarrow> string \<Rightarrow> (string \<times> json) list \<Rightarrow> json" where
  "request_object q command arguments =
     J_Object
       ([(''seq'', J_Int q), (''type'', J_String ''request''), (''command'', J_String command)] @ arguments)"

definition attach_request_to_json :: "int \<Rightarrow> attach_request_arguments_struct \<Rightarrow> json" where
  "attach_request_to_json q a =
     request_object q ''attach'' [(''arguments'', attach_request_arguments_to_json a)]"

definition breakpoint_locations_request_to_json :: "int \<Rightarrow> breakpoint_locations_arguments_struct option \<Rightarrow> json" where
  "breakpoint_locations_request_to_json q a =
     request_object q ''breakpointLocations'' (optional ''arguments'' breakpoint_locations_arguments_to_json a)"

definition cancel_request_to_json :: "int \<Rightarrow> cancel_arguments_struct option \<Rightarrow> json" where
  "cancel_request_to_json q a =
     request_object q ''cancel'' (optional ''arguments'' cancel_arguments_to_json a)"

definition completions_request_to_json :: "int \<Rightarrow> completions_arguments_struct \<Rightarrow> json" where
  "completions_request_to_json q a =
     request_object q ''completions'' [(''arguments'', completions_arguments_to_json a)]"

definition configuration_done_request_to_json :: "int \<Rightarrow> unit option \<Rightarrow> json" where
  "configuration_done_request_to_json q a =
     request_object q ''configurationDone'' (optional ''arguments'' configuration_done_arguments_to_json a)"

definition continue_request_to_json :: "int \<Rightarrow> continue_arguments_struct \<Rightarrow> json" where
  "continue_request_to_json q a =
     request_object q ''continue'' [(''arguments'', continue_arguments_to_json a)]"

definition data_breakpoint_info_request_to_json :: "int \<Rightarrow> data_breakpoint_info_arguments_struct \<Rightarrow> json" where
  "data_breakpoint_info_request_to_json q a =
     request_object q ''dataBreakpointInfo'' [(''arguments'', data_breakpoint_info_arguments_to_json a)]"

definition disassemble_request_to_json :: "int \<Rightarrow> disassemble_arguments_struct \<Rightarrow> json" where
  "disassemble_request_to_json q a =
     request_object q ''disassemble'' [(''arguments'', disassemble_arguments_to_json a)]"

definition disconnect_request_to_json :: "int \<Rightarrow> disconnect_arguments_struct option \<Rightarrow> json" where
  "disconnect_request_to_json q a =
     request_object q ''disconnect'' (optional ''arguments'' disconnect_arguments_to_json a)"

definition evaluate_request_to_json :: "int \<Rightarrow> evaluate_arguments_struct \<Rightarrow> json" where
  "evaluate_request_to_json q a =
     request_object q ''evaluate'' [(''arguments'', evaluate_arguments_to_json a)]"

definition exception_info_request_to_json :: "int \<Rightarrow> exception_info_arguments_struct \<Rightarrow> json" where
  "exception_info_request_to_json q a =
     request_object q ''exceptionInfo'' [(''arguments'', exception_info_arguments_to_json a)]"

definition goto_request_to_json :: "int \<Rightarrow> goto_arguments_struct \<Rightarrow> json" where
  "goto_request_to_json q a = request_object q ''goto'' [(''arguments'', goto_arguments_to_json a)]"

definition goto_targets_request_to_json :: "int \<Rightarrow> goto_targets_arguments_struct \<Rightarrow> json" where
  "goto_targets_request_to_json q a =
     request_object q ''gotoTargets'' [(''arguments'', goto_targets_arguments_to_json a)]"

definition initialize_request_to_json :: "int \<Rightarrow> initialize_request_arguments_struct \<Rightarrow> json" where
  "initialize_request_to_json q a =
     request_object q ''initialize'' [(''arguments'', initialize_request_arguments_to_json a)]"

definition launch_request_to_json :: "int \<Rightarrow> launch_request_arguments_struct \<Rightarrow> json" where
  "launch_request_to_json q a =
     request_object q ''launch'' [(''arguments'', launch_request_arguments_to_json a)]"

definition loaded_sources_request_to_json :: "int \<Rightarrow> unit option \<Rightarrow> json" where
  "loaded_sources_request_to_json q a =
     request_object q ''loadedSources'' (optional ''arguments'' loaded_sources_arguments_to_json a)"

definition locations_request_to_json :: "int \<Rightarrow> locations_arguments_struct \<Rightarrow> json" where
  "locations_request_to_json q a =
     request_object q ''locations'' [(''arguments'', locations_arguments_to_json a)]"

definition modules_request_to_json :: "int \<Rightarrow> modules_arguments_struct \<Rightarrow> json" where
  "modules_request_to_json q a =
     request_object q ''modules'' [(''arguments'', modules_arguments_to_json a)]"

definition next_request_to_json :: "int \<Rightarrow> next_arguments_struct \<Rightarrow> json" where
  "next_request_to_json q a = request_object q ''next'' [(''arguments'', next_arguments_to_json a)]"

definition pause_request_to_json :: "int \<Rightarrow> pause_arguments_struct \<Rightarrow> json" where
  "pause_request_to_json q a = request_object q ''pause'' [(''arguments'', pause_arguments_to_json a)]"

definition read_memory_request_to_json :: "int \<Rightarrow> read_memory_arguments_struct \<Rightarrow> json" where
  "read_memory_request_to_json q a =
     request_object q ''readMemory'' [(''arguments'', read_memory_arguments_to_json a)]"

definition restart_request_to_json :: "int \<Rightarrow> restart_arguments_struct option \<Rightarrow> json" where
  "restart_request_to_json q a =
     request_object q ''restart'' (optional ''arguments'' restart_arguments_to_json a)"

definition restart_frame_request_to_json :: "int \<Rightarrow> restart_frame_arguments_struct \<Rightarrow> json" where
  "restart_frame_request_to_json q a =
     request_object q ''restartFrame'' [(''arguments'', restart_frame_arguments_to_json a)]"

definition reverse_continue_request_to_json :: "int \<Rightarrow> reverse_continue_arguments_struct \<Rightarrow> json" where
  "reverse_continue_request_to_json q a =
     request_object q ''reverseContinue'' [(''arguments'', reverse_continue_arguments_to_json a)]"

definition run_in_terminal_request_to_json :: "int \<Rightarrow> run_in_terminal_request_arguments_struct \<Rightarrow> json" where
  "run_in_terminal_request_to_json q a =
     request_object q ''runInTerminal'' [(''arguments'', run_in_terminal_request_arguments_to_json a)]"

definition scopes_request_to_json :: "int \<Rightarrow> scopes_arguments_struct \<Rightarrow> json" where
  "scopes_request_to_json q a = request_object q ''scopes'' [(''arguments'', scopes_arguments_to_json a)]"

definition set_breakpoints_request_to_json :: "int \<Rightarrow> set_breakpoints_arguments_struct \<Rightarrow> json" where
  "set_breakpoints_request_to_json q a =
     request_object q ''setBreakpoints'' [(''arguments'', set_breakpoints_arguments_to_json a)]"

definition set_data_breakpoints_request_to_json :: "int \<Rightarrow> set_data_breakpoints_arguments_struct \<Rightarrow> json" where
  "set_data_breakpoints_request_to_json q a =
     request_object q ''setDataBreakpoints'' [(''arguments'', set_data_breakpoints_arguments_to_json a)]"

definition set_exception_breakpoints_request_to_json :: "int \<Rightarrow> set_exception_breakpoints_arguments_struct \<Rightarrow> json" where
  "set_exception_breakpoints_request_to_json q a =
     request_object q ''setExceptionBreakpoints'' [(''arguments'', set_exception_breakpoints_arguments_to_json a)]"

definition set_expression_request_to_json :: "int \<Rightarrow> set_expression_arguments_struct \<Rightarrow> json" where
  "set_expression_request_to_json q a =
     request_object q ''setExpression'' [(''arguments'', set_expression_arguments_to_json a)]"

definition set_function_breakpoints_request_to_json :: "int \<Rightarrow> set_function_breakpoints_arguments_struct \<Rightarrow> json" where
  "set_function_breakpoints_request_to_json q a =
     request_object q ''setFunctionBreakpoints'' [(''arguments'', set_function_breakpoints_arguments_to_json a)]"

definition set_instruction_breakpoints_request_to_json :: "int \<Rightarrow> set_instruction_breakpoints_arguments_struct \<Rightarrow> json" where
  "set_instruction_breakpoints_request_to_json q a =
     request_object q ''setInstructionBreakpoints'' [(''arguments'', set_instruction_breakpoints_arguments_to_json a)]"

definition set_variable_request_to_json :: "int \<Rightarrow> set_variable_arguments_struct \<Rightarrow> json" where
  "set_variable_request_to_json q a =
     request_object q ''setVariable'' [(''arguments'', set_variable_arguments_to_json a)]"

definition source_request_to_json :: "int \<Rightarrow> source_arguments_struct \<Rightarrow> json" where
  "source_request_to_json q a = request_object q ''source'' [(''arguments'', source_arguments_to_json a)]"

definition stack_trace_request_to_json :: "int \<Rightarrow> stack_trace_arguments_struct \<Rightarrow> json" where
  "stack_trace_request_to_json q a =
     request_object q ''stackTrace'' [(''arguments'', stack_trace_arguments_to_json a)]"

definition start_debugging_request_to_json :: "int \<Rightarrow> start_debugging_request_arguments_struct \<Rightarrow> json" where
  "start_debugging_request_to_json q a =
     request_object q ''startDebugging'' [(''arguments'', start_debugging_request_arguments_to_json a)]"

definition step_back_request_to_json :: "int \<Rightarrow> step_back_arguments_struct \<Rightarrow> json" where
  "step_back_request_to_json q a =
     request_object q ''stepBack'' [(''arguments'', step_back_arguments_to_json a)]"

definition step_in_request_to_json :: "int \<Rightarrow> step_in_arguments_struct \<Rightarrow> json" where
  "step_in_request_to_json q a = request_object q ''stepIn'' [(''arguments'', step_in_arguments_to_json a)]"

definition step_in_targets_request_to_json :: "int \<Rightarrow> step_in_targets_arguments_struct \<Rightarrow> json" where
  "step_in_targets_request_to_json q a =
     request_object q ''stepInTargets'' [(''arguments'', step_in_targets_arguments_to_json a)]"

definition step_out_request_to_json :: "int \<Rightarrow> step_out_arguments_struct \<Rightarrow> json" where
  "step_out_request_to_json q a =
     request_object q ''stepOut'' [(''arguments'', step_out_arguments_to_json a)]"

definition terminate_request_to_json :: "int \<Rightarrow> terminate_arguments_struct option \<Rightarrow> json" where
  "terminate_request_to_json q a =
     request_object q ''terminate'' (optional ''arguments'' terminate_arguments_to_json a)"

definition terminate_threads_request_to_json :: "int \<Rightarrow> terminate_threads_arguments_struct \<Rightarrow> json" where
  "terminate_threads_request_to_json q a =
     request_object q ''terminateThreads'' [(''arguments'', terminate_threads_arguments_to_json a)]"

definition threads_request_to_json :: "int \<Rightarrow> json \<Rightarrow> json" where
  "threads_request_to_json q a = request_object q ''threads'' (optional_json ''arguments'' a)"

definition variables_request_to_json :: "int \<Rightarrow> variables_arguments_struct \<Rightarrow> json" where
  "variables_request_to_json q a =
     request_object q ''variables'' [(''arguments'', variables_arguments_to_json a)]"

definition write_memory_request_to_json :: "int \<Rightarrow> write_memory_arguments_struct \<Rightarrow> json" where
  "write_memory_request_to_json q a =
     request_object q ''writeMemory'' [(''arguments'', write_memory_arguments_to_json a)]"

datatype (plugins only: code) client_request =
    Client_Attach attach_request_arguments_struct
  | Client_Breakpoint_Locations "breakpoint_locations_arguments_struct option"
  | Client_Cancel "cancel_arguments_struct option"
  | Client_Completions completions_arguments_struct
  | Client_Configuration_Done "unit option"
  | Client_Continue continue_arguments_struct
  | Client_Data_Breakpoint_Info data_breakpoint_info_arguments_struct
  | Client_Disassemble disassemble_arguments_struct
  | Client_Disconnect "disconnect_arguments_struct option"
  | Client_Evaluate evaluate_arguments_struct
  | Client_Exception_Info exception_info_arguments_struct
  | Client_Goto goto_arguments_struct
  | Client_Goto_Targets goto_targets_arguments_struct
  | Client_Initialize initialize_request_arguments_struct
  | Client_Launch launch_request_arguments_struct
  | Client_Loaded_Sources "unit option"
  | Client_Locations locations_arguments_struct
  | Client_Modules modules_arguments_struct
  | Client_Next next_arguments_struct
  | Client_Pause pause_arguments_struct
  | Client_Read_Memory read_memory_arguments_struct
  | Client_Restart "restart_arguments_struct option"
  | Client_Restart_Frame restart_frame_arguments_struct
  | Client_Reverse_Continue reverse_continue_arguments_struct
  | Client_Run_In_Terminal run_in_terminal_request_arguments_struct
  | Client_Scopes scopes_arguments_struct
  | Client_Set_Breakpoints set_breakpoints_arguments_struct
  | Client_Set_Data_Breakpoints set_data_breakpoints_arguments_struct
  | Client_Set_Exception_Breakpoints set_exception_breakpoints_arguments_struct
  | Client_Set_Expression set_expression_arguments_struct
  | Client_Set_Function_Breakpoints set_function_breakpoints_arguments_struct
  | Client_Set_Instruction_Breakpoints set_instruction_breakpoints_arguments_struct
  | Client_Set_Variable set_variable_arguments_struct
  | Client_Source source_arguments_struct
  | Client_Stack_Trace stack_trace_arguments_struct
  | Client_Start_Debugging start_debugging_request_arguments_struct
  | Client_Step_Back step_back_arguments_struct
  | Client_Step_In step_in_arguments_struct
  | Client_Step_In_Targets step_in_targets_arguments_struct
  | Client_Step_Out step_out_arguments_struct
  | Client_Terminate "terminate_arguments_struct option"
  | Client_Terminate_Threads terminate_threads_arguments_struct
  | Client_Threads json
  | Client_Variables variables_arguments_struct
  | Client_Write_Memory write_memory_arguments_struct

fun client_request_to_json :: "int \<Rightarrow> client_request \<Rightarrow> json" where
  "client_request_to_json q (Client_Attach a) = attach_request_to_json q a"
| "client_request_to_json q (Client_Breakpoint_Locations a) = breakpoint_locations_request_to_json q a"
| "client_request_to_json q (Client_Cancel a) = cancel_request_to_json q a"
| "client_request_to_json q (Client_Completions a) = completions_request_to_json q a"
| "client_request_to_json q (Client_Configuration_Done a) = configuration_done_request_to_json q a"
| "client_request_to_json q (Client_Continue a) = continue_request_to_json q a"
| "client_request_to_json q (Client_Data_Breakpoint_Info a) = data_breakpoint_info_request_to_json q a"
| "client_request_to_json q (Client_Disassemble a) = disassemble_request_to_json q a"
| "client_request_to_json q (Client_Disconnect a) = disconnect_request_to_json q a"
| "client_request_to_json q (Client_Evaluate a) = evaluate_request_to_json q a"
| "client_request_to_json q (Client_Exception_Info a) = exception_info_request_to_json q a"
| "client_request_to_json q (Client_Goto a) = goto_request_to_json q a"
| "client_request_to_json q (Client_Goto_Targets a) = goto_targets_request_to_json q a"
| "client_request_to_json q (Client_Initialize a) = initialize_request_to_json q a"
| "client_request_to_json q (Client_Launch a) = launch_request_to_json q a"
| "client_request_to_json q (Client_Loaded_Sources a) = loaded_sources_request_to_json q a"
| "client_request_to_json q (Client_Locations a) = locations_request_to_json q a"
| "client_request_to_json q (Client_Modules a) = modules_request_to_json q a"
| "client_request_to_json q (Client_Next a) = next_request_to_json q a"
| "client_request_to_json q (Client_Pause a) = pause_request_to_json q a"
| "client_request_to_json q (Client_Read_Memory a) = read_memory_request_to_json q a"
| "client_request_to_json q (Client_Restart a) = restart_request_to_json q a"
| "client_request_to_json q (Client_Restart_Frame a) = restart_frame_request_to_json q a"
| "client_request_to_json q (Client_Reverse_Continue a) = reverse_continue_request_to_json q a"
| "client_request_to_json q (Client_Run_In_Terminal a) = run_in_terminal_request_to_json q a"
| "client_request_to_json q (Client_Scopes a) = scopes_request_to_json q a"
| "client_request_to_json q (Client_Set_Breakpoints a) = set_breakpoints_request_to_json q a"
| "client_request_to_json q (Client_Set_Data_Breakpoints a) = set_data_breakpoints_request_to_json q a"
| "client_request_to_json q (Client_Set_Exception_Breakpoints a) = set_exception_breakpoints_request_to_json q a"
| "client_request_to_json q (Client_Set_Expression a) = set_expression_request_to_json q a"
| "client_request_to_json q (Client_Set_Function_Breakpoints a) = set_function_breakpoints_request_to_json q a"
| "client_request_to_json q (Client_Set_Instruction_Breakpoints a) = set_instruction_breakpoints_request_to_json q a"
| "client_request_to_json q (Client_Set_Variable a) = set_variable_request_to_json q a"
| "client_request_to_json q (Client_Source a) = source_request_to_json q a"
| "client_request_to_json q (Client_Stack_Trace a) = stack_trace_request_to_json q a"
| "client_request_to_json q (Client_Start_Debugging a) = start_debugging_request_to_json q a"
| "client_request_to_json q (Client_Step_Back a) = step_back_request_to_json q a"
| "client_request_to_json q (Client_Step_In a) = step_in_request_to_json q a"
| "client_request_to_json q (Client_Step_In_Targets a) = step_in_targets_request_to_json q a"
| "client_request_to_json q (Client_Step_Out a) = step_out_request_to_json q a"
| "client_request_to_json q (Client_Terminate a) = terminate_request_to_json q a"
| "client_request_to_json q (Client_Terminate_Threads a) = terminate_threads_request_to_json q a"
| "client_request_to_json q (Client_Threads a) = threads_request_to_json q a"
| "client_request_to_json q (Client_Variables a) = variables_request_to_json q a"
| "client_request_to_json q (Client_Write_Memory a) = write_memory_request_to_json q a"

fun request_command :: "client_request \<Rightarrow> string" where
  "request_command (Client_Attach a) = ''attach''"
| "request_command (Client_Breakpoint_Locations a) = ''breakpointLocations''"
| "request_command (Client_Cancel a) = ''cancel''"
| "request_command (Client_Completions a) = ''completions''"
| "request_command (Client_Configuration_Done a) = ''configurationDone''"
| "request_command (Client_Continue a) = ''continue''"
| "request_command (Client_Data_Breakpoint_Info a) = ''dataBreakpointInfo''"
| "request_command (Client_Disassemble a) = ''disassemble''"
| "request_command (Client_Disconnect a) = ''disconnect''"
| "request_command (Client_Evaluate a) = ''evaluate''"
| "request_command (Client_Exception_Info a) = ''exceptionInfo''"
| "request_command (Client_Goto a) = ''goto''"
| "request_command (Client_Goto_Targets a) = ''gotoTargets''"
| "request_command (Client_Initialize a) = ''initialize''"
| "request_command (Client_Launch a) = ''launch''"
| "request_command (Client_Loaded_Sources a) = ''loadedSources''"
| "request_command (Client_Locations a) = ''locations''"
| "request_command (Client_Modules a) = ''modules''"
| "request_command (Client_Next a) = ''next''"
| "request_command (Client_Pause a) = ''pause''"
| "request_command (Client_Read_Memory a) = ''readMemory''"
| "request_command (Client_Restart a) = ''restart''"
| "request_command (Client_Restart_Frame a) = ''restartFrame''"
| "request_command (Client_Reverse_Continue a) = ''reverseContinue''"
| "request_command (Client_Run_In_Terminal a) = ''runInTerminal''"
| "request_command (Client_Scopes a) = ''scopes''"
| "request_command (Client_Set_Breakpoints a) = ''setBreakpoints''"
| "request_command (Client_Set_Data_Breakpoints a) = ''setDataBreakpoints''"
| "request_command (Client_Set_Exception_Breakpoints a) = ''setExceptionBreakpoints''"
| "request_command (Client_Set_Expression a) = ''setExpression''"
| "request_command (Client_Set_Function_Breakpoints a) = ''setFunctionBreakpoints''"
| "request_command (Client_Set_Instruction_Breakpoints a) = ''setInstructionBreakpoints''"
| "request_command (Client_Set_Variable a) = ''setVariable''"
| "request_command (Client_Source a) = ''source''"
| "request_command (Client_Stack_Trace a) = ''stackTrace''"
| "request_command (Client_Start_Debugging a) = ''startDebugging''"
| "request_command (Client_Step_Back a) = ''stepBack''"
| "request_command (Client_Step_In a) = ''stepIn''"
| "request_command (Client_Step_In_Targets a) = ''stepInTargets''"
| "request_command (Client_Step_Out a) = ''stepOut''"
| "request_command (Client_Terminate a) = ''terminate''"
| "request_command (Client_Terminate_Threads a) = ''terminateThreads''"
| "request_command (Client_Threads a) = ''threads''"
| "request_command (Client_Variables a) = ''variables''"
| "request_command (Client_Write_Memory a) = ''writeMemory''"

text \<open>Every number of a request is in the range of its type.\<close>

fun representable :: "client_request \<Rightarrow> bool" where
  "representable (Client_Attach a) = True"
| "representable (Client_Breakpoint_Locations a) = pred_option breakpoint_locations_arguments_ok a"
| "representable (Client_Cancel a) = pred_option cancel_arguments_ok a"
| "representable (Client_Completions a) = completions_arguments_ok a"
| "representable (Client_Configuration_Done a) = True"
| "representable (Client_Continue a) = continue_arguments_ok a"
| "representable (Client_Data_Breakpoint_Info a) = data_breakpoint_info_arguments_ok a"
| "representable (Client_Disassemble a) = disassemble_arguments_ok a"
| "representable (Client_Disconnect a) = True"
| "representable (Client_Evaluate a) = evaluate_arguments_ok a"
| "representable (Client_Exception_Info a) = exception_info_arguments_ok a"
| "representable (Client_Goto a) = goto_arguments_ok a"
| "representable (Client_Goto_Targets a) = goto_targets_arguments_ok a"
| "representable (Client_Initialize a) = True"
| "representable (Client_Launch a) = True"
| "representable (Client_Loaded_Sources a) = True"
| "representable (Client_Locations a) = locations_arguments_ok a"
| "representable (Client_Modules a) = modules_arguments_ok a"
| "representable (Client_Next a) = next_arguments_ok a"
| "representable (Client_Pause a) = pause_arguments_ok a"
| "representable (Client_Read_Memory a) = read_memory_arguments_ok a"
| "representable (Client_Restart a) = True"
| "representable (Client_Restart_Frame a) = restart_frame_arguments_ok a"
| "representable (Client_Reverse_Continue a) = reverse_continue_arguments_ok a"
| "representable (Client_Run_In_Terminal a) = True"
| "representable (Client_Scopes a) = scopes_arguments_ok a"
| "representable (Client_Set_Breakpoints a) = set_breakpoints_arguments_ok a"
| "representable (Client_Set_Data_Breakpoints a) = True"
| "representable (Client_Set_Exception_Breakpoints a) = True"
| "representable (Client_Set_Expression a) = set_expression_arguments_ok a"
| "representable (Client_Set_Function_Breakpoints a) = True"
| "representable (Client_Set_Instruction_Breakpoints a) = set_instruction_breakpoints_arguments_ok a"
| "representable (Client_Set_Variable a) = set_variable_arguments_ok a"
| "representable (Client_Source a) = source_arguments_ok a"
| "representable (Client_Stack_Trace a) = stack_trace_arguments_ok a"
| "representable (Client_Start_Debugging a) = True"
| "representable (Client_Step_Back a) = step_back_arguments_ok a"
| "representable (Client_Step_In a) = step_in_arguments_ok a"
| "representable (Client_Step_In_Targets a) = step_in_targets_arguments_ok a"
| "representable (Client_Step_Out a) = step_out_arguments_ok a"
| "representable (Client_Terminate a) = True"
| "representable (Client_Terminate_Threads a) = terminate_threads_arguments_ok a"
| "representable (Client_Threads a) = True"
| "representable (Client_Variables a) = variables_arguments_ok a"
| "representable (Client_Write_Memory a) = write_memory_arguments_ok a"

end
