(* ===== verification/Written_Fields.thy ===== *)
theory Written_Fields
  imports Request_Structs Conformance
begin

text \<open>
  Reading back what was written: where a field stands in an object that a conversion of the
  protocol's structs wrote, and what it is read as.
\<close>

section \<open>Fields that were written\<close>

text \<open>
  Where a field stands in an object that was written, and what it is read as.  A conversion is
  then rewritten field by field; \<open>written\<close> collects the rules.
\<close>

named_theorems written \<open>what a conversion makes of a value that was written\<close>

lemma map_of_written [written]:
  "map_of rest k = None \<Longrightarrow> map_of (optional k f v @ rest) k = map_option f v"
  "key \<noteq> k \<Longrightarrow> map_of (optional k f v @ rest) key = map_of rest key"
  by (simp_all add: map_add_def split: option.split)

lemma map_of_optional_json [simp]:
  "map_of (optional_json k j) key = (if key = k \<and> j \<noteq> J_Null then Some j else None)"
  by (simp add: optional_json_def)

lemma r_bind_Inr [written]: "r_bind (Inr x) f = f x"
  by (simp add: r_bind_def)

lemma in_int32_wrap: "in_int32 n \<Longrightarrow> wrap_int32 n = n"
  by (simp add: in_int32_def wrap_int32_def)

lemma in_int64_wrap: "in_int64 n \<Longrightarrow> wrap_int64 n = n"
  by (simp add: in_int64_def wrap_int64_def)

lemma field_written [written]:
  "find_key j k = map_option J_String s \<Longrightarrow> field j k get_string = Inr s"
  "find_key j k = map_option J_Bool b \<Longrightarrow> field j k get_bool = Inr b"
  "find_key j k = map_option J_Int n \<Longrightarrow> pred_option in_int32 n \<Longrightarrow> field j k (get_int tr) = Inr n"
  "find_key j k = map_option J_Int n \<Longrightarrow> pred_option in_int64 n \<Longrightarrow> field j k (get_int64 tr) = Inr n"
  by (cases s; cases b; cases n; simp add: field_def r_bind_def in_int32_wrap in_int64_wrap)+

lemma required_written [written]:
  "find_key j k = Some (J_String s) \<Longrightarrow> field_or j k get_string e = Inr s"
  "find_key j k = Some (J_Int n) \<Longrightarrow> in_int32 n \<Longrightarrow> field_or j k (get_int tr) d = Inr n"
  "find_key j k = Some (J_Int n) \<Longrightarrow> in_int64 n \<Longrightarrow> field_or j k (get_int64 tr) d = Inr n"
  by (simp_all add: field_or_def field_def r_bind_def in_int32_wrap in_int64_wrap)

text \<open>A field that is only checked.\<close>

lemma checked_written [written]:
  "find_key j k = map_option f v \<Longrightarrow> (\<And>x. c (f x) = Inr u) \<Longrightarrow> r_bind (field j k c) (\<lambda>u. r) = r"
  by (cases v) (simp_all add: field_def r_bind_def)

lemma values_accepted [written]:
  "only_check get_string (J_String s) = Inr ()" "only_check get_bool (J_Bool b) = Inr ()"
  "only_check (get_int tr) (J_Int n) = Inr ()" "only_check (get_int64 tr) (J_Int n) = Inr ()"
  by (simp_all add: only_check_def r_bind_def)

lemma list_written:
  "(\<And>x. x \<in> set xs \<Longrightarrow> g (f x) = Inr (h x)) \<Longrightarrow> get_vector g (json_list f xs) = Inr (map h xs)"
proof -
  assume "\<And>x. x \<in> set xs \<Longrightarrow> g (f x) = Inr (h x)"
  then have "read_all_of g (map f xs) = Inr (map h xs)" by (induction xs) (simp_all add: r_bind_def)
  then show ?thesis by (simp add: json_list_def)
qed

lemma list_checked [written]:
  "(\<And>x. g (f x) = Inr ()) \<Longrightarrow> only_check (get_vector g) (json_list f xs) = Inr ()"
  "only_check (get_vector get_string) (json_list J_String ss) = Inr ()"
  "only_check (get_vector (get_int tr)) (json_list J_Int ns) = Inr ()"
  using list_written [of xs g f "\<lambda>x. ()"] list_written [of ss get_string J_String id]
    list_written [of ns "get_int tr" J_Int wrap_int32]
  by (simp_all add: only_check_def r_bind_def)

text \<open>For large objects: every entry is accepted by the check of its key.\<close>

definition entry_ok :: "(string \<times> (json \<Rightarrow> string + unit)) list \<Rightarrow> string \<times> json \<Rightarrow> bool" where
  "entry_ok fs e \<longleftrightarrow> (case map_of fs (fst e) of None \<Rightarrow> True | Some f \<Rightarrow> f (snd e) = Inr ())"

lemma entries_accepted:
  assumes "distinct (map fst fs)" "list_all (entry_ok fs) es"
  shows "check_fields (J_Object es) fs = Inr ()"
proof (rule fields_accepted, unfold list_all_iff, clarify)
  fix key f v assume "(key, f) \<in> set fs" "find_key (J_Object es) key = Some v"
  then have "map_of fs key = Some f" "(key, v) \<in> set es"
    using assms(1) by (auto dest: map_of_SomeD)
  then show "f v = Inr ()" using assms(2) by (auto simp: list_all_iff entry_ok_def)
qed

lemma entries_optional [written]:
  "(\<And>x. entry_ok fs (k, f x)) \<Longrightarrow> list_all (entry_ok fs) (optional k f v)"
  by (cases v) (simp_all add: optional_def)

lemma entries_optional_json [written]:
  "entry_ok fs (k, j) \<Longrightarrow> list_all (entry_ok fs) (optional_json k j)"
  by (simp add: optional_json_def)

lemma entries_accepted_object:
  "distinct (map fst fs) \<Longrightarrow> list_all (entry_ok fs) es \<Longrightarrow> check_fields (object_of es) fs = Inr ()"
  by (cases es) (simp_all add: object_of_def entries_accepted fields_accepted list_all_iff del: entry_ok_def)

lemmas checks_written = fields_accepted strings_def booleans_def integers_def long_integers_def

lemmas entry_checks = entry_ok_def strings_def booleans_def integers_def long_integers_def

end
