(* ===== verification/Client_Requests.thy ===== *)
theory Client_Requests
  imports Written_Fields
begin

text \<open>
  A client and the service over the protocol's JSON: a request that a client writes from its struct
  reaches the handler of its command with the fields that were written.
\<close>

section \<open>Names\<close>

lemma evaluate_context_written [written]:
  "evaluate_context_to_json v \<noteq> J_Null"
  "get_enum ''EvaluateArgumentsContext''
      [(''watch'', Watch_Context), (''repl'', Repl_Context), (''hover'', Hover_Context),
       (''clipboard'', Clipboard_Context), (''variables'', Variables_Context)] (evaluate_context_to_json v) = Inr v"
  by (cases v; simp add: get_enum_def r_bind_def enum_names_def stepping_granularity_from_json_def
      run_in_terminal_kind_from_json_def start_debugging_presentation_from_json_def
      start_debugging_request_kind_from_json_def)+

lemma stepping_granularity_written [written]:
  "stepping_granularity_to_json v \<noteq> J_Null"
  "stepping_granularity_from_json (stepping_granularity_to_json v) = Inr v"
  by (cases v; simp add: get_enum_def r_bind_def enum_names_def stepping_granularity_from_json_def
      run_in_terminal_kind_from_json_def start_debugging_presentation_from_json_def
      start_debugging_request_kind_from_json_def)+

lemma data_access_written [written]:
  "data_access_to_json v \<noteq> J_Null"
  "get_enum ''DataBreakpointAccessType''
      [(''read'', Read_Access), (''write'', Write_Access), (''readWrite'', Read_Write_Access)] (data_access_to_json v) = Inr v"
  by (cases v; simp add: get_enum_def r_bind_def enum_names_def stepping_granularity_from_json_def
      run_in_terminal_kind_from_json_def start_debugging_presentation_from_json_def
      start_debugging_request_kind_from_json_def)+

lemma variables_filter_written [written]:
  "variables_filter_to_json v \<noteq> J_Null"
  "get_enum ''VariablesArgumentsFilter'' [(''indexed'', True), (''named'', False)] (variables_filter_to_json v) = Inr (v = Indexed_Filter)"
  by (cases v; simp add: get_enum_def r_bind_def enum_names_def stepping_granularity_from_json_def
      run_in_terminal_kind_from_json_def start_debugging_presentation_from_json_def
      start_debugging_request_kind_from_json_def)+

lemma path_format_written [written]:
  "path_format_to_json v \<noteq> J_Null"
  "get_enum ''InitializeRequestArgumentsPathFormat'' (enum_names [''path'', ''uri'']) (path_format_to_json v) = Inr ()"
  by (cases v; simp add: get_enum_def r_bind_def enum_names_def stepping_granularity_from_json_def
      run_in_terminal_kind_from_json_def start_debugging_presentation_from_json_def
      start_debugging_request_kind_from_json_def)+

lemma exception_break_mode_written [written]:
  "exception_break_mode_to_json v \<noteq> J_Null"
  "get_enum ''ExceptionBreakMode''
      (enum_names [''never'', ''always'', ''unhandled'', ''userUnhandled'']) (exception_break_mode_to_json v) = Inr ()"
  by (cases v; simp add: get_enum_def r_bind_def enum_names_def stepping_granularity_from_json_def
      run_in_terminal_kind_from_json_def start_debugging_presentation_from_json_def
      start_debugging_request_kind_from_json_def)+

lemma terminal_kind_written [written]:
  "terminal_kind_to_json v \<noteq> J_Null"
  "run_in_terminal_kind_from_json (terminal_kind_to_json v) = Inr ()"
  by (cases v; simp add: get_enum_def r_bind_def enum_names_def stepping_granularity_from_json_def
      run_in_terminal_kind_from_json_def start_debugging_presentation_from_json_def
      start_debugging_request_kind_from_json_def)+

lemma output_presentation_written [written]:
  "output_presentation_to_json v \<noteq> J_Null"
  "start_debugging_presentation_from_json (output_presentation_to_json v) = Inr ()"
  by (cases v; simp add: get_enum_def r_bind_def enum_names_def stepping_granularity_from_json_def
      run_in_terminal_kind_from_json_def start_debugging_presentation_from_json_def
      start_debugging_request_kind_from_json_def)+

lemma debugging_request_written [written]:
  "debugging_request_to_json v \<noteq> J_Null"
  "start_debugging_request_kind_from_json (debugging_request_to_json v) = Inr ()"
  by (cases v; simp add: get_enum_def r_bind_def enum_names_def stepping_granularity_from_json_def
      run_in_terminal_kind_from_json_def start_debugging_presentation_from_json_def
      start_debugging_request_kind_from_json_def)+

lemma name_field_written [written]:
  "find_key j k = map_option stepping_granularity_to_json g \<Longrightarrow> field j k stepping_granularity_from_json = Inr g"
  "find_key j k = map_option evaluate_context_to_json c \<Longrightarrow>
     field j k (get_enum ''EvaluateArgumentsContext''
       [(''watch'', Watch_Context), (''repl'', Repl_Context), (''hover'', Hover_Context),
        (''clipboard'', Clipboard_Context), (''variables'', Variables_Context)]) = Inr c"
  "find_key j k = map_option data_access_to_json a \<Longrightarrow>
     field j k (get_enum ''DataBreakpointAccessType''
       [(''read'', Read_Access), (''write'', Write_Access), (''readWrite'', Read_Write_Access)]) = Inr a"
  "find_key j k = map_option variables_filter_to_json f \<Longrightarrow>
     field_or j k (get_enum ''VariablesArgumentsFilter'' [(''indexed'', True), (''named'', False)]) False
       = Inr (f = Some Indexed_Filter)"
  by (cases g; cases c; cases a; cases f; simp add: field_or_def field_def written)+

section \<open>Nested objects\<close>

lemma string_map_accepted [written]: "get_string_map (string_map_to_json kvs) = Inr ()"
proof -
  have "read_all_of (get_string \<circ> snd) (map (\<lambda>(k, v). (k, J_String v)) kvs) = Inr (map snd kvs)"
    by (induction kvs) (auto simp: r_bind_def)
  then show ?thesis by (simp add: string_map_to_json_def only_check_def r_bind_def)
qed

lemma value_format_accepted [written]:
  "value_format_from_json (value_format_to_json a) = Inr ()"
  unfolding value_format_from_json_def value_format_to_json_def
  by (rule entries_accepted entries_accepted_object; simp add: written entry_checks)

lemma stack_frame_format_accepted [written]:
  "stack_frame_format_from_json (stack_frame_format_to_json a) = Inr ()"
  unfolding stack_frame_format_from_json_def stack_frame_format_to_json_def
  by (rule entries_accepted entries_accepted_object; simp add: written entry_checks)

lemma exception_filter_options_accepted [written]:
  "exception_filter_options_from_json (exception_filter_options_to_json a) = Inr ()"
  unfolding exception_filter_options_from_json_def exception_filter_options_to_json_def
  by (rule entries_accepted entries_accepted_object; simp add: written entry_checks)

lemma exception_path_segment_accepted [written]:
  "exception_path_segment_from_json (exception_path_segment_to_json a) = Inr ()"
  unfolding exception_path_segment_from_json_def exception_path_segment_to_json_def
  by (rule entries_accepted entries_accepted_object; simp add: written entry_checks)

lemma exception_options_accepted [written]:
  "exception_options_from_json (exception_options_to_json a) = Inr ()"
  unfolding exception_options_from_json_def exception_options_to_json_def
  by (rule entries_accepted entries_accepted_object; simp add: written entry_checks)

text \<open>What the handlers get of a breakpoint.\<close>

definition data_view :: "data_breakpoint_struct \<Rightarrow> string \<times> data_access option" where
  "data_view b = (data_breakpoint_data_id b, data_breakpoint_access_type b)"

definition instruction_view :: "instruction_breakpoint_struct \<Rightarrow> string \<times> int option" where
  "instruction_view b = (instruction_breakpoint_instruction_reference b, instruction_breakpoint_offset b)"

lemma source_breakpoint_written [written]:
  "source_breakpoint_ok a \<Longrightarrow>
   source_breakpoint_from_json tr (source_breakpoint_to_json a) = Inr a"
  by (simp add: written checks_written del: map_of_append
      add: source_breakpoint_ok_def source_breakpoint_from_json_def source_breakpoint_to_json_def)

lemma function_breakpoint_written [written]:
  "function_breakpoint_from_json (function_breakpoint_to_json a) = Inr (function_breakpoint_name a)"
  by (simp add: written checks_written del: map_of_append
      add: function_breakpoint_from_json_def function_breakpoint_to_json_def)

lemma data_breakpoint_written [written]:
  "data_breakpoint_from_json (data_breakpoint_to_json a) = Inr (data_view a)"
  by (simp add: written checks_written data_view_def del: map_of_append
      add: data_breakpoint_from_json_def data_breakpoint_to_json_def)

lemma instruction_breakpoint_written [written]:
  "instruction_breakpoint_ok a \<Longrightarrow>
   instruction_breakpoint_from_json tr (instruction_breakpoint_to_json a) = Inr (instruction_view a)"
  by (simp add: written checks_written instruction_view_def del: map_of_append
      add: instruction_breakpoint_ok_def instruction_breakpoint_from_json_def instruction_breakpoint_to_json_def)

text \<open>A source without any field is written as null, which is read as if there were none.\<close>

lemma source_null: "source_to_json s = J_Null \<longleftrightarrow> s = no_source"
  by (cases s) (auto simp: source_to_json.simps object_of_def optional_def no_source_def split: option.splits if_splits)

definition source_sent :: "requested_source option \<Rightarrow> requested_source option" where
  "source_sent v = (if v = Some no_source then None else v)"

lemma source_path_sent [written]:
  "(case source_sent v of None \<Rightarrow> None | Some s \<Rightarrow> rs_path s) = (case v of None \<Rightarrow> None | Some s \<Rightarrow> rs_path s)"
  by (simp add: source_sent_def no_source_def split: option.split)

lemma source_field_written [written]:
  "find_key j k = Some (source_to_json s) \<Longrightarrow> int32_references s \<Longrightarrow>
     field_or j k (source_from_json tr) no_source = Inr s"
  "find_key j k = map_option source_to_json v \<Longrightarrow> pred_option int32_references v \<Longrightarrow>
     field j k (source_from_json tr) = Inr (source_sent v)"
  by (cases v; auto simp: field_or_def field_def source_null source_reads_back r_bind_Inr source_sent_def)+

lemma list_field [written]:
  "find_key j k = Some (json_list f xs) \<Longrightarrow> get_vector g (json_list f xs) = Inr ys \<Longrightarrow>
     field_or j k (get_vector g) d = Inr ys"
  by (simp add: field_or_def field_def r_bind_def json_list_def)

lemma elements_written [written]:
  "list_all source_breakpoint_ok bs \<Longrightarrow>
     get_vector (source_breakpoint_from_json tr) (json_list source_breakpoint_to_json bs) = Inr bs"
  "list_all in_int64 ns \<Longrightarrow> get_vector (get_int64 tr) (json_list J_Int ns) = Inr ns"
  "get_vector get_string (json_list J_String ss) = Inr ss"
  by (rule vector_reads_back, simp add: list_all_iff written in_int64_wrap)+

lemma optional_list_field [written]:
  "find_key j k = map_option (json_list source_breakpoint_to_json) bs \<Longrightarrow>
     pred_option (list_all source_breakpoint_ok) bs \<Longrightarrow>
     field j k (get_vector (source_breakpoint_from_json tr)) = Inr bs"
  "find_key j k = map_option (json_list J_Int) ns \<Longrightarrow> pred_option (list_all in_int64) ns \<Longrightarrow>
     field j k (get_vector (get_int64 tr)) = Inr ns"
  by (cases bs; cases ns; simp add: field_def r_bind_Inr elements_written; simp add: json_list_def)+

lemma views_written [written]:
  "get_vector function_breakpoint_from_json (json_list function_breakpoint_to_json fs)
     = Inr (map function_breakpoint_name fs)"
  "get_vector data_breakpoint_from_json (json_list data_breakpoint_to_json ds)
     = Inr (map data_view ds)"
  "list_all instruction_breakpoint_ok bs \<Longrightarrow>
     get_vector (instruction_breakpoint_from_json tr) (json_list instruction_breakpoint_to_json bs)
       = Inr (map instruction_view bs)"
  by (rule list_written, simp add: list_all_iff written)+

section \<open>Arguments of the handled requests\<close>

text \<open>What the handlers of these requests get.\<close>

definition set_breakpoints_view :: "set_breakpoints_arguments_struct \<Rightarrow> set_breakpoints_arguments" where
  "set_breakpoints_view a =
     \<lparr>sb_source = set_breakpoints_source a, sb_breakpoints = set_breakpoints_breakpoints a,
      sb_lines = set_breakpoints_lines a\<rparr>"

definition evaluate_view :: "evaluate_arguments_struct \<Rightarrow> evaluate_arguments" where
  "evaluate_view a =
     \<lparr>ea_expression = evaluate_expression a, ea_frame_id = evaluate_frame_id a, ea_context = evaluate_context a,
      ea_has_source = (source_sent (evaluate_source a) \<noteq> None), ea_line = evaluate_line a,
      ea_column = evaluate_column a\<rparr>"

definition disassemble_view :: "disassemble_arguments_struct \<Rightarrow> disassemble_arguments" where
  "disassemble_view a =
     \<lparr>da_memory_reference = disassemble_memory_reference a, da_offset = disassemble_offset a,
      da_instruction_offset = disassemble_instruction_offset a,
      da_instruction_count = disassemble_instruction_count a, da_resolve_symbols = disassemble_resolve_symbols a\<rparr>"

lemma continue_arguments_written [written]:
  "continue_arguments_ok a \<Longrightarrow>
   continue_arguments_from_json tr (continue_arguments_to_json a) =
     Inr (continue_thread_id a, continue_single_thread a)"
  by (simp add: written checks_written del: map_of_append
      add: continue_arguments_ok_def continue_arguments_from_json_def continue_arguments_to_json_def)

lemma next_arguments_written [written]:
  "next_arguments_ok a \<Longrightarrow>
   step_arguments_from_json tr (next_arguments_to_json a) =
     Inr (next_thread_id a, next_single_thread a, next_granularity a)"
  by (simp add: written checks_written del: map_of_append
      add: next_arguments_ok_def step_arguments_from_json_def next_arguments_to_json_def)

lemma step_out_arguments_written [written]:
  "step_out_arguments_ok a \<Longrightarrow>
   step_arguments_from_json tr (step_out_arguments_to_json a) =
     Inr (step_out_thread_id a, step_out_single_thread a, step_out_granularity a)"
  by (simp add: written checks_written del: map_of_append
      add: step_out_arguments_ok_def step_arguments_from_json_def step_out_arguments_to_json_def)

lemma step_in_arguments_written [written]:
  "step_in_arguments_ok a \<Longrightarrow>
   step_in_arguments_from_json tr (step_in_arguments_to_json a) =
     Inr (step_in_thread_id a, step_in_single_thread a, step_in_target_id a, step_in_granularity a)"
  by (simp add: written checks_written del: map_of_append
      add: step_in_arguments_ok_def step_in_arguments_from_json_def step_in_arguments_to_json_def)

lemma exception_info_arguments_written [written]:
  "exception_info_arguments_ok a \<Longrightarrow>
   thread_arguments_from_json tr (exception_info_arguments_to_json a) = Inr (exception_info_thread_id a)"
  by (simp add: written checks_written del: map_of_append
      add: exception_info_arguments_ok_def thread_arguments_from_json_def exception_info_arguments_to_json_def)

lemma pause_arguments_written [written]:
  "pause_arguments_ok a \<Longrightarrow>
   thread_arguments_from_json tr (pause_arguments_to_json a) = Inr (pause_thread_id a)"
  by (simp add: written checks_written del: map_of_append
      add: pause_arguments_ok_def thread_arguments_from_json_def pause_arguments_to_json_def)

lemma terminate_arguments_accepted [written]:
  "terminate_arguments_from_json (terminate_arguments_to_json a) = Inr ()"
  unfolding terminate_arguments_from_json_def terminate_arguments_to_json_def
  by (rule entries_accepted entries_accepted_object; simp add: written entry_checks)

lemma launch_request_arguments_accepted [written]:
  "launch_arguments_from_json (launch_request_arguments_to_json a) = Inr ()"
  unfolding launch_arguments_from_json_def launch_request_arguments_to_json_def
  by (rule entries_accepted entries_accepted_object; simp add: written entry_checks)

lemma initialize_request_arguments_accepted [written]:
  "initialize_arguments_from_json (initialize_request_arguments_to_json a) = Inr ()"
  unfolding initialize_arguments_from_json_def initialize_request_arguments_to_json_def
  by (rule entries_accepted entries_accepted_object; simp add: written entry_checks)

lemma disconnect_arguments_written [written]:
  "disconnect_arguments_from_json (disconnect_arguments_to_json a) = Inr (disconnect_terminate_debuggee a)"
  by (simp add: written checks_written del: map_of_append
      add: disconnect_arguments_from_json_def disconnect_arguments_to_json_def)

lemma set_breakpoints_arguments_written [written]:
  "set_breakpoints_arguments_ok a \<Longrightarrow>
   set_breakpoints_arguments_from_json tr (set_breakpoints_arguments_to_json a) = Inr (set_breakpoints_view a)"
  by (simp add: written checks_written set_breakpoints_view_def del: map_of_append
      add: set_breakpoints_arguments_ok_def set_breakpoints_arguments_from_json_def set_breakpoints_arguments_to_json_def)

lemma set_function_breakpoints_arguments_written [written]:
  "set_function_breakpoints_arguments_from_json (set_function_breakpoints_arguments_to_json a) =
     Inr (map function_breakpoint_name (set_function_breakpoints_breakpoints a))"
  by (simp add: written checks_written del: map_of_append
      add: set_function_breakpoints_arguments_from_json_def set_function_breakpoints_arguments_to_json_def)

lemma set_instruction_breakpoints_arguments_written [written]:
  "set_instruction_breakpoints_arguments_ok a \<Longrightarrow>
   set_instruction_breakpoints_arguments_from_json tr (set_instruction_breakpoints_arguments_to_json a) =
     Inr (map instruction_view (set_instruction_breakpoints_breakpoints a))"
  by (simp add: written checks_written del: map_of_append
      add: set_instruction_breakpoints_arguments_ok_def set_instruction_breakpoints_arguments_from_json_def set_instruction_breakpoints_arguments_to_json_def)

lemma set_data_breakpoints_arguments_written [written]:
  "set_data_breakpoints_arguments_from_json (set_data_breakpoints_arguments_to_json a) =
     Inr (map data_view (set_data_breakpoints_breakpoints a))"
  by (simp add: written checks_written del: map_of_append
      add: set_data_breakpoints_arguments_from_json_def set_data_breakpoints_arguments_to_json_def)

lemma set_exception_breakpoints_arguments_written [written]:
  "set_exception_breakpoints_arguments_from_json (set_exception_breakpoints_arguments_to_json a) =
     Inr (set_exception_breakpoints_filters a)"
  by (simp add: written checks_written del: map_of_append
      add: set_exception_breakpoints_arguments_from_json_def set_exception_breakpoints_arguments_to_json_def)

lemma data_breakpoint_info_arguments_written [written]:
  "data_breakpoint_info_arguments_ok a \<Longrightarrow>
   data_breakpoint_info_arguments_from_json tr (data_breakpoint_info_arguments_to_json a) =
     Inr (data_breakpoint_info_name a, data_breakpoint_info_variables_reference a, data_breakpoint_info_frame_id a)"
  by (simp add: written checks_written del: map_of_append
      add: data_breakpoint_info_arguments_ok_def data_breakpoint_info_arguments_from_json_def data_breakpoint_info_arguments_to_json_def)

lemma stack_trace_arguments_written [written]:
  "stack_trace_arguments_ok a \<Longrightarrow>
   stack_trace_arguments_from_json tr (stack_trace_arguments_to_json a) =
     Inr (stack_trace_thread_id a, stack_trace_start_frame a, stack_trace_levels a)"
  by (simp add: written checks_written del: map_of_append
      add: stack_trace_arguments_ok_def stack_trace_arguments_from_json_def stack_trace_arguments_to_json_def)

lemma scopes_arguments_written [written]:
  "scopes_arguments_ok a \<Longrightarrow>
   scopes_arguments_from_json tr (scopes_arguments_to_json a) = Inr (scopes_frame_id a)"
  by (simp add: written checks_written del: map_of_append
      add: scopes_arguments_ok_def scopes_arguments_from_json_def scopes_arguments_to_json_def)

lemma variables_arguments_written [written]:
  "variables_arguments_ok a \<Longrightarrow>
   variables_arguments_from_json tr (variables_arguments_to_json a) =
     Inr (variables_variables_reference a, variables_filter a = Some Indexed_Filter, variables_start a, variables_count a)"
  by (simp add: written checks_written del: map_of_append
      add: variables_arguments_ok_def variables_arguments_from_json_def variables_arguments_to_json_def)

lemma set_variable_arguments_written [written]:
  "set_variable_arguments_ok a \<Longrightarrow>
   set_variable_arguments_from_json tr (set_variable_arguments_to_json a) =
     Inr (set_variable_variables_reference a, set_variable_name a, set_variable_value a)"
  by (simp add: written checks_written del: map_of_append
      add: set_variable_arguments_ok_def set_variable_arguments_from_json_def set_variable_arguments_to_json_def)

lemma set_expression_arguments_written [written]:
  "set_expression_arguments_ok a \<Longrightarrow>
   set_expression_arguments_from_json tr (set_expression_arguments_to_json a) =
     Inr (set_expression_expression a, set_expression_value a, set_expression_frame_id a)"
  by (simp add: written checks_written del: map_of_append
      add: set_expression_arguments_ok_def set_expression_arguments_from_json_def set_expression_arguments_to_json_def)

lemma evaluate_arguments_written [written]:
  "evaluate_arguments_ok a \<Longrightarrow>
   evaluate_arguments_from_json tr (evaluate_arguments_to_json a) = Inr (evaluate_view a)"
  by (simp add: written checks_written evaluate_view_def del: map_of_append
      add: evaluate_arguments_ok_def evaluate_arguments_from_json_def evaluate_arguments_to_json_def)

lemma read_memory_arguments_written [written]:
  "read_memory_arguments_ok a \<Longrightarrow>
   read_memory_arguments_from_json tr (read_memory_arguments_to_json a) =
     Inr (read_memory_memory_reference a, read_memory_offset a, read_memory_count a)"
  by (simp add: written checks_written del: map_of_append
      add: read_memory_arguments_ok_def read_memory_arguments_from_json_def read_memory_arguments_to_json_def)

lemma write_memory_arguments_written [written]:
  "write_memory_arguments_ok a \<Longrightarrow>
   write_memory_arguments_from_json tr (write_memory_arguments_to_json a) =
     Inr (write_memory_memory_reference a, write_memory_offset a, write_memory_data a)"
  by (simp add: written checks_written del: map_of_append
      add: write_memory_arguments_ok_def write_memory_arguments_from_json_def write_memory_arguments_to_json_def)

lemma disassemble_arguments_written [written]:
  "disassemble_arguments_ok a \<Longrightarrow>
   disassemble_arguments_from_json tr (disassemble_arguments_to_json a) = Inr (disassemble_view a)"
  by (simp add: written checks_written disassemble_view_def del: map_of_append
      add: disassemble_arguments_ok_def disassemble_arguments_from_json_def disassemble_arguments_to_json_def)

lemma modules_arguments_written [written]:
  "modules_arguments_ok a \<Longrightarrow>
   modules_arguments_from_json tr (modules_arguments_to_json a) =
     Inr (modules_start_module a, modules_module_count a)"
  by (simp add: written checks_written del: map_of_append
      add: modules_arguments_ok_def modules_arguments_from_json_def modules_arguments_to_json_def)

lemma source_arguments_written [written]:
  "source_arguments_ok a \<Longrightarrow>
   source_arguments_from_json tr (source_arguments_to_json a) =
     Inr (case source_source a of None \<Rightarrow> None | Some s \<Rightarrow> rs_path s)"
  by (simp add: written checks_written del: map_of_append
      add: source_arguments_ok_def source_arguments_from_json_def source_arguments_to_json_def)

section \<open>Arguments of the other requests\<close>

lemma breakpoint_locations_arguments_accepted [written]:
  "breakpoint_locations_arguments_from_json tr (breakpoint_locations_arguments_to_json a) = Inr ()"
  unfolding breakpoint_locations_arguments_from_json_def breakpoint_locations_arguments_to_json_def
  by (rule entries_accepted entries_accepted_object; simp add: written entry_checks)

lemma cancel_arguments_accepted [written]:
  "cancel_arguments_from_json tr (cancel_arguments_to_json a) = Inr ()"
  unfolding cancel_arguments_from_json_def cancel_arguments_to_json_def
  by (rule entries_accepted entries_accepted_object; simp add: written entry_checks)

lemma completions_arguments_accepted [written]:
  "completions_arguments_from_json tr (completions_arguments_to_json a) = Inr ()"
  unfolding completions_arguments_from_json_def completions_arguments_to_json_def
  by (rule entries_accepted entries_accepted_object; simp add: written entry_checks)

lemma goto_arguments_accepted [written]:
  "goto_arguments_from_json tr (goto_arguments_to_json a) = Inr ()"
  unfolding goto_arguments_from_json_def goto_arguments_to_json_def
  by (rule entries_accepted entries_accepted_object; simp add: written entry_checks)

lemma goto_targets_arguments_accepted [written]:
  "goto_targets_arguments_from_json tr (goto_targets_arguments_to_json a) = Inr ()"
  unfolding goto_targets_arguments_from_json_def goto_targets_arguments_to_json_def
  by (rule entries_accepted entries_accepted_object; simp add: written entry_checks)

lemma locations_arguments_accepted [written]:
  "locations_arguments_from_json tr (locations_arguments_to_json a) = Inr ()"
  unfolding locations_arguments_from_json_def locations_arguments_to_json_def
  by (rule entries_accepted entries_accepted_object; simp add: written entry_checks)

lemma restart_frame_arguments_accepted [written]:
  "restart_frame_arguments_from_json tr (restart_frame_arguments_to_json a) = Inr ()"
  unfolding restart_frame_arguments_from_json_def restart_frame_arguments_to_json_def
  by (rule entries_accepted entries_accepted_object; simp add: written entry_checks)

lemma reverse_continue_arguments_accepted [written]:
  "reverse_continue_arguments_from_json tr (reverse_continue_arguments_to_json a) = Inr ()"
  unfolding reverse_continue_arguments_from_json_def reverse_continue_arguments_to_json_def
  by (rule entries_accepted entries_accepted_object; simp add: written entry_checks)

lemma run_in_terminal_request_arguments_accepted [written]:
  "run_in_terminal_arguments_from_json (run_in_terminal_request_arguments_to_json a) = Inr ()"
  unfolding run_in_terminal_arguments_from_json_def run_in_terminal_request_arguments_to_json_def
  by (rule entries_accepted entries_accepted_object; simp add: written entry_checks)

lemma start_debugging_request_arguments_accepted [written]:
  "start_debugging_arguments_from_json (start_debugging_request_arguments_to_json a) = Inr ()"
  unfolding start_debugging_arguments_from_json_def start_debugging_request_arguments_to_json_def
  by (rule entries_accepted entries_accepted_object; simp add: written entry_checks)

lemma step_back_arguments_accepted [written]:
  "step_back_arguments_ok a \<Longrightarrow> step_back_arguments_from_json tr (step_back_arguments_to_json a) = Inr ()"
  by (simp add: step_back_arguments_ok_def step_back_arguments_from_json_def step_arguments_from_json_def
      step_back_arguments_to_json_def only_check_def written del: map_of_append)

lemma step_in_targets_arguments_accepted [written]:
  "step_in_targets_arguments_from_json tr (step_in_targets_arguments_to_json a) = Inr ()"
  unfolding step_in_targets_arguments_from_json_def step_in_targets_arguments_to_json_def
  by (rule entries_accepted entries_accepted_object; simp add: written entry_checks)

lemma terminate_threads_arguments_accepted [written]:
  "terminate_threads_arguments_from_json tr (terminate_threads_arguments_to_json a) = Inr ()"
  unfolding terminate_threads_arguments_from_json_def terminate_threads_arguments_to_json_def
  by (rule entries_accepted entries_accepted_object; simp add: written entry_checks)

section \<open>Requests\<close>

text \<open>
  What the service does with a request, as a function of its struct: the handler of its command gets
  the fields; a request without a handler is rejected.  Only the handlers of launch
  and attach also look into the JSON \<open>m\<close> of the request.
\<close>

fun serve_client :: "'e target \<Rightarrow> (json \<Rightarrow> string) \<Rightarrow> json \<Rightarrow> int \<Rightarrow> client_request \<Rightarrow> ('e server, unit) wact" where
  "serve_client L dump m q (Client_Attach a) = handle_attach_request L m q ''attach''"
| "serve_client L dump m q (Client_Breakpoint_Locations a) = w_raise (Unhandled_Request q ''breakpointLocations'')"
| "serve_client L dump m q (Client_Cancel a) = w_raise (Unhandled_Request q ''cancel'')"
| "serve_client L dump m q (Client_Completions a) = w_raise (Unhandled_Request q ''completions'')"
| "serve_client L dump m q (Client_Configuration_Done a) =
     handle_configuration_done_request L q ''configurationDone''"
| "serve_client L dump m q (Client_Continue a) =
     handle_continue_request L q ''continue'' (continue_thread_id a) (continue_single_thread a = Some True)"
| "serve_client L dump m q (Client_Data_Breakpoint_Info a) =
     handle_data_breakpoint_info_request L q ''dataBreakpointInfo''
       (data_breakpoint_info_name a) (data_breakpoint_info_variables_reference a) (data_breakpoint_info_frame_id a)"
| "serve_client L dump m q (Client_Disassemble a) =
     handle_disassemble_request L q ''disassemble'' (disassemble_view a)"
| "serve_client L dump m q (Client_Disconnect a) =
     handle_disconnect_request L q ''disconnect''
       (case a of None \<Rightarrow> None | Some d \<Rightarrow> disconnect_terminate_debuggee d)"
| "serve_client L dump m q (Client_Evaluate a) = handle_evaluate_request L q ''evaluate'' (evaluate_view a)"
| "serve_client L dump m q (Client_Exception_Info a) = handle_exception_info_request L q ''exceptionInfo''"
| "serve_client L dump m q (Client_Goto a) = w_raise (Unhandled_Request q ''goto'')"
| "serve_client L dump m q (Client_Goto_Targets a) = w_raise (Unhandled_Request q ''gotoTargets'')"
| "serve_client L dump m q (Client_Initialize a) = handle_initialize_request q ''initialize''"
| "serve_client L dump m q (Client_Launch a) = handle_launch_request L dump m q ''launch''"
| "serve_client L dump m q (Client_Loaded_Sources a) = w_raise (Unhandled_Request q ''loadedSources'')"
| "serve_client L dump m q (Client_Locations a) = w_raise (Unhandled_Request q ''locations'')"
| "serve_client L dump m q (Client_Modules a) =
     handle_modules_request L q ''modules'' (modules_start_module a) (modules_module_count a)"
| "serve_client L dump m q (Client_Next a) =
     handle_next_request L q ''next''
       (next_thread_id a) (next_single_thread a = Some True) (next_granularity a)"
| "serve_client L dump m q (Client_Pause a) = handle_pause_request L q ''pause'' (pause_thread_id a)"
| "serve_client L dump m q (Client_Read_Memory a) =
     handle_read_memory_request L q ''readMemory''
       (read_memory_memory_reference a) (read_memory_count a) (read_memory_offset a)"
| "serve_client L dump m q (Client_Restart a) = w_raise (Unhandled_Request q ''restart'')"
| "serve_client L dump m q (Client_Restart_Frame a) = w_raise (Unhandled_Request q ''restartFrame'')"
| "serve_client L dump m q (Client_Reverse_Continue a) = w_raise (Unhandled_Request q ''reverseContinue'')"
| "serve_client L dump m q (Client_Run_In_Terminal a) = w_raise (Unhandled_Request q ''runInTerminal'')"
| "serve_client L dump m q (Client_Scopes a) = handle_scopes_request L q ''scopes'' (scopes_frame_id a)"
| "serve_client L dump m q (Client_Set_Breakpoints a) =
     handle_set_breakpoints_request L q ''setBreakpoints'' (set_breakpoints_view a)"
| "serve_client L dump m q (Client_Set_Data_Breakpoints a) =
     handle_set_data_breakpoints_request L q ''setDataBreakpoints''
       (map data_view (set_data_breakpoints_breakpoints a))"
| "serve_client L dump m q (Client_Set_Exception_Breakpoints a) =
     handle_set_exception_breakpoints_request L q ''setExceptionBreakpoints''
       (set_exception_breakpoints_filters a)"
| "serve_client L dump m q (Client_Set_Expression a) =
     handle_set_expression_request L q ''setExpression''
       (set_expression_expression a) (set_expression_value a) (set_expression_frame_id a)"
| "serve_client L dump m q (Client_Set_Function_Breakpoints a) =
     handle_set_function_breakpoints_request L q ''setFunctionBreakpoints''
       (map function_breakpoint_name (set_function_breakpoints_breakpoints a))"
| "serve_client L dump m q (Client_Set_Instruction_Breakpoints a) =
     handle_set_instruction_breakpoints_request L q ''setInstructionBreakpoints''
       (map instruction_view (set_instruction_breakpoints_breakpoints a))"
| "serve_client L dump m q (Client_Set_Variable a) =
     handle_set_variable_request L q ''setVariable''
       (set_variable_variables_reference a) (set_variable_name a) (set_variable_value a)"
| "serve_client L dump m q (Client_Source a) =
     handle_source_request L q ''source''
       (case source_source a of None \<Rightarrow> None | Some s \<Rightarrow> rs_path s)"
| "serve_client L dump m q (Client_Stack_Trace a) =
     handle_stack_trace_request L q ''stackTrace''
       (stack_trace_thread_id a) (stack_trace_start_frame a) (stack_trace_levels a)"
| "serve_client L dump m q (Client_Start_Debugging a) = w_raise (Unhandled_Request q ''startDebugging'')"
| "serve_client L dump m q (Client_Step_Back a) = w_raise (Unhandled_Request q ''stepBack'')"
| "serve_client L dump m q (Client_Step_In a) =
     handle_step_in_request L q ''stepIn''
       (step_in_thread_id a) (step_in_single_thread a = Some True) (step_in_target_id a) (step_in_granularity a)"
| "serve_client L dump m q (Client_Step_In_Targets a) = w_raise (Unhandled_Request q ''stepInTargets'')"
| "serve_client L dump m q (Client_Step_Out a) =
     handle_step_out_request L q ''stepOut''
       (step_out_thread_id a) (step_out_single_thread a = Some True) (step_out_granularity a)"
| "serve_client L dump m q (Client_Terminate a) = handle_terminate_request L q ''terminate''"
| "serve_client L dump m q (Client_Terminate_Threads a) = w_raise (Unhandled_Request q ''terminateThreads'')"
| "serve_client L dump m q (Client_Threads a) = handle_threads_request L q ''threads''"
| "serve_client L dump m q (Client_Variables a) =
     handle_variables_request q ''variables''
       (variables_variables_reference a) (variables_filter a = Some Indexed_Filter)
         (variables_start a) (variables_count a)"
| "serve_client L dump m q (Client_Write_Memory a) =
     handle_write_memory_request L q ''writeMemory''
       (write_memory_memory_reference a) (write_memory_data a) (write_memory_offset a)"

lemma envelope_read:
  "in_int32 q \<Longrightarrow> request_from_json tr (request_object q c es) name f =
     r_bind (f (case map_of es ''arguments'' of None \<Rightarrow> J_Null | Some a \<Rightarrow> a)) (\<lambda>a. Inr (q, c, a))"
  by (simp add: request_from_json_def request_object_def field_or_def field_def r_bind_def get_enum_def enum_names_def
      in_int32_wrap)

lemma envelope_dispatched:
  "handle L dump tr (request_object q c es) = dispatch_request L dump tr (request_object q c es)"
  "string_value (request_object q c es) ''command'' = Inr c"
  by (simp_all add: handle_def request_object_def string_value_def serve_request_def)

lemma handler_reached:
  assumes "map_of (request_handlers L dump tr (request_object q c es)) c = Some h" "h = h'"
  shows "handle L dump tr (request_object q c es) = h'"
  using assms by (simp add: envelope_dispatched dispatch_request_def serve_request_def)

lemma request_rejected:
  assumes "map_of (request_handlers L dump tr (request_object q c es)) c = None"
    and "map_of (unhandled_requests tr) c = Some f" "in_int32 q"
    and "f (case map_of es ''arguments'' of None \<Rightarrow> J_Null | Some a \<Rightarrow> a) = Inr ()"
  shows "handle L dump tr (request_object q c es) = w_raise (Unhandled_Request q c)"
  using assms by (simp add: envelope_dispatched dispatch_request_def serve_request_def envelope_read r_bind_Inr)

text \<open>Optional arguments that are left out are read as null, like an object without fields.\<close>

lemma absent_arguments [written]:
  "disconnect_arguments_from_json J_Null = Inr None" "terminate_arguments_from_json J_Null = Inr ()"
  "breakpoint_locations_arguments_from_json tr J_Null = Inr ()" "cancel_arguments_from_json tr J_Null = Inr ()"
  "no_arguments_from_json j = Inr ()"
  by (simp_all add: disconnect_arguments_from_json_def terminate_arguments_from_json_def
      breakpoint_locations_arguments_from_json_def cancel_arguments_from_json_def no_arguments_from_json_def
      checks_written field_def r_bind_Inr)

lemmas request_to_json_defs =
  attach_request_to_json_def breakpoint_locations_request_to_json_def cancel_request_to_json_def
  completions_request_to_json_def configuration_done_request_to_json_def continue_request_to_json_def
  data_breakpoint_info_request_to_json_def disassemble_request_to_json_def disconnect_request_to_json_def
  evaluate_request_to_json_def exception_info_request_to_json_def goto_request_to_json_def
  goto_targets_request_to_json_def initialize_request_to_json_def launch_request_to_json_def
  loaded_sources_request_to_json_def locations_request_to_json_def modules_request_to_json_def
  next_request_to_json_def pause_request_to_json_def read_memory_request_to_json_def
  restart_request_to_json_def restart_frame_request_to_json_def reverse_continue_request_to_json_def
  run_in_terminal_request_to_json_def scopes_request_to_json_def set_breakpoints_request_to_json_def
  set_data_breakpoints_request_to_json_def set_exception_breakpoints_request_to_json_def
  set_expression_request_to_json_def set_function_breakpoints_request_to_json_def
  set_instruction_breakpoints_request_to_json_def set_variable_request_to_json_def
  source_request_to_json_def stack_trace_request_to_json_def start_debugging_request_to_json_def
  step_back_request_to_json_def step_in_request_to_json_def step_in_targets_request_to_json_def
  step_out_request_to_json_def terminate_request_to_json_def terminate_threads_request_to_json_def
  threads_request_to_json_def variables_request_to_json_def write_memory_request_to_json_def

text \<open>The life of a session.\<close>

lemma session_requests_served:
  "in_int32 q \<Longrightarrow>
     handle L dump tr (attach_request_to_json q a)
       = handle_attach_request L (attach_request_to_json q a) q ''attach''"
  "in_int32 q \<Longrightarrow>
     handle L dump tr (configuration_done_request_to_json q b)
       = handle_configuration_done_request L q ''configurationDone''"
  "in_int32 q \<Longrightarrow>
     handle L dump tr (disconnect_request_to_json q d)
       = handle_disconnect_request L q ''disconnect''
           (case d of None \<Rightarrow> None | Some d \<Rightarrow> disconnect_terminate_debuggee d)"
  "in_int32 q \<Longrightarrow>
     handle L dump tr (initialize_request_to_json q e)
       = handle_initialize_request q ''initialize''"
  "in_int32 q \<Longrightarrow>
     handle L dump tr (launch_request_to_json q f)
       = handle_launch_request L dump (launch_request_to_json q f) q ''launch''"
  "in_int32 q \<Longrightarrow>
     handle L dump tr (terminate_request_to_json q g)
       = handle_terminate_request L q ''terminate''"
  unfolding request_to_json_defs
  by (rule handler_reached, simp add: request_handlers_def,
      simp add: serve_request_def envelope_read written split: option.split)+

text \<open>Execution.\<close>

lemma execution_requests_served:
  "in_int32 q \<Longrightarrow> continue_arguments_ok a \<Longrightarrow>
     handle L dump tr (continue_request_to_json q a)
       = handle_continue_request L q ''continue''
           (continue_thread_id a) (continue_single_thread a = Some True)"
  "in_int32 q \<Longrightarrow> next_arguments_ok b \<Longrightarrow>
     handle L dump tr (next_request_to_json q b)
       = handle_next_request L q ''next''
           (next_thread_id b) (next_single_thread b = Some True) (next_granularity b)"
  "in_int32 q \<Longrightarrow> pause_arguments_ok d \<Longrightarrow>
     handle L dump tr (pause_request_to_json q d)
       = handle_pause_request L q ''pause'' (pause_thread_id d)"
  "in_int32 q \<Longrightarrow> step_in_arguments_ok e \<Longrightarrow>
     handle L dump tr (step_in_request_to_json q e)
       = handle_step_in_request L q ''stepIn''
           (step_in_thread_id e) (step_in_single_thread e = Some True) (step_in_target_id e) (step_in_granularity e)"
  "in_int32 q \<Longrightarrow> step_out_arguments_ok f \<Longrightarrow>
     handle L dump tr (step_out_request_to_json q f)
       = handle_step_out_request L q ''stepOut''
           (step_out_thread_id f) (step_out_single_thread f = Some True) (step_out_granularity f)"
  "in_int32 q \<Longrightarrow>
     handle L dump tr (threads_request_to_json q g)
       = handle_threads_request L q ''threads''"
  "in_int32 q \<Longrightarrow> exception_info_arguments_ok h \<Longrightarrow>
     handle L dump tr (exception_info_request_to_json q h)
       = handle_exception_info_request L q ''exceptionInfo''"
  unfolding request_to_json_defs
  by (rule handler_reached, simp add: request_handlers_def,
      simp add: serve_request_def envelope_read written split: option.split)+

text \<open>Breakpoints.\<close>

lemma breakpoint_requests_served:
  "in_int32 q \<Longrightarrow> set_breakpoints_arguments_ok a \<Longrightarrow>
     handle L dump tr (set_breakpoints_request_to_json q a)
       = handle_set_breakpoints_request L q ''setBreakpoints'' (set_breakpoints_view a)"
  "in_int32 q \<Longrightarrow>
     handle L dump tr (set_data_breakpoints_request_to_json q b)
       = handle_set_data_breakpoints_request L q ''setDataBreakpoints''
           (map data_view (set_data_breakpoints_breakpoints b))"
  "in_int32 q \<Longrightarrow>
     handle L dump tr (set_exception_breakpoints_request_to_json q d)
       = handle_set_exception_breakpoints_request L q ''setExceptionBreakpoints''
           (set_exception_breakpoints_filters d)"
  "in_int32 q \<Longrightarrow>
     handle L dump tr (set_function_breakpoints_request_to_json q e)
       = handle_set_function_breakpoints_request L q ''setFunctionBreakpoints''
           (map function_breakpoint_name (set_function_breakpoints_breakpoints e))"
  "in_int32 q \<Longrightarrow> set_instruction_breakpoints_arguments_ok f \<Longrightarrow>
     handle L dump tr (set_instruction_breakpoints_request_to_json q f)
       = handle_set_instruction_breakpoints_request L q ''setInstructionBreakpoints''
           (map instruction_view (set_instruction_breakpoints_breakpoints f))"
  "in_int32 q \<Longrightarrow> data_breakpoint_info_arguments_ok g \<Longrightarrow>
     handle L dump tr (data_breakpoint_info_request_to_json q g)
       = handle_data_breakpoint_info_request L q ''dataBreakpointInfo''
           (data_breakpoint_info_name g) (data_breakpoint_info_variables_reference g) (data_breakpoint_info_frame_id g)"
  unfolding request_to_json_defs
  by (rule handler_reached, simp add: request_handlers_def,
      simp add: serve_request_def envelope_read written split: option.split)+

text \<open>Inspection.\<close>

lemma inspection_requests_served:
  "in_int32 q \<Longrightarrow> evaluate_arguments_ok a \<Longrightarrow>
     handle L dump tr (evaluate_request_to_json q a)
       = handle_evaluate_request L q ''evaluate'' (evaluate_view a)"
  "in_int32 q \<Longrightarrow> scopes_arguments_ok b \<Longrightarrow>
     handle L dump tr (scopes_request_to_json q b)
       = handle_scopes_request L q ''scopes'' (scopes_frame_id b)"
  "in_int32 q \<Longrightarrow> set_expression_arguments_ok d \<Longrightarrow>
     handle L dump tr (set_expression_request_to_json q d)
       = handle_set_expression_request L q ''setExpression''
           (set_expression_expression d) (set_expression_value d) (set_expression_frame_id d)"
  "in_int32 q \<Longrightarrow> set_variable_arguments_ok e \<Longrightarrow>
     handle L dump tr (set_variable_request_to_json q e)
       = handle_set_variable_request L q ''setVariable''
           (set_variable_variables_reference e) (set_variable_name e) (set_variable_value e)"
  "in_int32 q \<Longrightarrow> stack_trace_arguments_ok f \<Longrightarrow>
     handle L dump tr (stack_trace_request_to_json q f)
       = handle_stack_trace_request L q ''stackTrace''
           (stack_trace_thread_id f) (stack_trace_start_frame f) (stack_trace_levels f)"
  "in_int32 q \<Longrightarrow> variables_arguments_ok g \<Longrightarrow>
     handle L dump tr (variables_request_to_json q g)
       = handle_variables_request q ''variables''
           (variables_variables_reference g) (variables_filter g = Some Indexed_Filter) (variables_start g) (variables_count g)"
  unfolding request_to_json_defs
  by (rule handler_reached, simp add: request_handlers_def,
      simp add: serve_request_def envelope_read written split: option.split)+

text \<open>Memory, modules and sources.\<close>

lemma memory_requests_served:
  "in_int32 q \<Longrightarrow> disassemble_arguments_ok a \<Longrightarrow>
     handle L dump tr (disassemble_request_to_json q a)
       = handle_disassemble_request L q ''disassemble'' (disassemble_view a)"
  "in_int32 q \<Longrightarrow> modules_arguments_ok b \<Longrightarrow>
     handle L dump tr (modules_request_to_json q b)
       = handle_modules_request L q ''modules'' (modules_start_module b) (modules_module_count b)"
  "in_int32 q \<Longrightarrow> read_memory_arguments_ok d \<Longrightarrow>
     handle L dump tr (read_memory_request_to_json q d)
       = handle_read_memory_request L q ''readMemory''
           (read_memory_memory_reference d) (read_memory_count d) (read_memory_offset d)"
  "in_int32 q \<Longrightarrow> source_arguments_ok e \<Longrightarrow>
     handle L dump tr (source_request_to_json q e)
       = handle_source_request L q ''source''
           (case source_source e of None \<Rightarrow> None | Some s \<Rightarrow> rs_path s)"
  "in_int32 q \<Longrightarrow> write_memory_arguments_ok f \<Longrightarrow>
     handle L dump tr (write_memory_request_to_json q f)
       = handle_write_memory_request L q ''writeMemory''
           (write_memory_memory_reference f) (write_memory_data f) (write_memory_offset f)"
  unfolding request_to_json_defs
  by (rule handler_reached, simp add: request_handlers_def,
      simp add: serve_request_def envelope_read written split: option.split)+

text \<open>Requests without a handler.\<close>

lemma other_requests_rejected:
  "in_int32 q \<Longrightarrow> pred_option breakpoint_locations_arguments_ok a \<Longrightarrow>
     handle L dump tr (breakpoint_locations_request_to_json q a)
       = w_raise (Unhandled_Request q ''breakpointLocations'')"
  "in_int32 q \<Longrightarrow> pred_option cancel_arguments_ok b \<Longrightarrow>
     handle L dump tr (cancel_request_to_json q b)
       = w_raise (Unhandled_Request q ''cancel'')"
  "in_int32 q \<Longrightarrow> completions_arguments_ok d \<Longrightarrow>
     handle L dump tr (completions_request_to_json q d)
       = w_raise (Unhandled_Request q ''completions'')"
  "in_int32 q \<Longrightarrow> goto_arguments_ok e \<Longrightarrow>
     handle L dump tr (goto_request_to_json q e)
       = w_raise (Unhandled_Request q ''goto'')"
  "in_int32 q \<Longrightarrow> goto_targets_arguments_ok f \<Longrightarrow>
     handle L dump tr (goto_targets_request_to_json q f)
       = w_raise (Unhandled_Request q ''gotoTargets'')"
  "in_int32 q \<Longrightarrow>
     handle L dump tr (loaded_sources_request_to_json q g)
       = w_raise (Unhandled_Request q ''loadedSources'')"
  "in_int32 q \<Longrightarrow> locations_arguments_ok h \<Longrightarrow>
     handle L dump tr (locations_request_to_json q h)
       = w_raise (Unhandled_Request q ''locations'')"
  "in_int32 q \<Longrightarrow>
     handle L dump tr (restart_request_to_json q k)
       = w_raise (Unhandled_Request q ''restart'')"
  unfolding request_to_json_defs
  by (rule request_rejected, simp add: request_handlers_def, simp add: unhandled_requests_def, simp,
      simp add: written split: option.split)+

text \<open>Requests without a handler, continued.\<close>

lemma remaining_requests_rejected:
  "in_int32 q \<Longrightarrow> restart_frame_arguments_ok a \<Longrightarrow>
     handle L dump tr (restart_frame_request_to_json q a)
       = w_raise (Unhandled_Request q ''restartFrame'')"
  "in_int32 q \<Longrightarrow> reverse_continue_arguments_ok b \<Longrightarrow>
     handle L dump tr (reverse_continue_request_to_json q b)
       = w_raise (Unhandled_Request q ''reverseContinue'')"
  "in_int32 q \<Longrightarrow>
     handle L dump tr (run_in_terminal_request_to_json q d)
       = w_raise (Unhandled_Request q ''runInTerminal'')"
  "in_int32 q \<Longrightarrow>
     handle L dump tr (start_debugging_request_to_json q e)
       = w_raise (Unhandled_Request q ''startDebugging'')"
  "in_int32 q \<Longrightarrow> step_back_arguments_ok f \<Longrightarrow>
     handle L dump tr (step_back_request_to_json q f)
       = w_raise (Unhandled_Request q ''stepBack'')"
  "in_int32 q \<Longrightarrow> step_in_targets_arguments_ok g \<Longrightarrow>
     handle L dump tr (step_in_targets_request_to_json q g)
       = w_raise (Unhandled_Request q ''stepInTargets'')"
  "in_int32 q \<Longrightarrow> terminate_threads_arguments_ok h \<Longrightarrow>
     handle L dump tr (terminate_threads_request_to_json q h)
       = w_raise (Unhandled_Request q ''terminateThreads'')"
  unfolding request_to_json_defs
  by (rule request_rejected, simp add: request_handlers_def, simp add: unhandled_requests_def, simp,
      simp add: written split: option.split)+

lemma client_request_served:
  assumes "in_int32 q" "representable r"
  shows "handle L dump tr (client_request_to_json q r) = serve_client L dump (client_request_to_json q r) q r"
  using assms
  by (cases r) (simp_all add: session_requests_served execution_requests_served breakpoint_requests_served
      inspection_requests_served memory_requests_served other_requests_rejected remaining_requests_rejected)

section \<open>Property\<close>

lemma client_request_proper:
  assumes "in_int32 q"
  shows "request_of (client_request_to_json q r) = Some (q, request_command r)"
    and "proper_request (client_request_to_json q r)"
proof -
  have "request_of (request_object q c es) = Some (q, c)"
    and "c \<noteq> [] \<Longrightarrow> c \<noteq> ''<unknown>'' \<Longrightarrow> proper_request (request_object q c es)" for c es
    using assms by (simp_all add: request_of_def proper_request_def request_object_def in_int32_wrap)
  then show "request_of (client_request_to_json q r) = Some (q, request_command r)"
    and "proper_request (client_request_to_json q r)"
    by (cases r; simp add: request_to_json_defs)+
qed

text \<open>
  C5. The protocol's JSON is transparent for requests: whatever request a client makes of the protocol's
  structs, with numbers in the range of their types, the dispatcher does with its JSON what
  \<open>serve_client\<close> states on the struct: the handler of the command gets exactly the fields
  that the client set, or the request is rejected as one without a handler.  The request also is
  one that the service answers, under its number and command.
\<close>

theorem client_requests_reach_handlers:
  assumes "in_int32 q" "representable r"
  shows "handle L dump tr (client_request_to_json q r) = serve_client L dump (client_request_to_json q r) q r
    \<and> request_of (client_request_to_json q r) = Some (q, request_command r)
    \<and> proper_request (client_request_to_json q r)"
  using client_request_served [OF assms] client_request_proper [OF assms(1)] by blast

text \<open>Setting the variable \<open>x\<close> behind reference 5.\<close>

theorem client_requests_reach_handlers_witness:
  "\<exists>m. find_key m ''command'' = Some (J_String ''setVariable'')
     \<and> handle script_target (\<lambda>j. []) (\<lambda>f. 0) m
         = handle_set_variable_request script_target 7 ''setVariable'' 5 ''x'' ''1''"
proof -
  let ?a = "\<lparr>set_variable_variables_reference = 5, set_variable_name = ''x'', set_variable_value = ''1'',
              set_variable_format = Some \<lparr>value_format_hex = None\<rparr>\<rparr>"
  have "handle script_target (\<lambda>j. []) (\<lambda>f. 0) (client_request_to_json 7 (Client_Set_Variable ?a))
      = handle_set_variable_request script_target 7 ''setVariable'' 5 ''x'' ''1''"
    using client_requests_reach_handlers [of 7 "Client_Set_Variable ?a" script_target "\<lambda>j. []" "\<lambda>f. 0"]
    by (simp add: in_int32_def set_variable_arguments_ok_def del: client_request_to_json.simps)
  then show ?thesis
    by (intro exI conjI) (simp_all add: set_variable_request_to_json_def request_object_def)
qed

end
