(* ===== verification/Message_Structs.thy ===== *)
theory Message_Structs
  imports Request_Structs
begin

text \<open>
  The events and responses of the protocol as structs of src/src/protocol/protocol.h with all their fields,
  also those that the service never sets, and their conversion to JSON (the \<open>to_json\<close>
  functions).  A \<open>double\<close> is the text of its number.
\<close>

section \<open>Enumerations\<close>

datatype protocol_message_type =
    Request_Protocol_Message_Type | Response_Protocol_Message_Type | Event_Protocol_Message_Type

fun protocol_message_type_to_json :: "protocol_message_type \<Rightarrow> json" where
  "protocol_message_type_to_json Request_Protocol_Message_Type = J_String ''request''"
| "protocol_message_type_to_json Response_Protocol_Message_Type = J_String ''response''"
| "protocol_message_type_to_json Event_Protocol_Message_Type = J_String ''event''"

datatype breakpoint_event_body_reason =
    Changed_Breakpoint_Event_Body_Reason | New_Breakpoint_Event_Body_Reason
  | Removed_Breakpoint_Event_Body_Reason

fun breakpoint_event_body_reason_to_json :: "breakpoint_event_body_reason \<Rightarrow> json" where
  "breakpoint_event_body_reason_to_json Changed_Breakpoint_Event_Body_Reason = J_String ''changed''"
| "breakpoint_event_body_reason_to_json New_Breakpoint_Event_Body_Reason = J_String ''new''"
| "breakpoint_event_body_reason_to_json Removed_Breakpoint_Event_Body_Reason = J_String ''removed''"

datatype breakpoint_reason = Pending_Breakpoint_Reason | Failed_Breakpoint_Reason

fun breakpoint_reason_to_json :: "breakpoint_reason \<Rightarrow> json" where
  "breakpoint_reason_to_json Pending_Breakpoint_Reason = J_String ''pending''"
| "breakpoint_reason_to_json Failed_Breakpoint_Reason = J_String ''failed''"

datatype column_descriptor_type =
    String_Column_Descriptor_Type | Number_Column_Descriptor_Type | Boolean_Column_Descriptor_Type
  | Unix_Timestamp_UTC_Column_Descriptor_Type

fun column_descriptor_type_to_json :: "column_descriptor_type \<Rightarrow> json" where
  "column_descriptor_type_to_json String_Column_Descriptor_Type = J_String ''string''"
| "column_descriptor_type_to_json Number_Column_Descriptor_Type = J_String ''number''"
| "column_descriptor_type_to_json Boolean_Column_Descriptor_Type = J_String ''boolean''"
| "column_descriptor_type_to_json Unix_Timestamp_UTC_Column_Descriptor_Type = J_String ''unixTimestampUTC''"

datatype breakpoint_mode_applicability =
    Source_Breakpoint_Mode_Applicability | Exception_Breakpoint_Mode_Applicability
  | Data_Breakpoint_Mode_Applicability | Instruction_Breakpoint_Mode_Applicability

fun breakpoint_mode_applicability_to_json :: "breakpoint_mode_applicability \<Rightarrow> json" where
  "breakpoint_mode_applicability_to_json Source_Breakpoint_Mode_Applicability = J_String ''source''"
| "breakpoint_mode_applicability_to_json Exception_Breakpoint_Mode_Applicability = J_String ''exception''"
| "breakpoint_mode_applicability_to_json Data_Breakpoint_Mode_Applicability = J_String ''data''"
| "breakpoint_mode_applicability_to_json Instruction_Breakpoint_Mode_Applicability =
     J_String ''instruction''"

datatype invalidated_areas =
    All_Invalidated_Areas | Stacks_Invalidated_Areas | Threads_Invalidated_Areas
  | Variables_Invalidated_Areas

fun invalidated_areas_to_json :: "invalidated_areas \<Rightarrow> json" where
  "invalidated_areas_to_json All_Invalidated_Areas = J_String ''all''"
| "invalidated_areas_to_json Stacks_Invalidated_Areas = J_String ''stacks''"
| "invalidated_areas_to_json Threads_Invalidated_Areas = J_String ''threads''"
| "invalidated_areas_to_json Variables_Invalidated_Areas = J_String ''variables''"

datatype loaded_source_event_body_reason =
    New_Loaded_Source_Event_Body_Reason | Changed_Loaded_Source_Event_Body_Reason
  | Removed_Loaded_Source_Event_Body_Reason

fun loaded_source_event_body_reason_to_json :: "loaded_source_event_body_reason \<Rightarrow> json" where
  "loaded_source_event_body_reason_to_json New_Loaded_Source_Event_Body_Reason = J_String ''new''"
| "loaded_source_event_body_reason_to_json Changed_Loaded_Source_Event_Body_Reason = J_String ''changed''"
| "loaded_source_event_body_reason_to_json Removed_Loaded_Source_Event_Body_Reason = J_String ''removed''"

datatype module_event_body_reason =
    New_Module_Event_Body_Reason | Changed_Module_Event_Body_Reason | Removed_Module_Event_Body_Reason

fun module_event_body_reason_to_json :: "module_event_body_reason \<Rightarrow> json" where
  "module_event_body_reason_to_json New_Module_Event_Body_Reason = J_String ''new''"
| "module_event_body_reason_to_json Changed_Module_Event_Body_Reason = J_String ''changed''"
| "module_event_body_reason_to_json Removed_Module_Event_Body_Reason = J_String ''removed''"

datatype output_event_body_category =
    Console_Output_Event_Body_Category | Important_Output_Event_Body_Category
  | Stdout_Output_Event_Body_Category | Stderr_Output_Event_Body_Category
  | Telemetry_Output_Event_Body_Category

fun output_event_body_category_to_json :: "output_event_body_category \<Rightarrow> json" where
  "output_event_body_category_to_json Console_Output_Event_Body_Category = J_String ''console''"
| "output_event_body_category_to_json Important_Output_Event_Body_Category = J_String ''important''"
| "output_event_body_category_to_json Stdout_Output_Event_Body_Category = J_String ''stdout''"
| "output_event_body_category_to_json Stderr_Output_Event_Body_Category = J_String ''stderr''"
| "output_event_body_category_to_json Telemetry_Output_Event_Body_Category = J_String ''telemetry''"

datatype output_event_body_group =
    Start_Output_Event_Body_Group | Start_Collapsed_Output_Event_Body_Group
  | End_Output_Event_Body_Group

fun output_event_body_group_to_json :: "output_event_body_group \<Rightarrow> json" where
  "output_event_body_group_to_json Start_Output_Event_Body_Group = J_String ''start''"
| "output_event_body_group_to_json Start_Collapsed_Output_Event_Body_Group = J_String ''startCollapsed''"
| "output_event_body_group_to_json End_Output_Event_Body_Group = J_String ''end''"

datatype process_event_body_start_method =
    Launch_Process_Event_Body_Start_Method | Attach_Process_Event_Body_Start_Method
  | Attach_For_Suspended_Launch_Process_Event_Body_Start_Method

fun process_event_body_start_method_to_json :: "process_event_body_start_method \<Rightarrow> json" where
  "process_event_body_start_method_to_json Launch_Process_Event_Body_Start_Method = J_String ''launch''"
| "process_event_body_start_method_to_json Attach_Process_Event_Body_Start_Method = J_String ''attach''"
| "process_event_body_start_method_to_json Attach_For_Suspended_Launch_Process_Event_Body_Start_Method =
     J_String ''attachForSuspendedLaunch''"

datatype (plugins only: code) stopped_event_body_reason =
    Step_Stopped_Event_Body_Reason | Breakpoint_Stopped_Event_Body_Reason
  | Exception_Stopped_Event_Body_Reason | Pause_Stopped_Event_Body_Reason
  | Entry_Stopped_Event_Body_Reason | Goto_Stopped_Event_Body_Reason
  | Function_Breakpoint_Stopped_Event_Body_Reason | Data_Breakpoint_Stopped_Event_Body_Reason
  | Instruction_Breakpoint_Stopped_Event_Body_Reason

fun stopped_event_body_reason_to_json :: "stopped_event_body_reason \<Rightarrow> json" where
  "stopped_event_body_reason_to_json Step_Stopped_Event_Body_Reason = J_String ''step''"
| "stopped_event_body_reason_to_json Breakpoint_Stopped_Event_Body_Reason = J_String ''breakpoint''"
| "stopped_event_body_reason_to_json Exception_Stopped_Event_Body_Reason = J_String ''exception''"
| "stopped_event_body_reason_to_json Pause_Stopped_Event_Body_Reason = J_String ''pause''"
| "stopped_event_body_reason_to_json Entry_Stopped_Event_Body_Reason = J_String ''entry''"
| "stopped_event_body_reason_to_json Goto_Stopped_Event_Body_Reason = J_String ''goto''"
| "stopped_event_body_reason_to_json Function_Breakpoint_Stopped_Event_Body_Reason =
     J_String ''function breakpoint''"
| "stopped_event_body_reason_to_json Data_Breakpoint_Stopped_Event_Body_Reason =
     J_String ''data breakpoint''"
| "stopped_event_body_reason_to_json Instruction_Breakpoint_Stopped_Event_Body_Reason =
     J_String ''instruction breakpoint''"

datatype thread_event_body_reason = Started_Thread_Event_Body_Reason | Exited_Thread_Event_Body_Reason

fun thread_event_body_reason_to_json :: "thread_event_body_reason \<Rightarrow> json" where
  "thread_event_body_reason_to_json Started_Thread_Event_Body_Reason = J_String ''started''"
| "thread_event_body_reason_to_json Exited_Thread_Event_Body_Reason = J_String ''exited''"

datatype response_message = Cancelled_Response_Message | Not_Stopped_Response_Message

fun response_message_to_json :: "response_message \<Rightarrow> json" where
  "response_message_to_json Cancelled_Response_Message = J_String ''cancelled''"
| "response_message_to_json Not_Stopped_Response_Message = J_String ''notStopped''"

datatype (plugins only: code) completion_item_type =
    Method_Completion_Item_Type | Function_Completion_Item_Type | Constructor_Completion_Item_Type
  | Field_Completion_Item_Type | Variable_Completion_Item_Type | Class_Completion_Item_Type
  | Interface_Completion_Item_Type | Module_Completion_Item_Type | Property_Completion_Item_Type
  | Unit_Completion_Item_Type | Value_Completion_Item_Type | Enum_Completion_Item_Type
  | Keyword_Completion_Item_Type | Snippet_Completion_Item_Type | Text_Completion_Item_Type
  | Color_Completion_Item_Type | File_Completion_Item_Type | Reference_Completion_Item_Type
  | Customcolor_Completion_Item_Type

fun completion_item_type_to_json :: "completion_item_type \<Rightarrow> json" where
  "completion_item_type_to_json Method_Completion_Item_Type = J_String ''method''"
| "completion_item_type_to_json Function_Completion_Item_Type = J_String ''function''"
| "completion_item_type_to_json Constructor_Completion_Item_Type = J_String ''constructor''"
| "completion_item_type_to_json Field_Completion_Item_Type = J_String ''field''"
| "completion_item_type_to_json Variable_Completion_Item_Type = J_String ''variable''"
| "completion_item_type_to_json Class_Completion_Item_Type = J_String ''class''"
| "completion_item_type_to_json Interface_Completion_Item_Type = J_String ''interface''"
| "completion_item_type_to_json Module_Completion_Item_Type = J_String ''module''"
| "completion_item_type_to_json Property_Completion_Item_Type = J_String ''property''"
| "completion_item_type_to_json Unit_Completion_Item_Type = J_String ''unit''"
| "completion_item_type_to_json Value_Completion_Item_Type = J_String ''value''"
| "completion_item_type_to_json Enum_Completion_Item_Type = J_String ''enum''"
| "completion_item_type_to_json Keyword_Completion_Item_Type = J_String ''keyword''"
| "completion_item_type_to_json Snippet_Completion_Item_Type = J_String ''snippet''"
| "completion_item_type_to_json Text_Completion_Item_Type = J_String ''text''"
| "completion_item_type_to_json Color_Completion_Item_Type = J_String ''color''"
| "completion_item_type_to_json File_Completion_Item_Type = J_String ''file''"
| "completion_item_type_to_json Reference_Completion_Item_Type = J_String ''reference''"
| "completion_item_type_to_json Customcolor_Completion_Item_Type = J_String ''customcolor''"

datatype disassembled_instruction_presentation_hint =
    Normal_Disassembled_Instruction_Presentation_Hint
  | Invalid_Disassembled_Instruction_Presentation_Hint

fun disassembled_instruction_presentation_hint_to_json ::
  "disassembled_instruction_presentation_hint \<Rightarrow> json" where
  "disassembled_instruction_presentation_hint_to_json Normal_Disassembled_Instruction_Presentation_Hint =
     J_String ''normal''"
| "disassembled_instruction_presentation_hint_to_json Invalid_Disassembled_Instruction_Presentation_Hint =
     J_String ''invalid''"

datatype (plugins only: code) variable_presentation_hint_kind =
    Property_Variable_Presentation_Hint_Kind | Method_Variable_Presentation_Hint_Kind
  | Class_Variable_Presentation_Hint_Kind | Data_Variable_Presentation_Hint_Kind
  | Event_Variable_Presentation_Hint_Kind | Base_Class_Variable_Presentation_Hint_Kind
  | Inner_Class_Variable_Presentation_Hint_Kind | Interface_Variable_Presentation_Hint_Kind
  | Most_Derived_Class_Variable_Presentation_Hint_Kind | Virtual_Variable_Presentation_Hint_Kind
  | Data_Breakpoint_Variable_Presentation_Hint_Kind

fun variable_presentation_hint_kind_to_json :: "variable_presentation_hint_kind \<Rightarrow> json" where
  "variable_presentation_hint_kind_to_json Property_Variable_Presentation_Hint_Kind = J_String ''property''"
| "variable_presentation_hint_kind_to_json Method_Variable_Presentation_Hint_Kind = J_String ''method''"
| "variable_presentation_hint_kind_to_json Class_Variable_Presentation_Hint_Kind = J_String ''class''"
| "variable_presentation_hint_kind_to_json Data_Variable_Presentation_Hint_Kind = J_String ''data''"
| "variable_presentation_hint_kind_to_json Event_Variable_Presentation_Hint_Kind = J_String ''event''"
| "variable_presentation_hint_kind_to_json Base_Class_Variable_Presentation_Hint_Kind =
     J_String ''baseClass''"
| "variable_presentation_hint_kind_to_json Inner_Class_Variable_Presentation_Hint_Kind =
     J_String ''innerClass''"
| "variable_presentation_hint_kind_to_json Interface_Variable_Presentation_Hint_Kind =
     J_String ''interface''"
| "variable_presentation_hint_kind_to_json Most_Derived_Class_Variable_Presentation_Hint_Kind =
     J_String ''mostDerivedClass''"
| "variable_presentation_hint_kind_to_json Virtual_Variable_Presentation_Hint_Kind = J_String ''virtual''"
| "variable_presentation_hint_kind_to_json Data_Breakpoint_Variable_Presentation_Hint_Kind =
     J_String ''dataBreakpoint''"

datatype (plugins only: code) variable_presentation_hint_attributes_item =
    Static_Variable_Presentation_Hint_Attributes_Item
  | Constant_Variable_Presentation_Hint_Attributes_Item
  | Read_Only_Variable_Presentation_Hint_Attributes_Item
  | Raw_String_Variable_Presentation_Hint_Attributes_Item
  | Has_Object_Id_Variable_Presentation_Hint_Attributes_Item
  | Can_Have_Object_Id_Variable_Presentation_Hint_Attributes_Item
  | Has_Side_Effects_Variable_Presentation_Hint_Attributes_Item
  | Has_Data_Breakpoint_Variable_Presentation_Hint_Attributes_Item

fun variable_presentation_hint_attributes_item_to_json ::
  "variable_presentation_hint_attributes_item \<Rightarrow> json" where
  "variable_presentation_hint_attributes_item_to_json Static_Variable_Presentation_Hint_Attributes_Item =
     J_String ''static''"
| "variable_presentation_hint_attributes_item_to_json Constant_Variable_Presentation_Hint_Attributes_Item =
     J_String ''constant''"
| "variable_presentation_hint_attributes_item_to_json Read_Only_Variable_Presentation_Hint_Attributes_Item =
     J_String ''readOnly''"
| "variable_presentation_hint_attributes_item_to_json Raw_String_Variable_Presentation_Hint_Attributes_Item =
     J_String ''rawString''"
| "variable_presentation_hint_attributes_item_to_json Has_Object_Id_Variable_Presentation_Hint_Attributes_Item =
     J_String ''hasObjectId''"
| "variable_presentation_hint_attributes_item_to_json Can_Have_Object_Id_Variable_Presentation_Hint_Attributes_Item =
     J_String ''canHaveObjectId''"
| "variable_presentation_hint_attributes_item_to_json Has_Side_Effects_Variable_Presentation_Hint_Attributes_Item =
     J_String ''hasSideEffects''"
| "variable_presentation_hint_attributes_item_to_json Has_Data_Breakpoint_Variable_Presentation_Hint_Attributes_Item =
     J_String ''hasDataBreakpoint''"

datatype variable_presentation_hint_visibility =
    Public_Variable_Presentation_Hint_Visibility | Private_Variable_Presentation_Hint_Visibility
  | Protected_Variable_Presentation_Hint_Visibility | Internal_Variable_Presentation_Hint_Visibility
  | Final_Variable_Presentation_Hint_Visibility

fun variable_presentation_hint_visibility_to_json ::
  "variable_presentation_hint_visibility \<Rightarrow> json" where
  "variable_presentation_hint_visibility_to_json Public_Variable_Presentation_Hint_Visibility =
     J_String ''public''"
| "variable_presentation_hint_visibility_to_json Private_Variable_Presentation_Hint_Visibility =
     J_String ''private''"
| "variable_presentation_hint_visibility_to_json Protected_Variable_Presentation_Hint_Visibility =
     J_String ''protected''"
| "variable_presentation_hint_visibility_to_json Internal_Variable_Presentation_Hint_Visibility =
     J_String ''internal''"
| "variable_presentation_hint_visibility_to_json Final_Variable_Presentation_Hint_Visibility =
     J_String ''final''"

datatype scope_presentation_hint =
    Arguments_Scope_Presentation_Hint | Locals_Scope_Presentation_Hint
  | Registers_Scope_Presentation_Hint | Return_Value_Scope_Presentation_Hint

fun scope_presentation_hint_to_json :: "scope_presentation_hint \<Rightarrow> json" where
  "scope_presentation_hint_to_json Arguments_Scope_Presentation_Hint = J_String ''arguments''"
| "scope_presentation_hint_to_json Locals_Scope_Presentation_Hint = J_String ''locals''"
| "scope_presentation_hint_to_json Registers_Scope_Presentation_Hint = J_String ''registers''"
| "scope_presentation_hint_to_json Return_Value_Scope_Presentation_Hint = J_String ''returnValue''"

datatype stack_frame_presentation_hint =
    Normal_Stack_Frame_Presentation_Hint | Label_Stack_Frame_Presentation_Hint
  | Subtle_Stack_Frame_Presentation_Hint

fun stack_frame_presentation_hint_to_json :: "stack_frame_presentation_hint \<Rightarrow> json" where
  "stack_frame_presentation_hint_to_json Normal_Stack_Frame_Presentation_Hint = J_String ''normal''"
| "stack_frame_presentation_hint_to_json Label_Stack_Frame_Presentation_Hint = J_String ''label''"
| "stack_frame_presentation_hint_to_json Subtle_Stack_Frame_Presentation_Hint = J_String ''subtle''"

section \<open>Envelopes\<close>

text \<open>The fields that all events and all responses have; only the bodies differ.\<close>

record 'b event_struct =
  event_seq :: int
  event_kind :: protocol_message_type
  event_name_field :: string
  event_content :: 'b

record 'b response_struct =
  response_seq :: int
  response_kind :: protocol_message_type
  response_request_seq :: int
  response_success :: bool
  response_command :: string
  response_note :: "response_message option"
  response_content :: 'b

definition event_object :: "'b event_struct \<Rightarrow> (string \<times> json) list \<Rightarrow> json" where
  "event_object e b =
     J_Object
       ([(''seq'', J_Int (event_seq e)), (''type'', protocol_message_type_to_json (event_kind e)),
         (''event'', J_String (event_name_field e))] @ b)"

definition response_object :: "'b response_struct \<Rightarrow> (string \<times> json) list \<Rightarrow> json" where
  "response_object r b =
     J_Object
       ([(''seq'', J_Int (response_seq r)), (''type'', protocol_message_type_to_json (response_kind r)),
         (''request_seq'', J_Int (response_request_seq r)), (''success'', J_Bool (response_success r)),
         (''command'', J_String (response_command r))]
        @ optional ''message'' response_message_to_json (response_note r) @ b)"

section \<open>Objects, events and responses\<close>

record breakpoint_struct =
  breakpoint_id :: "int option"
  breakpoint_verified :: bool
  breakpoint_message :: "string option"
  breakpoint_source :: "requested_source option"
  breakpoint_line :: "int option"
  breakpoint_column :: "int option"
  breakpoint_end_line :: "int option"
  breakpoint_end_column :: "int option"
  breakpoint_instruction_reference :: "string option"
  breakpoint_offset :: "int option"
  breakpoint_reason :: "breakpoint_reason option"

definition breakpoint_struct_to_json :: "breakpoint_struct \<Rightarrow> json" where
  "breakpoint_struct_to_json a =
     J_Object
       (optional ''id'' J_Int (breakpoint_id a) @ [(''verified'', J_Bool (breakpoint_verified a))]
        @ optional ''message'' J_String (breakpoint_message a)
        @ optional ''source'' source_to_json (breakpoint_source a)
        @ optional ''line'' J_Int (breakpoint_line a) @ optional ''column'' J_Int (breakpoint_column a)
        @ optional ''endLine'' J_Int (breakpoint_end_line a)
        @ optional ''endColumn'' J_Int (breakpoint_end_column a)
        @ optional ''instructionReference'' J_String (breakpoint_instruction_reference a)
        @ optional ''offset'' J_Int (breakpoint_offset a)
        @ optional ''reason'' breakpoint_reason_to_json (breakpoint_reason a))"

record breakpoint_event_body_struct =
  breakpoint_event_body_reason :: breakpoint_event_body_reason
  breakpoint_event_body_breakpoint :: breakpoint_struct

definition breakpoint_event_body_struct_to_json :: "breakpoint_event_body_struct \<Rightarrow> json" where
  "breakpoint_event_body_struct_to_json a =
     J_Object
       ([(''reason'', breakpoint_event_body_reason_to_json (breakpoint_event_body_reason a)),
         (''breakpoint'', breakpoint_struct_to_json (breakpoint_event_body_breakpoint a))])"

type_synonym breakpoint_event_struct = "breakpoint_event_body_struct event_struct"

definition breakpoint_event_struct_to_json :: "breakpoint_event_struct \<Rightarrow> json" where
  "breakpoint_event_struct_to_json a =
     event_object a [(''body'', breakpoint_event_body_struct_to_json (event_content a))]"

record exception_breakpoints_filter_struct =
  exception_breakpoints_filter_filter :: string
  exception_breakpoints_filter_label :: string
  exception_breakpoints_filter_description :: "string option"
  exception_breakpoints_filter_default :: "bool option"
  exception_breakpoints_filter_supports_condition :: "bool option"
  exception_breakpoints_filter_condition_description :: "string option"

definition exception_breakpoints_filter_struct_to_json :: "exception_breakpoints_filter_struct \<Rightarrow> json" where
  "exception_breakpoints_filter_struct_to_json a =
     J_Object
       ([(''filter'', J_String (exception_breakpoints_filter_filter a)),
         (''label'', J_String (exception_breakpoints_filter_label a))]
        @ optional ''description'' J_String (exception_breakpoints_filter_description a)
        @ optional ''default'' J_Bool (exception_breakpoints_filter_default a)
        @ optional ''supportsCondition'' J_Bool (exception_breakpoints_filter_supports_condition a)
        @ optional ''conditionDescription'' J_String (exception_breakpoints_filter_condition_description a))"

record column_descriptor_struct =
  column_descriptor_attribute_name :: string
  column_descriptor_label :: string
  column_descriptor_format :: "string option"
  column_descriptor_type :: "column_descriptor_type option"
  column_descriptor_width :: "int option"

definition column_descriptor_struct_to_json :: "column_descriptor_struct \<Rightarrow> json" where
  "column_descriptor_struct_to_json a =
     J_Object
       ([(''attributeName'', J_String (column_descriptor_attribute_name a)),
         (''label'', J_String (column_descriptor_label a))]
        @ optional ''format'' J_String (column_descriptor_format a)
        @ optional ''type'' column_descriptor_type_to_json (column_descriptor_type a)
        @ optional ''width'' J_Int (column_descriptor_width a))"

record breakpoint_mode_struct =
  breakpoint_mode_mode :: string
  breakpoint_mode_label :: string
  breakpoint_mode_description :: "string option"
  breakpoint_mode_applies_to :: "breakpoint_mode_applicability list"

definition breakpoint_mode_struct_to_json :: "breakpoint_mode_struct \<Rightarrow> json" where
  "breakpoint_mode_struct_to_json a =
     J_Object
       ([(''mode'', J_String (breakpoint_mode_mode a)), (''label'', J_String (breakpoint_mode_label a))]
        @ optional ''description'' J_String (breakpoint_mode_description a)
        @ [(''appliesTo'', json_list breakpoint_mode_applicability_to_json (breakpoint_mode_applies_to a))])"

record capabilities_struct =
  capabilities_supports_configuration_done_request :: "bool option"
  capabilities_supports_function_breakpoints :: "bool option"
  capabilities_supports_conditional_breakpoints :: "bool option"
  capabilities_supports_hit_conditional_breakpoints :: "bool option"
  capabilities_supports_evaluate_for_hovers :: "bool option"
  capabilities_exception_breakpoint_filters :: "exception_breakpoints_filter_struct list option"
  capabilities_supports_step_back :: "bool option"
  capabilities_supports_set_variable :: "bool option"
  capabilities_supports_restart_frame :: "bool option"
  capabilities_supports_goto_targets_request :: "bool option"
  capabilities_supports_step_in_targets_request :: "bool option"
  capabilities_supports_completions_request :: "bool option"
  capabilities_completion_trigger_characters :: "string list option"
  capabilities_supports_modules_request :: "bool option"
  capabilities_additional_module_columns :: "column_descriptor_struct list option"
  capabilities_supported_checksum_algorithms :: "checksum_algorithm list option"
  capabilities_supports_restart_request :: "bool option"
  capabilities_supports_exception_options :: "bool option"
  capabilities_supports_value_formatting_options :: "bool option"
  capabilities_supports_exception_info_request :: "bool option"
  capabilities_support_terminate_debuggee :: "bool option"
  capabilities_support_suspend_debuggee :: "bool option"
  capabilities_supports_delayed_stack_trace_loading :: "bool option"
  capabilities_supports_loaded_sources_request :: "bool option"
  capabilities_supports_log_points :: "bool option"
  capabilities_supports_terminate_threads_request :: "bool option"
  capabilities_supports_set_expression :: "bool option"
  capabilities_supports_terminate_request :: "bool option"
  capabilities_supports_data_breakpoints :: "bool option"
  capabilities_supports_read_memory_request :: "bool option"
  capabilities_supports_write_memory_request :: "bool option"
  capabilities_supports_disassemble_request :: "bool option"
  capabilities_supports_cancel_request :: "bool option"
  capabilities_supports_breakpoint_locations_request :: "bool option"
  capabilities_supports_clipboard_context :: "bool option"
  capabilities_supports_stepping_granularity :: "bool option"
  capabilities_supports_instruction_breakpoints :: "bool option"
  capabilities_supports_exception_filter_options :: "bool option"
  capabilities_supports_single_thread_execution_requests :: "bool option"
  capabilities_supports_data_breakpoint_bytes :: "bool option"
  capabilities_breakpoint_modes :: "breakpoint_mode_struct list option"
  capabilities_supports_ansi_styling :: "bool option"

definition capabilities_struct_to_json :: "capabilities_struct \<Rightarrow> json" where
  "capabilities_struct_to_json a =
     object_of
       (optional ''supportsConfigurationDoneRequest'' J_Bool (capabilities_supports_configuration_done_request a)
        @ optional ''supportsFunctionBreakpoints'' J_Bool (capabilities_supports_function_breakpoints a)
        @ optional ''supportsConditionalBreakpoints'' J_Bool (capabilities_supports_conditional_breakpoints a)
        @ optional ''supportsHitConditionalBreakpoints'' J_Bool (capabilities_supports_hit_conditional_breakpoints a)
        @ optional ''supportsEvaluateForHovers'' J_Bool (capabilities_supports_evaluate_for_hovers a)
        @ optional ''exceptionBreakpointFilters'' (json_list exception_breakpoints_filter_struct_to_json) (capabilities_exception_breakpoint_filters a)
        @ optional ''supportsStepBack'' J_Bool (capabilities_supports_step_back a)
        @ optional ''supportsSetVariable'' J_Bool (capabilities_supports_set_variable a)
        @ optional ''supportsRestartFrame'' J_Bool (capabilities_supports_restart_frame a)
        @ optional ''supportsGotoTargetsRequest'' J_Bool (capabilities_supports_goto_targets_request a)
        @ optional ''supportsStepInTargetsRequest'' J_Bool (capabilities_supports_step_in_targets_request a)
        @ optional ''supportsCompletionsRequest'' J_Bool (capabilities_supports_completions_request a)
        @ optional ''completionTriggerCharacters'' (json_list J_String) (capabilities_completion_trigger_characters a)
        @ optional ''supportsModulesRequest'' J_Bool (capabilities_supports_modules_request a)
        @ optional ''additionalModuleColumns'' (json_list column_descriptor_struct_to_json) (capabilities_additional_module_columns a)
        @ optional ''supportedChecksumAlgorithms'' (json_list (enum_to_json checksum_algorithms)) (capabilities_supported_checksum_algorithms a)
        @ optional ''supportsRestartRequest'' J_Bool (capabilities_supports_restart_request a)
        @ optional ''supportsExceptionOptions'' J_Bool (capabilities_supports_exception_options a)
        @ optional ''supportsValueFormattingOptions'' J_Bool (capabilities_supports_value_formatting_options a)
        @ optional ''supportsExceptionInfoRequest'' J_Bool (capabilities_supports_exception_info_request a)
        @ optional ''supportTerminateDebuggee'' J_Bool (capabilities_support_terminate_debuggee a)
        @ optional ''supportSuspendDebuggee'' J_Bool (capabilities_support_suspend_debuggee a)
        @ optional ''supportsDelayedStackTraceLoading'' J_Bool (capabilities_supports_delayed_stack_trace_loading a)
        @ optional ''supportsLoadedSourcesRequest'' J_Bool (capabilities_supports_loaded_sources_request a)
        @ optional ''supportsLogPoints'' J_Bool (capabilities_supports_log_points a)
        @ optional ''supportsTerminateThreadsRequest'' J_Bool (capabilities_supports_terminate_threads_request a)
        @ optional ''supportsSetExpression'' J_Bool (capabilities_supports_set_expression a)
        @ optional ''supportsTerminateRequest'' J_Bool (capabilities_supports_terminate_request a)
        @ optional ''supportsDataBreakpoints'' J_Bool (capabilities_supports_data_breakpoints a)
        @ optional ''supportsReadMemoryRequest'' J_Bool (capabilities_supports_read_memory_request a)
        @ optional ''supportsWriteMemoryRequest'' J_Bool (capabilities_supports_write_memory_request a)
        @ optional ''supportsDisassembleRequest'' J_Bool (capabilities_supports_disassemble_request a)
        @ optional ''supportsCancelRequest'' J_Bool (capabilities_supports_cancel_request a)
        @ optional ''supportsBreakpointLocationsRequest'' J_Bool (capabilities_supports_breakpoint_locations_request a)
        @ optional ''supportsClipboardContext'' J_Bool (capabilities_supports_clipboard_context a)
        @ optional ''supportsSteppingGranularity'' J_Bool (capabilities_supports_stepping_granularity a)
        @ optional ''supportsInstructionBreakpoints'' J_Bool (capabilities_supports_instruction_breakpoints a)
        @ optional ''supportsExceptionFilterOptions'' J_Bool (capabilities_supports_exception_filter_options a)
        @ optional ''supportsSingleThreadExecutionRequests'' J_Bool (capabilities_supports_single_thread_execution_requests a)
        @ optional ''supportsDataBreakpointBytes'' J_Bool (capabilities_supports_data_breakpoint_bytes a)
        @ optional ''breakpointModes'' (json_list breakpoint_mode_struct_to_json) (capabilities_breakpoint_modes a)
        @ optional ''supportsANSIStyling'' J_Bool (capabilities_supports_ansi_styling a))"

record capabilities_event_body_struct =
  capabilities_event_body_capabilities :: capabilities_struct

definition capabilities_event_body_struct_to_json :: "capabilities_event_body_struct \<Rightarrow> json" where
  "capabilities_event_body_struct_to_json a =
     J_Object
       ([(''capabilities'', capabilities_struct_to_json (capabilities_event_body_capabilities a))])"

type_synonym capabilities_event_struct = "capabilities_event_body_struct event_struct"

definition capabilities_event_struct_to_json :: "capabilities_event_struct \<Rightarrow> json" where
  "capabilities_event_struct_to_json a =
     event_object a [(''body'', capabilities_event_body_struct_to_json (event_content a))]"

record continued_event_body_struct =
  continued_event_body_thread_id :: int
  continued_event_body_all_threads_continued :: "bool option"

definition continued_event_body_struct_to_json :: "continued_event_body_struct \<Rightarrow> json" where
  "continued_event_body_struct_to_json a =
     J_Object
       ([(''threadId'', J_Int (continued_event_body_thread_id a))]
        @ optional ''allThreadsContinued'' J_Bool (continued_event_body_all_threads_continued a))"

type_synonym continued_event_struct = "continued_event_body_struct event_struct"

definition continued_event_struct_to_json :: "continued_event_struct \<Rightarrow> json" where
  "continued_event_struct_to_json a =
     event_object a [(''body'', continued_event_body_struct_to_json (event_content a))]"

record exited_event_body_struct =
  exited_event_body_exit_code :: int

definition exited_event_body_struct_to_json :: "exited_event_body_struct \<Rightarrow> json" where
  "exited_event_body_struct_to_json a = J_Object [(''exitCode'', J_Int (exited_event_body_exit_code a))]"

type_synonym exited_event_struct = "exited_event_body_struct event_struct"

definition exited_event_struct_to_json :: "exited_event_struct \<Rightarrow> json" where
  "exited_event_struct_to_json a =
     event_object a [(''body'', exited_event_body_struct_to_json (event_content a))]"

type_synonym initialized_event_struct = "json event_struct"

definition initialized_event_struct_to_json :: "initialized_event_struct \<Rightarrow> json" where
  "initialized_event_struct_to_json a = event_object a (optional_json ''body'' (event_content a))"

record invalidated_event_body_struct =
  invalidated_event_body_areas :: "invalidated_areas list option"
  invalidated_event_body_thread_id :: "int option"
  invalidated_event_body_stack_frame_id :: "int option"

definition invalidated_event_body_struct_to_json :: "invalidated_event_body_struct \<Rightarrow> json" where
  "invalidated_event_body_struct_to_json a =
     object_of
       (optional ''areas'' (json_list invalidated_areas_to_json) (invalidated_event_body_areas a)
        @ optional ''threadId'' J_Int (invalidated_event_body_thread_id a)
        @ optional ''stackFrameId'' J_Int (invalidated_event_body_stack_frame_id a))"

type_synonym invalidated_event_struct = "invalidated_event_body_struct event_struct"

definition invalidated_event_struct_to_json :: "invalidated_event_struct \<Rightarrow> json" where
  "invalidated_event_struct_to_json a =
     event_object a [(''body'', invalidated_event_body_struct_to_json (event_content a))]"

record loaded_source_event_body_struct =
  loaded_source_event_body_reason :: loaded_source_event_body_reason
  loaded_source_event_body_source :: requested_source

definition loaded_source_event_body_struct_to_json :: "loaded_source_event_body_struct \<Rightarrow> json" where
  "loaded_source_event_body_struct_to_json a =
     J_Object
       ([(''reason'', loaded_source_event_body_reason_to_json (loaded_source_event_body_reason a)),
         (''source'', source_to_json (loaded_source_event_body_source a))])"

type_synonym loaded_source_event_struct = "loaded_source_event_body_struct event_struct"

definition loaded_source_event_struct_to_json :: "loaded_source_event_struct \<Rightarrow> json" where
  "loaded_source_event_struct_to_json a =
     event_object a [(''body'', loaded_source_event_body_struct_to_json (event_content a))]"

record memory_event_body_struct =
  memory_event_body_memory_reference :: string
  memory_event_body_offset :: int
  memory_event_body_count :: int

definition memory_event_body_struct_to_json :: "memory_event_body_struct \<Rightarrow> json" where
  "memory_event_body_struct_to_json a =
     J_Object
       ([(''memoryReference'', J_String (memory_event_body_memory_reference a)),
         (''offset'', J_Int (memory_event_body_offset a)),
         (''count'', J_Int (memory_event_body_count a))])"

type_synonym memory_event_struct = "memory_event_body_struct event_struct"

definition memory_event_struct_to_json :: "memory_event_struct \<Rightarrow> json" where
  "memory_event_struct_to_json a =
     event_object a [(''body'', memory_event_body_struct_to_json (event_content a))]"

record module_struct =
  module_entry_id :: json
  module_entry_name :: string
  module_entry_path :: "string option"
  module_entry_is_optimized :: "bool option"
  module_entry_is_user_code :: "bool option"
  module_entry_version :: "string option"
  module_entry_symbol_status :: "string option"
  module_entry_symbol_file_path :: "string option"
  module_entry_date_time_stamp :: "string option"
  module_entry_address_range :: "string option"

definition module_struct_to_json :: "module_struct \<Rightarrow> json" where
  "module_struct_to_json a =
     J_Object
       (optional_json ''id'' (module_entry_id a) @ [(''name'', J_String (module_entry_name a))]
        @ optional ''path'' J_String (module_entry_path a)
        @ optional ''isOptimized'' J_Bool (module_entry_is_optimized a)
        @ optional ''isUserCode'' J_Bool (module_entry_is_user_code a)
        @ optional ''version'' J_String (module_entry_version a)
        @ optional ''symbolStatus'' J_String (module_entry_symbol_status a)
        @ optional ''symbolFilePath'' J_String (module_entry_symbol_file_path a)
        @ optional ''dateTimeStamp'' J_String (module_entry_date_time_stamp a)
        @ optional ''addressRange'' J_String (module_entry_address_range a))"

record module_event_body_struct =
  module_event_body_reason :: module_event_body_reason
  module_event_body_module :: module_struct

definition module_event_body_struct_to_json :: "module_event_body_struct \<Rightarrow> json" where
  "module_event_body_struct_to_json a =
     J_Object
       ([(''reason'', module_event_body_reason_to_json (module_event_body_reason a)),
         (''module'', module_struct_to_json (module_event_body_module a))])"

type_synonym module_event_struct = "module_event_body_struct event_struct"

definition module_event_struct_to_json :: "module_event_struct \<Rightarrow> json" where
  "module_event_struct_to_json a =
     event_object a [(''body'', module_event_body_struct_to_json (event_content a))]"

record output_event_body_struct =
  output_event_body_category :: "output_event_body_category option"
  output_event_body_output :: string
  output_event_body_group :: "output_event_body_group option"
  output_event_body_variables_reference :: "int option"
  output_event_body_source :: "requested_source option"
  output_event_body_line :: "int option"
  output_event_body_column :: "int option"
  output_event_body_data :: json
  output_event_body_location_reference :: "int option"

definition output_event_body_struct_to_json :: "output_event_body_struct \<Rightarrow> json" where
  "output_event_body_struct_to_json a =
     J_Object
       (optional ''category'' output_event_body_category_to_json (output_event_body_category a)
        @ [(''output'', J_String (output_event_body_output a))]
        @ optional ''group'' output_event_body_group_to_json (output_event_body_group a)
        @ optional ''variablesReference'' J_Int (output_event_body_variables_reference a)
        @ optional ''source'' source_to_json (output_event_body_source a)
        @ optional ''line'' J_Int (output_event_body_line a)
        @ optional ''column'' J_Int (output_event_body_column a)
        @ optional_json ''data'' (output_event_body_data a)
        @ optional ''locationReference'' J_Int (output_event_body_location_reference a))"

type_synonym output_event_struct = "output_event_body_struct event_struct"

definition output_event_struct_to_json :: "output_event_struct \<Rightarrow> json" where
  "output_event_struct_to_json a =
     event_object a [(''body'', output_event_body_struct_to_json (event_content a))]"

record process_event_body_struct =
  process_event_body_name :: string
  process_event_body_system_process_id :: "int option"
  process_event_body_is_local_process :: "bool option"
  process_event_body_start_method :: "process_event_body_start_method option"
  process_event_body_pointer_size :: "int option"

definition process_event_body_struct_to_json :: "process_event_body_struct \<Rightarrow> json" where
  "process_event_body_struct_to_json a =
     J_Object
       ([(''name'', J_String (process_event_body_name a))]
        @ optional ''systemProcessId'' J_Int (process_event_body_system_process_id a)
        @ optional ''isLocalProcess'' J_Bool (process_event_body_is_local_process a)
        @ optional ''startMethod'' process_event_body_start_method_to_json (process_event_body_start_method a)
        @ optional ''pointerSize'' J_Int (process_event_body_pointer_size a))"

type_synonym process_event_struct = "process_event_body_struct event_struct"

definition process_event_struct_to_json :: "process_event_struct \<Rightarrow> json" where
  "process_event_struct_to_json a =
     event_object a [(''body'', process_event_body_struct_to_json (event_content a))]"

record progress_end_event_body_struct =
  progress_end_event_body_progress_id :: string
  progress_end_event_body_message :: "string option"

definition progress_end_event_body_struct_to_json :: "progress_end_event_body_struct \<Rightarrow> json" where
  "progress_end_event_body_struct_to_json a =
     J_Object
       ([(''progressId'', J_String (progress_end_event_body_progress_id a))]
        @ optional ''message'' J_String (progress_end_event_body_message a))"

type_synonym progress_end_event_struct = "progress_end_event_body_struct event_struct"

definition progress_end_event_struct_to_json :: "progress_end_event_struct \<Rightarrow> json" where
  "progress_end_event_struct_to_json a =
     event_object a [(''body'', progress_end_event_body_struct_to_json (event_content a))]"

record progress_start_event_body_struct =
  progress_start_event_body_progress_id :: string
  progress_start_event_body_title :: string
  progress_start_event_body_request_id :: "int option"
  progress_start_event_body_cancellable :: "bool option"
  progress_start_event_body_message :: "string option"
  progress_start_event_body_percentage :: "string option"

definition progress_start_event_body_struct_to_json :: "progress_start_event_body_struct \<Rightarrow> json" where
  "progress_start_event_body_struct_to_json a =
     J_Object
       ([(''progressId'', J_String (progress_start_event_body_progress_id a)),
         (''title'', J_String (progress_start_event_body_title a))]
        @ optional ''requestId'' J_Int (progress_start_event_body_request_id a)
        @ optional ''cancellable'' J_Bool (progress_start_event_body_cancellable a)
        @ optional ''message'' J_String (progress_start_event_body_message a)
        @ optional ''percentage'' J_Float (progress_start_event_body_percentage a))"

type_synonym progress_start_event_struct = "progress_start_event_body_struct event_struct"

definition progress_start_event_struct_to_json :: "progress_start_event_struct \<Rightarrow> json" where
  "progress_start_event_struct_to_json a =
     event_object a [(''body'', progress_start_event_body_struct_to_json (event_content a))]"

record progress_update_event_body_struct =
  progress_update_event_body_progress_id :: string
  progress_update_event_body_message :: "string option"
  progress_update_event_body_percentage :: "string option"

definition progress_update_event_body_struct_to_json :: "progress_update_event_body_struct \<Rightarrow> json" where
  "progress_update_event_body_struct_to_json a =
     J_Object
       ([(''progressId'', J_String (progress_update_event_body_progress_id a))]
        @ optional ''message'' J_String (progress_update_event_body_message a)
        @ optional ''percentage'' J_Float (progress_update_event_body_percentage a))"

type_synonym progress_update_event_struct = "progress_update_event_body_struct event_struct"

definition progress_update_event_struct_to_json :: "progress_update_event_struct \<Rightarrow> json" where
  "progress_update_event_struct_to_json a =
     event_object a [(''body'', progress_update_event_body_struct_to_json (event_content a))]"

record stopped_event_body_struct =
  stopped_event_body_reason :: stopped_event_body_reason
  stopped_event_body_description :: "string option"
  stopped_event_body_thread_id :: "int option"
  stopped_event_body_preserve_focus_hint :: "bool option"
  stopped_event_body_text :: "string option"
  stopped_event_body_all_threads_stopped :: "bool option"
  stopped_event_body_hit_breakpoint_ids :: "int list option"

definition stopped_event_body_struct_to_json :: "stopped_event_body_struct \<Rightarrow> json" where
  "stopped_event_body_struct_to_json a =
     J_Object
       ([(''reason'', stopped_event_body_reason_to_json (stopped_event_body_reason a))]
        @ optional ''description'' J_String (stopped_event_body_description a)
        @ optional ''threadId'' J_Int (stopped_event_body_thread_id a)
        @ optional ''preserveFocusHint'' J_Bool (stopped_event_body_preserve_focus_hint a)
        @ optional ''text'' J_String (stopped_event_body_text a)
        @ optional ''allThreadsStopped'' J_Bool (stopped_event_body_all_threads_stopped a)
        @ optional ''hitBreakpointIds'' (json_list J_Int) (stopped_event_body_hit_breakpoint_ids a))"

type_synonym stopped_event_struct = "stopped_event_body_struct event_struct"

definition stopped_event_struct_to_json :: "stopped_event_struct \<Rightarrow> json" where
  "stopped_event_struct_to_json a =
     event_object a [(''body'', stopped_event_body_struct_to_json (event_content a))]"

record terminated_event_body_struct =
  terminated_event_body_restart :: json

definition terminated_event_body_struct_to_json :: "terminated_event_body_struct \<Rightarrow> json" where
  "terminated_event_body_struct_to_json a =
     object_of
       (optional_json ''restart'' (terminated_event_body_restart a))"

type_synonym terminated_event_struct = "terminated_event_body_struct option event_struct"

definition terminated_event_struct_to_json :: "terminated_event_struct \<Rightarrow> json" where
  "terminated_event_struct_to_json a =
     event_object a (optional ''body'' terminated_event_body_struct_to_json (event_content a))"

record thread_event_body_struct =
  thread_event_body_reason :: thread_event_body_reason
  thread_event_body_thread_id :: int

definition thread_event_body_struct_to_json :: "thread_event_body_struct \<Rightarrow> json" where
  "thread_event_body_struct_to_json a =
     J_Object
       ([(''reason'', thread_event_body_reason_to_json (thread_event_body_reason a)),
         (''threadId'', J_Int (thread_event_body_thread_id a))])"

type_synonym thread_event_struct = "thread_event_body_struct event_struct"

definition thread_event_struct_to_json :: "thread_event_struct \<Rightarrow> json" where
  "thread_event_struct_to_json a =
     event_object a [(''body'', thread_event_body_struct_to_json (event_content a))]"

type_synonym attach_response_struct = "json response_struct"

definition attach_response_struct_to_json :: "attach_response_struct \<Rightarrow> json" where
  "attach_response_struct_to_json a = response_object a (optional_json ''body'' (response_content a))"

record breakpoint_location_struct =
  breakpoint_location_line :: int
  breakpoint_location_column :: "int option"
  breakpoint_location_end_line :: "int option"
  breakpoint_location_end_column :: "int option"

definition breakpoint_location_struct_to_json :: "breakpoint_location_struct \<Rightarrow> json" where
  "breakpoint_location_struct_to_json a =
     J_Object
       ([(''line'', J_Int (breakpoint_location_line a))]
        @ optional ''column'' J_Int (breakpoint_location_column a)
        @ optional ''endLine'' J_Int (breakpoint_location_end_line a)
        @ optional ''endColumn'' J_Int (breakpoint_location_end_column a))"

record breakpoint_locations_response_body_struct =
  breakpoint_locations_response_body_breakpoints :: "breakpoint_location_struct list"

definition breakpoint_locations_response_body_struct_to_json :: "breakpoint_locations_response_body_struct \<Rightarrow> json" where
  "breakpoint_locations_response_body_struct_to_json a =
     J_Object
       ([(''breakpoints'', json_list breakpoint_location_struct_to_json (breakpoint_locations_response_body_breakpoints a))])"

type_synonym breakpoint_locations_response_struct = "breakpoint_locations_response_body_struct response_struct"

definition breakpoint_locations_response_struct_to_json :: "breakpoint_locations_response_struct \<Rightarrow> json" where
  "breakpoint_locations_response_struct_to_json a =
     response_object a [(''body'', breakpoint_locations_response_body_struct_to_json (response_content a))]"

type_synonym cancel_response_struct = "json response_struct"

definition cancel_response_struct_to_json :: "cancel_response_struct \<Rightarrow> json" where
  "cancel_response_struct_to_json a = response_object a (optional_json ''body'' (response_content a))"

record completion_item_struct =
  completion_item_label :: string
  completion_item_text :: "string option"
  completion_item_sort_text :: "string option"
  completion_item_detail :: "string option"
  completion_item_type :: "completion_item_type option"
  completion_item_start :: "int option"
  completion_item_length :: "int option"
  completion_item_selection_start :: "int option"
  completion_item_selection_length :: "int option"

definition completion_item_struct_to_json :: "completion_item_struct \<Rightarrow> json" where
  "completion_item_struct_to_json a =
     J_Object
       ([(''label'', J_String (completion_item_label a))]
        @ optional ''text'' J_String (completion_item_text a)
        @ optional ''sortText'' J_String (completion_item_sort_text a)
        @ optional ''detail'' J_String (completion_item_detail a)
        @ optional ''type'' completion_item_type_to_json (completion_item_type a)
        @ optional ''start'' J_Int (completion_item_start a)
        @ optional ''length'' J_Int (completion_item_length a)
        @ optional ''selectionStart'' J_Int (completion_item_selection_start a)
        @ optional ''selectionLength'' J_Int (completion_item_selection_length a))"

record completions_response_body_struct =
  completions_response_body_targets :: "completion_item_struct list"

definition completions_response_body_struct_to_json :: "completions_response_body_struct \<Rightarrow> json" where
  "completions_response_body_struct_to_json a =
     J_Object
       ([(''targets'', json_list completion_item_struct_to_json (completions_response_body_targets a))])"

type_synonym completions_response_struct = "completions_response_body_struct response_struct"

definition completions_response_struct_to_json :: "completions_response_struct \<Rightarrow> json" where
  "completions_response_struct_to_json a =
     response_object a [(''body'', completions_response_body_struct_to_json (response_content a))]"

type_synonym configuration_done_response_struct = "json response_struct"

definition configuration_done_response_struct_to_json :: "configuration_done_response_struct \<Rightarrow> json" where
  "configuration_done_response_struct_to_json a =
     response_object a (optional_json ''body'' (response_content a))"

record continue_response_body_struct =
  continue_response_body_all_threads_continued :: "bool option"

definition continue_response_body_struct_to_json :: "continue_response_body_struct \<Rightarrow> json" where
  "continue_response_body_struct_to_json a =
     object_of
       (optional ''allThreadsContinued'' J_Bool (continue_response_body_all_threads_continued a))"

type_synonym continue_response_struct = "continue_response_body_struct response_struct"

definition continue_response_struct_to_json :: "continue_response_struct \<Rightarrow> json" where
  "continue_response_struct_to_json a =
     response_object a [(''body'', continue_response_body_struct_to_json (response_content a))]"

record data_breakpoint_info_response_body_struct =
  data_breakpoint_info_response_body_data_id :: string
  data_breakpoint_info_response_body_description :: string
  data_breakpoint_info_response_body_access_types :: "data_access list option"
  data_breakpoint_info_response_body_can_persist :: "bool option"

definition data_breakpoint_info_response_body_struct_to_json :: "data_breakpoint_info_response_body_struct \<Rightarrow> json" where
  "data_breakpoint_info_response_body_struct_to_json a =
     J_Object
       ([(''dataId'', J_String (data_breakpoint_info_response_body_data_id a)),
         (''description'', J_String (data_breakpoint_info_response_body_description a))]
        @ optional ''accessTypes'' (json_list data_access_to_json) (data_breakpoint_info_response_body_access_types a)
        @ optional ''canPersist'' J_Bool (data_breakpoint_info_response_body_can_persist a))"

type_synonym data_breakpoint_info_response_struct = "data_breakpoint_info_response_body_struct response_struct"

definition data_breakpoint_info_response_struct_to_json :: "data_breakpoint_info_response_struct \<Rightarrow> json" where
  "data_breakpoint_info_response_struct_to_json a =
     response_object a [(''body'', data_breakpoint_info_response_body_struct_to_json (response_content a))]"

record disassembled_instruction_struct =
  disassembled_instruction_address :: string
  disassembled_instruction_instruction_bytes :: "string option"
  disassembled_instruction_instruction :: string
  disassembled_instruction_symbol :: "string option"
  disassembled_instruction_location :: "requested_source option"
  disassembled_instruction_line :: "int option"
  disassembled_instruction_column :: "int option"
  disassembled_instruction_end_line :: "int option"
  disassembled_instruction_end_column :: "int option"
  disassembled_instruction_presentation_hint :: "disassembled_instruction_presentation_hint option"

definition disassembled_instruction_struct_to_json :: "disassembled_instruction_struct \<Rightarrow> json" where
  "disassembled_instruction_struct_to_json a =
     J_Object
       ([(''address'', J_String (disassembled_instruction_address a))]
        @ optional ''instructionBytes'' J_String (disassembled_instruction_instruction_bytes a)
        @ [(''instruction'', J_String (disassembled_instruction_instruction a))]
        @ optional ''symbol'' J_String (disassembled_instruction_symbol a)
        @ optional ''location'' source_to_json (disassembled_instruction_location a)
        @ optional ''line'' J_Int (disassembled_instruction_line a)
        @ optional ''column'' J_Int (disassembled_instruction_column a)
        @ optional ''endLine'' J_Int (disassembled_instruction_end_line a)
        @ optional ''endColumn'' J_Int (disassembled_instruction_end_column a)
        @ optional ''presentationHint'' disassembled_instruction_presentation_hint_to_json (disassembled_instruction_presentation_hint a))"

record disassemble_response_body_struct =
  disassemble_response_body_instructions :: "disassembled_instruction_struct list"

definition disassemble_response_body_struct_to_json :: "disassemble_response_body_struct \<Rightarrow> json" where
  "disassemble_response_body_struct_to_json a =
     J_Object
       ([(''instructions'', json_list disassembled_instruction_struct_to_json (disassemble_response_body_instructions a))])"

type_synonym disassemble_response_struct = "disassemble_response_body_struct option response_struct"

definition disassemble_response_struct_to_json :: "disassemble_response_struct \<Rightarrow> json" where
  "disassemble_response_struct_to_json a =
     response_object a (optional ''body'' disassemble_response_body_struct_to_json (response_content a))"

type_synonym disconnect_response_struct = "json response_struct"

definition disconnect_response_struct_to_json :: "disconnect_response_struct \<Rightarrow> json" where
  "disconnect_response_struct_to_json a = response_object a (optional_json ''body'' (response_content a))"

record variable_presentation_hint_struct =
  variable_presentation_hint_kind :: "variable_presentation_hint_kind option"
  variable_presentation_hint_attributes :: "variable_presentation_hint_attributes_item list option"
  variable_presentation_hint_visibility :: "variable_presentation_hint_visibility option"
  variable_presentation_hint_lazy :: "bool option"

definition variable_presentation_hint_struct_to_json :: "variable_presentation_hint_struct \<Rightarrow> json" where
  "variable_presentation_hint_struct_to_json a =
     object_of
       (optional ''kind'' variable_presentation_hint_kind_to_json (variable_presentation_hint_kind a)
        @ optional ''attributes'' (json_list variable_presentation_hint_attributes_item_to_json) (variable_presentation_hint_attributes a)
        @ optional ''visibility'' variable_presentation_hint_visibility_to_json (variable_presentation_hint_visibility a)
        @ optional ''lazy'' J_Bool (variable_presentation_hint_lazy a))"

record evaluate_response_body_struct =
  evaluate_response_body_result :: string
  evaluate_response_body_type :: "string option"
  evaluate_response_body_presentation_hint :: "variable_presentation_hint_struct option"
  evaluate_response_body_variables_reference :: int
  evaluate_response_body_named_variables :: "int option"
  evaluate_response_body_indexed_variables :: "int option"
  evaluate_response_body_memory_reference :: "string option"
  evaluate_response_body_value_location_reference :: "int option"

definition evaluate_response_body_struct_to_json :: "evaluate_response_body_struct \<Rightarrow> json" where
  "evaluate_response_body_struct_to_json a =
     J_Object
       ([(''result'', J_String (evaluate_response_body_result a))]
        @ optional ''type'' J_String (evaluate_response_body_type a)
        @ optional ''presentationHint'' variable_presentation_hint_struct_to_json (evaluate_response_body_presentation_hint a)
        @ [(''variablesReference'', J_Int (evaluate_response_body_variables_reference a))]
        @ optional ''namedVariables'' J_Int (evaluate_response_body_named_variables a)
        @ optional ''indexedVariables'' J_Int (evaluate_response_body_indexed_variables a)
        @ optional ''memoryReference'' J_String (evaluate_response_body_memory_reference a)
        @ optional ''valueLocationReference'' J_Int (evaluate_response_body_value_location_reference a))"

type_synonym evaluate_response_struct = "evaluate_response_body_struct response_struct"

definition evaluate_response_struct_to_json :: "evaluate_response_struct \<Rightarrow> json" where
  "evaluate_response_struct_to_json a =
     response_object a [(''body'', evaluate_response_body_struct_to_json (response_content a))]"

text \<open>The details of an exception have those of the inner exceptions.\<close>

datatype exception_details_struct =
  Exception_Details
    (exception_details_message: "string option") (exception_details_type_name: "string option")
    (exception_details_full_type_name: "string option") (exception_details_evaluate_name: "string option")
    (exception_details_stack_trace: "string option")
    (exception_details_inner_exception: "exception_details_struct list option")

lemma inner_exception_size:
  "exception_details_inner_exception d = Some ds \<Longrightarrow> x \<in> set ds \<Longrightarrow> size x < size d"
proof (cases d)
  case (Exception_Details m t f e s inner)
  assume ds: "exception_details_inner_exception d = Some ds" and x: "x \<in> set ds"
  have "size x < Suc (size_list size ds)" using x by (induction ds) auto
  then show ?thesis using ds Exception_Details by simp
qed

function exception_details_struct_to_json :: "exception_details_struct \<Rightarrow> json" where
  "exception_details_struct_to_json d =
     object_of
       (optional ''message'' J_String (exception_details_message d)
        @ optional ''typeName'' J_String (exception_details_type_name d)
        @ optional ''fullTypeName'' J_String (exception_details_full_type_name d)
        @ optional ''evaluateName'' J_String (exception_details_evaluate_name d)
        @ optional ''stackTrace'' J_String (exception_details_stack_trace d)
        @ optional ''innerException'' (json_list exception_details_struct_to_json)
            (exception_details_inner_exception d))"
  by pat_completeness auto

termination
  by (relation "measure size") (auto intro: inner_exception_size)

declare exception_details_struct_to_json.simps [simp del]

record exception_info_response_body_struct =
  exception_info_response_body_exception_id :: string
  exception_info_response_body_description :: "string option"
  exception_info_response_body_break_mode :: exception_break_mode
  exception_info_response_body_details :: "exception_details_struct option"

definition exception_info_response_body_struct_to_json :: "exception_info_response_body_struct \<Rightarrow> json" where
  "exception_info_response_body_struct_to_json a =
     J_Object
       ([(''exceptionId'', J_String (exception_info_response_body_exception_id a))]
        @ optional ''description'' J_String (exception_info_response_body_description a)
        @ [(''breakMode'', exception_break_mode_to_json (exception_info_response_body_break_mode a))]
        @ optional ''details'' exception_details_struct_to_json (exception_info_response_body_details a))"

type_synonym exception_info_response_struct = "exception_info_response_body_struct response_struct"

definition exception_info_response_struct_to_json :: "exception_info_response_struct \<Rightarrow> json" where
  "exception_info_response_struct_to_json a =
     response_object a [(''body'', exception_info_response_body_struct_to_json (response_content a))]"

type_synonym goto_response_struct = "json response_struct"

definition goto_response_struct_to_json :: "goto_response_struct \<Rightarrow> json" where
  "goto_response_struct_to_json a = response_object a (optional_json ''body'' (response_content a))"

record goto_target_struct =
  goto_target_entry_id :: int
  goto_target_entry_label :: string
  goto_target_entry_line :: int
  goto_target_entry_column :: "int option"
  goto_target_entry_end_line :: "int option"
  goto_target_entry_end_column :: "int option"
  goto_target_entry_instruction_pointer_reference :: "string option"

definition goto_target_struct_to_json :: "goto_target_struct \<Rightarrow> json" where
  "goto_target_struct_to_json a =
     J_Object
       ([(''id'', J_Int (goto_target_entry_id a)), (''label'', J_String (goto_target_entry_label a)),
         (''line'', J_Int (goto_target_entry_line a))]
        @ optional ''column'' J_Int (goto_target_entry_column a)
        @ optional ''endLine'' J_Int (goto_target_entry_end_line a)
        @ optional ''endColumn'' J_Int (goto_target_entry_end_column a)
        @ optional ''instructionPointerReference'' J_String (goto_target_entry_instruction_pointer_reference a))"

record goto_targets_response_body_struct =
  goto_targets_response_body_targets :: "goto_target_struct list"

definition goto_targets_response_body_struct_to_json :: "goto_targets_response_body_struct \<Rightarrow> json" where
  "goto_targets_response_body_struct_to_json a =
     J_Object
       ([(''targets'', json_list goto_target_struct_to_json (goto_targets_response_body_targets a))])"

type_synonym goto_targets_response_struct = "goto_targets_response_body_struct response_struct"

definition goto_targets_response_struct_to_json :: "goto_targets_response_struct \<Rightarrow> json" where
  "goto_targets_response_struct_to_json a =
     response_object a [(''body'', goto_targets_response_body_struct_to_json (response_content a))]"

type_synonym initialize_response_struct = "capabilities_struct option response_struct"

definition initialize_response_struct_to_json :: "initialize_response_struct \<Rightarrow> json" where
  "initialize_response_struct_to_json a =
     response_object a (optional ''body'' capabilities_struct_to_json (response_content a))"

type_synonym launch_response_struct = "json response_struct"

definition launch_response_struct_to_json :: "launch_response_struct \<Rightarrow> json" where
  "launch_response_struct_to_json a = response_object a (optional_json ''body'' (response_content a))"

record loaded_sources_response_body_struct =
  loaded_sources_response_body_sources :: "requested_source list"

definition loaded_sources_response_body_struct_to_json :: "loaded_sources_response_body_struct \<Rightarrow> json" where
  "loaded_sources_response_body_struct_to_json a =
     J_Object
       ([(''sources'', json_list source_to_json (loaded_sources_response_body_sources a))])"

type_synonym loaded_sources_response_struct = "loaded_sources_response_body_struct response_struct"

definition loaded_sources_response_struct_to_json :: "loaded_sources_response_struct \<Rightarrow> json" where
  "loaded_sources_response_struct_to_json a =
     response_object a [(''body'', loaded_sources_response_body_struct_to_json (response_content a))]"

record locations_response_body_struct =
  locations_response_body_source :: requested_source
  locations_response_body_line :: int
  locations_response_body_column :: "int option"
  locations_response_body_end_line :: "int option"
  locations_response_body_end_column :: "int option"

definition locations_response_body_struct_to_json :: "locations_response_body_struct \<Rightarrow> json" where
  "locations_response_body_struct_to_json a =
     J_Object
       ([(''source'', source_to_json (locations_response_body_source a)),
         (''line'', J_Int (locations_response_body_line a))]
        @ optional ''column'' J_Int (locations_response_body_column a)
        @ optional ''endLine'' J_Int (locations_response_body_end_line a)
        @ optional ''endColumn'' J_Int (locations_response_body_end_column a))"

type_synonym locations_response_struct = "locations_response_body_struct option response_struct"

definition locations_response_struct_to_json :: "locations_response_struct \<Rightarrow> json" where
  "locations_response_struct_to_json a =
     response_object a (optional ''body'' locations_response_body_struct_to_json (response_content a))"

record modules_response_body_struct =
  modules_response_body_modules :: "module_struct list"
  modules_response_body_total_modules :: "int option"

definition modules_response_body_struct_to_json :: "modules_response_body_struct \<Rightarrow> json" where
  "modules_response_body_struct_to_json a =
     J_Object
       ([(''modules'', json_list module_struct_to_json (modules_response_body_modules a))]
        @ optional ''totalModules'' J_Int (modules_response_body_total_modules a))"

type_synonym modules_response_struct = "modules_response_body_struct response_struct"

definition modules_response_struct_to_json :: "modules_response_struct \<Rightarrow> json" where
  "modules_response_struct_to_json a =
     response_object a [(''body'', modules_response_body_struct_to_json (response_content a))]"

type_synonym next_response_struct = "json response_struct"

definition next_response_struct_to_json :: "next_response_struct \<Rightarrow> json" where
  "next_response_struct_to_json a = response_object a (optional_json ''body'' (response_content a))"

type_synonym pause_response_struct = "json response_struct"

definition pause_response_struct_to_json :: "pause_response_struct \<Rightarrow> json" where
  "pause_response_struct_to_json a = response_object a (optional_json ''body'' (response_content a))"

record read_memory_response_body_struct =
  read_memory_response_body_address :: string
  read_memory_response_body_unreadable_bytes :: "int option"
  read_memory_response_body_data :: "string option"

definition read_memory_response_body_struct_to_json :: "read_memory_response_body_struct \<Rightarrow> json" where
  "read_memory_response_body_struct_to_json a =
     J_Object
       ([(''address'', J_String (read_memory_response_body_address a))]
        @ optional ''unreadableBytes'' J_Int (read_memory_response_body_unreadable_bytes a)
        @ optional ''data'' J_String (read_memory_response_body_data a))"

type_synonym read_memory_response_struct = "read_memory_response_body_struct option response_struct"

definition read_memory_response_struct_to_json :: "read_memory_response_struct \<Rightarrow> json" where
  "read_memory_response_struct_to_json a =
     response_object a (optional ''body'' read_memory_response_body_struct_to_json (response_content a))"

type_synonym restart_response_struct = "json response_struct"

definition restart_response_struct_to_json :: "restart_response_struct \<Rightarrow> json" where
  "restart_response_struct_to_json a = response_object a (optional_json ''body'' (response_content a))"

type_synonym restart_frame_response_struct = "json response_struct"

definition restart_frame_response_struct_to_json :: "restart_frame_response_struct \<Rightarrow> json" where
  "restart_frame_response_struct_to_json a =
     response_object a (optional_json ''body'' (response_content a))"

type_synonym reverse_continue_response_struct = "json response_struct"

definition reverse_continue_response_struct_to_json :: "reverse_continue_response_struct \<Rightarrow> json" where
  "reverse_continue_response_struct_to_json a =
     response_object a (optional_json ''body'' (response_content a))"

record run_in_terminal_response_body_struct =
  run_in_terminal_response_body_process_id :: "int option"
  run_in_terminal_response_body_shell_process_id :: "int option"

definition run_in_terminal_response_body_struct_to_json :: "run_in_terminal_response_body_struct \<Rightarrow> json" where
  "run_in_terminal_response_body_struct_to_json a =
     object_of
       (optional ''processId'' J_Int (run_in_terminal_response_body_process_id a)
        @ optional ''shellProcessId'' J_Int (run_in_terminal_response_body_shell_process_id a))"

type_synonym run_in_terminal_response_struct = "run_in_terminal_response_body_struct response_struct"

definition run_in_terminal_response_struct_to_json :: "run_in_terminal_response_struct \<Rightarrow> json" where
  "run_in_terminal_response_struct_to_json a =
     response_object a [(''body'', run_in_terminal_response_body_struct_to_json (response_content a))]"

record scope_struct =
  scope_name :: string
  scope_presentation_hint :: "scope_presentation_hint option"
  scope_variables_reference :: int
  scope_named_variables :: "int option"
  scope_indexed_variables :: "int option"
  scope_expensive :: bool
  scope_source :: "requested_source option"
  scope_line :: "int option"
  scope_column :: "int option"
  scope_end_line :: "int option"
  scope_end_column :: "int option"

definition scope_struct_to_json :: "scope_struct \<Rightarrow> json" where
  "scope_struct_to_json a =
     J_Object
       ([(''name'', J_String (scope_name a))]
        @ optional ''presentationHint'' scope_presentation_hint_to_json (scope_presentation_hint a)
        @ [(''variablesReference'', J_Int (scope_variables_reference a))]
        @ optional ''namedVariables'' J_Int (scope_named_variables a)
        @ optional ''indexedVariables'' J_Int (scope_indexed_variables a)
        @ [(''expensive'', J_Bool (scope_expensive a))]
        @ optional ''source'' source_to_json (scope_source a) @ optional ''line'' J_Int (scope_line a)
        @ optional ''column'' J_Int (scope_column a) @ optional ''endLine'' J_Int (scope_end_line a)
        @ optional ''endColumn'' J_Int (scope_end_column a))"

record scopes_response_body_struct =
  scopes_response_body_scopes :: "scope_struct list"

definition scopes_response_body_struct_to_json :: "scopes_response_body_struct \<Rightarrow> json" where
  "scopes_response_body_struct_to_json a =
     J_Object
       ([(''scopes'', json_list scope_struct_to_json (scopes_response_body_scopes a))])"

type_synonym scopes_response_struct = "scopes_response_body_struct response_struct"

definition scopes_response_struct_to_json :: "scopes_response_struct \<Rightarrow> json" where
  "scopes_response_struct_to_json a =
     response_object a [(''body'', scopes_response_body_struct_to_json (response_content a))]"

record set_breakpoints_response_body_struct =
  set_breakpoints_response_body_breakpoints :: "breakpoint_struct list"

definition set_breakpoints_response_body_struct_to_json :: "set_breakpoints_response_body_struct \<Rightarrow> json" where
  "set_breakpoints_response_body_struct_to_json a =
     J_Object
       ([(''breakpoints'', json_list breakpoint_struct_to_json (set_breakpoints_response_body_breakpoints a))])"

type_synonym set_breakpoints_response_struct = "set_breakpoints_response_body_struct response_struct"

definition set_breakpoints_response_struct_to_json :: "set_breakpoints_response_struct \<Rightarrow> json" where
  "set_breakpoints_response_struct_to_json a =
     response_object a [(''body'', set_breakpoints_response_body_struct_to_json (response_content a))]"

record set_data_breakpoints_response_body_struct =
  set_data_breakpoints_response_body_breakpoints :: "breakpoint_struct list"

definition set_data_breakpoints_response_body_struct_to_json :: "set_data_breakpoints_response_body_struct \<Rightarrow> json" where
  "set_data_breakpoints_response_body_struct_to_json a =
     J_Object
       ([(''breakpoints'', json_list breakpoint_struct_to_json (set_data_breakpoints_response_body_breakpoints a))])"

type_synonym set_data_breakpoints_response_struct = "set_data_breakpoints_response_body_struct response_struct"

definition set_data_breakpoints_response_struct_to_json :: "set_data_breakpoints_response_struct \<Rightarrow> json" where
  "set_data_breakpoints_response_struct_to_json a =
     response_object a [(''body'', set_data_breakpoints_response_body_struct_to_json (response_content a))]"

record set_exception_breakpoints_response_body_struct =
  set_exception_breakpoints_response_body_breakpoints :: "breakpoint_struct list option"

definition set_exception_breakpoints_response_body_struct_to_json :: "set_exception_breakpoints_response_body_struct \<Rightarrow> json" where
  "set_exception_breakpoints_response_body_struct_to_json a =
     object_of
       (optional ''breakpoints'' (json_list breakpoint_struct_to_json) (set_exception_breakpoints_response_body_breakpoints a))"

type_synonym set_exception_breakpoints_response_struct = "set_exception_breakpoints_response_body_struct option response_struct"

definition set_exception_breakpoints_response_struct_to_json :: "set_exception_breakpoints_response_struct \<Rightarrow> json" where
  "set_exception_breakpoints_response_struct_to_json a =
     response_object a (optional ''body'' set_exception_breakpoints_response_body_struct_to_json (response_content a))"

record set_expression_response_body_struct =
  set_expression_response_body_value :: string
  set_expression_response_body_type :: "string option"
  set_expression_response_body_presentation_hint :: "variable_presentation_hint_struct option"
  set_expression_response_body_variables_reference :: "int option"
  set_expression_response_body_named_variables :: "int option"
  set_expression_response_body_indexed_variables :: "int option"
  set_expression_response_body_memory_reference :: "string option"
  set_expression_response_body_value_location_reference :: "int option"

definition set_expression_response_body_struct_to_json :: "set_expression_response_body_struct \<Rightarrow> json" where
  "set_expression_response_body_struct_to_json a =
     J_Object
       ([(''value'', J_String (set_expression_response_body_value a))]
        @ optional ''type'' J_String (set_expression_response_body_type a)
        @ optional ''presentationHint'' variable_presentation_hint_struct_to_json (set_expression_response_body_presentation_hint a)
        @ optional ''variablesReference'' J_Int (set_expression_response_body_variables_reference a)
        @ optional ''namedVariables'' J_Int (set_expression_response_body_named_variables a)
        @ optional ''indexedVariables'' J_Int (set_expression_response_body_indexed_variables a)
        @ optional ''memoryReference'' J_String (set_expression_response_body_memory_reference a)
        @ optional ''valueLocationReference'' J_Int (set_expression_response_body_value_location_reference a))"

type_synonym set_expression_response_struct = "set_expression_response_body_struct response_struct"

definition set_expression_response_struct_to_json :: "set_expression_response_struct \<Rightarrow> json" where
  "set_expression_response_struct_to_json a =
     response_object a [(''body'', set_expression_response_body_struct_to_json (response_content a))]"

record set_function_breakpoints_response_body_struct =
  set_function_breakpoints_response_body_breakpoints :: "breakpoint_struct list"

definition set_function_breakpoints_response_body_struct_to_json :: "set_function_breakpoints_response_body_struct \<Rightarrow> json" where
  "set_function_breakpoints_response_body_struct_to_json a =
     J_Object
       ([(''breakpoints'', json_list breakpoint_struct_to_json (set_function_breakpoints_response_body_breakpoints a))])"

type_synonym set_function_breakpoints_response_struct = "set_function_breakpoints_response_body_struct response_struct"

definition set_function_breakpoints_response_struct_to_json :: "set_function_breakpoints_response_struct \<Rightarrow> json" where
  "set_function_breakpoints_response_struct_to_json a =
     response_object a [(''body'', set_function_breakpoints_response_body_struct_to_json (response_content a))]"

record set_instruction_breakpoints_response_body_struct =
  set_instruction_breakpoints_response_body_breakpoints :: "breakpoint_struct list"

definition set_instruction_breakpoints_response_body_struct_to_json :: "set_instruction_breakpoints_response_body_struct \<Rightarrow> json" where
  "set_instruction_breakpoints_response_body_struct_to_json a =
     J_Object
       ([(''breakpoints'', json_list breakpoint_struct_to_json (set_instruction_breakpoints_response_body_breakpoints a))])"

type_synonym set_instruction_breakpoints_response_struct = "set_instruction_breakpoints_response_body_struct response_struct"

definition set_instruction_breakpoints_response_struct_to_json :: "set_instruction_breakpoints_response_struct \<Rightarrow> json" where
  "set_instruction_breakpoints_response_struct_to_json a =
     response_object a [(''body'', set_instruction_breakpoints_response_body_struct_to_json (response_content a))]"

record set_variable_response_body_struct =
  set_variable_response_body_value :: string
  set_variable_response_body_type :: "string option"
  set_variable_response_body_variables_reference :: "int option"
  set_variable_response_body_named_variables :: "int option"
  set_variable_response_body_indexed_variables :: "int option"
  set_variable_response_body_memory_reference :: "string option"
  set_variable_response_body_value_location_reference :: "int option"

definition set_variable_response_body_struct_to_json :: "set_variable_response_body_struct \<Rightarrow> json" where
  "set_variable_response_body_struct_to_json a =
     J_Object
       ([(''value'', J_String (set_variable_response_body_value a))]
        @ optional ''type'' J_String (set_variable_response_body_type a)
        @ optional ''variablesReference'' J_Int (set_variable_response_body_variables_reference a)
        @ optional ''namedVariables'' J_Int (set_variable_response_body_named_variables a)
        @ optional ''indexedVariables'' J_Int (set_variable_response_body_indexed_variables a)
        @ optional ''memoryReference'' J_String (set_variable_response_body_memory_reference a)
        @ optional ''valueLocationReference'' J_Int (set_variable_response_body_value_location_reference a))"

type_synonym set_variable_response_struct = "set_variable_response_body_struct response_struct"

definition set_variable_response_struct_to_json :: "set_variable_response_struct \<Rightarrow> json" where
  "set_variable_response_struct_to_json a =
     response_object a [(''body'', set_variable_response_body_struct_to_json (response_content a))]"

record source_response_body_struct =
  source_response_body_content :: string
  source_response_body_mime_type :: "string option"

definition source_response_body_struct_to_json :: "source_response_body_struct \<Rightarrow> json" where
  "source_response_body_struct_to_json a =
     J_Object
       ([(''content'', J_String (source_response_body_content a))]
        @ optional ''mimeType'' J_String (source_response_body_mime_type a))"

type_synonym source_response_struct = "source_response_body_struct response_struct"

definition source_response_struct_to_json :: "source_response_struct \<Rightarrow> json" where
  "source_response_struct_to_json a =
     response_object a [(''body'', source_response_body_struct_to_json (response_content a))]"

record stack_frame_struct =
  stack_frame_id :: int
  stack_frame_name :: string
  stack_frame_source :: "requested_source option"
  stack_frame_line :: int
  stack_frame_column :: int
  stack_frame_end_line :: "int option"
  stack_frame_end_column :: "int option"
  stack_frame_can_restart :: "bool option"
  stack_frame_instruction_pointer_reference :: "string option"
  stack_frame_module_id :: json
  stack_frame_presentation_hint :: "stack_frame_presentation_hint option"

definition stack_frame_struct_to_json :: "stack_frame_struct \<Rightarrow> json" where
  "stack_frame_struct_to_json a =
     J_Object
       ([(''id'', J_Int (stack_frame_id a)), (''name'', J_String (stack_frame_name a))]
        @ optional ''source'' source_to_json (stack_frame_source a)
        @ [(''line'', J_Int (stack_frame_line a)), (''column'', J_Int (stack_frame_column a))]
        @ optional ''endLine'' J_Int (stack_frame_end_line a)
        @ optional ''endColumn'' J_Int (stack_frame_end_column a)
        @ optional ''canRestart'' J_Bool (stack_frame_can_restart a)
        @ optional ''instructionPointerReference'' J_String (stack_frame_instruction_pointer_reference a)
        @ optional_json ''moduleId'' (stack_frame_module_id a)
        @ optional ''presentationHint'' stack_frame_presentation_hint_to_json (stack_frame_presentation_hint a))"

record stack_trace_response_body_struct =
  stack_trace_response_body_stack_frames :: "stack_frame_struct list"
  stack_trace_response_body_total_frames :: "int option"

definition stack_trace_response_body_struct_to_json :: "stack_trace_response_body_struct \<Rightarrow> json" where
  "stack_trace_response_body_struct_to_json a =
     J_Object
       ([(''stackFrames'', json_list stack_frame_struct_to_json (stack_trace_response_body_stack_frames a))]
        @ optional ''totalFrames'' J_Int (stack_trace_response_body_total_frames a))"

type_synonym stack_trace_response_struct = "stack_trace_response_body_struct response_struct"

definition stack_trace_response_struct_to_json :: "stack_trace_response_struct \<Rightarrow> json" where
  "stack_trace_response_struct_to_json a =
     response_object a [(''body'', stack_trace_response_body_struct_to_json (response_content a))]"

type_synonym start_debugging_response_struct = "json response_struct"

definition start_debugging_response_struct_to_json :: "start_debugging_response_struct \<Rightarrow> json" where
  "start_debugging_response_struct_to_json a =
     response_object a (optional_json ''body'' (response_content a))"

type_synonym step_back_response_struct = "json response_struct"

definition step_back_response_struct_to_json :: "step_back_response_struct \<Rightarrow> json" where
  "step_back_response_struct_to_json a = response_object a (optional_json ''body'' (response_content a))"

type_synonym step_in_response_struct = "json response_struct"

definition step_in_response_struct_to_json :: "step_in_response_struct \<Rightarrow> json" where
  "step_in_response_struct_to_json a = response_object a (optional_json ''body'' (response_content a))"

record step_in_target_struct =
  step_in_target_entry_id :: int
  step_in_target_entry_label :: string
  step_in_target_entry_line :: "int option"
  step_in_target_entry_column :: "int option"
  step_in_target_entry_end_line :: "int option"
  step_in_target_entry_end_column :: "int option"

definition step_in_target_struct_to_json :: "step_in_target_struct \<Rightarrow> json" where
  "step_in_target_struct_to_json a =
     J_Object
       ([(''id'', J_Int (step_in_target_entry_id a)),
         (''label'', J_String (step_in_target_entry_label a))]
        @ optional ''line'' J_Int (step_in_target_entry_line a)
        @ optional ''column'' J_Int (step_in_target_entry_column a)
        @ optional ''endLine'' J_Int (step_in_target_entry_end_line a)
        @ optional ''endColumn'' J_Int (step_in_target_entry_end_column a))"

record step_in_targets_response_body_struct =
  step_in_targets_response_body_targets :: "step_in_target_struct list"

definition step_in_targets_response_body_struct_to_json :: "step_in_targets_response_body_struct \<Rightarrow> json" where
  "step_in_targets_response_body_struct_to_json a =
     J_Object
       ([(''targets'', json_list step_in_target_struct_to_json (step_in_targets_response_body_targets a))])"

type_synonym step_in_targets_response_struct = "step_in_targets_response_body_struct response_struct"

definition step_in_targets_response_struct_to_json :: "step_in_targets_response_struct \<Rightarrow> json" where
  "step_in_targets_response_struct_to_json a =
     response_object a [(''body'', step_in_targets_response_body_struct_to_json (response_content a))]"

type_synonym step_out_response_struct = "json response_struct"

definition step_out_response_struct_to_json :: "step_out_response_struct \<Rightarrow> json" where
  "step_out_response_struct_to_json a = response_object a (optional_json ''body'' (response_content a))"

type_synonym terminate_response_struct = "json response_struct"

definition terminate_response_struct_to_json :: "terminate_response_struct \<Rightarrow> json" where
  "terminate_response_struct_to_json a = response_object a (optional_json ''body'' (response_content a))"

type_synonym terminate_threads_response_struct = "json response_struct"

definition terminate_threads_response_struct_to_json :: "terminate_threads_response_struct \<Rightarrow> json" where
  "terminate_threads_response_struct_to_json a =
     response_object a (optional_json ''body'' (response_content a))"

record thread_struct =
  thread_id :: int
  thread_name :: string

definition thread_struct_to_json :: "thread_struct \<Rightarrow> json" where
  "thread_struct_to_json a = J_Object [(''id'', J_Int (thread_id a)), (''name'', J_String (thread_name a))]"

record threads_response_body_struct =
  threads_response_body_threads :: "thread_struct list"

definition threads_response_body_struct_to_json :: "threads_response_body_struct \<Rightarrow> json" where
  "threads_response_body_struct_to_json a =
     J_Object
       ([(''threads'', json_list thread_struct_to_json (threads_response_body_threads a))])"

type_synonym threads_response_struct = "threads_response_body_struct response_struct"

definition threads_response_struct_to_json :: "threads_response_struct \<Rightarrow> json" where
  "threads_response_struct_to_json a =
     response_object a [(''body'', threads_response_body_struct_to_json (response_content a))]"

record variable_struct =
  variable_name :: string
  variable_value :: string
  variable_type :: "string option"
  variable_presentation_hint :: "variable_presentation_hint_struct option"
  variable_evaluate_name :: "string option"
  variable_variables_reference :: int
  variable_named_variables :: "int option"
  variable_indexed_variables :: "int option"
  variable_memory_reference :: "string option"
  variable_declaration_location_reference :: "int option"
  variable_value_location_reference :: "int option"

definition variable_struct_to_json :: "variable_struct \<Rightarrow> json" where
  "variable_struct_to_json a =
     J_Object
       ([(''name'', J_String (variable_name a)), (''value'', J_String (variable_value a))]
        @ optional ''type'' J_String (variable_type a)
        @ optional ''presentationHint'' variable_presentation_hint_struct_to_json (variable_presentation_hint a)
        @ optional ''evaluateName'' J_String (variable_evaluate_name a)
        @ [(''variablesReference'', J_Int (variable_variables_reference a))]
        @ optional ''namedVariables'' J_Int (variable_named_variables a)
        @ optional ''indexedVariables'' J_Int (variable_indexed_variables a)
        @ optional ''memoryReference'' J_String (variable_memory_reference a)
        @ optional ''declarationLocationReference'' J_Int (variable_declaration_location_reference a)
        @ optional ''valueLocationReference'' J_Int (variable_value_location_reference a))"

record variables_response_body_struct =
  variables_response_body_variables :: "variable_struct list"

definition variables_response_body_struct_to_json :: "variables_response_body_struct \<Rightarrow> json" where
  "variables_response_body_struct_to_json a =
     J_Object
       ([(''variables'', json_list variable_struct_to_json (variables_response_body_variables a))])"

type_synonym variables_response_struct = "variables_response_body_struct response_struct"

definition variables_response_struct_to_json :: "variables_response_struct \<Rightarrow> json" where
  "variables_response_struct_to_json a =
     response_object a [(''body'', variables_response_body_struct_to_json (response_content a))]"

record write_memory_response_body_struct =
  write_memory_response_body_offset :: "int option"
  write_memory_response_body_bytes_written :: "int option"

definition write_memory_response_body_struct_to_json :: "write_memory_response_body_struct \<Rightarrow> json" where
  "write_memory_response_body_struct_to_json a =
     object_of
       (optional ''offset'' J_Int (write_memory_response_body_offset a)
        @ optional ''bytesWritten'' J_Int (write_memory_response_body_bytes_written a))"

type_synonym write_memory_response_struct = "write_memory_response_body_struct option response_struct"

definition write_memory_response_struct_to_json :: "write_memory_response_struct \<Rightarrow> json" where
  "write_memory_response_struct_to_json a =
     response_object a (optional ''body'' write_memory_response_body_struct_to_json (response_content a))"

record message_struct =
  message_id :: int
  message_format :: string
  message_variables :: "(string \<times> string) list option"
  message_send_telemetry :: "bool option"
  message_show_user :: "bool option"
  message_url :: "string option"
  message_url_label :: "string option"

definition message_struct_to_json :: "message_struct \<Rightarrow> json" where
  "message_struct_to_json a =
     J_Object
       ([(''id'', J_Int (message_id a)), (''format'', J_String (message_format a))]
        @ optional ''variables'' string_map_to_json (message_variables a)
        @ optional ''sendTelemetry'' J_Bool (message_send_telemetry a)
        @ optional ''showUser'' J_Bool (message_show_user a) @ optional ''url'' J_String (message_url a)
        @ optional ''urlLabel'' J_String (message_url_label a))"

record error_response_body_struct =
  error_response_body_error :: "message_struct option"

definition error_response_body_struct_to_json :: "error_response_body_struct \<Rightarrow> json" where
  "error_response_body_struct_to_json a =
     object_of
       (optional ''error'' message_struct_to_json (error_response_body_error a))"

type_synonym error_response_struct = "error_response_body_struct response_struct"

definition error_response_struct_to_json :: "error_response_struct \<Rightarrow> json" where
  "error_response_struct_to_json a =
     response_object a [(''body'', error_response_body_struct_to_json (response_content a))]"

section \<open>All events and responses\<close>

text \<open>
  A message that is written is the struct of an event or of the response to a command.  It is labelled
  when it has the type and the name of its struct; an error response may answer any command.
\<close>

datatype (plugins only: code) protocol_event =
    The_Breakpoint_Event breakpoint_event_struct
  | The_Capabilities_Event capabilities_event_struct
  | The_Continued_Event continued_event_struct
  | The_Exited_Event exited_event_struct
  | The_Initialized_Event initialized_event_struct
  | The_Invalidated_Event invalidated_event_struct
  | The_Loaded_Source_Event loaded_source_event_struct
  | The_Memory_Event memory_event_struct
  | The_Module_Event module_event_struct
  | The_Output_Event output_event_struct
  | The_Process_Event process_event_struct
  | The_Progress_End_Event progress_end_event_struct
  | The_Progress_Start_Event progress_start_event_struct
  | The_Progress_Update_Event progress_update_event_struct
  | The_Stopped_Event stopped_event_struct
  | The_Terminated_Event terminated_event_struct
  | The_Thread_Event thread_event_struct

datatype (plugins only: code) protocol_response =
    The_Attach_Response attach_response_struct
  | The_Breakpoint_Locations_Response breakpoint_locations_response_struct
  | The_Cancel_Response cancel_response_struct
  | The_Completions_Response completions_response_struct
  | The_Configuration_Done_Response configuration_done_response_struct
  | The_Continue_Response continue_response_struct
  | The_Data_Breakpoint_Info_Response data_breakpoint_info_response_struct
  | The_Disassemble_Response disassemble_response_struct
  | The_Disconnect_Response disconnect_response_struct
  | The_Evaluate_Response evaluate_response_struct
  | The_Exception_Info_Response exception_info_response_struct
  | The_Goto_Response goto_response_struct
  | The_Goto_Targets_Response goto_targets_response_struct
  | The_Initialize_Response initialize_response_struct
  | The_Launch_Response launch_response_struct
  | The_Loaded_Sources_Response loaded_sources_response_struct
  | The_Locations_Response locations_response_struct
  | The_Modules_Response modules_response_struct
  | The_Next_Response next_response_struct
  | The_Pause_Response pause_response_struct
  | The_Read_Memory_Response read_memory_response_struct
  | The_Restart_Response restart_response_struct
  | The_Restart_Frame_Response restart_frame_response_struct
  | The_Reverse_Continue_Response reverse_continue_response_struct
  | The_Run_In_Terminal_Response run_in_terminal_response_struct
  | The_Scopes_Response scopes_response_struct
  | The_Set_Breakpoints_Response set_breakpoints_response_struct
  | The_Set_Data_Breakpoints_Response set_data_breakpoints_response_struct
  | The_Set_Exception_Breakpoints_Response set_exception_breakpoints_response_struct
  | The_Set_Expression_Response set_expression_response_struct
  | The_Set_Function_Breakpoints_Response set_function_breakpoints_response_struct
  | The_Set_Instruction_Breakpoints_Response set_instruction_breakpoints_response_struct
  | The_Set_Variable_Response set_variable_response_struct
  | The_Source_Response source_response_struct
  | The_Stack_Trace_Response stack_trace_response_struct
  | The_Start_Debugging_Response start_debugging_response_struct
  | The_Step_Back_Response step_back_response_struct
  | The_Step_In_Response step_in_response_struct
  | The_Step_In_Targets_Response step_in_targets_response_struct
  | The_Step_Out_Response step_out_response_struct
  | The_Terminate_Response terminate_response_struct
  | The_Terminate_Threads_Response terminate_threads_response_struct
  | The_Threads_Response threads_response_struct
  | The_Variables_Response variables_response_struct
  | The_Write_Memory_Response write_memory_response_struct
  | The_Error_Response error_response_struct

datatype protocol_message = Event_Message protocol_event | Response_Message protocol_response

fun protocol_event_to_json :: "protocol_event \<Rightarrow> json" where
  "protocol_event_to_json (The_Breakpoint_Event e) = breakpoint_event_struct_to_json e"
| "protocol_event_to_json (The_Capabilities_Event e) = capabilities_event_struct_to_json e"
| "protocol_event_to_json (The_Continued_Event e) = continued_event_struct_to_json e"
| "protocol_event_to_json (The_Exited_Event e) = exited_event_struct_to_json e"
| "protocol_event_to_json (The_Initialized_Event e) = initialized_event_struct_to_json e"
| "protocol_event_to_json (The_Invalidated_Event e) = invalidated_event_struct_to_json e"
| "protocol_event_to_json (The_Loaded_Source_Event e) = loaded_source_event_struct_to_json e"
| "protocol_event_to_json (The_Memory_Event e) = memory_event_struct_to_json e"
| "protocol_event_to_json (The_Module_Event e) = module_event_struct_to_json e"
| "protocol_event_to_json (The_Output_Event e) = output_event_struct_to_json e"
| "protocol_event_to_json (The_Process_Event e) = process_event_struct_to_json e"
| "protocol_event_to_json (The_Progress_End_Event e) = progress_end_event_struct_to_json e"
| "protocol_event_to_json (The_Progress_Start_Event e) = progress_start_event_struct_to_json e"
| "protocol_event_to_json (The_Progress_Update_Event e) = progress_update_event_struct_to_json e"
| "protocol_event_to_json (The_Stopped_Event e) = stopped_event_struct_to_json e"
| "protocol_event_to_json (The_Terminated_Event e) = terminated_event_struct_to_json e"
| "protocol_event_to_json (The_Thread_Event e) = thread_event_struct_to_json e"

fun protocol_response_to_json :: "protocol_response \<Rightarrow> json" where
  "protocol_response_to_json (The_Attach_Response e) = attach_response_struct_to_json e"
| "protocol_response_to_json (The_Breakpoint_Locations_Response e) = breakpoint_locations_response_struct_to_json e"
| "protocol_response_to_json (The_Cancel_Response e) = cancel_response_struct_to_json e"
| "protocol_response_to_json (The_Completions_Response e) = completions_response_struct_to_json e"
| "protocol_response_to_json (The_Configuration_Done_Response e) = configuration_done_response_struct_to_json e"
| "protocol_response_to_json (The_Continue_Response e) = continue_response_struct_to_json e"
| "protocol_response_to_json (The_Data_Breakpoint_Info_Response e) = data_breakpoint_info_response_struct_to_json e"
| "protocol_response_to_json (The_Disassemble_Response e) = disassemble_response_struct_to_json e"
| "protocol_response_to_json (The_Disconnect_Response e) = disconnect_response_struct_to_json e"
| "protocol_response_to_json (The_Evaluate_Response e) = evaluate_response_struct_to_json e"
| "protocol_response_to_json (The_Exception_Info_Response e) = exception_info_response_struct_to_json e"
| "protocol_response_to_json (The_Goto_Response e) = goto_response_struct_to_json e"
| "protocol_response_to_json (The_Goto_Targets_Response e) = goto_targets_response_struct_to_json e"
| "protocol_response_to_json (The_Initialize_Response e) = initialize_response_struct_to_json e"
| "protocol_response_to_json (The_Launch_Response e) = launch_response_struct_to_json e"
| "protocol_response_to_json (The_Loaded_Sources_Response e) = loaded_sources_response_struct_to_json e"
| "protocol_response_to_json (The_Locations_Response e) = locations_response_struct_to_json e"
| "protocol_response_to_json (The_Modules_Response e) = modules_response_struct_to_json e"
| "protocol_response_to_json (The_Next_Response e) = next_response_struct_to_json e"
| "protocol_response_to_json (The_Pause_Response e) = pause_response_struct_to_json e"
| "protocol_response_to_json (The_Read_Memory_Response e) = read_memory_response_struct_to_json e"
| "protocol_response_to_json (The_Restart_Response e) = restart_response_struct_to_json e"
| "protocol_response_to_json (The_Restart_Frame_Response e) = restart_frame_response_struct_to_json e"
| "protocol_response_to_json (The_Reverse_Continue_Response e) = reverse_continue_response_struct_to_json e"
| "protocol_response_to_json (The_Run_In_Terminal_Response e) = run_in_terminal_response_struct_to_json e"
| "protocol_response_to_json (The_Scopes_Response e) = scopes_response_struct_to_json e"
| "protocol_response_to_json (The_Set_Breakpoints_Response e) = set_breakpoints_response_struct_to_json e"
| "protocol_response_to_json (The_Set_Data_Breakpoints_Response e) = set_data_breakpoints_response_struct_to_json e"
| "protocol_response_to_json (The_Set_Exception_Breakpoints_Response e) = set_exception_breakpoints_response_struct_to_json e"
| "protocol_response_to_json (The_Set_Expression_Response e) = set_expression_response_struct_to_json e"
| "protocol_response_to_json (The_Set_Function_Breakpoints_Response e) = set_function_breakpoints_response_struct_to_json e"
| "protocol_response_to_json (The_Set_Instruction_Breakpoints_Response e) = set_instruction_breakpoints_response_struct_to_json e"
| "protocol_response_to_json (The_Set_Variable_Response e) = set_variable_response_struct_to_json e"
| "protocol_response_to_json (The_Source_Response e) = source_response_struct_to_json e"
| "protocol_response_to_json (The_Stack_Trace_Response e) = stack_trace_response_struct_to_json e"
| "protocol_response_to_json (The_Start_Debugging_Response e) = start_debugging_response_struct_to_json e"
| "protocol_response_to_json (The_Step_Back_Response e) = step_back_response_struct_to_json e"
| "protocol_response_to_json (The_Step_In_Response e) = step_in_response_struct_to_json e"
| "protocol_response_to_json (The_Step_In_Targets_Response e) = step_in_targets_response_struct_to_json e"
| "protocol_response_to_json (The_Step_Out_Response e) = step_out_response_struct_to_json e"
| "protocol_response_to_json (The_Terminate_Response e) = terminate_response_struct_to_json e"
| "protocol_response_to_json (The_Terminate_Threads_Response e) = terminate_threads_response_struct_to_json e"
| "protocol_response_to_json (The_Threads_Response e) = threads_response_struct_to_json e"
| "protocol_response_to_json (The_Variables_Response e) = variables_response_struct_to_json e"
| "protocol_response_to_json (The_Write_Memory_Response e) = write_memory_response_struct_to_json e"
| "protocol_response_to_json (The_Error_Response e) = error_response_struct_to_json e"

fun protocol_message_to_json :: "protocol_message \<Rightarrow> json" where
  "protocol_message_to_json (Event_Message e) = protocol_event_to_json e"
| "protocol_message_to_json (Response_Message r) = protocol_response_to_json r"

definition event_labelled :: "string \<Rightarrow> 'b event_struct \<Rightarrow> bool" where
  "event_labelled name e \<longleftrightarrow> event_kind e = Event_Protocol_Message_Type \<and> event_name_field e = name"

definition response_labelled :: "string \<Rightarrow> 'b response_struct \<Rightarrow> bool" where
  "response_labelled command r \<longleftrightarrow> response_kind r = Response_Protocol_Message_Type \<and> response_command r = command"

fun protocol_event_labelled :: "protocol_event \<Rightarrow> bool" where
  "protocol_event_labelled (The_Breakpoint_Event e) = event_labelled ''breakpoint'' e"
| "protocol_event_labelled (The_Capabilities_Event e) = event_labelled ''capabilities'' e"
| "protocol_event_labelled (The_Continued_Event e) = event_labelled ''continued'' e"
| "protocol_event_labelled (The_Exited_Event e) = event_labelled ''exited'' e"
| "protocol_event_labelled (The_Initialized_Event e) = event_labelled ''initialized'' e"
| "protocol_event_labelled (The_Invalidated_Event e) = event_labelled ''invalidated'' e"
| "protocol_event_labelled (The_Loaded_Source_Event e) = event_labelled ''loadedSource'' e"
| "protocol_event_labelled (The_Memory_Event e) = event_labelled ''memory'' e"
| "protocol_event_labelled (The_Module_Event e) = event_labelled ''module'' e"
| "protocol_event_labelled (The_Output_Event e) = event_labelled ''output'' e"
| "protocol_event_labelled (The_Process_Event e) = event_labelled ''process'' e"
| "protocol_event_labelled (The_Progress_End_Event e) = event_labelled ''progressEnd'' e"
| "protocol_event_labelled (The_Progress_Start_Event e) = event_labelled ''progressStart'' e"
| "protocol_event_labelled (The_Progress_Update_Event e) = event_labelled ''progressUpdate'' e"
| "protocol_event_labelled (The_Stopped_Event e) = event_labelled ''stopped'' e"
| "protocol_event_labelled (The_Terminated_Event e) = event_labelled ''terminated'' e"
| "protocol_event_labelled (The_Thread_Event e) = event_labelled ''thread'' e"

fun protocol_response_labelled :: "protocol_response \<Rightarrow> bool" where
  "protocol_response_labelled (The_Attach_Response e) = response_labelled ''attach'' e"
| "protocol_response_labelled (The_Breakpoint_Locations_Response e) = response_labelled ''breakpointLocations'' e"
| "protocol_response_labelled (The_Cancel_Response e) = response_labelled ''cancel'' e"
| "protocol_response_labelled (The_Completions_Response e) = response_labelled ''completions'' e"
| "protocol_response_labelled (The_Configuration_Done_Response e) = response_labelled ''configurationDone'' e"
| "protocol_response_labelled (The_Continue_Response e) = response_labelled ''continue'' e"
| "protocol_response_labelled (The_Data_Breakpoint_Info_Response e) = response_labelled ''dataBreakpointInfo'' e"
| "protocol_response_labelled (The_Disassemble_Response e) = response_labelled ''disassemble'' e"
| "protocol_response_labelled (The_Disconnect_Response e) = response_labelled ''disconnect'' e"
| "protocol_response_labelled (The_Evaluate_Response e) = response_labelled ''evaluate'' e"
| "protocol_response_labelled (The_Exception_Info_Response e) = response_labelled ''exceptionInfo'' e"
| "protocol_response_labelled (The_Goto_Response e) = response_labelled ''goto'' e"
| "protocol_response_labelled (The_Goto_Targets_Response e) = response_labelled ''gotoTargets'' e"
| "protocol_response_labelled (The_Initialize_Response e) = response_labelled ''initialize'' e"
| "protocol_response_labelled (The_Launch_Response e) = response_labelled ''launch'' e"
| "protocol_response_labelled (The_Loaded_Sources_Response e) = response_labelled ''loadedSources'' e"
| "protocol_response_labelled (The_Locations_Response e) = response_labelled ''locations'' e"
| "protocol_response_labelled (The_Modules_Response e) = response_labelled ''modules'' e"
| "protocol_response_labelled (The_Next_Response e) = response_labelled ''next'' e"
| "protocol_response_labelled (The_Pause_Response e) = response_labelled ''pause'' e"
| "protocol_response_labelled (The_Read_Memory_Response e) = response_labelled ''readMemory'' e"
| "protocol_response_labelled (The_Restart_Response e) = response_labelled ''restart'' e"
| "protocol_response_labelled (The_Restart_Frame_Response e) = response_labelled ''restartFrame'' e"
| "protocol_response_labelled (The_Reverse_Continue_Response e) = response_labelled ''reverseContinue'' e"
| "protocol_response_labelled (The_Run_In_Terminal_Response e) = response_labelled ''runInTerminal'' e"
| "protocol_response_labelled (The_Scopes_Response e) = response_labelled ''scopes'' e"
| "protocol_response_labelled (The_Set_Breakpoints_Response e) = response_labelled ''setBreakpoints'' e"
| "protocol_response_labelled (The_Set_Data_Breakpoints_Response e) = response_labelled ''setDataBreakpoints'' e"
| "protocol_response_labelled (The_Set_Exception_Breakpoints_Response e) = response_labelled ''setExceptionBreakpoints'' e"
| "protocol_response_labelled (The_Set_Expression_Response e) = response_labelled ''setExpression'' e"
| "protocol_response_labelled (The_Set_Function_Breakpoints_Response e) = response_labelled ''setFunctionBreakpoints'' e"
| "protocol_response_labelled (The_Set_Instruction_Breakpoints_Response e) = response_labelled ''setInstructionBreakpoints'' e"
| "protocol_response_labelled (The_Set_Variable_Response e) = response_labelled ''setVariable'' e"
| "protocol_response_labelled (The_Source_Response e) = response_labelled ''source'' e"
| "protocol_response_labelled (The_Stack_Trace_Response e) = response_labelled ''stackTrace'' e"
| "protocol_response_labelled (The_Start_Debugging_Response e) = response_labelled ''startDebugging'' e"
| "protocol_response_labelled (The_Step_Back_Response e) = response_labelled ''stepBack'' e"
| "protocol_response_labelled (The_Step_In_Response e) = response_labelled ''stepIn'' e"
| "protocol_response_labelled (The_Step_In_Targets_Response e) = response_labelled ''stepInTargets'' e"
| "protocol_response_labelled (The_Step_Out_Response e) = response_labelled ''stepOut'' e"
| "protocol_response_labelled (The_Terminate_Response e) = response_labelled ''terminate'' e"
| "protocol_response_labelled (The_Terminate_Threads_Response e) = response_labelled ''terminateThreads'' e"
| "protocol_response_labelled (The_Threads_Response e) = response_labelled ''threads'' e"
| "protocol_response_labelled (The_Variables_Response e) = response_labelled ''variables'' e"
| "protocol_response_labelled (The_Write_Memory_Response e) = response_labelled ''writeMemory'' e"
| "protocol_response_labelled (The_Error_Response e) = (response_kind e = Response_Protocol_Message_Type)"

fun labelled :: "protocol_message \<Rightarrow> bool" where
  "labelled (Event_Message e) = protocol_event_labelled e"
| "labelled (Response_Message r) = protocol_response_labelled r"

end
