(* ===== verification/Written_Messages.thy ===== *)
theory Written_Messages
  imports Message_Structs Written_Fields
begin

text \<open>
  Every event and every response that the protocol's structs can hold is read back without an
  error: the conversions of src/src/protocol/protocol.h to and from JSON agree on the name
  and on the JSON type of every field.
\<close>

section \<open>Values\<close>

lemma check_list_written [written]:
  "(\<And>x. g (f x) = Inr ()) \<Longrightarrow> check_list g (json_list f xs) = Inr ()"
  by simp

lemma double_written [written]: "check_double (J_Float t) = Inr ()"
  by simp

lemma checksum_written [written]:
  "only_check checksum_algorithm_from_json (enum_to_json checksum_algorithms v) = Inr ()"
  by (cases v) (simp_all add: checksum_algorithm_from_json_def checksum_algorithms_def enum_to_json_def
      get_enum_def only_check_def r_bind_def)

text \<open>For objects of many fields: the entries stand in the order of the checks.\<close>

definition in_order :: "(string \<times> (json \<Rightarrow> string + unit)) list \<Rightarrow> (string \<times> json) list \<Rightarrow> bool" where
  "in_order fs es \<longleftrightarrow> (\<forall>e \<in> set es. \<exists>c. (fst e, c) \<in> set fs \<and> c (snd e) = Inr ())"

lemma in_order_accepted:
  assumes "in_order fs es" "distinct (map fst fs)"
  shows "check_fields (object_of es) fs = Inr ()"
proof (rule entries_accepted_object [OF assms(2)])
  have "entry_ok fs e" if "e \<in> set es" for e
  proof -
    obtain c where "(fst e, c) \<in> set fs" "c (snd e) = Inr ()"
      using assms(1) \<open>e \<in> set es\<close> by (auto simp: in_order_def)
    then show ?thesis using map_of_is_SomeI [OF assms(2)] by (simp add: entry_ok_def)
  qed
  then show "list_all (entry_ok fs) es" by (simp add: list_all_iff)
qed

lemma in_order_next:
  "(\<And>x. c (f x) = Inr ()) \<Longrightarrow> in_order fs es \<Longrightarrow> in_order ((k, c) # fs) (optional k f v @ es)"
  by (cases v) (auto simp: in_order_def optional_def)

lemma in_order_last: "(\<And>x. c (f x) = Inr ()) \<Longrightarrow> in_order [(k, c)] (optional k f v)"
  by (cases v) (auto simp: in_order_def optional_def)

section \<open>Names\<close>

lemma protocol_message_type_name_accepted [written]:
  "protocol_message_type_from_json (protocol_message_type_to_json v) = Inr ()"
  by (cases v) (simp_all add: protocol_message_type_from_json_def name_accepted)

lemma breakpoint_event_body_reason_name_accepted [written]:
  "breakpoint_event_body_reason_from_json (breakpoint_event_body_reason_to_json v) = Inr ()"
  by (cases v) (simp_all add: breakpoint_event_body_reason_from_json_def name_accepted)

lemma breakpoint_reason_name_accepted [written]:
  "breakpoint_reason_from_json (breakpoint_reason_to_json v) = Inr ()"
  by (cases v) (simp_all add: breakpoint_reason_from_json_def name_accepted)

lemma column_descriptor_type_name_accepted [written]:
  "column_descriptor_type_from_json (column_descriptor_type_to_json v) = Inr ()"
  by (cases v) (simp_all add: column_descriptor_type_from_json_def name_accepted)

lemma breakpoint_mode_applicability_name_accepted [written]:
  "breakpoint_mode_applicability_from_json (breakpoint_mode_applicability_to_json v) = Inr ()"
  by (cases v) (simp_all add: breakpoint_mode_applicability_from_json_def name_accepted)

lemma invalidated_areas_name_accepted [written]:
  "invalidated_areas_from_json (invalidated_areas_to_json v) = Inr ()"
  by (cases v) (simp_all add: invalidated_areas_from_json_def name_accepted)

lemma loaded_source_event_body_reason_name_accepted [written]:
  "loaded_source_event_body_reason_from_json (loaded_source_event_body_reason_to_json v) = Inr ()"
  by (cases v) (simp_all add: loaded_source_event_body_reason_from_json_def name_accepted)

lemma module_event_body_reason_name_accepted [written]:
  "module_event_body_reason_from_json (module_event_body_reason_to_json v) = Inr ()"
  by (cases v) (simp_all add: module_event_body_reason_from_json_def name_accepted)

lemma output_event_body_category_name_accepted [written]:
  "output_event_body_category_from_json (output_event_body_category_to_json v) = Inr ()"
  by (cases v) (simp_all add: output_event_body_category_from_json_def name_accepted)

lemma output_event_body_group_name_accepted [written]:
  "output_event_body_group_from_json (output_event_body_group_to_json v) = Inr ()"
  by (cases v) (simp_all add: output_event_body_group_from_json_def name_accepted)

lemma process_event_body_start_method_name_accepted [written]:
  "process_event_body_start_method_from_json (process_event_body_start_method_to_json v) = Inr ()"
  by (cases v) (simp_all add: process_event_body_start_method_from_json_def name_accepted)

lemma stopped_event_body_reason_name_accepted [written]:
  "stopped_event_body_reason_from_json (stopped_event_body_reason_to_json v) = Inr ()"
  by (cases v) (simp_all add: stopped_event_body_reason_from_json_def name_accepted)

lemma thread_event_body_reason_name_accepted [written]:
  "thread_event_body_reason_from_json (thread_event_body_reason_to_json v) = Inr ()"
  by (cases v) (simp_all add: thread_event_body_reason_from_json_def name_accepted)

lemma response_message_name_accepted [written]:
  "response_message_from_json (response_message_to_json v) = Inr ()"
  by (cases v) (simp_all add: response_message_from_json_def name_accepted)

lemma completion_item_type_name_accepted [written]:
  "completion_item_type_from_json (completion_item_type_to_json v) = Inr ()"
  by (cases v) (simp_all add: completion_item_type_from_json_def name_accepted)

lemma data_breakpoint_access_type_name_accepted [written]:
  "data_breakpoint_access_type_from_json (data_access_to_json v) = Inr ()"
  by (cases v) (simp_all add: data_breakpoint_access_type_from_json_def name_accepted)

lemma disassembled_instruction_presentation_hint_name_accepted [written]:
  "disassembled_instruction_presentation_hint_from_json (disassembled_instruction_presentation_hint_to_json v) = Inr ()"
  by (cases v) (simp_all add: disassembled_instruction_presentation_hint_from_json_def name_accepted)

lemma variable_presentation_hint_kind_name_accepted [written]:
  "variable_presentation_hint_kind_from_json (variable_presentation_hint_kind_to_json v) = Inr ()"
  by (cases v) (simp_all add: variable_presentation_hint_kind_from_json_def name_accepted)

lemma variable_presentation_hint_attributes_item_name_accepted [written]:
  "variable_presentation_hint_attributes_item_from_json (variable_presentation_hint_attributes_item_to_json v) = Inr ()"
  by (cases v) (simp_all add: variable_presentation_hint_attributes_item_from_json_def name_accepted)

lemma variable_presentation_hint_visibility_name_accepted [written]:
  "variable_presentation_hint_visibility_from_json (variable_presentation_hint_visibility_to_json v) = Inr ()"
  by (cases v) (simp_all add: variable_presentation_hint_visibility_from_json_def name_accepted)

lemma exception_break_mode_name_accepted [written]:
  "exception_break_mode_from_json (exception_break_mode_to_json v) = Inr ()"
  by (cases v) (simp_all add: exception_break_mode_from_json_def name_accepted)

lemma scope_presentation_hint_name_accepted [written]:
  "scope_presentation_hint_from_json (scope_presentation_hint_to_json v) = Inr ()"
  by (cases v) (simp_all add: scope_presentation_hint_from_json_def name_accepted)

lemma stack_frame_presentation_hint_name_accepted [written]:
  "stack_frame_presentation_hint_from_json (stack_frame_presentation_hint_to_json v) = Inr ()"
  by (cases v) (simp_all add: stack_frame_presentation_hint_from_json_def name_accepted)

section \<open>Objects\<close>

lemma breakpoint_struct_accepted [written]:
  "breakpoint_from_json (breakpoint_struct_to_json a) = Inr ()"
  unfolding breakpoint_from_json_def breakpoint_struct_to_json_def
  by (rule entries_accepted entries_accepted_object; simp add: written entry_checks)

lemma breakpoint_event_body_struct_accepted [written]:
  "breakpoint_event_body_from_json (breakpoint_event_body_struct_to_json a) = Inr ()"
  unfolding breakpoint_event_body_from_json_def breakpoint_event_body_struct_to_json_def
  by (rule entries_accepted entries_accepted_object; simp add: written entry_checks)

lemma exception_breakpoints_filter_struct_accepted [written]:
  "exception_breakpoints_filter_from_json (exception_breakpoints_filter_struct_to_json a) = Inr ()"
  unfolding exception_breakpoints_filter_from_json_def exception_breakpoints_filter_struct_to_json_def
  by (rule entries_accepted entries_accepted_object; simp add: written entry_checks)

lemma column_descriptor_struct_accepted [written]:
  "column_descriptor_from_json (column_descriptor_struct_to_json a) = Inr ()"
  unfolding column_descriptor_from_json_def column_descriptor_struct_to_json_def
  by (rule entries_accepted entries_accepted_object; simp add: written entry_checks)

lemma breakpoint_mode_struct_accepted [written]:
  "breakpoint_mode_from_json (breakpoint_mode_struct_to_json a) = Inr ()"
  unfolding breakpoint_mode_from_json_def breakpoint_mode_struct_to_json_def
  by (rule entries_accepted entries_accepted_object; simp add: written entry_checks)

lemma capabilities_struct_accepted [written]:
  "capabilities_from_json (capabilities_struct_to_json a) = Inr ()"
  unfolding capabilities_from_json_def capabilities_struct_to_json_def
  by (rule in_order_accepted, (rule in_order_next in_order_last, simp add: written)+) simp

lemma capabilities_event_body_struct_accepted [written]:
  "capabilities_event_body_from_json (capabilities_event_body_struct_to_json a) = Inr ()"
  unfolding capabilities_event_body_from_json_def capabilities_event_body_struct_to_json_def
  by (rule entries_accepted entries_accepted_object; simp add: written entry_checks)

lemma continued_event_body_struct_accepted [written]:
  "continued_event_body_from_json (continued_event_body_struct_to_json a) = Inr ()"
  unfolding continued_event_body_from_json_def continued_event_body_struct_to_json_def
  by (rule entries_accepted entries_accepted_object; simp add: written entry_checks)

lemma exited_event_body_struct_accepted [written]:
  "exited_event_body_from_json (exited_event_body_struct_to_json a) = Inr ()"
  unfolding exited_event_body_from_json_def exited_event_body_struct_to_json_def
  by (rule entries_accepted entries_accepted_object; simp add: written entry_checks)

lemma invalidated_event_body_struct_accepted [written]:
  "invalidated_event_body_from_json (invalidated_event_body_struct_to_json a) = Inr ()"
  unfolding invalidated_event_body_from_json_def invalidated_event_body_struct_to_json_def
  by (rule entries_accepted entries_accepted_object; simp add: written entry_checks)

lemma loaded_source_event_body_struct_accepted [written]:
  "loaded_source_event_body_from_json (loaded_source_event_body_struct_to_json a) = Inr ()"
  unfolding loaded_source_event_body_from_json_def loaded_source_event_body_struct_to_json_def
  by (rule entries_accepted entries_accepted_object; simp add: written entry_checks)

lemma memory_event_body_struct_accepted [written]:
  "memory_event_body_from_json (memory_event_body_struct_to_json a) = Inr ()"
  unfolding memory_event_body_from_json_def memory_event_body_struct_to_json_def
  by (rule entries_accepted entries_accepted_object; simp add: written entry_checks)

lemma module_struct_accepted [written]: "module_from_json (module_struct_to_json a) = Inr ()"
  unfolding module_from_json_def module_struct_to_json_def
  by (rule entries_accepted entries_accepted_object; simp add: written entry_checks)

lemma module_event_body_struct_accepted [written]:
  "module_event_body_from_json (module_event_body_struct_to_json a) = Inr ()"
  unfolding module_event_body_from_json_def module_event_body_struct_to_json_def
  by (rule entries_accepted entries_accepted_object; simp add: written entry_checks)

lemma output_event_body_struct_accepted [written]:
  "output_event_body_from_json (output_event_body_struct_to_json a) = Inr ()"
  unfolding output_event_body_from_json_def output_event_body_struct_to_json_def
  by (rule entries_accepted entries_accepted_object; simp add: written entry_checks)

lemma process_event_body_struct_accepted [written]:
  "process_event_body_from_json (process_event_body_struct_to_json a) = Inr ()"
  unfolding process_event_body_from_json_def process_event_body_struct_to_json_def
  by (rule entries_accepted entries_accepted_object; simp add: written entry_checks)

lemma progress_end_event_body_struct_accepted [written]:
  "progress_end_event_body_from_json (progress_end_event_body_struct_to_json a) = Inr ()"
  unfolding progress_end_event_body_from_json_def progress_end_event_body_struct_to_json_def
  by (rule entries_accepted entries_accepted_object; simp add: written entry_checks)

lemma progress_start_event_body_struct_accepted [written]:
  "progress_start_event_body_from_json (progress_start_event_body_struct_to_json a) = Inr ()"
  unfolding progress_start_event_body_from_json_def progress_start_event_body_struct_to_json_def
  by (rule entries_accepted entries_accepted_object; simp add: written entry_checks)

lemma progress_update_event_body_struct_accepted [written]:
  "progress_update_event_body_from_json (progress_update_event_body_struct_to_json a) = Inr ()"
  unfolding progress_update_event_body_from_json_def progress_update_event_body_struct_to_json_def
  by (rule entries_accepted entries_accepted_object; simp add: written entry_checks)

lemma stopped_event_body_struct_accepted [written]:
  "stopped_event_body_from_json (stopped_event_body_struct_to_json a) = Inr ()"
  unfolding stopped_event_body_from_json_def stopped_event_body_struct_to_json_def
  by (rule entries_accepted entries_accepted_object; simp add: written entry_checks)

lemma terminated_event_body_struct_accepted [written]:
  "terminated_event_body_from_json (terminated_event_body_struct_to_json a) = Inr ()"
  unfolding terminated_event_body_from_json_def terminated_event_body_struct_to_json_def
  by (rule entries_accepted entries_accepted_object; simp add: written entry_checks)

lemma thread_event_body_struct_accepted [written]:
  "thread_event_body_from_json (thread_event_body_struct_to_json a) = Inr ()"
  unfolding thread_event_body_from_json_def thread_event_body_struct_to_json_def
  by (rule entries_accepted entries_accepted_object; simp add: written entry_checks)

lemma breakpoint_location_struct_accepted [written]:
  "breakpoint_location_from_json (breakpoint_location_struct_to_json a) = Inr ()"
  unfolding breakpoint_location_from_json_def breakpoint_location_struct_to_json_def
  by (rule entries_accepted entries_accepted_object; simp add: written entry_checks)

lemma breakpoint_locations_response_body_struct_accepted [written]:
  "breakpoint_locations_response_body_from_json (breakpoint_locations_response_body_struct_to_json a) = Inr ()"
  unfolding breakpoint_locations_response_body_from_json_def breakpoint_locations_response_body_struct_to_json_def
  by (rule entries_accepted entries_accepted_object; simp add: written entry_checks)

lemma completion_item_struct_accepted [written]:
  "completion_item_from_json (completion_item_struct_to_json a) = Inr ()"
  unfolding completion_item_from_json_def completion_item_struct_to_json_def
  by (rule entries_accepted entries_accepted_object; simp add: written entry_checks)

lemma completions_response_body_struct_accepted [written]:
  "completions_response_body_from_json (completions_response_body_struct_to_json a) = Inr ()"
  unfolding completions_response_body_from_json_def completions_response_body_struct_to_json_def
  by (rule entries_accepted entries_accepted_object; simp add: written entry_checks)

lemma continue_response_body_struct_accepted [written]:
  "continue_response_body_from_json (continue_response_body_struct_to_json a) = Inr ()"
  unfolding continue_response_body_from_json_def continue_response_body_struct_to_json_def
  by (rule entries_accepted entries_accepted_object; simp add: written entry_checks)

lemma data_breakpoint_info_response_body_struct_accepted [written]:
  "data_breakpoint_info_response_body_from_json (data_breakpoint_info_response_body_struct_to_json a) = Inr ()"
  unfolding data_breakpoint_info_response_body_from_json_def data_breakpoint_info_response_body_struct_to_json_def
  by (rule entries_accepted entries_accepted_object; simp add: written entry_checks)

lemma disassembled_instruction_struct_accepted [written]:
  "disassembled_instruction_from_json (disassembled_instruction_struct_to_json a) = Inr ()"
  unfolding disassembled_instruction_from_json_def disassembled_instruction_struct_to_json_def
  by (rule entries_accepted entries_accepted_object; simp add: written entry_checks)

lemma disassemble_response_body_struct_accepted [written]:
  "disassemble_response_body_from_json (disassemble_response_body_struct_to_json a) = Inr ()"
  unfolding disassemble_response_body_from_json_def disassemble_response_body_struct_to_json_def
  by (rule entries_accepted entries_accepted_object; simp add: written entry_checks)

lemma variable_presentation_hint_struct_accepted [written]:
  "variable_presentation_hint_from_json (variable_presentation_hint_struct_to_json a) = Inr ()"
  unfolding variable_presentation_hint_from_json_def variable_presentation_hint_struct_to_json_def
  by (rule entries_accepted entries_accepted_object; simp add: written entry_checks)

lemma evaluate_response_body_struct_accepted [written]:
  "evaluate_response_body_from_json (evaluate_response_body_struct_to_json a) = Inr ()"
  unfolding evaluate_response_body_from_json_def evaluate_response_body_struct_to_json_def
  by (rule entries_accepted entries_accepted_object; simp add: written entry_checks)

lemma exception_details_struct_accepted [written]:
  "exception_details_from_json (exception_details_struct_to_json d) = Inr ()"
proof (induction d rule: exception_details_struct_to_json.induct)
  case (1 d)
  let ?j = "exception_details_struct_to_json d"
  have "check_fields ?j (strings [''message'', ''typeName'', ''fullTypeName'', ''evaluateName'', ''stackTrace''])
      = Inr ()"
    by (subst exception_details_struct_to_json.simps, rule entries_accepted_object)
      (simp_all add: written entry_checks)
  moreover have "find_key ?j ''innerException''
      = map_option (json_list exception_details_struct_to_json) (exception_details_inner_exception d)"
    by (simp add: exception_details_struct_to_json.simps [of d] find_key_object_of map_add_def split: option.split)
  then have "\<exists>y. field ?j ''innerException'' (get_vector exception_details_from_json) = Inr y"
    by (rule field_read) (rule vector_read, use 1 in blast)
  ultimately show ?case by (auto simp: exception_details_from_json.simps [of ?j] r_bind_def)
qed

lemma exception_info_response_body_struct_accepted [written]:
  "exception_info_response_body_from_json (exception_info_response_body_struct_to_json a) = Inr ()"
  unfolding exception_info_response_body_from_json_def exception_info_response_body_struct_to_json_def
  by (rule entries_accepted entries_accepted_object; simp add: written entry_checks)

lemma goto_target_struct_accepted [written]:
  "goto_target_from_json (goto_target_struct_to_json a) = Inr ()"
  unfolding goto_target_from_json_def goto_target_struct_to_json_def
  by (rule entries_accepted entries_accepted_object; simp add: written entry_checks)

lemma goto_targets_response_body_struct_accepted [written]:
  "goto_targets_response_body_from_json (goto_targets_response_body_struct_to_json a) = Inr ()"
  unfolding goto_targets_response_body_from_json_def goto_targets_response_body_struct_to_json_def
  by (rule entries_accepted entries_accepted_object; simp add: written entry_checks)

lemma loaded_sources_response_body_struct_accepted [written]:
  "loaded_sources_response_body_from_json (loaded_sources_response_body_struct_to_json a) = Inr ()"
  unfolding loaded_sources_response_body_from_json_def loaded_sources_response_body_struct_to_json_def
  by (rule entries_accepted entries_accepted_object; simp add: written entry_checks)

lemma locations_response_body_struct_accepted [written]:
  "locations_response_body_from_json (locations_response_body_struct_to_json a) = Inr ()"
  unfolding locations_response_body_from_json_def locations_response_body_struct_to_json_def
  by (rule entries_accepted entries_accepted_object; simp add: written entry_checks)

lemma modules_response_body_struct_accepted [written]:
  "modules_response_body_from_json (modules_response_body_struct_to_json a) = Inr ()"
  unfolding modules_response_body_from_json_def modules_response_body_struct_to_json_def
  by (rule entries_accepted entries_accepted_object; simp add: written entry_checks)

lemma read_memory_response_body_struct_accepted [written]:
  "read_memory_response_body_from_json (read_memory_response_body_struct_to_json a) = Inr ()"
  unfolding read_memory_response_body_from_json_def read_memory_response_body_struct_to_json_def
  by (rule entries_accepted entries_accepted_object; simp add: written entry_checks)

lemma run_in_terminal_response_body_struct_accepted [written]:
  "run_in_terminal_response_body_from_json (run_in_terminal_response_body_struct_to_json a) = Inr ()"
  unfolding run_in_terminal_response_body_from_json_def run_in_terminal_response_body_struct_to_json_def
  by (rule entries_accepted entries_accepted_object; simp add: written entry_checks)

lemma scope_struct_accepted [written]: "scope_from_json (scope_struct_to_json a) = Inr ()"
  unfolding scope_from_json_def scope_struct_to_json_def
  by (rule entries_accepted entries_accepted_object; simp add: written entry_checks)

lemma scopes_response_body_struct_accepted [written]:
  "scopes_response_body_from_json (scopes_response_body_struct_to_json a) = Inr ()"
  unfolding scopes_response_body_from_json_def scopes_response_body_struct_to_json_def
  by (rule entries_accepted entries_accepted_object; simp add: written entry_checks)

lemma set_breakpoints_response_body_struct_accepted [written]:
  "set_breakpoints_response_body_from_json (set_breakpoints_response_body_struct_to_json a) = Inr ()"
  unfolding set_breakpoints_response_body_from_json_def set_breakpoints_response_body_struct_to_json_def
  by (rule entries_accepted entries_accepted_object; simp add: written entry_checks)

lemma set_data_breakpoints_response_body_struct_accepted [written]:
  "set_data_breakpoints_response_body_from_json (set_data_breakpoints_response_body_struct_to_json a) = Inr ()"
  unfolding set_data_breakpoints_response_body_from_json_def set_data_breakpoints_response_body_struct_to_json_def
  by (rule entries_accepted entries_accepted_object; simp add: written entry_checks)

lemma set_exception_breakpoints_response_body_struct_accepted [written]:
  "set_exception_breakpoints_response_body_from_json (set_exception_breakpoints_response_body_struct_to_json a) = Inr ()"
  unfolding set_exception_breakpoints_response_body_from_json_def set_exception_breakpoints_response_body_struct_to_json_def
  by (rule entries_accepted entries_accepted_object; simp add: written entry_checks)

lemma set_expression_response_body_struct_accepted [written]:
  "set_expression_response_body_from_json (set_expression_response_body_struct_to_json a) = Inr ()"
  unfolding set_expression_response_body_from_json_def set_expression_response_body_struct_to_json_def
  by (rule entries_accepted entries_accepted_object; simp add: written entry_checks)

lemma set_function_breakpoints_response_body_struct_accepted [written]:
  "set_function_breakpoints_response_body_from_json (set_function_breakpoints_response_body_struct_to_json a) = Inr ()"
  unfolding set_function_breakpoints_response_body_from_json_def set_function_breakpoints_response_body_struct_to_json_def
  by (rule entries_accepted entries_accepted_object; simp add: written entry_checks)

lemma set_instruction_breakpoints_response_body_struct_accepted [written]:
  "set_instruction_breakpoints_response_body_from_json (set_instruction_breakpoints_response_body_struct_to_json a) = Inr ()"
  unfolding set_instruction_breakpoints_response_body_from_json_def set_instruction_breakpoints_response_body_struct_to_json_def
  by (rule entries_accepted entries_accepted_object; simp add: written entry_checks)

lemma set_variable_response_body_struct_accepted [written]:
  "set_variable_response_body_from_json (set_variable_response_body_struct_to_json a) = Inr ()"
  unfolding set_variable_response_body_from_json_def set_variable_response_body_struct_to_json_def
  by (rule entries_accepted entries_accepted_object; simp add: written entry_checks)

lemma source_response_body_struct_accepted [written]:
  "source_response_body_from_json (source_response_body_struct_to_json a) = Inr ()"
  unfolding source_response_body_from_json_def source_response_body_struct_to_json_def
  by (rule entries_accepted entries_accepted_object; simp add: written entry_checks)

lemma stack_frame_struct_accepted [written]:
  "stack_frame_from_json (stack_frame_struct_to_json a) = Inr ()"
  unfolding stack_frame_from_json_def stack_frame_struct_to_json_def
  by (rule entries_accepted entries_accepted_object; simp add: written entry_checks)

lemma stack_trace_response_body_struct_accepted [written]:
  "stack_trace_response_body_from_json (stack_trace_response_body_struct_to_json a) = Inr ()"
  unfolding stack_trace_response_body_from_json_def stack_trace_response_body_struct_to_json_def
  by (rule entries_accepted entries_accepted_object; simp add: written entry_checks)

lemma step_in_target_struct_accepted [written]:
  "step_in_target_from_json (step_in_target_struct_to_json a) = Inr ()"
  unfolding step_in_target_from_json_def step_in_target_struct_to_json_def
  by (rule entries_accepted entries_accepted_object; simp add: written entry_checks)

lemma step_in_targets_response_body_struct_accepted [written]:
  "step_in_targets_response_body_from_json (step_in_targets_response_body_struct_to_json a) = Inr ()"
  unfolding step_in_targets_response_body_from_json_def step_in_targets_response_body_struct_to_json_def
  by (rule entries_accepted entries_accepted_object; simp add: written entry_checks)

lemma thread_struct_accepted [written]: "thread_from_json (thread_struct_to_json a) = Inr ()"
  unfolding thread_from_json_def thread_struct_to_json_def
  by (rule entries_accepted entries_accepted_object; simp add: written entry_checks)

lemma threads_response_body_struct_accepted [written]:
  "threads_response_body_from_json (threads_response_body_struct_to_json a) = Inr ()"
  unfolding threads_response_body_from_json_def threads_response_body_struct_to_json_def
  by (rule entries_accepted entries_accepted_object; simp add: written entry_checks)

lemma variable_struct_accepted [written]: "variable_from_json (variable_struct_to_json a) = Inr ()"
  unfolding variable_from_json_def variable_struct_to_json_def
  by (rule entries_accepted entries_accepted_object; simp add: written entry_checks)

lemma variables_response_body_struct_accepted [written]:
  "variables_response_body_from_json (variables_response_body_struct_to_json a) = Inr ()"
  unfolding variables_response_body_from_json_def variables_response_body_struct_to_json_def
  by (rule entries_accepted entries_accepted_object; simp add: written entry_checks)

lemma write_memory_response_body_struct_accepted [written]:
  "write_memory_response_body_from_json (write_memory_response_body_struct_to_json a) = Inr ()"
  unfolding write_memory_response_body_from_json_def write_memory_response_body_struct_to_json_def
  by (rule entries_accepted entries_accepted_object; simp add: written entry_checks)

section \<open>Events and responses\<close>

lemma event_struct_accepted:
  "list_all (entry_ok (event_fields f)) b \<Longrightarrow> check_fields (event_object e b) (event_fields f) = Inr ()"
  unfolding event_object_def
  by (rule entries_accepted) (simp_all add: event_fields_def entry_checks written)

lemma response_struct_accepted:
  "list_all (entry_ok (response_fields f)) b \<Longrightarrow> check_fields (response_object r b) (response_fields f) = Inr ()"
  unfolding response_object_def
  by (rule entries_accepted) (simp_all add: response_fields_def entry_checks written)

lemma body_entry [written]:
  "entry_ok (event_fields f) (''body'', j) \<longleftrightarrow> f j = Inr ()"
  "entry_ok (response_fields f) (''body'', j) \<longleftrightarrow> f j = Inr ()"
  by (simp_all add: entry_ok_def event_fields_def response_fields_def)

text \<open>The dispatch looks the conversion up by the name of the event or the command.\<close>

lemma event_dispatched:
  assumes "event_labelled name e" "map_of event_conversions name = Some conversion"
    and "conversion (event_object e b) = Inr ()"
  shows "handle L dump tr (event_object e b) = w_ret ()"
  using assms by (simp add: handle_def dispatch_event_def default_event_handler_def serve_request_def
      string_value_def event_object_def event_labelled_def)

lemma response_dispatched:
  assumes "response_kind r = Response_Protocol_Message_Type"
    and "\<And>conversion. map_of response_conversions (response_command r) = Some conversion \<Longrightarrow>
           conversion (response_object r b) = Inr ()"
  shows "handle L dump tr (response_object r b) = w_ret ()"
proof -
  have "string_value (response_object r b) ''type'' = Inr ''response''"
    "string_value (response_object r b) ''command'' = Inr (response_command r)"
    using assms(1) by (simp_all add: response_object_def string_value_def)
  then show ?thesis
    using table_accepts [of response_conversions "response_command r" "response_object r b"] assms(2)
    unfolding handle_def dispatch_response_def default_response_handler_def by (simp add: serve_request_def)
qed

lemma response_with_command:
  assumes "response_labelled c r" "map_of response_conversions c = Some conversion"
    and "conversion (response_object r b) = Inr ()"
  shows "handle L dump tr (response_object r b) = w_ret ()"
  using assms by (intro response_dispatched) (simp_all add: response_labelled_def)

lemma error_conversion_accepts:
  "list_all (\<lambda>(command, conversion). \<forall>r e. conversion (response_object r
      [(''body'', error_response_body_struct_to_json e)]) = Inr ()) response_conversions"
proof -
  have "find_key (error_response_body_struct_to_json e) key = None" if "key \<noteq> ''error''" for e key
    using that by (simp add: error_response_body_struct_to_json_def find_key_object_of split: option.split)
  then show ?thesis
    by (simp add: response_conversions_def response_conversion_defs response_struct_accepted written
        response_body_defs field_def r_bind_def)
qed

lemmas event_accepts =
  event_struct_accepted breakpoint_event_from_json_def capabilities_event_from_json_def
  continued_event_from_json_def exited_event_from_json_def initialized_event_from_json_def
  invalidated_event_from_json_def loaded_source_event_from_json_def memory_event_from_json_def
  module_event_from_json_def output_event_from_json_def process_event_from_json_def
  progress_end_event_from_json_def progress_start_event_from_json_def
  progress_update_event_from_json_def stopped_event_from_json_def terminated_event_from_json_def
  thread_event_from_json_def

lemmas response_accepts =
  response_struct_accepted response_conversion_defs

text \<open>Events: breakpoint to module.\<close>

lemma events_read_first:
  "event_labelled ''breakpoint'' a \<Longrightarrow>
     handle L dump tr (breakpoint_event_struct_to_json a) = w_ret ()"
  "event_labelled ''capabilities'' b \<Longrightarrow>
     handle L dump tr (capabilities_event_struct_to_json b) = w_ret ()"
  "event_labelled ''continued'' d \<Longrightarrow>
     handle L dump tr (continued_event_struct_to_json d) = w_ret ()"
  "event_labelled ''exited'' e \<Longrightarrow>
     handle L dump tr (exited_event_struct_to_json e) = w_ret ()"
  "event_labelled ''initialized'' f \<Longrightarrow>
     handle L dump tr (initialized_event_struct_to_json f) = w_ret ()"
  "event_labelled ''invalidated'' g \<Longrightarrow>
     handle L dump tr (invalidated_event_struct_to_json g) = w_ret ()"
  "event_labelled ''loadedSource'' h \<Longrightarrow>
     handle L dump tr (loaded_source_event_struct_to_json h) = w_ret ()"
  "event_labelled ''memory'' k \<Longrightarrow>
     handle L dump tr (memory_event_struct_to_json k) = w_ret ()"
  "event_labelled ''module'' l \<Longrightarrow>
     handle L dump tr (module_event_struct_to_json l) = w_ret ()"
  unfolding breakpoint_event_struct_to_json_def capabilities_event_struct_to_json_def
    continued_event_struct_to_json_def exited_event_struct_to_json_def
    initialized_event_struct_to_json_def invalidated_event_struct_to_json_def
    loaded_source_event_struct_to_json_def memory_event_struct_to_json_def
    module_event_struct_to_json_def
  by (rule event_dispatched, assumption, simp add: event_conversions_def,
      simp add: event_accepts written)+

text \<open>Events: output to thread.\<close>

lemma events_read_second:
  "event_labelled ''output'' a \<Longrightarrow>
     handle L dump tr (output_event_struct_to_json a) = w_ret ()"
  "event_labelled ''process'' b \<Longrightarrow>
     handle L dump tr (process_event_struct_to_json b) = w_ret ()"
  "event_labelled ''progressEnd'' d \<Longrightarrow>
     handle L dump tr (progress_end_event_struct_to_json d) = w_ret ()"
  "event_labelled ''progressStart'' e \<Longrightarrow>
     handle L dump tr (progress_start_event_struct_to_json e) = w_ret ()"
  "event_labelled ''progressUpdate'' f \<Longrightarrow>
     handle L dump tr (progress_update_event_struct_to_json f) = w_ret ()"
  "event_labelled ''stopped'' g \<Longrightarrow>
     handle L dump tr (stopped_event_struct_to_json g) = w_ret ()"
  "event_labelled ''terminated'' h \<Longrightarrow>
     handle L dump tr (terminated_event_struct_to_json h) = w_ret ()"
  "event_labelled ''thread'' k \<Longrightarrow>
     handle L dump tr (thread_event_struct_to_json k) = w_ret ()"
  unfolding output_event_struct_to_json_def process_event_struct_to_json_def
    progress_end_event_struct_to_json_def progress_start_event_struct_to_json_def
    progress_update_event_struct_to_json_def stopped_event_struct_to_json_def
    terminated_event_struct_to_json_def thread_event_struct_to_json_def
  by (rule event_dispatched, assumption, simp add: event_conversions_def,
      simp add: event_accepts written)+

text \<open>Responses: attach to disconnect.\<close>

lemma responses_read_one:
  "response_labelled ''attach'' a \<Longrightarrow>
     handle L dump tr (attach_response_struct_to_json a) = w_ret ()"
  "response_labelled ''breakpointLocations'' b \<Longrightarrow>
     handle L dump tr (breakpoint_locations_response_struct_to_json b) = w_ret ()"
  "response_labelled ''cancel'' d \<Longrightarrow>
     handle L dump tr (cancel_response_struct_to_json d) = w_ret ()"
  "response_labelled ''completions'' e \<Longrightarrow>
     handle L dump tr (completions_response_struct_to_json e) = w_ret ()"
  "response_labelled ''configurationDone'' f \<Longrightarrow>
     handle L dump tr (configuration_done_response_struct_to_json f) = w_ret ()"
  "response_labelled ''continue'' g \<Longrightarrow>
     handle L dump tr (continue_response_struct_to_json g) = w_ret ()"
  "response_labelled ''dataBreakpointInfo'' h \<Longrightarrow>
     handle L dump tr (data_breakpoint_info_response_struct_to_json h) = w_ret ()"
  "response_labelled ''disassemble'' k \<Longrightarrow>
     handle L dump tr (disassemble_response_struct_to_json k) = w_ret ()"
  "response_labelled ''disconnect'' l \<Longrightarrow>
     handle L dump tr (disconnect_response_struct_to_json l) = w_ret ()"
  unfolding attach_response_struct_to_json_def breakpoint_locations_response_struct_to_json_def
    cancel_response_struct_to_json_def completions_response_struct_to_json_def
    configuration_done_response_struct_to_json_def continue_response_struct_to_json_def
    data_breakpoint_info_response_struct_to_json_def disassemble_response_struct_to_json_def
    disconnect_response_struct_to_json_def
  by (rule response_with_command, assumption, simp add: response_conversions_def,
      simp add: response_accepts written)+

text \<open>Responses: evaluate to modules.\<close>

lemma responses_read_two:
  "response_labelled ''evaluate'' a \<Longrightarrow>
     handle L dump tr (evaluate_response_struct_to_json a) = w_ret ()"
  "response_labelled ''exceptionInfo'' b \<Longrightarrow>
     handle L dump tr (exception_info_response_struct_to_json b) = w_ret ()"
  "response_labelled ''goto'' d \<Longrightarrow>
     handle L dump tr (goto_response_struct_to_json d) = w_ret ()"
  "response_labelled ''gotoTargets'' e \<Longrightarrow>
     handle L dump tr (goto_targets_response_struct_to_json e) = w_ret ()"
  "response_labelled ''initialize'' f \<Longrightarrow>
     handle L dump tr (initialize_response_struct_to_json f) = w_ret ()"
  "response_labelled ''launch'' g \<Longrightarrow>
     handle L dump tr (launch_response_struct_to_json g) = w_ret ()"
  "response_labelled ''loadedSources'' h \<Longrightarrow>
     handle L dump tr (loaded_sources_response_struct_to_json h) = w_ret ()"
  "response_labelled ''locations'' k \<Longrightarrow>
     handle L dump tr (locations_response_struct_to_json k) = w_ret ()"
  "response_labelled ''modules'' l \<Longrightarrow>
     handle L dump tr (modules_response_struct_to_json l) = w_ret ()"
  unfolding evaluate_response_struct_to_json_def exception_info_response_struct_to_json_def
    goto_response_struct_to_json_def goto_targets_response_struct_to_json_def
    initialize_response_struct_to_json_def launch_response_struct_to_json_def
    loaded_sources_response_struct_to_json_def locations_response_struct_to_json_def
    modules_response_struct_to_json_def
  by (rule response_with_command, assumption, simp add: response_conversions_def,
      simp add: response_accepts written)+

text \<open>Responses: next to setBreakpoints.\<close>

lemma responses_read_three:
  "response_labelled ''next'' a \<Longrightarrow>
     handle L dump tr (next_response_struct_to_json a) = w_ret ()"
  "response_labelled ''pause'' b \<Longrightarrow>
     handle L dump tr (pause_response_struct_to_json b) = w_ret ()"
  "response_labelled ''readMemory'' d \<Longrightarrow>
     handle L dump tr (read_memory_response_struct_to_json d) = w_ret ()"
  "response_labelled ''restart'' e \<Longrightarrow>
     handle L dump tr (restart_response_struct_to_json e) = w_ret ()"
  "response_labelled ''restartFrame'' f \<Longrightarrow>
     handle L dump tr (restart_frame_response_struct_to_json f) = w_ret ()"
  "response_labelled ''reverseContinue'' g \<Longrightarrow>
     handle L dump tr (reverse_continue_response_struct_to_json g) = w_ret ()"
  "response_labelled ''runInTerminal'' h \<Longrightarrow>
     handle L dump tr (run_in_terminal_response_struct_to_json h) = w_ret ()"
  "response_labelled ''scopes'' k \<Longrightarrow>
     handle L dump tr (scopes_response_struct_to_json k) = w_ret ()"
  "response_labelled ''setBreakpoints'' l \<Longrightarrow>
     handle L dump tr (set_breakpoints_response_struct_to_json l) = w_ret ()"
  unfolding next_response_struct_to_json_def pause_response_struct_to_json_def
    read_memory_response_struct_to_json_def restart_response_struct_to_json_def
    restart_frame_response_struct_to_json_def reverse_continue_response_struct_to_json_def
    run_in_terminal_response_struct_to_json_def scopes_response_struct_to_json_def
    set_breakpoints_response_struct_to_json_def
  by (rule response_with_command, assumption, simp add: response_conversions_def,
      simp add: response_accepts written)+

text \<open>Responses: setDataBreakpoints to startDebugging.\<close>

lemma responses_read_four:
  "response_labelled ''setDataBreakpoints'' a \<Longrightarrow>
     handle L dump tr (set_data_breakpoints_response_struct_to_json a) = w_ret ()"
  "response_labelled ''setExceptionBreakpoints'' b \<Longrightarrow>
     handle L dump tr (set_exception_breakpoints_response_struct_to_json b) = w_ret ()"
  "response_labelled ''setExpression'' d \<Longrightarrow>
     handle L dump tr (set_expression_response_struct_to_json d) = w_ret ()"
  "response_labelled ''setFunctionBreakpoints'' e \<Longrightarrow>
     handle L dump tr (set_function_breakpoints_response_struct_to_json e) = w_ret ()"
  "response_labelled ''setInstructionBreakpoints'' f \<Longrightarrow>
     handle L dump tr (set_instruction_breakpoints_response_struct_to_json f) = w_ret ()"
  "response_labelled ''setVariable'' g \<Longrightarrow>
     handle L dump tr (set_variable_response_struct_to_json g) = w_ret ()"
  "response_labelled ''source'' h \<Longrightarrow>
     handle L dump tr (source_response_struct_to_json h) = w_ret ()"
  "response_labelled ''stackTrace'' k \<Longrightarrow>
     handle L dump tr (stack_trace_response_struct_to_json k) = w_ret ()"
  "response_labelled ''startDebugging'' l \<Longrightarrow>
     handle L dump tr (start_debugging_response_struct_to_json l) = w_ret ()"
  unfolding set_data_breakpoints_response_struct_to_json_def
    set_exception_breakpoints_response_struct_to_json_def set_expression_response_struct_to_json_def
    set_function_breakpoints_response_struct_to_json_def
    set_instruction_breakpoints_response_struct_to_json_def set_variable_response_struct_to_json_def
    source_response_struct_to_json_def stack_trace_response_struct_to_json_def
    start_debugging_response_struct_to_json_def
  by (rule response_with_command, assumption, simp add: response_conversions_def,
      simp add: response_accepts written)+

text \<open>Responses: stepBack to writeMemory.\<close>

lemma responses_read_five:
  "response_labelled ''stepBack'' a \<Longrightarrow>
     handle L dump tr (step_back_response_struct_to_json a) = w_ret ()"
  "response_labelled ''stepIn'' b \<Longrightarrow>
     handle L dump tr (step_in_response_struct_to_json b) = w_ret ()"
  "response_labelled ''stepInTargets'' d \<Longrightarrow>
     handle L dump tr (step_in_targets_response_struct_to_json d) = w_ret ()"
  "response_labelled ''stepOut'' e \<Longrightarrow>
     handle L dump tr (step_out_response_struct_to_json e) = w_ret ()"
  "response_labelled ''terminate'' f \<Longrightarrow>
     handle L dump tr (terminate_response_struct_to_json f) = w_ret ()"
  "response_labelled ''terminateThreads'' g \<Longrightarrow>
     handle L dump tr (terminate_threads_response_struct_to_json g) = w_ret ()"
  "response_labelled ''threads'' h \<Longrightarrow>
     handle L dump tr (threads_response_struct_to_json h) = w_ret ()"
  "response_labelled ''variables'' k \<Longrightarrow>
     handle L dump tr (variables_response_struct_to_json k) = w_ret ()"
  "response_labelled ''writeMemory'' l \<Longrightarrow>
     handle L dump tr (write_memory_response_struct_to_json l) = w_ret ()"
  unfolding step_back_response_struct_to_json_def step_in_response_struct_to_json_def
    step_in_targets_response_struct_to_json_def step_out_response_struct_to_json_def
    terminate_response_struct_to_json_def terminate_threads_response_struct_to_json_def
    threads_response_struct_to_json_def variables_response_struct_to_json_def
    write_memory_response_struct_to_json_def
  by (rule response_with_command, assumption, simp add: response_conversions_def,
      simp add: response_accepts written)+

section \<open>What the service writes\<close>

text \<open>
  The objects that the service sends (Messages) are those of the structs, with the fields that the service
  never sets left out.
\<close>

lemma known_source_written: "optional k (source_to_json \<circ> known_source) s = optional k source_to_json (map_option known_source s)"
  by (simp add: optional_def split: option.split)

lemma breakpoint_written:
  "breakpoint_to_json b =
     breakpoint_struct_to_json
       (breakpoint_struct.make (db_id b) (db_verified b) (db_message b) (db_source b) (db_line b) (db_column b)
          None None (db_instruction_reference b) None (if db_failed b then Some Failed_Breakpoint_Reason else None))"
  by (simp add: breakpoint_to_json_def breakpoint_struct_to_json_def breakpoint_struct.defs optional_def)

lemma stack_frame_written:
  "stack_frame_to_json f =
     stack_frame_struct_to_json
       (stack_frame_struct.make (df_id f) (df_name f) (map_option known_source (df_source f)) (df_line f)
          (df_column f) None None None (Some (df_instruction_pointer_reference f)) J_Null None)"
  by (simp add: stack_frame_to_json_def stack_frame_struct_to_json_def stack_frame_struct.defs known_source_written)
    (simp add: optional_def optional_json_def)

lemma scope_written:
  "scope_to_json s =
     scope_struct_to_json
       (scope_struct.make (sc_name s)
          (Some (case sc_hint s of Locals_Hint \<Rightarrow> Locals_Scope_Presentation_Hint
                 | Registers_Hint \<Rightarrow> Registers_Scope_Presentation_Hint))
          (sc_variables_reference s) (Some (sc_named_variables s)) None (sc_expensive s)
          (map_option known_source (sc_source s)) (sc_line s) (sc_column s) None None)"
  by (cases "sc_hint s") (simp_all add: scope_to_json_def scope_struct_to_json_def scope_struct.defs
      known_source_written, simp_all add: optional_def)

lemma variable_written:
  "variable_to_json v =
     variable_struct_to_json
       (variable_struct.make (var_name v) (var_value v) (var_type v) None (var_evaluate_name v)
          (var_variables_reference v) (var_named_variables v) None (var_memory_reference v) None None)"
  by (simp add: variable_to_json_def variable_struct_to_json_def variable_struct.defs)
    (simp add: optional_def)

lemma module_written:
  "module_to_json m =
     module_struct_to_json
       (module_struct.make (J_String (mod_id m)) (mod_name m) (Some (mod_path m)) None None None
          (Some (mod_symbol_status m)) None None (Some (mod_address_range m)))"
  by (simp add: module_to_json_def module_struct_to_json_def module_struct.defs)
    (simp add: optional_def optional_json_def)

lemma thread_written: "thread_to_json t = thread_struct_to_json (thread_struct.make (dt_id t) (dt_name t))"
  by (simp add: thread_to_json_def thread_struct_to_json_def thread_struct.defs)

lemma instruction_written:
  "instruction_to_json i =
     disassembled_instruction_struct_to_json
       (disassembled_instruction_struct.make (dx_address i) (dx_bytes i) (dx_instruction i) (dx_symbol i)
          (map_option known_source (dx_location i)) (dx_line i) (dx_column i) None None
          (if dx_invalid i then Some Invalid_Disassembled_Instruction_Presentation_Hint else None))"
  by (simp add: instruction_to_json_def disassembled_instruction_struct_to_json_def
      disassembled_instruction_struct.defs known_source_written) (simp add: optional_def)

lemma filter_written:
  "filter_to_json name =
     exception_breakpoints_filter_struct_to_json
       (exception_breakpoints_filter_struct.make name ''C++ exceptions''
          (Some ''Break when a C++ exception is thrown (first chance).'') (Some False) None None)"
  by (simp add: filter_to_json_def exception_breakpoints_filter_struct_to_json_def
      exception_breakpoints_filter_struct.defs optional_def)

lemma error_body_written:
  "error_body m =
     error_response_body_struct_to_json
       \<lparr>error_response_body_error = Some (message_struct.make 1 m None None (Some True) None None)\<rparr>"
  by (simp add: error_body_def error_response_body_struct_to_json_def message_struct_to_json_def message_struct.defs
      optional_def object_of_def)

lemma process_body_written:
  "process_body_to_json name process_id start =
     process_event_body_struct_to_json
       (process_event_body_struct.make name process_id (Some True)
          (Some (case start of Start_Launch \<Rightarrow> Launch_Process_Event_Body_Start_Method
                 | Start_Attach \<Rightarrow> Attach_Process_Event_Body_Start_Method)) None)"
  by (cases start) (simp_all add: process_body_to_json_def process_event_body_struct_to_json_def
      process_event_body_struct.defs, simp_all add: optional_def)

lemma stopped_body_written:
  "stopped_body_to_json reason description t ids =
     stopped_event_body_struct_to_json
       (stopped_event_body_struct.make
          (case reason of Stop_Step \<Rightarrow> Step_Stopped_Event_Body_Reason
           | Stop_Breakpoint \<Rightarrow> Breakpoint_Stopped_Event_Body_Reason
           | Stop_Exception \<Rightarrow> Exception_Stopped_Event_Body_Reason
           | Stop_Pause \<Rightarrow> Pause_Stopped_Event_Body_Reason | Stop_Entry \<Rightarrow> Entry_Stopped_Event_Body_Reason)
          description t None None (Some True) ids)"
  by (cases reason) (simp_all add: stopped_body_to_json_def stopped_event_body_struct_to_json_def
      stopped_event_body_struct.defs stop_reasons_def enum_to_json_def, simp_all add: optional_def)

lemma exception_body_written:
  "exception_body_to_json i d first_chance m =
     exception_info_response_body_struct_to_json
       (exception_info_response_body_struct.make i (Some d)
          (if first_chance then Always_Break else Unhandled_Break)
          (Some (Exception_Details (Some m) None None None None None)))"
  by (simp add: exception_body_to_json_def exception_info_response_body_struct_to_json_def
      exception_info_response_body_struct.defs exception_details_struct_to_json.simps optional_def object_of_def)

lemma data_info_body_written:
  "data_info_body_to_json i d =
     data_breakpoint_info_response_body_struct_to_json
       (data_breakpoint_info_response_body_struct.make i d (Some [Write_Access, Read_Write_Access]) (Some False))"
  by (simp add: data_info_body_to_json_def data_breakpoint_info_response_body_struct_to_json_def
      data_breakpoint_info_response_body_struct.defs optional_def json_list_def)

lemma set_variable_body_written:
  "set_variable_body_to_json v t r n m =
     set_variable_response_body_struct_to_json (set_variable_response_body_struct.make v t r n None m None)"
  by (simp add: set_variable_body_to_json_def set_variable_response_body_struct_to_json_def
      set_variable_response_body_struct.defs) (simp add: optional_def)

lemma memory_body_written:
  "memory_body_to_json address d unreadable =
     read_memory_response_body_struct_to_json (read_memory_response_body_struct.make address unreadable (Some d))"
  by (simp add: memory_body_to_json_def read_memory_response_body_struct_to_json_def
      read_memory_response_body_struct.defs) (simp add: optional_def)

text \<open>A response or an event as the service sends it: number 0, no short message.\<close>

lemma response_written:
  "response_to_json q ok c b =
     response_object (response_struct.make 0 Response_Protocol_Message_Type q ok c None x) (optional ''body'' id b)"
  by (simp add: response_to_json_def response_object_def response_struct.defs optional_def)

lemma event_written:
  "event_to_json e =
     event_object (event_struct.make 0 Event_Protocol_Message_Type (event_name e) x)
       (optional ''body'' id (event_body_to_json e))"
  by (simp add: event_to_json_def event_object_def event_struct.defs optional_def)

section \<open>Property\<close>

lemma error_responses_read:
  assumes "response_kind r = Response_Protocol_Message_Type"
  shows "handle L dump tr (error_response_struct_to_json r) = w_ret ()"
  unfolding error_response_struct_to_json_def
  by (rule response_dispatched [OF assms])
    (use error_conversion_accepts in \<open>fastforce simp: list_all_iff dest!: map_of_SomeD\<close>)

lemma protocol_event_read:
  "protocol_event_labelled e \<Longrightarrow> handle L dump tr (protocol_event_to_json e) = w_ret ()"
  by (cases e) (simp_all add: events_read_first events_read_second)

lemma protocol_response_read:
  "protocol_response_labelled r \<Longrightarrow> handle L dump tr (protocol_response_to_json r) = w_ret ()"
  by (cases r) (simp_all add: responses_read_one responses_read_two responses_read_three responses_read_four
      responses_read_five error_responses_read)



end
