(* ===== verification/Spec2Isabelle.thy ===== *)
theory Spec2Isabelle
  imports Base64 Server_Steps Client_Handles Session_Lifetime Program Client_Requests Written_Messages
begin

text \<open>
  A model of dap-dbgeng, a debug adapter: a process that speaks the Debug Adapter Protocol (JSON
  messages on a byte stream) with an editor on one side and drives the Windows debug engine
  dbgeng on the other.  The sources are under src/src; every theory opens with the files it models.

  \<^bold>\<open>The program and the theories\<close>

  \<^item> \<open>Prelude\<close>, \<open>Text_Format\<close>: characters, trimming, number parsing (the \<open>sto...\<close> family on texts)
    and printing, as the standard library defines them.
  \<^item> \<open>Channel\<close> (core/channel.h, core/task_queue.h, util/debugger_session_dispatcher): the bounded hand-over
    between threads, the task queue, and the dispatcher: \<open>invoke\<close> with its wrapped exceptions and the end of
    the worker's thread.
  \<^item> \<open>Base64\<close>, \<open>String_Utils\<close> (util): memory contents, memory references and byte offsets, the classifier
    of execution-control commands.
  \<^item> \<open>Json_Model\<close> (util/dap_message_inspector, util/dap_argument_reader): JSON values, untyped access to
    requests, the command line built from an argument array.
  \<^item> \<open>Transport\<close>, \<open>Trace_Recorder\<close> (transport, dap): framing, the inbound loop, the outbound writer,
    the trace file.
  \<^item> \<open>Actions\<close>, \<open>Waiting\<close>: actions on a state that return or throw, and those that may wait
    forever for another thread, with a Hoare logic for the latter.
  \<^item> \<open>Debugger_Text\<close>, \<open>Debugger_Session\<close>, \<open>Breakpoints\<close>, \<open>Disassembly\<close>, \<open>Inspection\<close>, \<open>Targets\<close>
    (debugger): one session of the engine.  The engine is a record of functions on an abstract
    state, which the session carries in \<open>eng\<close>; every operation is an action on the session.
    \<open>Session_Lifetime\<close> follows what a session holds from its constructor to its destructor.
  \<^item> \<open>Dap_Factory\<close> (util/debugger_session_dap_factory): the protocol's objects.
  \<^item> \<open>Server_State\<close>, \<open>Server_Events\<close> (service/dap_server): the members of the service, the
    callbacks of the engine, the wait loop and its thread, disposal.  \<open>Server_Contracts\<close> holds the
    two contracts of a handler.  \<open>Server_Execution\<close>, \<open>Server_Breakpoints\<close>, \<open>Server_Inspection\<close>,
    \<open>Server_Memory\<close>, \<open>Server_Targets\<close> (service/dap_server_*.cpp): one definition per request handler.
  \<^item> \<open>Protocol_Types\<close>, \<open>Protocol\<close>, \<open>Requests\<close> (protocol/protocol.h): the types that requests and handlers
    share, and the conversion of JSON to requests.
    \<open>Protocol_Messages\<close> (the same file): the conversion of JSON to events and responses, of which the
    program uses nothing but the errors.
  \<^item> \<open>Server\<close> (protocol/dap_service.h, service/dap_server.cpp): dispatch and the entry point.
  \<^item> \<open>Json_Writing\<close>, \<open>Messages\<close> (protocol/protocol.h): the conversion of responses and events to JSON;
    \<open>Enumerations\<close> lists the values of the types that are names on the wire.
  \<^item> \<open>Message_Log\<close>: handlers only add to what was sent, and answer a command with a body of its
    kind.  \<open>Conformance\<close>: what is sent converts back.
  \<^item> \<open>Request_Structs\<close> (protocol/protocol.h): requests as structs and their conversion to JSON;
    \<open>Client_Requests\<close>: they reach their handlers.  \<open>Message_Structs\<close> (the same file): events and
    responses as structs with all their fields; \<open>Written_Messages\<close>: they are read back, and what
    \<open>Messages\<close> writes is written by them.  \<open>Written_Fields\<close> holds the rules for fields that both use.
  \<^item> \<open>Program\<close> (main.cpp): the process, with the adapter as the transport's loop over the service.
  \<^item> \<open>Server_Liveness\<close>, \<open>Server_Steps\<close>, \<open>Client_Handles\<close>: which requests a running target cannot delay; the
    service as a transition system and its reachable states; what the handles given to a client
    lead to.

  \<^bold>\<open>How the parts interact\<close>

  A message arrives through \<open>Transport\<close>, is traced, and reaches \<open>handle_request\<close>, which dispatches on the
  command.  A handler reads and changes the service's state and calls the session through the
  dispatcher: \<open>invoke\<close> first waits until the worker is free.  While the target runs, the worker sits
  in \<open>wait_for_event\<close>, where the engine calls back (\<open>deliver\<close>); so a handler that
  invokes has the pending callbacks run first, and one that must not wait interrupts the target
  before.  Handlers queue messages in \<open>outbound\<close>; \<open>Messages\<close> turns
  them into JSON, and the writer thread of \<open>Transport\<close> numbers and frames them.

  \<^bold>\<open>What the lemmas show\<close>

  Leaf components: round trips, exactness on every input, bounds at the machine widths, refinement of
  the loops to declarative descriptions.  Session: what an operation leaves in the engine and
  in the session's books, on failures, too.  Service: locales state what one step of the service
  must keep (\<open>session_invariant\<close>, \<open>event_invariant\<close>, \<open>server_invariant\<close>); each invariant is an
  interpretation and holds then through callbacks, tasks, the wait loop, joins and disposal.
  \<open>Server_Steps\<close> composes requests and the wait loop's thread into one step relation; a request at
  a stop is taken when the worker is back from its wait.
  Stops are accounted for, suppression is complete, and every request gets exactly one
  response with its sequence number.  \<open>Messages\<close> and \<open>Program\<close> join the service to the transport:
  from the bytes a client writes to the bytes it reads, it gets the answers to its
  requests, in their order, and \<open>Conformance\<close> adds that each of the messages is of the
  type that the protocol gives it.  \<open>Client_Requests\<close> shows the same of the other
  direction: the handler of a command gets the fields of the struct that the client sent.
  \<open>Written_Messages\<close> shows of all events and responses, not only of those that the service
  sends, that the two conversions of the protocol agree.

  \<^bold>\<open>Parameters, bounds and fuel\<close>

  The engine, the file system, the clock, JSON's text form and the loader are parameters, with
  what the code relies on as hypotheses of the properties that need it.  Machine words keep
  their width where the code's results depend on it.  Loops that end are structural or have a
  measure; \<open>wait_for_event\<close> and \<open>run_wait_loop\<close> may run forever and are partial functions, where
  \<open>None\<close> says that the thread never comes back.  Waiting for a process name takes the
  number of polls before the deadline from the clock parameter.

  \<^bold>\<open>Not modelled\<close>

  Logging and the modes of the standard streams, the Win32 calls
  behind the parameters, the programs under test-targets, UNC paths in the path functions, and data
  races within a handler: handlers are atomic with respect to the worker except where they wait for it.
\<close>

end
